(* ===== verification/Prelude.thy ===== *)
theory Prelude
  imports Main "HOL-Library.Word" "HOL-Library.Signed_Division" "HOL-Library.Sublist"
begin

text \<open>
  Shared vocabulary of the development: bytes, the 32-bit signed \<open>int\<close> of the C++ code, its
  little-endian memory image, bounded buffers with \<open>memcpy\<close>, C strings, and the result type in
  which undefined behaviour of the source is a value. The generic lemmas the component
  theories share are collected here, most of them as simplification rules.
\<close>

named_theorems codec_simps \<open>byte-level encoding and decoding rules\<close>
named_theorems buffer_simps \<open>rules about bounded buffers\<close>

section \<open>Bytes and results\<close>

text \<open>A C \<open>char\<close> is one byte; HOL's \<open>char\<close> has exactly the 256 byte values.\<close>

type_synonym byte = char

text \<open>
  What the source leaves undefined: an access outside an object, a negative size passed to
  \<open>memcpy\<close>, a null pointer handed to \<open>strlen\<close>, a \<open>front\<close> on an empty queue, a cast of a
  \<open>Packet\<close> to a \<open>DataPacket\<close> that it is not.
\<close>

datatype c_error =
    OutOfBounds
  | NegativeSize
  | NullPointer
  | EmptyContainer
  | BadCast

type_synonym 'a result = "c_error + 'a"

definition and_then :: "'a result \<Rightarrow> ('a \<Rightarrow> 'b result) \<Rightarrow> 'b result" where
  "and_then r f = (case r of Inl e \<Rightarrow> Inl e | Inr x \<Rightarrow> f x)"

definition is_ok :: "'a result \<Rightarrow> bool" where
  "is_ok r = (case r of Inl _ \<Rightarrow> False | Inr _ \<Rightarrow> True)"

section \<open>Machine integers\<close>

text \<open>
  A C \<open>int\<close> is a mathematical integer kept in the signed 32-bit range: every arithmetic
  operation of the source that can leave the range is followed by \<open>wrap32\<close>, the
  two's-complement wrap-around of the compiler the projects are built with.
\<close>

definition wrap32 :: "int \<Rightarrow> int" where
  "wrap32 x = signed_take_bit 31 x"

definition int32_range :: "int \<Rightarrow> bool" where
  "int32_range x \<longleftrightarrow> - (2 ^ 31) \<le> x \<and> x < 2 ^ 31"

text \<open>\<open>InterlockedIncrement\<close> and \<open>InterlockedDecrement\<close> on an \<open>unsigned int\<close>.\<close>

definition inc_u32 :: "nat \<Rightarrow> nat" where
  "inc_u32 n = (n + 1) mod 2 ^ 32"

definition dec_u32 :: "nat \<Rightarrow> nat" where
  "dec_u32 n = (n + (2 ^ 32 - 1)) mod 2 ^ 32"

text \<open>The four bytes of an \<open>int\<close> in memory, \<open>(char*)&n\<close>, on the little-endian target.\<close>

definition le32 :: "int \<Rightarrow> byte list" where
  "le32 x = [char_of x, char_of (x div 256), char_of (x div 65536), char_of (x div 16777216)]"

definition un_le32 :: "byte list \<Rightarrow> int" where
  "un_le32 bs = wrap32 (of_char (bs ! 0) + 256 * of_char (bs ! 1)
     + 65536 * of_char (bs ! 2) + 16777216 * of_char (bs ! 3))"

section \<open>Bounded buffers and C strings\<close>

text \<open>
  \<open>memcpy(dst + off, src, n)\<close> where \<open>dst\<close> and \<open>src\<close> are objects of known extent. The size is
  an \<open>int\<close> converted to \<open>size_t\<close>: a negative one is a huge copy.
\<close>

definition memcpy_at :: "byte list \<Rightarrow> nat \<Rightarrow> byte list \<Rightarrow> int \<Rightarrow> byte list result" where
  "memcpy_at dst off src n =
     (if n < 0 then Inl NegativeSize
      else if length src < nat n \<or> length dst < off + nat n then Inl OutOfBounds
      else Inr (take off dst @ take (nat n) src @ drop (off + nat n) dst))"

abbreviation memcpy :: "byte list \<Rightarrow> byte list \<Rightarrow> int \<Rightarrow> byte list result" where
  "memcpy dst src n \<equiv> memcpy_at dst 0 src n"

abbreviation NUL :: byte where
  "NUL \<equiv> CHR 0x00"

text \<open>\<open>strlen\<close> reads on until the first NUL; running off the object is undefined.\<close>

fun strlen :: "byte list \<Rightarrow> nat result" where
  "strlen [] = Inl OutOfBounds"
| "strlen (c # cs) = (if c = NUL then Inr 0 else and_then (strlen cs) (\<lambda>n. Inr (Suc n)))"

text \<open>The text a \<open>char*\<close> denotes: the bytes before the first NUL.\<close>

definition c_str :: "byte list \<Rightarrow> byte list" where
  "c_str bs = takeWhile (\<lambda>c. c \<noteq> NUL) bs"

section \<open>Lemmas on results\<close>

lemma and_then_simps [simp]:
  "and_then (Inl e) f = Inl e"
  "and_then (Inr x) f = f x"
  by (simp_all add: and_then_def)

lemma and_then_eq_Inr [simp]:
  "and_then r f = Inr y \<longleftrightarrow> (\<exists>x. r = Inr x \<and> f x = Inr y)"
  by (cases r) auto

lemma and_then_assoc:
  "and_then (and_then r f) g = and_then r (\<lambda>x. and_then (f x) g)"
  by (cases r) auto

lemma is_ok_simps [simp]:
  "is_ok (Inl e) = False"
  "is_ok (Inr x) = True"
  by (simp_all add: is_ok_def)

lemma is_ok_iff: "is_ok r \<longleftrightarrow> (\<exists>x. r = Inr x)"
  by (cases r) auto

section \<open>Lemmas on machine integers\<close>

lemma wrap32_id [simp]: "int32_range x \<Longrightarrow> wrap32 x = x"
  by (simp add: wrap32_def int32_range_def signed_take_bit_int_eq_self)

lemma wrap32_range [simp]: "int32_range (wrap32 x)"
  unfolding int32_range_def wrap32_def
  using signed_take_bit_int_greater_eq_minus_exp [of 31 x] signed_take_bit_int_less_exp [of 31 x]
  by simp

lemma wrap32_mod: "wrap32 (x mod 4294967296) = wrap32 x"
  by (simp add: wrap32_def signed_take_bit_eq_if_positive signed_take_bit_take_bit
      flip: take_bit_eq_mod [of 32 x, simplified])

lemma length_le32 [simp]: "length (le32 x) = 4"
  by (simp add: le32_def)

lemma byte_sum_mod:
  fixes x :: int
  shows "x mod 256 + 256 * (x div 256 mod 256) + 65536 * (x div 65536 mod 256)
     + 16777216 * (x div 16777216 mod 256) = x mod 4294967296"
  using mod_mult2_eq' [of x 256 256] mod_mult2_eq' [of x 65536 256]
    mod_mult2_eq' [of x 16777216 256]
  by simp

lemma un_le32_append [codec_simps]: "un_le32 (le32 x @ bs) = wrap32 x"
  by (simp add: un_le32_def le32_def byte_sum_mod wrap32_mod)

lemma un_le32_le32 [codec_simps]: "un_le32 (le32 x) = wrap32 x"
  using un_le32_append [of x "[]"] by simp

lemma inc_u32_small [simp]: "n < 2 ^ 32 - 1 \<Longrightarrow> inc_u32 n = Suc n"
  by (simp add: inc_u32_def)

lemma dec_u32_Suc [simp]: "n < 2 ^ 32 \<Longrightarrow> 0 < n \<Longrightarrow> dec_u32 n = n - 1"
  by (simp add: dec_u32_def mod_if)

section \<open>Lemmas on lists\<close>

text \<open>How a sum over a list of thread states changes when one of them moves.\<close>

lemma sum_list_update_weight:
  fixes w :: "'a \<Rightarrow> nat"
  shows "i < length xs \<Longrightarrow> sum_list (map w (xs[i := v])) + w (xs ! i) = sum_list (map w xs) + w v"
proof (induction xs arbitrary: i)
  case (Cons x xs)
  then show ?case by (cases i) (auto simp: algebra_simps)
qed simp

lemma weight_le_sum: "i < length xs \<Longrightarrow> w (xs ! i) \<le> sum_list (map w xs)" for w :: "'a \<Rightarrow> nat"
  by (simp add: member_le_sum_list)

lemma sum_list_map_update:
  fixes w :: "'a \<Rightarrow> nat"
  shows "i < length xs \<Longrightarrow> sum_list (map w (xs[i := v])) = sum_list (map w xs) - w (xs ! i) + w v"
  using sum_list_update_weight [of i xs w v] weight_le_sum [of i xs w] by linarith

lemma sum_list_weight_le:
  fixes w :: "'a \<Rightarrow> nat"
  shows "(\<And>x. w x \<le> 1) \<Longrightarrow> sum_list (map w xs) \<le> length xs"
proof (induction xs)
  case (Cons x xs)
  have "w x \<le> 1" "sum_list (map w xs) \<le> length xs"
    using Cons.prems Cons.IH by blast+
  then show ?case by simp
qed simp

lemma sum_list_pos_witness:
  fixes w :: "'a \<Rightarrow> nat"
  shows "0 < sum_list (map w xs) \<Longrightarrow> \<exists>i < length xs. 0 < w (xs ! i)"
proof (induction xs)
  case (Cons x xs)
  then show ?case
    by (cases "0 < w x") (auto intro: exI [of _ 0] exI [of _ "Suc _"])
qed simp

section \<open>Lemmas on buffers and strings\<close>

lemma memcpy_at_ok [buffer_simps]:
  "0 \<le> n \<Longrightarrow> nat n \<le> length src \<Longrightarrow> off + nat n \<le> length dst \<Longrightarrow>
   memcpy_at dst off src n = Inr (take off dst @ take (nat n) src @ drop (off + nat n) dst)"
  by (simp add: memcpy_at_def)

lemma memcpy_at_length:
  "memcpy_at dst off src n = Inr dst' \<Longrightarrow> length dst' = length dst"
  by (auto simp: memcpy_at_def split: if_splits)

lemma memcpy_at_eq_Inr_iff:
  "(\<exists>d. memcpy_at dst off src n = Inr d) \<longleftrightarrow>
     0 \<le> n \<and> nat n \<le> length src \<and> off + nat n \<le> length dst"
  by (auto simp: memcpy_at_def)

lemma strlen_append_NUL [simp]:
  "NUL \<notin> set s \<Longrightarrow> strlen (s @ NUL # bs) = Inr (length s)"
  by (induction s) auto

lemma c_str_append_NUL [simp]:
  "NUL \<notin> set s \<Longrightarrow> c_str (s @ NUL # bs) = s"
  by (induction s) (auto simp: c_str_def)

lemma strlen_ok_iff: "is_ok (strlen bs) \<longleftrightarrow> NUL \<in> set bs"
proof (induction bs)
  case (Cons c cs)
  then show ?case by (cases "strlen cs") auto
qed simp

section \<open>Invariants of step relations\<close>

text \<open>
  The pattern every state machine of the development uses: a predicate that each step keeps
  holds after any number of steps.
\<close>

locale step_invariant =
  fixes step :: "'s \<Rightarrow> 's \<Rightarrow> bool"
    and invar :: "'s \<Rightarrow> bool"
  assumes step_keeps: "step s t \<Longrightarrow> invar s \<Longrightarrow> invar t"
begin

lemma steps_keep: "step\<^sup>*\<^sup>* s t \<Longrightarrow> invar s \<Longrightarrow> invar t"
  by (induction rule: rtranclp_induct) (auto intro: step_keeps)

lemma reachable_invar:
  assumes "invar s0" and "step\<^sup>*\<^sup>* s0 t"
  shows "invar t"
  using assms by (blast intro: steps_keep)

end

end
