(* ===== verification/ByteStream.thy ===== *)
theory ByteStream
  imports Prelude
begin

text \<open>
  \<open>TcpSocketDll/CByteStream\<close>: the byte queue between the receive thread and \<open>Recv\<close>. The state
  is the \<open>vector<char>\<close>; every operation takes the extent of the caller's buffer into account,
  so that an access outside it is a value of \<^typ>\<open>c_error\<close>. The locale \<open>byte_fifo\<close> is the
  contract the socket relies on (a first-in first-out queue of bytes) and is interpreted on the
  operations of this theory.
\<close>

section \<open>State and operations\<close>

record CByteStream =
  m_vtBuf :: "byte list"

definition CByteStream_init :: CByteStream where
  "CByteStream_init = \<lparr>m_vtBuf = []\<rparr>"

text \<open>The loop of \<open>Write\<close>: \<open>todo\<close> iterations are left, the next byte read is \<open>pBuf[i]\<close>.\<close>

fun Write_loop :: "byte list \<Rightarrow> nat \<Rightarrow> nat \<Rightarrow> CByteStream \<Rightarrow> CByteStream result" where
  "Write_loop pBuf i 0 s = Inr s"
| "Write_loop pBuf i (Suc todo) s =
     (if length pBuf \<le> i then Inl OutOfBounds
      else Write_loop pBuf (Suc i) todo (s\<lparr>m_vtBuf := m_vtBuf s @ [pBuf ! i]\<rparr>))"

text \<open>\<open>for (int i = 0; i < nSize; i++)\<close> does nothing for a negative size.\<close>

definition Write :: "byte list \<Rightarrow> int \<Rightarrow> CByteStream \<Rightarrow> CByteStream result" where
  "Write pBuf nSize s = Write_loop pBuf 0 (nat nSize) s"

text \<open>\<open>Read\<close>: the copy out of the vector, then the erasure of the bytes read.\<close>

definition Read :: "byte list \<Rightarrow> int \<Rightarrow> CByteStream \<Rightarrow> (byte list \<times> CByteStream) result" where
  "Read pBuf nSize s =
     and_then (memcpy pBuf (m_vtBuf s) nSize)
       (\<lambda>buf. Inr (buf, s\<lparr>m_vtBuf := drop (nat nSize) (m_vtBuf s)\<rparr>))"

definition Peek :: "byte list \<Rightarrow> int \<Rightarrow> CByteStream \<Rightarrow> byte list result" where
  "Peek pBuf nSize s = memcpy pBuf (m_vtBuf s) nSize"

text \<open>\<open>int GetSize()\<close> converts the vector's \<open>size_t\<close> to \<open>int\<close>.\<close>

definition GetSize :: "CByteStream \<Rightarrow> int" where
  "GetSize s = wrap32 (int (length (m_vtBuf s)))"

section \<open>The contract of a byte queue\<close>

text \<open>
  A queue of bytes seen through \<open>content\<close>: \<open>wr\<close> appends the first \<open>n\<close> bytes of its buffer,
  \<open>rd\<close> removes bytes from the front and stores them at the start of the caller's buffer.
\<close>

locale byte_fifo =
  fixes content :: "'s \<Rightarrow> byte list"
    and wr :: "byte list \<Rightarrow> int \<Rightarrow> 's \<Rightarrow> 's result"
    and rd :: "byte list \<Rightarrow> int \<Rightarrow> 's \<Rightarrow> (byte list \<times> 's) result"
  assumes wr_ok: "0 \<le> n \<Longrightarrow> nat n \<le> length b \<Longrightarrow>
      \<exists>s'. wr b n s = Inr s' \<and> content s' = content s @ take (nat n) b"
    and rd_ok: "0 \<le> n \<Longrightarrow> nat n \<le> length (content s) \<Longrightarrow> nat n \<le> length b \<Longrightarrow>
      \<exists>s'. rd b n s = Inr (take (nat n) (content s) @ drop (nat n) b, s')
         \<and> content s' = drop (nat n) (content s)"
begin

text \<open>What was written after everything already queued comes out last and unchanged.\<close>

lemma write_then_read:
  assumes "0 \<le> n" and "nat n \<le> length b"
    and "length d = length (content s) + nat n"
  shows "\<exists>s' s''. wr b n s = Inr s'
     \<and> rd d (int (length d)) s' = Inr (content s @ take (nat n) b, s'') \<and> content s'' = []"
proof -
  obtain s' where s': "wr b n s = Inr s'" "content s' = content s @ take (nat n) b"
    using wr_ok [OF assms(1,2)] by blast
  have len: "length (content s') = length d"
    using s'(2) assms by simp
  then obtain s'' where "rd d (int (length d)) s' = Inr (content s', s'')" "content s'' = []"
    using rd_ok [of "int (length d)" s' d] by auto
  then show ?thesis
    using s' by auto
qed

text \<open>Two reads in a row are one read of both sizes.\<close>

lemma read_split:
  assumes "0 \<le> m" "0 \<le> n" "nat m + nat n \<le> length (content s)"
    and "length b1 = nat m" "length b2 = nat n"
  shows "\<exists>s1 s2. rd b1 m s = Inr (take (nat m) (content s), s1)
     \<and> rd b2 n s1 = Inr (take (nat n) (drop (nat m) (content s)), s2)
     \<and> content s2 = drop (nat m + nat n) (content s)"
proof -
  obtain s1 where s1: "rd b1 m s = Inr (take (nat m) (content s), s1)"
      "content s1 = drop (nat m) (content s)"
    using rd_ok [of m s b1] assms by auto
  obtain s2 where "rd b2 n s1 = Inr (take (nat n) (content s1), s2)"
      "content s2 = drop (nat n) (content s1)"
    using rd_ok [of n s1 b2] assms(2,3,5) s1(2) by fastforce
  then show ?thesis
    using s1 by (simp add: add.commute)
qed

end

section \<open>Correctness of the operations\<close>

lemma Write_loop_ok:
  "i + todo \<le> length pBuf \<Longrightarrow>
   Write_loop pBuf i todo s = Inr (s\<lparr>m_vtBuf := m_vtBuf s @ take todo (drop i pBuf)\<rparr>)"
proof (induction pBuf i todo s rule: Write_loop.induct)
  case (2 pBuf i todo s)
  then show ?case by (simp add: Cons_nth_drop_Suc [symmetric])
qed simp

lemma Write_loop_overrun:
  "i \<le> length pBuf \<Longrightarrow> length pBuf < i + todo \<Longrightarrow> Write_loop pBuf i todo s = Inl OutOfBounds"
  by (induction pBuf i todo s rule: Write_loop.induct) auto

text \<open>The whole behaviour of \<open>Write\<close>: it appends, or reads past the caller's buffer.\<close>

lemma Write_eq:
  "Write pBuf n s =
     (if nat n \<le> length pBuf then Inr (s\<lparr>m_vtBuf := m_vtBuf s @ take (nat n) pBuf\<rparr>)
      else Inl OutOfBounds)"
  by (simp add: Write_def Write_loop_ok Write_loop_overrun)

lemma Read_eq_Inr:
  "Read pBuf n s = Inr (buf, s') \<longleftrightarrow>
     0 \<le> n \<and> nat n \<le> length (m_vtBuf s) \<and> nat n \<le> length pBuf
     \<and> buf = take (nat n) (m_vtBuf s) @ drop (nat n) pBuf
     \<and> s' = s\<lparr>m_vtBuf := drop (nat n) (m_vtBuf s)\<rparr>"
  by (auto simp: Read_def memcpy_at_def)

lemma Read_negative: "n < 0 \<Longrightarrow> Read pBuf n s = Inl NegativeSize"
  by (simp add: Read_def memcpy_at_def)

lemma Read_overflow:
  "0 \<le> n \<Longrightarrow> length pBuf < nat n \<or> length (m_vtBuf s) < nat n \<Longrightarrow> Read pBuf n s = Inl OutOfBounds"
  by (auto simp: Read_def memcpy_at_def)

lemma GetSize_small: "length (m_vtBuf s) < 2 ^ 31 \<Longrightarrow> GetSize s = int (length (m_vtBuf s))"
  by (simp add: GetSize_def int32_range_def)

interpretation byte_stream: byte_fifo m_vtBuf Write Read
  by unfold_locales (auto simp: Write_eq Read_eq_Inr)

section \<open>Properties\<close>

text \<open>
  FIFO round trip of \<open>CByteStream\<close>: bytes written with \<open>Write\<close> come out of a following
  \<open>Read\<close> of everything queued, after the bytes that were there before, in order and unchanged,
  and leave the stream empty; neither call leaves its buffer.
\<close>

theorem stream_write_then_read:
  assumes "0 \<le> n" and "nat n \<le> length b" and "length d = length (m_vtBuf s) + nat n"
  shows "\<exists>s' s''. Write b n s = Inr s'
     \<and> Read d (int (length d)) s' = Inr (m_vtBuf s @ take (nat n) b, s'') \<and> m_vtBuf s'' = []"
  using assms by (rule byte_stream.write_then_read)

end
