(* ===== verification/TcpSocket.thy ===== *)
theory TcpSocket
  imports ByteStream
begin

text \<open>
  \<open>TcpSocketDll/CTcpSocket\<close>: reliable byte streams over UDP. The theory holds the packet
  structures and their memory image, the connection table, and the three activities of a socket:
  \<open>Send\<close>/\<open>Recv\<close> called by the application, one round of the sending thread and one datagram
  handled by the receiving thread. Calls that leave the program (\<open>sendto\<close>, lock operations,
  error output, thread creation) are recorded as \<open>effect\<close>s in the order the code makes them;
  whether a \<open>sendto\<close> succeeds and what \<open>clock()\<close> returns are parameters.
\<close>

section \<open>Addresses\<close>

text \<open>
  The part of a \<open>sockaddr\<close> that the code reads (\<open>sockaddr_in\<close>'s address and port, in the byte
  order they have in the structure), with the order of \<open>Compare\<close>.
\<close>

datatype sockaddr = sockaddr_in (S_addr: "32 word") (sin_port: "16 word")

definition Compare :: "sockaddr \<Rightarrow> sockaddr \<Rightarrow> bool" where
  "Compare left right =
     (if S_addr left = S_addr right then sin_port left < sin_port right
      else S_addr left < S_addr right)"

lemma sockaddr_eq_iff: "a = b \<longleftrightarrow> S_addr a = S_addr b \<and> sin_port a = sin_port b"
  by (cases a; cases b) simp

instantiation sockaddr :: linorder
begin

definition less_sockaddr :: "sockaddr \<Rightarrow> sockaddr \<Rightarrow> bool" where
  "less_sockaddr a b = Compare a b"

definition less_eq_sockaddr :: "sockaddr \<Rightarrow> sockaddr \<Rightarrow> bool" where
  "less_eq_sockaddr a b \<longleftrightarrow> Compare a b \<or> a = b"

instance
  by standard
    (auto simp: less_sockaddr_def less_eq_sockaddr_def Compare_def sockaddr_eq_iff
      split: if_splits)

end

section \<open>Packets\<close>

definition DATA_LEN :: int where
  "DATA_LEN = 1024"

text \<open>\<open>enum PackageType\<close>; the wire carries its values as \<open>int\<close>s, and any \<open>int\<close> can arrive.\<close>

datatype PackageType = ESTABLISH_1 | ESTABLISH_2 | DATA | ACK

primrec type_code :: "PackageType \<Rightarrow> int" where
  "type_code ESTABLISH_1 = 0"
| "type_code ESTABLISH_2 = 1"
| "type_code DATA = 2"
| "type_code ACK = 3"

record Packet =
  m_nType :: int
  m_nSeq :: int

text \<open>
  \<open>m_data\<close> is the initialised part of the \<open>char[DATA_LEN]\<close> array: the four-argument constructor
  fills only \<open>nLen\<close> bytes, and reading further is a read of indeterminate memory.
\<close>

record DataPacket = Packet +
  m_nLen :: int
  m_data :: "byte list"

definition new_Packet :: "PackageType \<Rightarrow> int \<Rightarrow> Packet" where
  "new_Packet nType nSeq = \<lparr>m_nType = type_code nType, m_nSeq = nSeq\<rparr>"

definition DataPacket_init :: DataPacket where
  "DataPacket_init =
     \<lparr>m_nType = 0, m_nSeq = 0, m_nLen = 0, m_data = replicate (nat DATA_LEN) NUL\<rparr>"

definition new_DataPacket ::
    "PackageType \<Rightarrow> int \<Rightarrow> int \<Rightarrow> byte list \<Rightarrow> DataPacket result" where
  "new_DataPacket nType nSeq nLen pData =
     (if nLen < 0 then Inl NegativeSize
      else if length pData < nat nLen \<or> DATA_LEN < nLen then Inl OutOfBounds
      else Inr \<lparr>m_nType = type_code nType, m_nSeq = nSeq, m_nLen = nLen,
                m_data = take (nat nLen) pData\<rparr>)"

text \<open>\<open>DataPacket::Size\<close>: three \<open>int\<close> fields and the payload.\<close>

definition Size :: "DataPacket \<Rightarrow> int" where
  "Size p = wrap32 (4 + 4 + 4 + m_nLen p)"

definition sizeof_Packet :: int where
  "sizeof_Packet = 8"

definition sizeof_DataPacket :: int where
  "sizeof_DataPacket = 12 + DATA_LEN"

text \<open>The first \<open>n\<close> bytes of the object's memory image, as \<open>(char*)packet\<close> hands them out.\<close>

definition Packet_bytes :: "Packet \<Rightarrow> byte list" where
  "Packet_bytes p = le32 (m_nType p) @ le32 (m_nSeq p)"

definition DataPacket_bytes :: "DataPacket \<Rightarrow> int \<Rightarrow> byte list result" where
  "DataPacket_bytes p n =
     (let img = le32 (m_nType p) @ le32 (m_nSeq p) @ le32 (m_nLen p) @ m_data p
      in if n < 0 then Inl NegativeSize
         else if length img < nat n then Inl OutOfBounds
         else Inr (take (nat n) img))"

text \<open>
  A datagram of at most \<open>sizeof(DataPacket)\<close> bytes received into a fresh, zeroed \<open>DataPacket\<close>.
\<close>

definition DataPacket_of_bytes :: "byte list \<Rightarrow> DataPacket" where
  "DataPacket_of_bytes bs =
     (let img = take (nat sizeof_DataPacket) bs
                @ replicate (nat sizeof_DataPacket - length bs) NUL
      in \<lparr>m_nType = un_le32 img, m_nSeq = un_le32 (drop 4 img), m_nLen = un_le32 (drop 8 img),
          m_data = drop 12 img\<rparr>)"

text \<open>A datagram received into a default-constructed \<open>Packet\<close> (8 bytes, both fields 0).\<close>

definition Packet_of_bytes :: "byte list \<Rightarrow> Packet" where
  "Packet_of_bytes bs =
     (let img = take (nat sizeof_Packet) bs @ replicate (nat sizeof_Packet - length bs) NUL
      in \<lparr>m_nType = un_le32 img, m_nSeq = un_le32 (drop 4 img)\<rparr>)"

section \<open>Connections and the socket\<close>

record Conn =
  m_nNextSendSeq :: int
  m_nNextRecvSeq :: int
  m_recvList :: "DataPacket list"
  m_byteStream :: CByteStream
  m_nStatus :: int

definition Conn_init :: Conn where
  "Conn_init = \<lparr>m_nNextSendSeq = 0, m_nNextRecvSeq = 0, m_recvList = [],
                m_byteStream = CByteStream_init, m_nStatus = 0\<rparr>"

text \<open>\<open>Packet*\<close> in the send list points to a plain packet or to a \<open>DataPacket\<close>.\<close>

datatype PacketPtr = PlainPkt Packet | DataPkt DataPacket

primrec ptr_type :: "PacketPtr \<Rightarrow> int" where
  "ptr_type (PlainPkt p) = m_nType p"
| "ptr_type (DataPkt p) = m_nType p"

primrec ptr_seq :: "PacketPtr \<Rightarrow> int" where
  "ptr_seq (PlainPkt p) = m_nSeq p"
| "ptr_seq (DataPkt p) = m_nSeq p"

record SendListNode =
  m_time :: int
  m_addr :: sockaddr
  m_packet :: PacketPtr

definition new_SendListNode :: "int \<Rightarrow> sockaddr \<Rightarrow> PacketPtr \<Rightarrow> SendListNode" where
  "new_SendListNode time addr packet = \<lparr>m_time = time, m_addr = addr, m_packet = packet\<rparr>"

text \<open>\<open>map<sockaddr, Conn, Compare>\<close>: the entries in key order.\<close>

type_synonym conn_map = "(sockaddr \<times> Conn) list"

record CTcpSocket =
  m_connectMap :: conn_map
  m_sendList :: "SendListNode list"

definition CTcpSocket_init :: CTcpSocket where
  "CTcpSocket_init = \<lparr>m_connectMap = [], m_sendList = []\<rparr>"

text \<open>
  \<open>m_connectMap[addr]\<close>: the entry, inserted at its place with a default \<open>Conn\<close> when missing.
\<close>

fun map_ref :: "sockaddr \<Rightarrow> conn_map \<Rightarrow> conn_map" where
  "map_ref a [] = [(a, Conn_init)]"
| "map_ref a ((b, c) # m) =
     (if Compare a b then (a, Conn_init) # (b, c) # m
      else if Compare b a then (b, c) # map_ref a m
      else (b, c) # m)"

fun map_get :: "sockaddr \<Rightarrow> conn_map \<Rightarrow> Conn" where
  "map_get a [] = Conn_init"
| "map_get a ((b, c) # m) = (if \<not> Compare a b \<and> \<not> Compare b a then c else map_get a m)"

fun map_put :: "sockaddr \<Rightarrow> Conn \<Rightarrow> conn_map \<Rightarrow> conn_map" where
  "map_put a x [] = []"
| "map_put a x ((b, c) # m) =
     (if \<not> Compare a b \<and> \<not> Compare b a then (b, x) # m else (b, c) # map_put a x m)"

text \<open>\<open>Conn& conn = m_connectMap[addr]\<close> and a write through the reference.\<close>

definition conn_of :: "sockaddr \<Rightarrow> CTcpSocket \<Rightarrow> Conn" where
  "conn_of a s = map_get a (m_connectMap s)"

definition touch :: "sockaddr \<Rightarrow> CTcpSocket \<Rightarrow> CTcpSocket" where
  "touch a s = s\<lparr>m_connectMap := map_ref a (m_connectMap s)\<rparr>"

definition set_conn :: "sockaddr \<Rightarrow> Conn \<Rightarrow> CTcpSocket \<Rightarrow> CTcpSocket" where
  "set_conn a c s = s\<lparr>m_connectMap := map_put a c (map_ref a (m_connectMap s))\<rparr>"

section \<open>Effects\<close>

text \<open>\<open>Sendto a bs ok\<close> is a call of \<open>sendto\<close> that succeeded, or returned \<open>SOCKET_ERROR\<close>.\<close>

datatype lock_id = SendListLock | ByteStreamLock sockaddr | StatusLock sockaddr

datatype thread_proc = SendThreadProc | RecvThreadProc

datatype effect =
    Lock lock_id
  | UnLock lock_id
  | Sendto sockaddr "byte list" bool
  | PrintErr string
  | StartThread thread_proc

text \<open>A pass of a thread's \<open>while (true)\<close> either goes round again or returns.\<close>

datatype verdict = Continue | Return

section \<open>Send\<close>

text \<open>
  The loop over the full packets: each takes the next sequence number and the next
  \<open>DATA_LEN\<close> bytes. The result is the rest of the buffer, the counter and the new nodes.
\<close>

fun Send_loop ::
    "sockaddr \<Rightarrow> nat \<Rightarrow> byte list \<Rightarrow> int \<Rightarrow> (byte list \<times> int \<times> SendListNode list) result" where
  "Send_loop addr 0 pBuf seq = Inr (pBuf, seq, [])"
| "Send_loop addr (Suc todo) pBuf seq =
     and_then (new_DataPacket DATA seq DATA_LEN pBuf) (\<lambda>pkt.
     and_then (Send_loop addr todo (drop (nat DATA_LEN) pBuf) (wrap32 (seq + 1)))
       (\<lambda>(rest, seq', nodes). Inr (rest, seq', new_SendListNode 0 addr (DataPkt pkt) # nodes)))"

definition Send ::
    "sockaddr \<Rightarrow> byte list \<Rightarrow> int \<Rightarrow> CTcpSocket \<Rightarrow> (int \<times> CTcpSocket \<times> effect list) result" where
  "Send addr pBuf nLen s0 =
     (let s = touch addr s0; conn = conn_of addr s; nPkgCnt = nLen sdiv DATA_LEN
      in and_then (Send_loop addr (nat nPkgCnt) pBuf (m_nNextSendSeq conn)) (\<lambda>(rest, seq, nodes).
         and_then
           (if nLen smod DATA_LEN \<noteq> 0
            then and_then (new_DataPacket DATA seq (nLen smod DATA_LEN) rest) (\<lambda>pkt.
                   Inr (wrap32 (seq + 1), nodes @ [new_SendListNode 0 addr (DataPkt pkt)]))
            else Inr (seq, nodes))
           (\<lambda>(seq', nodes').
              Inr (nLen,
                   set_conn addr (conn\<lparr>m_nNextSendSeq := seq'\<rparr>) s\<lparr>m_sendList := m_sendList s @ nodes'\<rparr>,
                   [Lock SendListLock, UnLock SendListLock]))))"

section \<open>Recv\<close>

text \<open>
  \<open>None\<close>: the polling loop has found the stream empty and sleeps. \<open>Some\<close>: the number of bytes
  returned and the caller's buffer.
\<close>

definition Recv ::
    "sockaddr \<Rightarrow> byte list \<Rightarrow> int \<Rightarrow> CTcpSocket \<Rightarrow>
     (CTcpSocket \<times> (int \<times> byte list \<times> effect list) option) result" where
  "Recv addr pBuf nBufLen s0 =
     (let s = touch addr s0; conn = conn_of addr s; nStreamSize = GetSize (m_byteStream conn)
      in if nStreamSize = 0 then Inr (s, None)
         else let nReadLen = min nStreamSize nBufLen
              in and_then (Read pBuf nReadLen (m_byteStream conn)) (\<lambda>(buf, bs).
                   Inr (set_conn addr (conn\<lparr>m_byteStream := bs\<rparr>) s,
                        Some (nReadLen, buf,
                              [Lock (ByteStreamLock addr), UnLock (ByteStreamLock addr)]))))"

section \<open>The sending thread\<close>

text \<open>The bytes one node puts on the wire; no datagram for a type the switch does not name.\<close>

definition node_datagram :: "SendListNode \<Rightarrow> byte list option result" where
  "node_datagram n =
     (if ptr_type (m_packet n) = type_code ESTABLISH_1 \<or> ptr_type (m_packet n) = type_code ESTABLISH_2
      then Inr (Some (le32 (ptr_type (m_packet n)) @ le32 (ptr_seq (m_packet n))))
      else if ptr_type (m_packet n) = type_code DATA
      then (case m_packet n of
              PlainPkt p \<Rightarrow> Inl BadCast
            | DataPkt p \<Rightarrow> and_then (DataPacket_bytes p (Size p)) (\<lambda>bs. Inr (Some bs)))
      else Inr None)"

text \<open>
  One pass over the list. \<open>clk k\<close> and \<open>ok k\<close> are the answers of the \<open>k\<close>-th outside call of the
  pass (\<open>clock()\<close>, or whether \<open>sendto\<close> succeeded). A failed \<open>sendto\<close> returns from the thread.
\<close>

fun send_nodes ::
    "(nat \<Rightarrow> int) \<Rightarrow> (nat \<Rightarrow> bool) \<Rightarrow> nat \<Rightarrow> SendListNode list \<Rightarrow>
     (verdict \<times> SendListNode list \<times> effect list) result" where
  "send_nodes clk ok k [] = Inr (Continue, [], [])"
| "send_nodes clk ok k (n # ns) =
     (let k1 = (if m_time n = 0 then k else Suc k)
      in if m_time n = 0 \<or> 1000 \<le> clk k - m_time n
         then and_then (node_datagram n) (\<lambda>d.
           case d of
             None \<Rightarrow> and_then (send_nodes clk ok (Suc k1) ns) (\<lambda>(v, ns', es).
                       Inr (v, n\<lparr>m_time := clk k1\<rparr> # ns', es))
           | Some bs \<Rightarrow>
               if ok k1
               then and_then (send_nodes clk ok (Suc (Suc k1)) ns) (\<lambda>(v, ns', es).
                      Inr (v, n\<lparr>m_time := clk (Suc k1)\<rparr> # ns', Sendto (m_addr n) bs True # es))
               else Inr (Return, n # ns, [Sendto (m_addr n) bs False, PrintErr ''sendto'']))
         else and_then (send_nodes clk ok k1 ns) (\<lambda>(v, ns', es). Inr (v, n # ns', es)))"

definition SendThreadProc_pass ::
    "(nat \<Rightarrow> int) \<Rightarrow> (nat \<Rightarrow> bool) \<Rightarrow> CTcpSocket \<Rightarrow> (verdict \<times> CTcpSocket \<times> effect list) result" where
  "SendThreadProc_pass clk ok s =
     and_then (send_nodes clk ok 0 (m_sendList s)) (\<lambda>(v, ns, es).
       Inr (v, s\<lparr>m_sendList := ns\<rparr>,
            Lock SendListLock # es @ (if v = Continue then [UnLock SendListLock] else [])))"

section \<open>The receiving thread\<close>

definition mark_readable :: "Conn \<Rightarrow> Conn" where
  "mark_readable c = (if m_nStatus c = 0 then c\<lparr>m_nStatus := 1\<rparr> else c)"

text \<open>A packet that is next in order: into the stream, status, counter.\<close>

definition accept_packet :: "sockaddr \<Rightarrow> DataPacket \<Rightarrow> Conn \<Rightarrow> (Conn \<times> effect list) result" where
  "accept_packet addr p c =
     and_then (Write (m_data p) (m_nLen p) (m_byteStream c)) (\<lambda>bs.
       Inr (mark_readable (c\<lparr>m_byteStream := bs\<rparr>)\<lparr>m_nNextRecvSeq := wrap32 (m_nNextRecvSeq c + 1)\<rparr>,
            [Lock (ByteStreamLock addr), UnLock (ByteStreamLock addr),
             Lock (StatusLock addr), UnLock (StatusLock addr)]))"

text \<open>The loop over the out-of-order list, from its front.\<close>

fun drain :: "sockaddr \<Rightarrow> DataPacket list \<Rightarrow> Conn \<Rightarrow> (Conn \<times> effect list) result" where
  "drain addr [] c = Inr (c\<lparr>m_recvList := []\<rparr>, [])"
| "drain addr (p # ps) c =
     (if m_nSeq p = m_nNextRecvSeq c
      then and_then (accept_packet addr p c) (\<lambda>(c', es).
           and_then (drain addr ps c') (\<lambda>(c'', es'). Inr (c'', es @ es')))
      else Inr (c\<lparr>m_recvList := p # ps\<rparr>, []))"

text \<open>The ordered insertion of an early packet: before the first larger sequence number.\<close>

fun insert_packet :: "DataPacket \<Rightarrow> DataPacket list \<Rightarrow> DataPacket list" where
  "insert_packet p [] = [p]"
| "insert_packet p (q # qs) =
     (if m_nSeq p < m_nSeq q then p # q # qs else q # insert_packet p qs)"

text \<open>What a \<open>DATA\<close> packet does to its connection, after the acknowledgement.\<close>

definition receive_data :: "sockaddr \<Rightarrow> DataPacket \<Rightarrow> Conn \<Rightarrow> (Conn \<times> effect list) result" where
  "receive_data addr p c =
     (if m_nSeq p = m_nNextRecvSeq c
      then and_then (accept_packet addr p c) (\<lambda>(c', es).
           and_then (drain addr (m_recvList c') c') (\<lambda>(c'', es'). Inr (c'', es @ es')))
      else if m_nNextRecvSeq c < m_nSeq p
      then Inr (c\<lparr>m_recvList := insert_packet p (m_recvList c)\<rparr>, [])
      else Inr (c, []))"

definition on_establish_1 ::
    "sockaddr \<Rightarrow> DataPacket \<Rightarrow> CTcpSocket \<Rightarrow> CTcpSocket \<times> effect list" where
  "on_establish_1 addr p s =
     (let conn = (conn_of addr s)\<lparr>m_nNextSendSeq := 0, m_nNextRecvSeq := wrap32 (m_nSeq p + 1)\<rparr>;
          reply = new_Packet ESTABLISH_2 (m_nNextSendSeq conn)
      in (set_conn addr (conn\<lparr>m_nNextSendSeq := wrap32 (m_nNextSendSeq conn + 1)\<rparr>) s
            \<lparr>m_sendList := m_sendList s @ [new_SendListNode 0 addr (PlainPkt reply)]\<rparr>,
          [Lock SendListLock, UnLock SendListLock]))"

definition ack_bytes :: "DataPacket \<Rightarrow> byte list" where
  "ack_bytes p = Packet_bytes (new_Packet ACK (m_nSeq p))"

definition on_establish_2 ::
    "bool \<Rightarrow> sockaddr \<Rightarrow> DataPacket \<Rightarrow> CTcpSocket \<Rightarrow> verdict \<times> CTcpSocket \<times> effect list" where
  "on_establish_2 ok addr p s =
     (if ok then (Continue, s, [Sendto addr (ack_bytes p) True])
      else (Return, s, [Sendto addr (ack_bytes p) False, PrintErr ''sendto'']))"

definition on_data ::
    "bool \<Rightarrow> sockaddr \<Rightarrow> DataPacket \<Rightarrow> CTcpSocket \<Rightarrow> (verdict \<times> CTcpSocket \<times> effect list) result" where
  "on_data ok addr p s =
     (if ok
      then and_then (receive_data addr p (conn_of addr s)) (\<lambda>(c, es).
             Inr (Continue, set_conn addr c s, Sendto addr (ack_bytes p) True # es))
      else Inr (Return, s, [Sendto addr (ack_bytes p) False, PrintErr ''sendto'']))"

text \<open>The search loop of the \<open>ACK\<close> case: the first node with the sequence number goes.\<close>

fun erase_acked :: "int \<Rightarrow> SendListNode list \<Rightarrow> SendListNode list" where
  "erase_acked nSeq [] = []"
| "erase_acked nSeq (n # ns) =
     (if ptr_seq (m_packet n) = nSeq then ns else n # erase_acked nSeq ns)"

definition on_ack :: "DataPacket \<Rightarrow> CTcpSocket \<Rightarrow> CTcpSocket \<times> effect list" where
  "on_ack p s =
     (s\<lparr>m_sendList := erase_acked (m_nSeq p) (m_sendList s)\<rparr>,
      [Lock SendListLock, UnLock SendListLock])"

text \<open>
  One pass of \<open>RecvThreadProc\<close>. \<open>rcv\<close> is what \<open>recvfrom\<close> returned (\<open>None\<close>: \<open>SOCKET_ERROR\<close>),
  \<open>ok\<close> whether the \<open>sendto\<close> of the acknowledgement succeeds.
\<close>

definition RecvThreadProc_pass ::
    "(byte list \<times> sockaddr) option \<Rightarrow> bool \<Rightarrow> CTcpSocket \<Rightarrow>
     (verdict \<times> CTcpSocket \<times> effect list) result" where
  "RecvThreadProc_pass rcv ok s0 =
     (case rcv of
        None \<Rightarrow> Inr (Return, s0, [PrintErr ''recvfrom''])
      | Some (bytes, addr) \<Rightarrow>
          (let p = DataPacket_of_bytes bytes; s = touch addr s0
           in if m_nType p = type_code ESTABLISH_1 then
                (case on_establish_1 addr p s of (s', es) \<Rightarrow> Inr (Continue, s', es))
              else if m_nType p = type_code ESTABLISH_2 then Inr (on_establish_2 ok addr p s)
              else if m_nType p = type_code DATA then on_data ok addr p s
              else if m_nType p = type_code ACK then
                (case on_ack p s of (s', es) \<Rightarrow> Inr (Continue, s', es))
              else Inr (Continue, s, [])))"

section \<open>Error output\<close>

text \<open>
  \<open>PrintErrMsg\<close> formats into a \<open>char[256]\<close>; \<open>errMsg\<close> is the text \<open>FormatMessage\<close> stored, at most
  255 bytes and a NUL. The result is the string printed.
\<close>

definition PrintErrMsg :: "string \<Rightarrow> string \<Rightarrow> string result" where
  "PrintErrMsg errMsg pPreMsg =
     (let out = c_str pPreMsg @ '': '' @ c_str errMsg @ [CHR 0x0D, CHR 0x0A]
      in if 256 < length out + 1 then Inl OutOfBounds else Inr out)"

section \<open>The connection table as a store\<close>

text \<open>
  What the handlers rely on: a write through \<open>m_connectMap[a]\<close> is seen by the next read of \<open>a\<close>
  and by no other address. The entries stay in strict key order (\<open>table_ok\<close>), which is what
  makes \<open>operator[]\<close> find an entry it inserted before.
\<close>

definition map_sorted :: "conn_map \<Rightarrow> bool" where
  "map_sorted m = sorted_wrt (<) (map fst m)"

definition table_ok :: "CTcpSocket \<Rightarrow> bool" where
  "table_ok s = map_sorted (m_connectMap s)"

locale keyed_store =
  fixes get :: "'k \<Rightarrow> 's \<Rightarrow> 'c"
    and put :: "'k \<Rightarrow> 'c \<Rightarrow> 's \<Rightarrow> 's"
    and ok :: "'s \<Rightarrow> bool"
  assumes get_put: "get b (put a c s) = (if b = a then c else get b s)"
    and ok_put: "ok s \<Longrightarrow> ok (put a c s)"
begin

lemma put_list_other:
  "b \<notin> fst ` set kcs \<Longrightarrow> get b (fold (\<lambda>(a, c). put a c) kcs s) = get b s"
  by (induction kcs arbitrary: s) (auto simp: get_put)

lemma put_list_ok: "ok s \<Longrightarrow> ok (fold (\<lambda>(a, c). put a c) kcs s)"
  by (induction kcs arbitrary: s) (auto intro: ok_put)

lemma put_commute_get:
  "a \<noteq> b \<Longrightarrow> get k (put a c (put b d s)) = get k (put b d (put a c s))"
  by (simp add: get_put)

end

lemma Compare_less [simp]: "Compare a b \<longleftrightarrow> a < b"
  by (simp add: less_sockaddr_def)

lemma not_less_both [simp]: "\<not> a < b \<and> \<not> b < a \<longleftrightarrow> a = b" for a b :: sockaddr
  by auto

lemma fst_map_put [simp]: "map fst (map_put a x m) = map fst m"
  by (induction a x m rule: map_put.induct) auto

lemma set_map_ref: "fst ` set (map_ref a m) = insert a (fst ` set m)"
  by (induction a m rule: map_ref.induct) (auto simp: not_less_iff_gr_or_eq)

lemma map_sorted_ref: "map_sorted m \<Longrightarrow> map_sorted (map_ref a m)"
proof (induction a m rule: map_ref.induct)
  case (2 a b c m)
  then show ?case
    using set_map_ref [of a m] by (auto simp: map_sorted_def)
qed (simp add: map_sorted_def)

lemma map_get_absent: "\<forall>x \<in> set m. a < fst x \<Longrightarrow> map_get a m = Conn_init"
  by (induction m) auto

lemma map_get_ref: "map_sorted m \<Longrightarrow> map_get b (map_ref a m) = map_get b m"
proof (induction a m rule: map_ref.induct)
  case (2 a k c m)
  moreover have "map_get a m = Conn_init" if "a < k"
    using that "2.prems" by (intro map_get_absent) (auto simp: map_sorted_def intro: less_trans)
  ultimately show ?case by (auto simp: map_sorted_def)
qed simp

lemma map_get_put_ref:
  "map_get b (map_put a x (map_ref a m)) = (if b = a then x else map_get b (map_ref a m))"
proof (induction a m rule: map_ref.induct)
  case (2 a k c m)
  then show ?case by (cases a k rule: linorder_cases) auto
qed simp

lemma map_get_ref_other: "b \<noteq> a \<Longrightarrow> map_get b (map_ref a m) = map_get b m"
  by (induction a m rule: map_ref.induct) auto

interpretation conn_table: keyed_store conn_of set_conn table_ok
  by unfold_locales
    (auto simp: conn_of_def set_conn_def table_ok_def map_get_put_ref map_get_ref_other
      map_sorted_def map_sorted_ref [unfolded map_sorted_def])

lemmas conn_of_set_conn [simp] = conn_table.get_put

lemma table_ok_set_conn [simp]: "table_ok s \<Longrightarrow> table_ok (set_conn a c s)"
  by (rule conn_table.ok_put)

lemma table_ok_touch [simp]: "table_ok s \<Longrightarrow> table_ok (touch a s)"
  by (simp add: table_ok_def touch_def map_sorted_ref)

lemma conn_of_touch [simp]: "table_ok s \<Longrightarrow> conn_of b (touch a s) = conn_of b s"
  by (simp add: conn_of_def touch_def table_ok_def map_get_ref)

lemma sendList_table [simp]:
  "m_sendList (touch a s) = m_sendList s"
  "m_sendList (set_conn a c s) = m_sendList s"
  "table_ok (m_sendList_update f s) = table_ok s"
  "conn_of a (m_sendList_update f s) = conn_of a s"
  by (simp_all add: touch_def set_conn_def table_ok_def conn_of_def)

lemma table_ok_init [simp]: "table_ok CTcpSocket_init"
  by (simp add: table_ok_def CTcpSocket_init_def map_sorted_def)

lemma sendList_init [simp]: "m_sendList CTcpSocket_init = []"
  by (simp add: CTcpSocket_init_def)

lemma conn_of_init [simp]: "conn_of a CTcpSocket_init = Conn_init"
  by (simp add: conn_of_def CTcpSocket_init_def)

end
