(* ===== verification/Reassembly.thy ===== *)
theory Reassembly
  imports TcpSocket
begin

text \<open>
  The receiving half of \<open>CTcpSocket\<close>: what the \<open>DATA\<close> branch of \<open>RecvThreadProc\<close> delivers to
  the byte stream of a connection, for any order, loss and repetition of datagrams. The
  abstract view is the sender's list of chunks: packet \<open>base + i\<close> carries chunk \<open>i\<close>, and a
  receiver that has delivered \<open>k\<close> of them stands at sequence number \<open>base + k\<close>.
\<close>

section \<open>Arrival sequences\<close>

text \<open>The packets of one connection handled one after the other.\<close>

fun receive_all :: "sockaddr \<Rightarrow> DataPacket list \<Rightarrow> Conn \<Rightarrow> Conn result" where
  "receive_all addr [] c = Inr c"
| "receive_all addr (p # ps) c =
     and_then (receive_data addr p c) (\<lambda>(c', es). receive_all addr ps c')"

section \<open>The abstract receiver\<close>

text \<open>\<open>p\<close> is a packet of the stream cut into \<open>chunks\<close>, numbered from \<open>base\<close>.\<close>

definition carries :: "int \<Rightarrow> byte list list \<Rightarrow> DataPacket \<Rightarrow> bool" where
  "carries base chunks p \<longleftrightarrow>
     base \<le> m_nSeq p \<and> m_nSeq p < base + int (length chunks)
     \<and> m_nLen p = int (length (chunks ! nat (m_nSeq p - base)))
     \<and> prefix (chunks ! nat (m_nSeq p - base)) (m_data p)"

text \<open>The sequence numbers of the stream are \<open>int\<close>s with room for the successor of the last.\<close>

definition numbering :: "int \<Rightarrow> byte list list \<Rightarrow> bool" where
  "numbering base chunks \<longleftrightarrow> - (2 ^ 31) \<le> base \<and> base + int (length chunks) < 2 ^ 31"

text \<open>
  \<open>k\<close> chunks are delivered: the application has \<open>taken\<close> some bytes, the stream holds the rest.
\<close>

definition delivered :: "int \<Rightarrow> byte list list \<Rightarrow> byte list \<Rightarrow> nat \<Rightarrow> Conn \<Rightarrow> bool" where
  "delivered base chunks taken k c \<longleftrightarrow>
     k \<le> length chunks \<and> m_nNextRecvSeq c = base + int k
     \<and> taken @ m_vtBuf (m_byteStream c) = concat (take k chunks)"

text \<open>The out-of-order list: packets of the stream in ascending order.\<close>

definition waiting_ok :: "int \<Rightarrow> byte list list \<Rightarrow> Conn \<Rightarrow> bool" where
  "waiting_ok base chunks c \<longleftrightarrow>
     (\<forall>p \<in> set (m_recvList c). carries base chunks p) \<and> sorted (map m_nSeq (m_recvList c))"

text \<open>
  With \<open>got\<close> the indices that have arrived, each once: everything that arrived is delivered or
  waits beyond a gap at \<open>k\<close>.
\<close>

definition gap_at :: "int \<Rightarrow> nat set \<Rightarrow> nat \<Rightarrow> Conn \<Rightarrow> bool" where
  "gap_at base got k c \<longleftrightarrow>
     {..<k} \<subseteq> got \<and> k \<notin> got
     \<and> set (map m_nSeq (m_recvList c)) = (\<lambda>i. base + int i) ` {i \<in> got. k < i}
     \<and> sorted_wrt (<) (map m_nSeq (m_recvList c))"

section \<open>One accepted packet\<close>

lemma numbering_succ:
  "numbering base chunks \<Longrightarrow> k < length chunks \<Longrightarrow> wrap32 (base + int k + 1) = base + int (Suc k)"
  by (simp add: numbering_def int32_range_def)

lemma mark_readable_simps [simp]:
  "m_nNextSendSeq (mark_readable c) = m_nNextSendSeq c"
  "m_nNextRecvSeq (mark_readable c) = m_nNextRecvSeq c"
  "m_recvList (mark_readable c) = m_recvList c"
  "m_byteStream (mark_readable c) = m_byteStream c"
  by (simp_all add: mark_readable_def)

lemma accept_packet_delivered:
  assumes num: "numbering base chunks" and p: "carries base chunks p"
    and c: "delivered base chunks taken k c" and seq: "m_nSeq p = m_nNextRecvSeq c"
  shows "\<exists>c' es. accept_packet addr p c = Inr (c', es) \<and> delivered base chunks taken (Suc k) c'
     \<and> m_recvList c' = m_recvList c"
proof -
  have k: "m_nSeq p = base + int k" "k < length chunks"
    using p c seq by (auto simp: carries_def delivered_def)
  then have data: "nat (m_nLen p) \<le> length (m_data p)" "take (nat (m_nLen p)) (m_data p) = chunks ! k"
    using p by (auto simp: carries_def prefix_def)
  with k c num show ?thesis
    by (auto simp: accept_packet_def Write_eq delivered_def numbering_succ take_Suc_conv_app_nth
        simp flip: append_assoc)
qed

section \<open>Draining the out-of-order list\<close>

lemma drain_spec:
  assumes "numbering base chunks" and "\<forall>p \<in> set ps. carries base chunks p"
    and "delivered base chunks taken k c"
  shows "\<exists>k' c' es. drain addr ps c = Inr (c', es) \<and> k \<le> k' \<and> delivered base chunks taken k' c'
     \<and> m_recvList c' = drop (k' - k) ps
     \<and> map m_nSeq (take (k' - k) ps) = map (\<lambda>i. base + int i) [k..<k']
     \<and> (\<forall>p qs. m_recvList c' = p # qs \<longrightarrow> m_nSeq p \<noteq> base + int k')"
  using assms
proof (induction ps arbitrary: k c)
  case Nil
  then show ?case by (intro exI [of _ k]) (simp add: delivered_def)
next
  case (Cons p ps)
  show ?case
  proof (cases "m_nSeq p = m_nNextRecvSeq c")
    case True
    have "carries base chunks p" using Cons.prems by simp
    from accept_packet_delivered [OF Cons.prems(1) this Cons.prems(3) True]
    obtain c1 es1 where c1: "accept_packet addr p c = Inr (c1, es1)" "delivered base chunks taken (Suc k) c1"
      by blast
    then obtain k' c' es where IH: "drain addr ps c1 = Inr (c', es)" "Suc k \<le> k'"
        "delivered base chunks taken k' c'" "m_recvList c' = drop (k' - Suc k) ps"
        "map m_nSeq (take (k' - Suc k) ps) = map (\<lambda>i. base + int i) [Suc k..<k']"
        "\<forall>p qs. m_recvList c' = p # qs \<longrightarrow> m_nSeq p \<noteq> base + int k'"
      using Cons.IH [of "Suc k" c1] Cons.prems by auto
    have "m_nSeq p = base + int k"
      using True Cons.prems(3) by (simp add: delivered_def)
    moreover have "k' - k = Suc (k' - Suc k)" "[k..<k'] = k # [Suc k..<k']"
      using IH(2) by (simp_all add: upt_rec)
    ultimately show ?thesis
      using c1 IH True by (intro exI [of _ k'] exI [of _ c']) auto
  next
    case False
    with Cons.prems(3) show ?thesis
      by (intro exI [of _ k]) (simp add: delivered_def)
  qed
qed

section \<open>Ordered insertion\<close>

lemma set_insert_packet: "set (insert_packet p qs) = insert p (set qs)"
  by (induction qs) auto

lemma sorted_insert_packet:
  "sorted (map m_nSeq qs) \<Longrightarrow> sorted (map m_nSeq (insert_packet p qs))"
  by (induction qs) (auto simp: set_insert_packet)

lemma strict_insert_packet:
  "sorted_wrt (<) (map m_nSeq qs) \<Longrightarrow> m_nSeq p \<notin> m_nSeq ` set qs \<Longrightarrow>
   sorted_wrt (<) (map m_nSeq (insert_packet p qs))"
  by (induction qs) (auto simp: set_insert_packet)

section \<open>One data packet\<close>

lemma receive_data_delivered:
  assumes num: "numbering base chunks" and p: "carries base chunks p"
    and c: "delivered base chunks taken k c" "waiting_ok base chunks c"
  shows "\<exists>k' c' es. receive_data addr p c = Inr (c', es) \<and> k \<le> k'
     \<and> delivered base chunks taken k' c' \<and> waiting_ok base chunks c'"
proof (cases "m_nSeq p = m_nNextRecvSeq c")
  case True
  obtain c1 es1 where c1: "accept_packet addr p c = Inr (c1, es1)"
      "delivered base chunks taken (Suc k) c1" "m_recvList c1 = m_recvList c"
    using accept_packet_delivered [OF num p c(1) True] by blast
  obtain k' c' es where "drain addr (m_recvList c1) c1 = Inr (c', es)" "Suc k \<le> k'"
      "delivered base chunks taken k' c'" "m_recvList c' = drop (k' - Suc k) (m_recvList c)"
    using drain_spec [OF num _ c1(2), where addr = addr and ps = "m_recvList c1"] c(2) c1(3)
    by (auto simp: waiting_ok_def)
  then show ?thesis
    using True c1 c(2) by (intro exI [of _ k'] exI [of _ c'])
      (auto simp: receive_data_def waiting_ok_def sorted_wrt_drop simp flip: drop_map dest: in_set_dropD)
next
  case False
  with p c show ?thesis
    by (auto simp: receive_data_def delivered_def waiting_ok_def set_insert_packet
        sorted_insert_packet intro: exI [of _ k])
qed

text \<open>With no repetitions the gap moves to the least index still missing.\<close>

lemma gap_at_index: "gap_at base got k c \<Longrightarrow> q \<in> set (m_recvList c) \<Longrightarrow> base + int k < m_nSeq q"
  unfolding gap_at_def by (metis (no_types, lifting) add_strict_left_mono image_iff list.set_map
      mem_Collect_eq of_nat_less_iff)

lemma receive_data_gap_wait:
  assumes "gap_at base got k c" and "m_nSeq p = base + int i" and "k < i" and "i \<notin> got"
  shows "gap_at base (insert i got) k (c\<lparr>m_recvList := insert_packet p (m_recvList c)\<rparr>)"
proof -
  have "m_nSeq p \<notin> m_nSeq ` set (m_recvList c)"
    using assms by (auto simp: gap_at_def)
  then show ?thesis
    using assms by (auto simp: gap_at_def set_insert_packet strict_insert_packet)
qed

lemma strict_front_run:
  assumes run: "map m_nSeq (take (k' - k) qs) = map (\<lambda>i. base + int i) [k..<k']" and le: "k \<le> k'"
    and strict: "sorted_wrt (<) (map m_nSeq qs)"
    and stop: "\<forall>p ps. drop (k' - k) qs = p # ps \<longrightarrow> m_nSeq p \<noteq> base + int k'"
    and low: "\<forall>q \<in> set qs. base + int k \<le> m_nSeq q"
  shows "\<forall>q \<in> set (drop (k' - k) qs). base + int k' < m_nSeq q"
    and "set (map m_nSeq qs) = (\<lambda>i. base + int i) ` {k..<k'} \<union> set (map m_nSeq (drop (k' - k) qs))"
proof -
  have split: "map m_nSeq qs = map (\<lambda>i. base + int i) [k..<k'] @ map m_nSeq (drop (k' - k) qs)"
    using run by (metis append_take_drop_id map_append)
  then show "set (map m_nSeq qs) = (\<lambda>i. base + int i) ` {k..<k'} \<union> set (map m_nSeq (drop (k' - k) qs))"
    by (metis set_append set_map set_upt)
  show "\<forall>q \<in> set (drop (k' - k) qs). base + int k' < m_nSeq q"
  proof (cases "drop (k' - k) qs")
    case (Cons p ps)
    have after: "sorted_wrt (<) (map m_nSeq (p # ps))"
      using strict split Cons by (simp add: sorted_wrt_append)
    have "base + int k' \<le> m_nSeq p"
    proof (cases "k = k'")
      case True
      then show ?thesis using low Cons by simp
    next
      case False
      then obtain j where j: "k' = Suc j" "j \<in> {k..<k'}"
        using le by (cases k') auto
      then have "base + int j < m_nSeq p"
        using strict split Cons by (simp add: sorted_wrt_append)
      then show ?thesis using j by simp
    qed
    then show ?thesis
      using after stop Cons by fastforce
  qed simp
qed

lemma gap_move:
  assumes gap: "gap_at base got k c" and le: "Suc k \<le> k'"
    and rest: "m_recvList c' = drop (k' - Suc k) (m_recvList c)"
    and run: "map m_nSeq (take (k' - Suc k) (m_recvList c)) = map (\<lambda>i. base + int i) [Suc k..<k']"
    and stop: "\<forall>p qs. m_recvList c' = p # qs \<longrightarrow> m_nSeq p \<noteq> base + int k'"
  shows "gap_at base (insert k got) k' c'"
proof -
  let ?S = "set (map m_nSeq (m_recvList c'))"
  have strict: "sorted_wrt (<) (map m_nSeq (m_recvList c))" using gap by (simp add: gap_at_def)
  have low: "\<forall>q \<in> set (m_recvList c). base + int (Suc k) \<le> m_nSeq q"
    using gap_at_index [OF gap] by fastforce
  note front = strict_front_run [OF run le strict stop [unfolded rest] low]
  have idx: "(\<lambda>i. base + int i) ` {i \<in> got. k < i} = (\<lambda>i. base + int i) ` {Suc k..<k'} \<union> ?S"
    using front(2) gap rest by (simp add: gap_at_def)
  have mem: "i \<in> got \<and> k < i \<longleftrightarrow> Suc k \<le> i \<and> i < k' \<or> base + int i \<in> ?S" for i
    using idx [unfolded set_eq_iff, rule_format, of "base + int i"] by (auto simp: image_iff)
  have form: "\<exists>i. x = base + int i" if "x \<in> ?S" for x
    using idx that by blast
  have far: "k' < i" if "base + int i \<in> ?S" for i
    using front(1) rest that by fastforce
  have "\<forall>i < k. i \<in> got" "k \<notin> got"
    using gap by (auto simp: gap_at_def)
  then have "i \<in> insert k got" if "i < k'" for i
    using mem [of i] that by (cases i k rule: linorder_cases) auto
  then have "{..<k'} \<subseteq> insert k got" by blast
  moreover have "k' \<notin> insert k got"
    using mem [of k'] far [of k'] le by auto
  moreover have "?S = (\<lambda>i. base + int i) ` {i \<in> insert k got. k' < i}"
  proof (intro set_eqI iffI)
    fix x assume "x \<in> ?S"
    moreover from this obtain i where "x = base + int i" using form by blast
    ultimately show "x \<in> (\<lambda>i. base + int i) ` {i \<in> insert k got. k' < i}"
      using mem [of i] far [of i] by blast
  next
    fix x assume "x \<in> (\<lambda>i. base + int i) ` {i \<in> insert k got. k' < i}"
    then obtain i where "x = base + int i" "i \<in> insert k got" "k' < i" by blast
    then show "x \<in> ?S" using mem [of i] le by auto
  qed
  moreover have "sorted_wrt (<) (map m_nSeq (m_recvList c'))"
    using strict rest by (simp add: sorted_wrt_drop flip: drop_map)
  ultimately show ?thesis by (simp add: gap_at_def)
qed

lemma receive_data_gap_fill:
  assumes num: "numbering base chunks" and p: "carries base chunks p"
    and c: "delivered base chunks taken k c" "waiting_ok base chunks c" "gap_at base got k c"
    and seq: "m_nSeq p = base + int k"
  shows "\<exists>k' c' es. receive_data addr p c = Inr (c', es) \<and> delivered base chunks taken k' c'
     \<and> gap_at base (insert k got) k' c'"
proof -
  have this_next: "m_nSeq p = m_nNextRecvSeq c" using c(1) seq by (simp add: delivered_def)
  obtain c1 es1 where c1: "accept_packet addr p c = Inr (c1, es1)"
      "delivered base chunks taken (Suc k) c1" "m_recvList c1 = m_recvList c"
    using accept_packet_delivered [OF num p c(1) this_next] by blast
  obtain k' c' es where d: "drain addr (m_recvList c) c1 = Inr (c', es)" "Suc k \<le> k'"
      "delivered base chunks taken k' c'" "m_recvList c' = drop (k' - Suc k) (m_recvList c)"
      "map m_nSeq (take (k' - Suc k) (m_recvList c)) = map (\<lambda>i. base + int i) [Suc k..<k']"
      "\<forall>p qs. m_recvList c' = p # qs \<longrightarrow> m_nSeq p \<noteq> base + int k'"
    using drain_spec [OF num _ c1(2), where addr = addr and ps = "m_recvList c"] c(2)
    by (auto simp: waiting_ok_def)
  have "gap_at base (insert k got) k' c'"
    using c(3) d(2,4,5,6) by (rule gap_move)
  then show ?thesis
    using this_next c1 d by (auto simp: receive_data_def)
qed

section \<open>Whole arrival sequences\<close>

lemma receive_all_delivered:
  assumes "numbering base chunks" and "\<forall>p \<in> set ps. carries base chunks p"
    and "delivered base chunks taken k c" and "waiting_ok base chunks c"
  shows "\<exists>k' c'. receive_all addr ps c = Inr c' \<and> k \<le> k'
     \<and> delivered base chunks taken k' c' \<and> waiting_ok base chunks c'"
  using assms(2-)
proof (induction ps arbitrary: k c)
  case (Cons p ps)
  then obtain k1 c1 es where "receive_data addr p c = Inr (c1, es)" "k \<le> k1"
      "delivered base chunks taken k1 c1" "waiting_ok base chunks c1"
    using receive_data_delivered [OF assms(1), where addr = addr] by (meson list.set_intros(1))
  moreover from this Cons.IH [of k1 c1] Cons.prems(1)
  obtain k' c' where "receive_all addr ps c1 = Inr c'" "k1 \<le> k'"
      "delivered base chunks taken k' c'" "waiting_ok base chunks c'"
    by auto
  ultimately show ?case by (intro exI [of _ k'] exI [of _ c']) simp
qed auto

definition index_of :: "int \<Rightarrow> DataPacket \<Rightarrow> nat" where
  "index_of base p = nat (m_nSeq p - base)"

lemma index_of_carries: "carries base chunks p \<Longrightarrow> m_nSeq p = base + int (index_of base p)"
  by (simp add: carries_def index_of_def)

lemma receive_data_gap:
  assumes num: "numbering base chunks" and p: "carries base chunks p"
    and c: "delivered base chunks taken k c" "waiting_ok base chunks c" "gap_at base got k c"
    and new: "index_of base p \<notin> got"
  shows "\<exists>k' c' es. receive_data addr p c = Inr (c', es) \<and> delivered base chunks taken k' c'
     \<and> waiting_ok base chunks c' \<and> gap_at base (insert (index_of base p) got) k' c'"
proof -
  obtain k1 c1 es1 where w: "receive_data addr p c = Inr (c1, es1)" "waiting_ok base chunks c1"
    using receive_data_delivered [OF num p c(1,2), where addr = addr] by blast
  have seq: "m_nSeq p = base + int (index_of base p)" using p by (rule index_of_carries)
  have ge: "k \<le> index_of base p"
    using c(3) new by (intro leI notI) (auto simp: gap_at_def)
  show ?thesis
  proof (cases "index_of base p = k")
    case True
    then show ?thesis
      using receive_data_gap_fill [OF num p c, where addr = addr] seq w by auto
  next
    case False
    then have "gap_at base (insert (index_of base p) got) k (c\<lparr>m_recvList := insert_packet p (m_recvList c)\<rparr>)"
      using receive_data_gap_wait [OF c(3) seq] ge new by simp
    moreover have "receive_data addr p c = Inr (c\<lparr>m_recvList := insert_packet p (m_recvList c)\<rparr>, [])"
      using c(1) seq ge False by (simp add: receive_data_def delivered_def)
    ultimately show ?thesis
      using w c(1) by (intro exI [of _ k]) (auto simp: delivered_def)
  qed
qed

lemma receive_all_gap:
  assumes "numbering base chunks" and "\<forall>p \<in> set ps. carries base chunks p"
    and "distinct (map (index_of base) ps)" and "got \<inter> index_of base ` set ps = {}"
    and "delivered base chunks taken k c" "waiting_ok base chunks c" "gap_at base got k c"
  shows "\<exists>k' c'. receive_all addr ps c = Inr c' \<and> delivered base chunks taken k' c'
     \<and> gap_at base (got \<union> index_of base ` set ps) k' c'"
  using assms(2-)
proof (induction ps arbitrary: k c got)
  case (Cons p ps)
  have "carries base chunks p" "index_of base p \<notin> got" using Cons.prems by auto
  from receive_data_gap [OF assms(1) this(1) Cons.prems(4-6) this(2), where addr = addr]
  obtain k1 c1 es where s: "receive_data addr p c = Inr (c1, es)" "delivered base chunks taken k1 c1"
      "waiting_ok base chunks c1" "gap_at base (insert (index_of base p) got) k1 c1"
    by blast
  have "insert (index_of base p) got \<inter> index_of base ` set ps = {}"
    using Cons.prems(2,3) by auto
  with Cons.IH [of "insert (index_of base p) got" k1 c1] Cons.prems(1,2) s
  show ?case by auto
qed auto

section \<open>Properties\<close>

text \<open>A connection that has just been established, at the first sequence number of the peer.\<close>

definition fresh_conn :: "int \<Rightarrow> Conn \<Rightarrow> bool" where
  "fresh_conn base c \<longleftrightarrow> m_nNextRecvSeq c = base \<and> m_recvList c = [] \<and> m_vtBuf (m_byteStream c) = []"

lemma fresh_conn_start:
  assumes "fresh_conn base c"
  shows "delivered base chunks [] 0 c" and "waiting_ok base chunks c" and "gap_at base {} 0 c"
  using assms by (auto simp: fresh_conn_def delivered_def waiting_ok_def gap_at_def)

text \<open>
  C12. In-order delivery: whatever packets of the sender's stream arrive at a fresh connection, in
  any order, with any of them lost and any repeated, the receiving thread handles them without
  an invalid access, and the bytes it delivers are the first \<open>k\<close> chunks of the stream, for the
  \<open>k\<close> its sequence counter stands at: nothing is reordered, repeated or invented.
\<close>

theorem receive_all_prefix:
  assumes "numbering base chunks" and "\<forall>p \<in> set ps. carries base chunks p" and "fresh_conn base c"
  shows "\<exists>k c'. receive_all addr ps c = Inr c' \<and> k \<le> length chunks
     \<and> m_nNextRecvSeq c' = base + int k \<and> m_vtBuf (m_byteStream c') = concat (take k chunks)"
  using receive_all_delivered [OF assms(1,2) fresh_conn_start(1,2) [OF assms(3)], where addr = addr]
  by (auto simp: delivered_def)

definition pkt_example :: "int \<Rightarrow> string \<Rightarrow> DataPacket" where
  "pkt_example seq txt = \<lparr>m_nType = 2, m_nSeq = seq, m_nLen = int (length txt), m_data = txt\<rparr>"

definition addr_example :: sockaddr where
  "addr_example = sockaddr_in 16777343 48661"

definition conn_example :: "int \<Rightarrow> Conn" where
  "conn_example base = Conn_init\<lparr>m_nNextRecvSeq := base\<rparr>"

lemma fresh_conn_example: "fresh_conn base (conn_example base)"
  by (simp add: fresh_conn_def conn_example_def Conn_init_def CByteStream_init_def)

lemma carries_example:
  "carries 1 [''a'', ''b'', ''c''] (pkt_example 1 ''a'')"
  "carries 1 [''a'', ''b'', ''c''] (pkt_example 2 ''b'')"
  "carries 1 [''a'', ''b'', ''c''] (pkt_example 3 ''c'')"
  by (simp_all add: carries_def pkt_example_def)

lemma index_of_example: "index_of base (pkt_example n txt) = nat (n - base)"
  by (simp add: index_of_def pkt_example_def)

theorem receive_all_prefix_witness:
  "\<exists>k c'. receive_all addr_example [pkt_example 2 ''b'', pkt_example 1 ''a'', pkt_example 2 ''b'']
       (conn_example 1) = Inr c' \<and> k \<le> length [''a'', ''b'', ''c'']
     \<and> m_nNextRecvSeq c' = 1 + int k \<and> m_vtBuf (m_byteStream c') = concat (take k [''a'', ''b'', ''c''])"
  by (rule receive_all_prefix) (auto simp: numbering_def carries_example fresh_conn_example)

text \<open>
  C13. Complete delivery: when every packet of the stream arrives exactly once, in any order, the
  whole stream is delivered, nothing is left waiting, and the receiver expects the next number.
\<close>

theorem receive_all_complete:
  assumes "numbering base chunks" and "\<forall>p \<in> set ps. carries base chunks p" and "fresh_conn base c"
    and "distinct (map (index_of base) ps)" and "index_of base ` set ps = {..<length chunks}"
  shows "\<exists>c'. receive_all addr ps c = Inr c' \<and> m_nNextRecvSeq c' = base + int (length chunks)
     \<and> m_vtBuf (m_byteStream c') = concat chunks \<and> m_recvList c' = []"
proof -
  obtain k c' where c': "receive_all addr ps c = Inr c'" "delivered base chunks [] k c'"
      "gap_at base {..<length chunks} k c'"
    using receive_all_gap [OF assms(1,2,4), where got = "{}" and taken = "[]" and k = 0 and c = c
        and addr = addr] fresh_conn_start [OF assms(3)] assms(5)
    by auto
  then have "k = length chunks"
    by (auto simp: gap_at_def delivered_def not_less)
  moreover have none: "{i. i < n \<and> n < i} = {}" for n :: nat by auto
  ultimately show ?thesis
    using c' by (simp add: delivered_def gap_at_def none)
qed

theorem receive_all_complete_witness:
  "\<exists>c'. receive_all addr_example [pkt_example 3 ''c'', pkt_example 1 ''a'', pkt_example 2 ''b'']
       (conn_example 1) = Inr c' \<and> m_nNextRecvSeq c' = 1 + int (length [''a'', ''b'', ''c''])
     \<and> m_vtBuf (m_byteStream c') = concat [''a'', ''b'', ''c''] \<and> m_recvList c' = []"
  by (rule receive_all_complete)
    (auto simp: numbering_def carries_example fresh_conn_example index_of_example)

end
