(* ===== verification/Segmentation.thy ===== *)
theory Segmentation
  imports TcpSocket
begin

text \<open>
  The sending half of \<open>CTcpSocket\<close>: how \<open>Send\<close> cuts a buffer into numbered packets, that the
  memory image of a packet put on the wire is read back unchanged, and what one pass of the
  sending thread transmits, keeps and locks.
\<close>

section \<open>Reference definitions\<close>

text \<open>A buffer cut into full pieces of \<open>DATA_LEN\<close> bytes and a shorter last one.\<close>

function segments :: "byte list \<Rightarrow> byte list list" where
  "segments bs = (if bs = [] then [] else take 1024 bs # segments (drop 1024 bs))"
  by pat_completeness auto
termination
  by (relation "measure length") auto

declare segments.simps [simp del]

text \<open>The nodes of a run of pieces, numbered from \<open>seq\<close>.\<close>

fun segment_nodes :: "sockaddr \<Rightarrow> int \<Rightarrow> byte list list \<Rightarrow> SendListNode list" where
  "segment_nodes addr seq [] = []"
| "segment_nodes addr seq (b # bs) =
     \<lparr>m_time = 0, m_addr = addr,
      m_packet = DataPkt \<lparr>m_nType = 2, m_nSeq = seq, m_nLen = int (length b), m_data = b\<rparr>\<rparr>
     # segment_nodes addr (seq + 1) bs"

text \<open>How often a lock is taken and not released in a sequence of effects.\<close>

fun held :: "lock_id \<Rightarrow> effect list \<Rightarrow> int" where
  "held l [] = 0"
| "held l (Lock l' # es) = (if l = l' then 1 else 0) + held l es"
| "held l (UnLock l' # es) = (if l = l' then - 1 else 0) + held l es"
| "held l (_ # es) = held l es"

fun datagrams :: "effect list \<Rightarrow> (sockaddr \<times> byte list) list" where
  "datagrams [] = []"
| "datagrams (Sendto a bs True # es) = (a, bs) # datagrams es"
| "datagrams (_ # es) = datagrams es"

section \<open>Segments\<close>

lemma segments_Nil [simp]: "segments [] = []"
  by (simp add: segments.simps)

lemma segments_step: "bs \<noteq> [] \<Longrightarrow> segments bs = take 1024 bs # segments (drop 1024 bs)"
  by (subst segments.simps) simp

lemma segments_short: "0 < length bs \<Longrightarrow> length bs \<le> 1024 \<Longrightarrow> segments bs = [bs]"
  by (simp add: segments_step)

lemma concat_segments: "concat (segments bs) = bs"
proof (induction bs rule: segments.induct)
  case (1 bs)
  then show ?case by (cases "bs = []") (simp_all add: segments_step)
qed

lemma segments_bounds: "b \<in> set (segments bs) \<Longrightarrow> 0 < length b \<and> length b \<le> 1024"
proof (induction bs rule: segments.induct)
  case (1 bs)
  then show ?case by (cases "bs = []") (auto simp: segments_step)
qed

lemma ceil_1024: "0 < n \<Longrightarrow> Suc ((n - 1024 + 1023) div 1024) = (n + 1023) div 1024" for n :: nat
proof (cases "n \<le> 1024")
  case True
  assume "0 < n"
  with True have "(n + 1023) div 1024 = 1" by (intro div_nat_eqI) auto
  with True show ?thesis by simp
next
  case False
  then have "n + 1023 = n - 1024 + 1023 + 1024" by simp
  then have "(n + 1023) div 1024 = (n - 1024 + 1023 + 1024) div 1024" by (rule arg_cong)
  moreover have "(x + 1024) div 1024 = Suc (x div 1024)" for x :: nat by simp
  ultimately show ?thesis by metis
qed

lemma length_segments: "length (segments bs) = (length bs + 1023) div 1024"
proof (induction bs rule: segments.induct)
  case (1 bs)
  then show ?case
    by (cases "bs = []") (simp_all add: segments_step ceil_1024 flip: length_greater_0_conv)
qed

text \<open>The full pieces that the loop of \<open>Send\<close> cuts off.\<close>

fun full_pieces :: "nat \<Rightarrow> byte list \<Rightarrow> byte list list" where
  "full_pieces 0 bs = []"
| "full_pieces (Suc m) bs = take 1024 bs # full_pieces m (drop 1024 bs)"

lemma length_full_pieces [simp]: "length (full_pieces m bs) = m"
  by (induction m arbitrary: bs) auto

lemma segments_take:
  "m * 1024 + r \<le> length bs \<Longrightarrow> r < 1024 \<Longrightarrow>
   segments (take (m * 1024 + r) bs)
     = full_pieces m bs @ (if r = 0 then [] else [take r (drop (m * 1024) bs)])"
proof (induction m arbitrary: bs)
  case 0
  then have "take r bs \<noteq> [] \<or> r = 0" by auto
  with 0 show ?case by (auto simp: segments_step)
next
  case (Suc m)
  let ?n = "m * 1024 + r"
  have "Suc m * 1024 + r = 1024 + ?n" by simp
  then have front: "take (Suc m * 1024 + r) bs = take 1024 bs @ take ?n (drop 1024 bs)"
    by (simp only: take_add)
  have len: "length (take 1024 bs) = 1024" and rest: "?n \<le> length (drop 1024 bs)"
    using Suc.prems by simp_all
  have "segments (take (Suc m * 1024 + r) bs) = take 1024 bs # segments (take ?n (drop 1024 bs))"
    unfolding front using len by (subst segments_step) auto
  with Suc.IH [OF rest Suc.prems(2)] show ?case
    by (simp only: full_pieces.simps append_Cons drop_drop) (simp add: add.commute)
qed

lemma segment_nodes_append:
  "segment_nodes addr seq (bs @ cs)
     = segment_nodes addr seq bs @ segment_nodes addr (seq + int (length bs)) cs"
  by (induction bs arbitrary: seq) (simp_all add: algebra_simps)

lemma segment_nodes_seqs:
  "map (\<lambda>n. ptr_seq (m_packet n)) (segment_nodes addr seq bs) = map (\<lambda>i. seq + int i) [0..<length bs]"
proof (induction bs arbitrary: seq)
  case (Cons b bs)
  have "[0..<length (b # bs)] = 0 # map Suc [0..<length bs]"
    by (metis length_Cons map_Suc_upt upt_conv_Cons zero_less_Suc)
  with Cons show ?case by (simp add: comp_def algebra_simps)
qed simp

section \<open>Send\<close>

lemma Send_loop_ok:
  assumes "todo * 1024 \<le> length pBuf" and "seq + int todo < 2 ^ 31" and "- (2 ^ 31) \<le> seq"
  shows "Send_loop addr todo pBuf seq
    = Inr (drop (todo * 1024) pBuf, seq + int todo, segment_nodes addr seq (full_pieces todo pBuf))"
  using assms
proof (induction todo arbitrary: pBuf seq)
  case (Suc todo)
  have "todo * 1024 \<le> length (drop 1024 pBuf)" "int32_range (seq + 1)" "1024 \<le> length pBuf"
    using Suc.prems by (auto simp: int32_range_def)
  with Suc.IH [of "drop 1024 pBuf" "seq + 1"] Suc.prems show ?case
    by (simp add: new_DataPacket_def DATA_LEN_def new_SendListNode_def algebra_simps)
qed simp

lemma nLen_split:
  fixes n :: int
  assumes "0 \<le> n"
  shows "nat n = nat (n sdiv DATA_LEN) * 1024 + nat (n smod DATA_LEN)"
    and "0 \<le> n smod DATA_LEN" and "nat (n smod DATA_LEN) < 1024"
proof -
  have eq: "n sdiv DATA_LEN = n div 1024" "n smod DATA_LEN = n mod 1024"
    using assms by (auto simp: DATA_LEN_def signed_divide_int_def smod_mod_positive sgn_if)
  show "nat n = nat (n sdiv DATA_LEN) * 1024 + nat (n smod DATA_LEN)"
    unfolding eq using assms
    by (simp add: nat_div_distrib nat_mod_distrib div_mult_mod_eq)
  show "0 \<le> n smod DATA_LEN" "nat (n smod DATA_LEN) < 1024"
    unfolding eq using assms by simp_all
qed

lemma Send_ok:
  fixes s :: CTcpSocket and pBuf :: "byte list" and addr :: sockaddr and nLen :: int
  defines "q \<equiv> m_nNextSendSeq (conn_of addr s)" and "bs \<equiv> segments (take (nat nLen) pBuf)"
  assumes len: "0 \<le> nLen" "nat nLen \<le> length pBuf"
    and seq: "- (2 ^ 31) \<le> q" "q + int (length bs) < 2 ^ 31" and tab: "table_ok s"
  shows "Send addr pBuf nLen s = Inr (nLen,
     set_conn addr ((conn_of addr s)\<lparr>m_nNextSendSeq := q + int (length bs)\<rparr>) (touch addr s)
       \<lparr>m_sendList := m_sendList s @ segment_nodes addr q bs\<rparr>,
     [Lock SendListLock, UnLock SendListLock])"
proof -
  let ?m = "nat (nLen sdiv DATA_LEN)" and ?r = "nLen smod DATA_LEN"
  note split = nLen_split [OF len(1)]
  have le: "?m * 1024 + nat ?r \<le> length pBuf" using len split(1) by simp
  have bs: "bs = full_pieces ?m pBuf @ (if nat ?r = 0 then [] else [take (nat ?r) (drop (?m * 1024) pBuf)])"
    unfolding bs_def split(1) using le split(3) by (rule segments_take)
  have fits: "q + int ?m < 2 ^ 31" "?r \<noteq> 0 \<Longrightarrow> int32_range (q + int ?m + 1)"
    using seq split(2) by (auto simp: bs int32_range_def split: if_splits)
  have loop: "Send_loop addr ?m pBuf q
      = Inr (drop (?m * 1024) pBuf, q + int ?m, segment_nodes addr q (full_pieces ?m pBuf))"
    using le fits(1) seq(1) by (intro Send_loop_ok) auto
  show ?thesis
  proof (cases "?r = 0")
    case True
    with loop bs show ?thesis by (simp add: Send_def Let_def tab q_def)
  next
    case False
    then have "new_DataPacket DATA (q + int ?m) ?r (drop (?m * 1024) pBuf)
        = Inr \<lparr>m_nType = 2, m_nSeq = q + int ?m, m_nLen = ?r, m_data = take (nat ?r) (drop (?m * 1024) pBuf)\<rparr>"
      using le split(2,3) unfolding new_DataPacket_def DATA_LEN_def by auto
    moreover have "min (length pBuf - ?m * 1024) (nat ?r) = nat ?r" using le by simp
    ultimately show ?thesis
      using False loop bs fits(2) split(2)
      by (simp add: Send_def Let_def tab q_def segment_nodes_append new_SendListNode_def
          add.commute [of 1] add.assoc)
  qed
qed

section \<open>Packets on the wire\<close>

lemma take_le32_append [codec_simps]:
  "4 \<le> n \<Longrightarrow> take n (le32 x @ bs) = le32 x @ take (n - 4) bs"
  "4 \<le> n \<Longrightarrow> drop n (le32 x @ bs) = drop (n - 4) bs"
  by simp_all

text \<open>A packet built by \<open>Send\<close>: its wire image is its header and exactly its payload.\<close>

lemma data_packet_bytes:
  assumes "int32_range seq" and "length b \<le> 1024"
  shows "DataPacket_bytes \<lparr>m_nType = 2, m_nSeq = seq, m_nLen = int (length b), m_data = b\<rparr>
      (Size \<lparr>m_nType = 2, m_nSeq = seq, m_nLen = int (length b), m_data = b\<rparr>)
    = Inr (le32 2 @ le32 seq @ le32 (int (length b)) @ b)"
proof -
  have "int32_range (12 + int (length b))" using assms by (simp add: int32_range_def)
  then show ?thesis
    by (simp add: DataPacket_bytes_def Size_def Let_def nat_add_distrib)
qed

lemma DataPacket_of_header:
  assumes "length b \<le> 1024"
  shows "DataPacket_of_bytes (le32 t @ le32 q @ le32 n @ b)
    = \<lparr>m_nType = wrap32 t, m_nSeq = wrap32 q, m_nLen = wrap32 n, m_data = b @ replicate (1024 - length b) NUL\<rparr>"
  using assms
  by (simp add: DataPacket_of_bytes_def sizeof_DataPacket_def DATA_LEN_def Let_def codec_simps)

lemma DataPacket_of_short:
  "m_nType (DataPacket_of_bytes (le32 t @ le32 q)) = wrap32 t"
  "m_nSeq (DataPacket_of_bytes (le32 t @ le32 q)) = wrap32 q"
  by (simp_all add: DataPacket_of_bytes_def sizeof_DataPacket_def DATA_LEN_def Let_def codec_simps)

lemma Packet_of_Packet_bytes:
  "int32_range (m_nType p) \<Longrightarrow> int32_range (m_nSeq p) \<Longrightarrow> Packet_of_bytes (Packet_bytes p) = p"
  by (simp add: Packet_of_bytes_def Packet_bytes_def sizeof_Packet_def Let_def codec_simps)

section \<open>The sending thread\<close>

text \<open>The four ways in which the first node of the list is handled.\<close>

lemma send_nodes_Cons:
  assumes "send_nodes clk ok k (n # ns) = Inr (v, ns', es)"
  obtains (wait) j ns1 where "\<not> (m_time n = 0 \<or> 1000 \<le> clk k - m_time n)"
      "send_nodes clk ok j ns = Inr (v, ns1, es)" "ns' = n # ns1"
  | (silent) j t ns1 where "node_datagram n = Inr None"
      "send_nodes clk ok j ns = Inr (v, ns1, es)" "ns' = n\<lparr>m_time := t\<rparr> # ns1"
  | (sent) bs j t ns1 es1 where "node_datagram n = Inr (Some bs)"
      "send_nodes clk ok j ns = Inr (v, ns1, es1)" "ns' = n\<lparr>m_time := t\<rparr> # ns1"
      "es = Sendto (m_addr n) bs True # es1"
  | (failed) bs where "v = Return" "ns' = n # ns"
      "es = [Sendto (m_addr n) bs False, PrintErr ''sendto'']"
proof (cases "m_time n = 0 \<or> 1000 \<le> clk k - m_time n")
  case False
  with assms wait show ?thesis by (auto simp: Let_def)
next
  case True
  with assms obtain d where d: "node_datagram n = Inr d" by (auto simp: Let_def)
  show ?thesis
  proof (cases d)
    case None
    with True d assms silent show ?thesis by (auto simp: Let_def)
  next
    case (Some bs)
    with True d assms sent failed show ?thesis by (auto simp: Let_def split: if_splits)
  qed
qed

text \<open>A pass rewrites time stamps only: addresses and packets of the list stay.\<close>

lemma send_nodes_keeps:
  "send_nodes clk ok k ns = Inr (v, ns', es) \<Longrightarrow>
   map (\<lambda>n. (m_addr n, m_packet n)) ns' = map (\<lambda>n. (m_addr n, m_packet n)) ns"
proof (induction ns arbitrary: k ns' es)
  case (Cons n ns)
  from Cons.prems show ?case
    by (cases rule: send_nodes_Cons) (use Cons.IH in auto)
qed simp

lemma held_append [simp]: "held l (es @ es') = held l es + held l es'"
  by (induction l es rule: held.induct) auto

lemma datagrams_append [simp]: "datagrams (es @ es') = datagrams es @ datagrams es'"
  by (induction es rule: datagrams.induct) auto

lemma send_nodes_held: "send_nodes clk ok k ns = Inr (v, ns', es) \<Longrightarrow> held l es = 0"
proof (induction ns arbitrary: k ns' es v)
  case (Cons n ns)
  from Cons.prems show ?case
    by (cases rule: send_nodes_Cons) (use Cons.IH in auto)
qed simp

text \<open>Everything a pass puts on the wire is the datagram of a node of the list.\<close>

lemma send_nodes_only_listed:
  assumes "send_nodes clk ok k ns = Inr (v, ns', es)" and "(a, bs) \<in> set (datagrams es)"
  shows "\<exists>n \<in> set ns. m_addr n = a \<and> node_datagram n = Inr (Some bs)"
  using assms
proof (induction ns arbitrary: k ns' es v)
  case (Cons n ns)
  from Cons.prems(1) show ?case
    by (cases rule: send_nodes_Cons) (use Cons.IH Cons.prems(2) in fastforce)+
qed simp

lemma send_nodes_transmits:
  assumes "send_nodes clk ok k ns = Inr (Continue, ns', es)" and "n \<in> set ns"
    and "node_datagram n = Inr (Some bs)" and "\<forall>j. T \<le> clk j"
    and "m_time n = 0 \<or> 1000 \<le> T - m_time n"
  shows "(m_addr n, bs) \<in> set (datagrams es)"
  using assms(1,2)
proof (induction ns arbitrary: k ns' es)
  case (Cons x xs)
  have due: "m_time n = 0 \<or> 1000 \<le> clk j - m_time n" for j
    using assms(4,5) by (metis diff_right_mono order_trans)
  from Cons.prems(1) show ?case
    by (cases rule: send_nodes_Cons) (use Cons.IH Cons.prems(2) assms(3) due in auto)
qed simp

lemma send_nodes_ok:
  assumes "\<forall>n \<in> set ns. is_ok (node_datagram n)"
  shows "\<exists>ns' es. send_nodes clk (\<lambda>_. True) k ns = Inr (Continue, ns', es)"
  using assms
proof (induction ns arbitrary: k)
  case (Cons n ns)
  then obtain d where d: "node_datagram n = Inr d" by (auto simp: is_ok_iff)
  obtain r e where "\<And>j. send_nodes clk (\<lambda>_. True) j ns = Inr (Continue, r j, e j)"
    using Cons by (metis list.set_intros(2))
  with d show ?case by (cases d) (simp_all add: Let_def)
qed simp

section \<open>Properties\<close>

text \<open>
  C17. \<open>Send\<close> cuts the first \<open>nLen\<close> bytes of the buffer into packets of 1 to 1024 bytes that carry
  consecutive sequence numbers from the connection's counter, appends them unsent and in order
  to the send list, advances the counter by their number, returns \<open>nLen\<close>, and touches no other
  connection.
\<close>

theorem Send_segments:
  fixes s :: CTcpSocket and pBuf :: "byte list" and addr :: sockaddr and nLen :: int
  defines "q \<equiv> m_nNextSendSeq (conn_of addr s)" and "bs \<equiv> segments (take (nat nLen) pBuf)"
  assumes "0 \<le> nLen" "nat nLen \<le> length pBuf"
    and "- (2 ^ 31) \<le> q" "q + int (length bs) < 2 ^ 31" and "table_ok s"
  shows "\<exists>s' es. Send addr pBuf nLen s = Inr (nLen, s', es)
     \<and> m_sendList s' = m_sendList s @ segment_nodes addr q bs
     \<and> concat bs = take (nat nLen) pBuf \<and> (\<forall>b \<in> set bs. 0 < length b \<and> length b \<le> 1024)
     \<and> m_nNextSendSeq (conn_of addr s') = q + int (length bs)
     \<and> (\<forall>a. a \<noteq> addr \<longrightarrow> conn_of a s' = conn_of a s)"
  using Send_ok [of nLen pBuf addr s] assms segments_bounds [of _ "take (nat nLen) pBuf"]
  by (auto simp: concat_segments)

theorem Send_segments_witness:
  "\<exists>s' es. Send (sockaddr_in 1 2) ''hello'' 5 CTcpSocket_init = Inr (5, s', es)
     \<and> m_sendList s' = segment_nodes (sockaddr_in 1 2) 0 [''hello'']
     \<and> m_nNextSendSeq (conn_of (sockaddr_in 1 2) s') = 1"
  using Send_segments [of 5 "''hello''" "sockaddr_in 1 2" CTcpSocket_init]
  by (auto simp: segments_short Conn_init_def)

text \<open>
  A negative length is not rejected: unless it is a multiple of 1024, \<open>Send\<close> builds a packet of
  negative length, whose copy is undefined; a negative multiple of 1024 is returned as if it had
  been sent, with nothing queued.
\<close>

theorem Send_negative:
  assumes "nLen < 0"
  shows "Send addr pBuf nLen s =
    (if nLen smod DATA_LEN \<noteq> 0 then Inl NegativeSize
     else Inr (nLen, set_conn addr (conn_of addr (touch addr s)) (touch addr s),
               [Lock SendListLock, UnLock SendListLock]))"
proof -
  have "nLen sdiv DATA_LEN \<le> 0" "nLen smod DATA_LEN \<le> 0"
    using assms by (auto simp: DATA_LEN_def signed_divide_int_def signed_modulo_int_def mult_le_0_iff sgn_if)
  then show ?thesis
    by (auto simp: Send_def Let_def new_DataPacket_def)
qed

theorem Send_negative_witness:
  "Send (sockaddr_in 1 2) ''hello'' (- 1) CTcpSocket_init = Inl NegativeSize"
  using Send_negative [of "- 1" "sockaddr_in 1 2" "''hello''" CTcpSocket_init]
  by (simp add: DATA_LEN_def smod_int_alt_def)


definition sock_one_node :: CTcpSocket where
  "sock_one_node = \<lparr>m_connectMap = [], m_sendList = segment_nodes (sockaddr_in 1 2) 7 [''hello'']\<rparr>"

lemma sock_one_node_pass:
  "SendThreadProc_pass (\<lambda>_. 5) (\<lambda>_. True) sock_one_node
     = Inr (Continue, sock_one_node\<lparr>m_sendList := map (m_time_update (\<lambda>_. 5)) (m_sendList sock_one_node)\<rparr>,
        [Lock SendListLock, Sendto (sockaddr_in 1 2) (le32 2 @ le32 7 @ le32 5 @ ''hello'') True,
         UnLock SendListLock])"
  by (simp add: SendThreadProc_pass_def sock_one_node_def node_datagram_def DataPacket_bytes_def Size_def
      int32_range_def Let_def)


text \<open>
  A failed \<open>sendto\<close> ends the sending thread with the send-list lock still taken (one \<open>Lock\<close>
  without its \<open>UnLock\<close>), while a completed pass releases what it took; no other lock is involved.
\<close>

lemma SendThread_lock_leak:
  assumes "SendThreadProc_pass clk ok s = Inr (v, s', es)"
  shows "held SendListLock es = (if v = Return then 1 else 0) \<and> (\<forall>l. l \<noteq> SendListLock \<longrightarrow> held l es = 0)"
  using assms send_nodes_held by (cases v) (fastforce simp: SendThreadProc_pass_def)+

end
