(* ===== verification/RecvThread.thy ===== *)
theory RecvThread
  imports Segmentation Reassembly
begin

text \<open>
  Whole passes of \<open>RecvThreadProc\<close>: what a datagram from one address may change, the lock
  discipline of the receiving thread, the effect of an acknowledgement, of a handshake packet
  on a connection that exists already, and of a length field that lies.
\<close>

section \<open>Branches of a pass\<close>

lemma type_code_simps [simp]:
  "type_code t = type_code u \<longleftrightarrow> t = u"
  by (cases t; cases u) simp_all

lemma int32_range_type_code [simp]: "int32_range (type_code t)"
  by (cases t) (simp_all add: int32_range_def)

lemma RecvThreadProc_cases:
  assumes "RecvThreadProc_pass (Some (bs, a)) ok s = Inr (v, s', es)"
  obtains (establish_1) "m_nType (DataPacket_of_bytes bs) = type_code ESTABLISH_1" "v = Continue"
      "on_establish_1 a (DataPacket_of_bytes bs) (touch a s) = (s', es)"
  | (establish_2) "m_nType (DataPacket_of_bytes bs) = type_code ESTABLISH_2"
      "on_establish_2 ok a (DataPacket_of_bytes bs) (touch a s) = (v, s', es)"
  | (data) "m_nType (DataPacket_of_bytes bs) = type_code DATA"
      "on_data ok a (DataPacket_of_bytes bs) (touch a s) = Inr (v, s', es)"
  | (ack) "m_nType (DataPacket_of_bytes bs) = type_code ACK" "v = Continue"
      "on_ack (DataPacket_of_bytes bs) (touch a s) = (s', es)"
  | (other) "v = Continue" "s' = touch a s" "es = []"
  using assms that
  by (auto simp: RecvThreadProc_pass_def Let_def simp del: type_code.simps split: if_splits prod.splits)

section \<open>Locks of the receiving thread\<close>

lemma accept_packet_held: "accept_packet a p c = Inr (c', es) \<Longrightarrow> held l es = 0"
  by (auto simp: accept_packet_def)

lemma drain_held: "drain a ps c = Inr (c', es) \<Longrightarrow> held l es = 0"
proof (induction a ps c arbitrary: c' es rule: drain.induct)
  case (2 a p ps c)
  then show ?case by (fastforce simp: accept_packet_held split: if_splits)
qed simp

lemma receive_data_held: "receive_data a p c = Inr (c', es) \<Longrightarrow> held l es = 0"
  by (auto simp: receive_data_def accept_packet_held drain_held split: if_splits)

section \<open>Acknowledgements\<close>

text \<open>With distinct sequence numbers in the list, an acknowledgement removes exactly its packet.\<close>

lemma erase_acked_absent:
  "q \<notin> set (map (\<lambda>n. ptr_seq (m_packet n)) ns) \<Longrightarrow> erase_acked q ns = ns"
  by (induction ns) auto

lemma erase_acked_filter:
  "distinct (map (\<lambda>n. ptr_seq (m_packet n)) ns) \<Longrightarrow>
   erase_acked q ns = filter (\<lambda>n. ptr_seq (m_packet n) \<noteq> q) ns"
proof (induction ns)
  case (Cons n ns)
  moreover have "filter (\<lambda>n. ptr_seq (m_packet n) \<noteq> q) ns = ns" if "ptr_seq (m_packet n) = q"
    using that Cons.prems by (auto simp: filter_id_conv image_iff)
  ultimately show ?case by auto
qed simp

definition ack_datagram :: "int \<Rightarrow> byte list" where
  "ack_datagram q = Packet_bytes (new_Packet ACK q)"

lemma pass_ack:
  assumes "int32_range q"
  shows "RecvThreadProc_pass (Some (ack_datagram q, a)) ok s
    = Inr (Continue, touch a s\<lparr>m_sendList := erase_acked q (m_sendList s)\<rparr>,
           [Lock SendListLock, UnLock SendListLock])"
  using assms
  by (simp add: RecvThreadProc_pass_def Let_def ack_datagram_def Packet_bytes_def new_Packet_def
      DataPacket_of_short on_ack_def int32_range_def)

text \<open>The first packet of a handshake: both counters restart and the answer is queued.\<close>

lemma pass_establish_1:
  assumes "int32_range q" "int32_range (q + 1)" and "table_ok s"
  shows "RecvThreadProc_pass (Some (Packet_bytes (new_Packet ESTABLISH_1 q), a)) ok s
    = Inr (Continue,
        set_conn a ((conn_of a s)\<lparr>m_nNextSendSeq := 1, m_nNextRecvSeq := q + 1\<rparr>) (touch a s)
          \<lparr>m_sendList := m_sendList s @ [\<lparr>m_time = 0, m_addr = a, m_packet = PlainPkt (new_Packet ESTABLISH_2 0)\<rparr>]\<rparr>,
        [Lock SendListLock, UnLock SendListLock])"
proof -
  have "int32_range 1" "int32_range 0" by (simp_all add: int32_range_def)
  then show ?thesis
    using assms
    by (cases "conn_of a s") (simp add: RecvThreadProc_pass_def Let_def Packet_bytes_def new_Packet_def
        DataPacket_of_short on_establish_1_def new_SendListNode_def)
qed

section \<open>Properties\<close>



text \<open>
  An acknowledgement removes exactly the packet with its number when the numbers in the send
  list are distinct, as they are while the socket talks to one peer; nothing else is changed.
\<close>

theorem ack_removes_exactly:
  assumes "int32_range q" and "distinct (map (\<lambda>n. ptr_seq (m_packet n)) (m_sendList s))" and "table_ok s"
  shows "\<exists>s' es. RecvThreadProc_pass (Some (ack_datagram q, a)) ok s = Inr (Continue, s', es)
     \<and> m_sendList s' = filter (\<lambda>n. ptr_seq (m_packet n) \<noteq> q) (m_sendList s)
     \<and> (\<forall>b. conn_of b s' = conn_of b s)"
  using assms by (simp add: pass_ack erase_acked_filter)

text \<open>
  C40. On a socket with several peers the acknowledgement is not matched with its sender: an \<open>ACK\<close>
  from any address removes the first queued packet with that number, whoever it was for, so the
  packet of another client is never retransmitted.
\<close>

theorem ack_crosses_connections:
  assumes "int32_range q" and "ptr_seq (m_packet n) = q"
    and "m_sendList s = n # ns" and "m_addr n = a" and "b \<noteq> a"
  shows "\<exists>s' es. RecvThreadProc_pass (Some (ack_datagram q, b)) ok s = Inr (Continue, s', es)
     \<and> m_sendList s' = ns"
  using assms by (simp add: pass_ack)

theorem ack_crosses_connections_witness:
  "\<exists>s' es. RecvThreadProc_pass (Some (ack_datagram 7, sockaddr_in 9 9)) True sock_one_node
       = Inr (Continue, s', es) \<and> m_sendList s' = []"
  using ack_crosses_connections [of 7 "hd (m_sendList sock_one_node)" sock_one_node "[]"
      "sockaddr_in 1 2" "sockaddr_in 9 9" True]
  by (simp add: int32_range_def sock_one_node_def)

text \<open>
  The length field of a datagram is trusted: a \<open>DATA\<close> packet with the expected number and a
  length above 1024 makes the receiving thread read past the packet's array.
\<close>

theorem data_length_overread:
  assumes "int32_range n" "1024 < n" and "int32_range q" and "table_ok s"
    and "m_nNextRecvSeq (conn_of a s) = q" and "length b \<le> 1024"
  shows "RecvThreadProc_pass (Some (le32 2 @ le32 q @ le32 n @ b, a)) True s = Inl OutOfBounds"
proof -
  have "int32_range 2" "\<not> nat n \<le> 1024" using assms(2) by (auto simp: int32_range_def)
  then show ?thesis
    using assms
    by (simp add: RecvThreadProc_pass_def Let_def DataPacket_of_header on_data_def receive_data_def
        accept_packet_def Write_eq)
qed

theorem data_length_overread_witness:
  "RecvThreadProc_pass (Some (le32 2 @ le32 0 @ le32 1025 @ ''x'', addr_example)) True CTcpSocket_init
     = Inl OutOfBounds"
  by (rule data_length_overread) (simp_all add: int32_range_def Conn_init_def)

text \<open>
  A first handshake packet on a connection that is in use resets both counters and keeps
  the stream and the out-of-order list, so that a repeated \<open>ESTABLISH_1\<close> makes the server accept
  packets again that it has already delivered.
\<close>

theorem establish_resets:
  assumes "int32_range q" "int32_range (q + 1)" and "table_ok s"
  shows "\<exists>s' es. RecvThreadProc_pass (Some (Packet_bytes (new_Packet ESTABLISH_1 q), a)) ok s
       = Inr (Continue, s', es)
     \<and> conn_of a s' = (conn_of a s)\<lparr>m_nNextSendSeq := 1, m_nNextRecvSeq := q + 1\<rparr>
     \<and> m_sendList s' = m_sendList s @ [\<lparr>m_time = 0, m_addr = a, m_packet = PlainPkt (new_Packet ESTABLISH_2 0)\<rparr>]"
  using assms by (simp add: pass_establish_1)

theorem establish_resets_witness:
  "\<exists>s' es. RecvThreadProc_pass (Some (Packet_bytes (new_Packet ESTABLISH_1 0), addr_example)) True
        (set_conn addr_example (conn_example 5) CTcpSocket_init) = Inr (Continue, s', es)
     \<and> conn_of addr_example s' = (conn_example 5)\<lparr>m_nNextSendSeq := 1, m_nNextRecvSeq := 1\<rparr>"
  using establish_resets [of 0 "set_conn addr_example (conn_example 5) CTcpSocket_init" addr_example True]
  by (auto simp: int32_range_def)

end
