(* ===== verification/TcpServer.thy ===== *)
theory TcpServer
  imports RecvThread
begin

text \<open>
  \<open>TcpSocketDll/CTcpServer\<close>: opening the port, choosing a connection with unread data
  (\<open>Select\<close>) and giving it back (\<open>UnSelect\<close>). The status of a connection (0 no data, 1 data,
  2 being served) is shared by the receiving thread and the server thread; its protocol is a
  step relation whose steps are the code's lock-protected sections.
\<close>

section \<open>Listen\<close>

text \<open>
  \<open>sock_ok\<close> and \<open>bind_ok\<close> are the outcomes of \<open>socket\<close> and \<open>bind\<close> for the requested address.
\<close>

definition Listen :: "bool \<Rightarrow> bool \<Rightarrow> bool \<times> effect list" where
  "Listen sock_ok bind_ok =
     (if \<not> sock_ok then (False, [PrintErr ''socket init''])
      else if \<not> bind_ok then (False, [PrintErr ''bind''])
      else (True, [StartThread SendThreadProc, StartThread RecvThreadProc]))"

section \<open>Select and UnSelect\<close>

text \<open>The scan of the table: the first connection with status 1 is taken.\<close>

fun Select_scan :: "conn_map \<Rightarrow> (sockaddr \<times> conn_map) option" where
  "Select_scan [] = None"
| "Select_scan ((a, c) # m) =
     (if m_nStatus c = 1 then Some (a, (a, c\<lparr>m_nStatus := 2\<rparr>) # m)
      else map_option (\<lambda>(b, m'). (b, (a, c) # m')) (Select_scan m))"

text \<open>\<open>None\<close>: no connection has data, the loop sleeps and scans again.\<close>

definition Select :: "CTcpSocket \<Rightarrow> (sockaddr \<times> CTcpSocket) option" where
  "Select s = map_option (\<lambda>(a, m). (a, s\<lparr>m_connectMap := m\<rparr>)) (Select_scan (m_connectMap s))"

definition UnSelect_conn :: "Conn \<Rightarrow> Conn" where
  "UnSelect_conn c =
     (if GetSize (m_byteStream c) \<noteq> 0 then c\<lparr>m_nStatus := 1\<rparr> else c\<lparr>m_nStatus := 0\<rparr>)"

definition UnSelect :: "sockaddr \<Rightarrow> CTcpSocket \<Rightarrow> CTcpSocket \<times> effect list" where
  "UnSelect addr s0 =
     (let s = touch addr s0
      in (set_conn addr (UnSelect_conn (conn_of addr s)) s,
          [Lock (StatusLock addr), UnLock (StatusLock addr)]))"

section \<open>The status protocol\<close>

text \<open>
  One connection seen by both threads. The receiving thread appends a packet under the stream
  lock (\<open>Write\<close>) and then raises the status under the status lock (\<open>mark_readable\<close>);
  \<open>appended\<close> says it is between the two. The server thread takes the connection, reads from it
  while it is its own, and gives it back.
\<close>

record status_view =
  sv_conn :: Conn
  appended :: bool

inductive status_step :: "status_view \<Rightarrow> status_view \<Rightarrow> bool" where
  append: "\<not> appended v \<Longrightarrow> Write bytes n (m_byteStream (sv_conn v)) = Inr bs \<Longrightarrow>
     status_step v \<lparr>sv_conn = (sv_conn v)\<lparr>m_byteStream := bs\<rparr>, appended = True\<rparr>"
| mark: "appended v \<Longrightarrow>
     status_step v \<lparr>sv_conn = mark_readable (sv_conn v), appended = False\<rparr>"
| select: "m_nStatus (sv_conn v) = 1 \<Longrightarrow>
     status_step v (v\<lparr>sv_conn := (sv_conn v)\<lparr>m_nStatus := 2\<rparr>\<rparr>)"
| read: "m_nStatus (sv_conn v) = 2 \<Longrightarrow> Read buf n (m_byteStream (sv_conn v)) = Inr (buf', bs) \<Longrightarrow>
     status_step v (v\<lparr>sv_conn := (sv_conn v)\<lparr>m_byteStream := bs\<rparr>\<rparr>)"
| unselect: "m_nStatus (sv_conn v) = 2 \<Longrightarrow>
     status_step v (v\<lparr>sv_conn := UnSelect_conn (sv_conn v)\<rparr>)"

inductive_cases status_stepE: "status_step v w"

text \<open>
  A connection that is marked as having no data has none, unless the receiving thread is about
  to mark it.
\<close>

definition no_lost_data :: "status_view \<Rightarrow> bool" where
  "no_lost_data v \<longleftrightarrow>
     m_nStatus (sv_conn v) \<in> {0, 1, 2}
     \<and> (m_nStatus (sv_conn v) = 0 \<and> \<not> appended v \<longrightarrow> GetSize (m_byteStream (sv_conn v)) = 0)"

lemma status_step_keeps: "status_step v w \<Longrightarrow> no_lost_data v \<Longrightarrow> no_lost_data w"
  by (elim status_stepE) (auto simp: no_lost_data_def mark_readable_def UnSelect_conn_def)

interpretation status: step_invariant status_step no_lost_data
  by unfold_locales (rule status_step_keeps)

section \<open>Lemmas on the scan\<close>

lemma Select_scan_None: "Select_scan m = None \<longleftrightarrow> (\<forall>(a, c) \<in> set m. m_nStatus c \<noteq> 1)"
  by (induction m rule: Select_scan.induct) auto

lemma Select_scan_Some:
  assumes "Select_scan m = Some (a, m')" and "map_sorted m"
  shows "map fst m' = map fst m \<and> m_nStatus (map_get a m) = 1
     \<and> map_get a m' = (map_get a m)\<lparr>m_nStatus := 2\<rparr> \<and> a \<in> fst ` set m
     \<and> (\<forall>b. b \<noteq> a \<longrightarrow> map_get b m' = map_get b m)
     \<and> (\<forall>b \<in> fst ` set m. b < a \<longrightarrow> m_nStatus (map_get b m) \<noteq> 1)"
  using assms
proof (induction m arbitrary: m' rule: Select_scan.induct)
  case (2 k c m)
  show ?case
  proof (cases "m_nStatus c = 1")
    case True
    with "2.prems" show ?thesis by (auto simp: map_sorted_def)
  next
    case False
    with "2.prems"(1) obtain m1 where m1: "Select_scan m = Some (a, m1)" "m' = (k, c) # m1"
      by auto
    have sorted: "map_sorted m" "\<forall>x \<in> fst ` set m. k < x"
      using "2.prems"(2) by (auto simp: map_sorted_def)
    note IH = "2.IH" [OF False m1(1) sorted(1)]
    then have "k \<noteq> a" using sorted(2) by auto
    with IH False m1 sorted show ?thesis by auto
  qed
qed simp

section \<open>Properties\<close>

text \<open>
  No lost wake-up: however the receiving thread's two sections interleave with \<open>Select\<close>,
  \<open>Recv\<close> and \<open>UnSelect\<close>, the status stays 0, 1 or 2, and a connection with status 0 whose data
  has been marked holds no unread byte; so \<open>Select\<close> never overlooks data for good.
\<close>

lemma status_no_lost_wakeup:
  assumes "status_step\<^sup>*\<^sup>* \<lparr>sv_conn = Conn_init, appended = False\<rparr> v"
  shows "m_nStatus (sv_conn v) \<in> {0, 1, 2}
     \<and> (m_nStatus (sv_conn v) = 0 \<and> \<not> appended v \<longrightarrow> GetSize (m_byteStream (sv_conn v)) = 0)"
proof -
  have "no_lost_data \<lparr>sv_conn = Conn_init, appended = False\<rparr>"
    by (simp add: no_lost_data_def Conn_init_def GetSize_def CByteStream_init_def int32_range_def)
  then have "no_lost_data v" using assms by (rule status.reachable_invar)
  then show ?thesis by (simp add: no_lost_data_def)
qed

text \<open>
  \<open>Select\<close> returns the connection with the least address among those with status 1, changes
  only that connection, from 1 to 2, and keeps waiting exactly when there is none.
\<close>

theorem Select_least:
  assumes "table_ok s"
  shows "case Select s of
      None \<Rightarrow> \<forall>(a, c) \<in> set (m_connectMap s). m_nStatus c \<noteq> 1
    | Some (a, s') \<Rightarrow> table_ok s' \<and> a \<in> fst ` set (m_connectMap s) \<and> m_nStatus (conn_of a s) = 1
        \<and> conn_of a s' = (conn_of a s)\<lparr>m_nStatus := 2\<rparr> \<and> (\<forall>b. b \<noteq> a \<longrightarrow> conn_of b s' = conn_of b s)
        \<and> (\<forall>b \<in> fst ` set (m_connectMap s). b < a \<longrightarrow> m_nStatus (conn_of b s) \<noteq> 1)
        \<and> m_sendList s' = m_sendList s"
proof (cases "Select_scan (m_connectMap s)")
  case None
  then show ?thesis
    using Select_scan_None [of "m_connectMap s"] by (simp add: Select_def)
next
  case (Some x)
  then obtain a m' where m': "Select_scan (m_connectMap s) = Some (a, m')" by (cases x) auto
  have "map_sorted (m_connectMap s)" using assms by (simp add: table_ok_def)
  from Select_scan_Some [OF m' this] this m' show ?thesis
    by (auto simp: Select_def conn_of_def table_ok_def map_sorted_def)
qed

end
