(* ===== verification/Sections.thy ===== *)
theory Sections
  imports TcpServer
begin

text \<open>
  The receiving branch of \<open>RecvThreadProc\<close> statement by statement, for one connection. The thread holds the lock of the
  stream and that of the status only for single statements, and \<open>Recv\<close> polls the size without a lock, so the application
  reads between the writes of one pass. The theorems: run alone, the sections are the pass that the other theories use,
  and in every interleaving with the application nothing leaves its bounds and the stream stays right.
\<close>

section \<open>The receiving thread\<close>

text \<open>Where the thread is: in \<open>recvfrom\<close>, or before the statement that the constructor names.\<close>

datatype rcv_pc =
    RWait
  | RCompare DataPacket
  | RWrite DataPacket
  | RStatus
  | RCount
  | RLoop
  | RLoopWrite
  | RLoopCount
  | RLoopStatus
  | RErase
  | RInsert DataPacket

fun rcv_section :: "sockaddr \<Rightarrow> rcv_pc \<Rightarrow> Conn \<Rightarrow> (rcv_pc \<times> Conn \<times> effect list) result" where
  "rcv_section a RWait c = Inr (RWait, c, [])"
| "rcv_section a (RCompare p) c =
     (if m_nSeq p = m_nNextRecvSeq c then Inr (RWrite p, c, [])
      else if m_nNextRecvSeq c < m_nSeq p then Inr (RInsert p, c, [])
      else Inr (RWait, c, []))"
| "rcv_section a (RWrite p) c =
     and_then (Write (m_data p) (m_nLen p) (m_byteStream c)) (\<lambda>bs.
       Inr (RStatus, c\<lparr>m_byteStream := bs\<rparr>, [Lock (ByteStreamLock a), UnLock (ByteStreamLock a)]))"
| "rcv_section a RStatus c = Inr (RCount, mark_readable c, [Lock (StatusLock a), UnLock (StatusLock a)])"
| "rcv_section a RCount c = Inr (RLoop, c\<lparr>m_nNextRecvSeq := wrap32 (m_nNextRecvSeq c + 1)\<rparr>, [])"
| "rcv_section a RLoop c =
     (case m_recvList c of
        [] \<Rightarrow> Inr (RWait, c, [])
      | q # qs \<Rightarrow> Inr (if m_nSeq q = m_nNextRecvSeq c then RLoopWrite else RWait, c, []))"
| "rcv_section a RLoopWrite c =
     (case m_recvList c of
        [] \<Rightarrow> Inl OutOfBounds
      | q # qs \<Rightarrow>
          and_then (Write (m_data q) (m_nLen q) (m_byteStream c)) (\<lambda>bs.
            Inr (RLoopCount, c\<lparr>m_byteStream := bs\<rparr>, [Lock (ByteStreamLock a), UnLock (ByteStreamLock a)])))"
| "rcv_section a RLoopCount c = Inr (RLoopStatus, c\<lparr>m_nNextRecvSeq := wrap32 (m_nNextRecvSeq c + 1)\<rparr>, [])"
| "rcv_section a RLoopStatus c = Inr (RErase, mark_readable c, [Lock (StatusLock a), UnLock (StatusLock a)])"
| "rcv_section a RErase c =
     (case m_recvList c of
        [] \<Rightarrow> Inl OutOfBounds
      | q # qs \<Rightarrow> Inr (RLoop, c\<lparr>m_recvList := qs\<rparr>, []))"
| "rcv_section a (RInsert p) c = Inr (RWait, c\<lparr>m_recvList := insert_packet p (m_recvList c)\<rparr>, [])"

text \<open>The thread alone, until it waits again; \<open>None\<close> would be that it never does.\<close>

partial_function (option) rcv_run ::
    "sockaddr \<Rightarrow> rcv_pc \<Rightarrow> Conn \<Rightarrow> (Conn \<times> effect list) result option" where
  "rcv_run a pc c =
     (if pc = RWait then Some (Inr (c, []))
      else (case rcv_section a pc c of
              Inl e \<Rightarrow> Some (Inl e)
            | Inr (pc', c', es) \<Rightarrow>
                Option.bind (rcv_run a pc' c') (\<lambda>r.
                  Some (and_then r (\<lambda>(c'', es'). Inr (c'', es @ es'))))))"

lemma rcv_run_wait [simp]: "rcv_run a RWait c = Some (Inr (c, []))"
  by (simp add: rcv_run.simps)

lemma rcv_run_step:
  "pc \<noteq> RWait \<Longrightarrow> rcv_section a pc c = Inr (pc', c', es) \<Longrightarrow> rcv_run a pc' c' = Some r \<Longrightarrow>
   rcv_run a pc c = Some (and_then r (\<lambda>(c'', es'). Inr (c'', es @ es')))"
  by (subst rcv_run.simps) simp

lemma rcv_run_fault: "pc \<noteq> RWait \<Longrightarrow> rcv_section a pc c = Inl e \<Longrightarrow> rcv_run a pc c = Some (Inl e)"
  by (subst rcv_run.simps) simp

section \<open>Run alone it is the pass\<close>

text \<open>Accepting a packet and draining do not look at the list the packet came from.\<close>

lemma accept_list:
  "accept_packet a p (c\<lparr>m_recvList := l\<rparr>) = and_then (accept_packet a p c) (\<lambda>(c', es). Inr (c'\<lparr>m_recvList := l\<rparr>, es))"
  by (cases c) (simp add: accept_packet_def mark_readable_def Write_eq)

lemma drain_list: "drain a ps (c\<lparr>m_recvList := l\<rparr>) = drain a ps c"
proof (induction ps arbitrary: c)
  case (Cons p ps)
  show ?case
    by (cases "accept_packet a p c") (auto simp: accept_list Cons.IH)
qed simp

lemma accept_packet_keeps: "accept_packet a p c = Inr (c', es) \<Longrightarrow> m_recvList c' = m_recvList c"
  by (auto simp: accept_packet_def mark_readable_def)

text \<open>One turn of the loop: the statements between two tests are \<open>accept_packet\<close> and the erasure.\<close>

lemma rcv_run_turn:
  assumes "m_recvList c = q # qs" and "m_nSeq q = m_nNextRecvSeq c"
  shows "accept_packet a q c = Inl e \<Longrightarrow> rcv_run a RLoop c = Some (Inl e)"
    and "accept_packet a q c = Inr (c', es) \<Longrightarrow> rcv_run a RLoop (c'\<lparr>m_recvList := qs\<rparr>) = Some r \<Longrightarrow>
      rcv_run a RLoop c = Some (and_then r (\<lambda>(c'', es'). Inr (c'', es @ es')))"
proof -
  assume "accept_packet a q c = Inl e"
  then have "rcv_section a RLoopWrite c = Inl e" using assms by (auto simp: accept_packet_def Write_eq split: if_splits)
  then have "rcv_run a RLoopWrite c = Some (Inl e)" by (intro rcv_run_fault) simp
  then show "rcv_run a RLoop c = Some (Inl e)" using rcv_run_step [of RLoop a c RLoopWrite c "[]"] assms by simp
next
  assume acc: "accept_packet a q c = Inr (c', es)" and rest: "rcv_run a RLoop (c'\<lparr>m_recvList := qs\<rparr>) = Some r"
  then obtain bs where bs: "Write (m_data q) (m_nLen q) (m_byteStream c) = Inr bs"
      "c' = mark_readable (c\<lparr>m_byteStream := bs\<rparr>)\<lparr>m_nNextRecvSeq := wrap32 (m_nNextRecvSeq c + 1)\<rparr>"
      "es = [Lock (ByteStreamLock a), UnLock (ByteStreamLock a), Lock (StatusLock a), UnLock (StatusLock a)]"
    by (auto simp: accept_packet_def)
  let ?c1 = "c\<lparr>m_byteStream := bs\<rparr>"
  let ?c2 = "?c1\<lparr>m_nNextRecvSeq := wrap32 (m_nNextRecvSeq c + 1)\<rparr>"
  have erase: "rcv_run a RErase (mark_readable ?c2) = Some r"
    using rcv_run_step [of RErase a "mark_readable ?c2" RLoop "c'\<lparr>m_recvList := qs\<rparr>" "[]" r] rest assms(1)
    by (cases c; cases r) (simp_all add: bs(2) mark_readable_def)
  note status = rcv_run_step [of RLoopStatus a ?c2 RErase "mark_readable ?c2" _ r, OF _ _ erase]
  note count = rcv_run_step [of RLoopCount a ?c1 RLoopStatus ?c2 "[]", OF _ _ status]
  note wr = rcv_run_step [of RLoopWrite a c RLoopCount ?c1, OF _ _ count]
  note loop = rcv_run_step [of RLoop a c RLoopWrite c "[]", OF _ _ wr]
  show "rcv_run a RLoop c = Some (and_then r (\<lambda>(c'', es'). Inr (c'', es @ es')))"
    using loop assms bs(1,3) by (cases r) auto
qed

lemma rcv_run_loop: "m_recvList c = ps \<Longrightarrow> rcv_run a RLoop c = Some (drain a ps c)"
proof (induction ps arbitrary: c)
  case Nil
  then show ?case using rcv_run_step [of RLoop a c RWait c "[]"] by (cases c) simp
next
  case (Cons p ps)
  show ?case
  proof (cases "m_nSeq p = m_nNextRecvSeq c")
    case True
    show ?thesis
    proof (cases "accept_packet a p c")
      case (Inl e)
      then show ?thesis using rcv_run_turn(1) [OF Cons.prems True] True by simp
    next
      case (Inr x)
      obtain c' es where x: "accept_packet a p c = Inr (c', es)" using Inr by (cases x) auto
      have "rcv_run a RLoop (c'\<lparr>m_recvList := ps\<rparr>) = Some (drain a ps c')"
        using Cons.IH [of "c'\<lparr>m_recvList := ps\<rparr>"] by (simp add: drain_list)
      from rcv_run_turn(2) [OF Cons.prems True x this] x True show ?thesis by simp
    qed
  next
    case False
    then show ?thesis using rcv_run_step [of RLoop a c RWait c "[]"] Cons.prems by (cases c) simp
  qed
qed

lemma rcv_run_first:
  assumes "m_nSeq p = m_nNextRecvSeq c"
  shows "rcv_run a (RWrite p) c = Some (and_then (accept_packet a p c) (\<lambda>(c', es).
      and_then (drain a (m_recvList c') c') (\<lambda>(c'', es'). Inr (c'', es @ es'))))"
proof (cases "Write (m_data p) (m_nLen p) (m_byteStream c)")
  case (Inl e)
  then show ?thesis using rcv_run_fault [of "RWrite p" a c e] by (simp add: accept_packet_def)
next
  case (Inr bs)
  let ?c1 = "c\<lparr>m_byteStream := bs\<rparr>"
  let ?c3 = "mark_readable ?c1\<lparr>m_nNextRecvSeq := wrap32 (m_nNextRecvSeq c + 1)\<rparr>"
  let ?r = "drain a (m_recvList ?c3) ?c3"
  have count: "rcv_run a RCount (mark_readable ?c1) = Some ?r"
    using rcv_run_step [of RCount a "mark_readable ?c1" RLoop ?c3 "[]", OF _ _ rcv_run_loop [OF refl]]
    by (cases ?r) (auto simp: mark_readable_def)
  note status = rcv_run_step [of RStatus a ?c1 RCount "mark_readable ?c1", OF _ _ count]
  note wr = rcv_run_step [of "RWrite p" a c RStatus ?c1, OF _ _ status]
  show ?thesis using wr Inr by (cases ?r) (auto simp: accept_packet_def)
qed

section \<open>The application beside it\<close>

text \<open>
  \<open>Recv\<close>: the application calls it with a buffer, polls the size until it is not zero, and reads that much or the length of
  its buffer under the lock. \<open>sec_taken\<close> is what it has read.
\<close>

datatype app_pc = AIdle | APoll "byte list" int | ARead int "byte list" int

record sections =
  sec_conn :: Conn
  rcv_at :: rcv_pc
  app_at :: app_pc
  sec_taken :: "byte list"

inductive sec_step :: "(DataPacket \<Rightarrow> bool) \<Rightarrow> sockaddr \<Rightarrow> sections \<Rightarrow> sections \<Rightarrow> bool" for arrives a where
  sec_arrive: "rcv_at s = RWait \<Longrightarrow> arrives p \<Longrightarrow> sec_step arrives a s (s\<lparr>rcv_at := RCompare p\<rparr>)"
| sec_rcv: "rcv_at s \<noteq> RWait \<Longrightarrow> rcv_section a (rcv_at s) (sec_conn s) = Inr (pc, c, es) \<Longrightarrow>
     sec_step arrives a s (s\<lparr>rcv_at := pc, sec_conn := c\<rparr>)"
| sec_call: "app_at s = AIdle \<Longrightarrow> 0 \<le> n \<Longrightarrow> nat n \<le> length buf \<Longrightarrow> sec_step arrives a s (s\<lparr>app_at := APoll buf n\<rparr>)"
| sec_poll: "app_at s = APoll buf n \<Longrightarrow> GetSize (m_byteStream (sec_conn s)) \<noteq> 0 \<Longrightarrow>
     sec_step arrives a s (s\<lparr>app_at := ARead (GetSize (m_byteStream (sec_conn s))) buf n\<rparr>)"
| sec_read: "app_at s = ARead k buf n \<Longrightarrow> Read buf (min k n) (m_byteStream (sec_conn s)) = Inr (buf', bs) \<Longrightarrow>
     sec_step arrives a s (s\<lparr>sec_conn := (sec_conn s)\<lparr>m_byteStream := bs\<rparr>, app_at := AIdle,
       sec_taken := sec_taken s @ take (nat (min k n)) buf'\<rparr>)"
| sec_select: "m_nStatus (sec_conn s) = 1 \<Longrightarrow> sec_step arrives a s (s\<lparr>sec_conn := (sec_conn s)\<lparr>m_nStatus := 2\<rparr>\<rparr>)"
| sec_unselect: "m_nStatus (sec_conn s) = 2 \<Longrightarrow> sec_step arrives a s (s\<lparr>sec_conn := UnSelect_conn (sec_conn s)\<rparr>)"

inductive_cases sec_stepE: "sec_step arrives a s t"

text \<open>How many pieces are in the stream: the counter, and one more while a written piece is not counted.\<close>

definition uncounted :: "rcv_pc \<Rightarrow> nat" where
  "uncounted pc = (if pc \<in> {RStatus, RCount, RLoopCount} then 1 else 0)"

definition sec_stream :: "int \<Rightarrow> byte list list \<Rightarrow> sections \<Rightarrow> bool" where
  "sec_stream base chunks s \<longleftrightarrow> (\<exists>k. k + uncounted (rcv_at s) \<le> length chunks
     \<and> m_nNextRecvSeq (sec_conn s) = base + int k
     \<and> sec_taken s @ m_vtBuf (m_byteStream (sec_conn s)) = concat (take (k + uncounted (rcv_at s)) chunks))"

text \<open>What the thread knows where it is.\<close>

fun rcv_knows :: "int \<Rightarrow> byte list list \<Rightarrow> rcv_pc \<Rightarrow> Conn \<Rightarrow> bool" where
  "rcv_knows base chunks (RCompare p) c = carries base chunks p"
| "rcv_knows base chunks (RWrite p) c = (carries base chunks p \<and> m_nSeq p = m_nNextRecvSeq c)"
| "rcv_knows base chunks (RInsert p) c = carries base chunks p"
| "rcv_knows base chunks RLoopWrite c = (m_recvList c \<noteq> [] \<and> m_nSeq (hd (m_recvList c)) = m_nNextRecvSeq c)"
| "rcv_knows base chunks RLoopCount c = (m_recvList c \<noteq> [])"
| "rcv_knows base chunks RLoopStatus c = (m_recvList c \<noteq> [])"
| "rcv_knows base chunks RErase c = (m_recvList c \<noteq> [])"
| "rcv_knows base chunks pc c = True"

fun app_knows :: "app_pc \<Rightarrow> Conn \<Rightarrow> bool" where
  "app_knows AIdle c = True"
| "app_knows (APoll buf n) c = (0 \<le> n \<and> nat n \<le> length buf)"
| "app_knows (ARead k buf n) c =
     (0 \<le> n \<and> nat n \<le> length buf \<and> 0 < k \<and> k \<le> int (length (m_vtBuf (m_byteStream c))))"

text \<open>A connection that is marked as empty is empty, unless the thread is on its way to mark it.\<close>

definition sec_marked :: "sections \<Rightarrow> bool" where
  "sec_marked s \<longleftrightarrow> m_nStatus (sec_conn s) \<in> {0, 1, 2} \<and> (m_nStatus (sec_conn s) = 0 \<longrightarrow>
     m_vtBuf (m_byteStream (sec_conn s)) = [] \<or> rcv_at s \<in> {RStatus, RLoopCount, RLoopStatus})"

definition sec_inv :: "int \<Rightarrow> byte list list \<Rightarrow> sections \<Rightarrow> bool" where
  "sec_inv base chunks s \<longleftrightarrow> sec_stream base chunks s \<and> rcv_knows base chunks (rcv_at s) (sec_conn s)
     \<and> (\<forall>p \<in> set (m_recvList (sec_conn s)). carries base chunks p) \<and> app_knows (app_at s) (sec_conn s) \<and> sec_marked s"

section \<open>Every statement keeps the invariant\<close>

text \<open>The write of the packet that is next.\<close>

lemma sec_write:
  assumes num: "numbering base chunks" and s: "sec_stream base chunks s" "uncounted (rcv_at s) = 0"
    and p: "carries base chunks p" "m_nSeq p = m_nNextRecvSeq (sec_conn s)" and pc: "uncounted pc = 1"
  obtains bs where "Write (m_data p) (m_nLen p) (m_byteStream (sec_conn s)) = Inr bs"
    "m_vtBuf bs = m_vtBuf (m_byteStream (sec_conn s)) @ take (nat (m_nLen p)) (m_data p)"
    "sec_stream base chunks (s\<lparr>rcv_at := pc, sec_conn := (sec_conn s)\<lparr>m_byteStream := bs\<rparr>\<rparr>)"
proof -
  obtain k where k: "m_nNextRecvSeq (sec_conn s) = base + int k" "k \<le> length chunks"
      "sec_taken s @ m_vtBuf (m_byteStream (sec_conn s)) = concat (take k chunks)"
    using s by (auto simp: sec_stream_def)
  have less: "k < length chunks" using p k(1) by (auto simp: carries_def)
  have data: "nat (m_nLen p) \<le> length (m_data p)" "take (nat (m_nLen p)) (m_data p) = chunks ! k"
    using p k(1) by (auto simp: carries_def prefix_def)
  let ?bs = "(m_byteStream (sec_conn s))\<lparr>m_vtBuf := m_vtBuf (m_byteStream (sec_conn s)) @ chunks ! k\<rparr>"
  have "sec_taken s @ m_vtBuf ?bs = concat (take (Suc k) chunks)"
    using k(3) less by (simp add: take_Suc_conv_app_nth flip: append_assoc)
  then have "sec_stream base chunks (s\<lparr>rcv_at := pc, sec_conn := (sec_conn s)\<lparr>m_byteStream := ?bs\<rparr>\<rparr>)"
    using k(1) less pc by (auto simp: sec_stream_def intro!: exI [of _ k])
  then show ?thesis using data by (intro that [of ?bs]) (simp_all add: Write_eq)
qed

lemma sec_count:
  assumes num: "numbering base chunks" and s: "sec_stream base chunks s" "uncounted (rcv_at s) = 1"
    and pc: "uncounted pc = 0"
  shows "sec_stream base chunks (s\<lparr>rcv_at := pc,
    sec_conn := (sec_conn s)\<lparr>m_nNextRecvSeq := wrap32 (m_nNextRecvSeq (sec_conn s) + 1)\<rparr>\<rparr>)"
proof -
  obtain k where k: "m_nNextRecvSeq (sec_conn s) = base + int k" "Suc k \<le> length chunks"
      "sec_taken s @ m_vtBuf (m_byteStream (sec_conn s)) = concat (take (Suc k) chunks)"
    using s by (auto simp: sec_stream_def)
  have "wrap32 (base + int k + 1) = base + int (Suc k)"
    using num k(2) by (simp add: numbering_def int32_range_def)
  then show ?thesis using k pc by (auto simp: sec_stream_def intro!: exI [of _ "Suc k"])
qed

lemma sec_stream_same:
  "sec_stream base chunks s \<Longrightarrow> uncounted (rcv_at t) = uncounted (rcv_at s) \<Longrightarrow>
   m_nNextRecvSeq (sec_conn t) = m_nNextRecvSeq (sec_conn s) \<Longrightarrow>
   sec_taken t @ m_vtBuf (m_byteStream (sec_conn t)) = sec_taken s @ m_vtBuf (m_byteStream (sec_conn s)) \<Longrightarrow>
   sec_stream base chunks t"
  by (simp add: sec_stream_def)

lemma app_knows_more:
  "app_knows apc c \<Longrightarrow> length (m_vtBuf (m_byteStream c)) \<le> length (m_vtBuf (m_byteStream c')) \<Longrightarrow> app_knows apc c'"
  by (cases apc) auto

lemma mark_readable_sel [simp]:
  "m_byteStream (mark_readable c) = m_byteStream c" "m_recvList (mark_readable c) = m_recvList c"
  "m_nNextRecvSeq (mark_readable c) = m_nNextRecvSeq c" "m_nStatus (mark_readable c) \<noteq> 0"
  by (simp_all add: mark_readable_def)

lemma sec_still:
  assumes inv: "sec_inv base chunks s" and pc: "uncounted pc = uncounted (rcv_at s)" "rcv_knows base chunks pc c"
    and c: "m_nNextRecvSeq c = m_nNextRecvSeq (sec_conn s)" "m_byteStream c = m_byteStream (sec_conn s)"
    and list: "\<forall>p \<in> set (m_recvList c). carries base chunks p" and mk: "sec_marked (s\<lparr>rcv_at := pc, sec_conn := c\<rparr>)"
  shows "sec_inv base chunks (s\<lparr>rcv_at := pc, sec_conn := c\<rparr>)"
proof -
  have "sec_stream base chunks s" "app_knows (app_at s) (sec_conn s)" using inv by (simp_all add: sec_inv_def)
  then show ?thesis
    using pc c list mk app_knows_more [of "app_at s" "sec_conn s" c] sec_stream_same [of base chunks s "s\<lparr>rcv_at := pc, sec_conn := c\<rparr>"]
    by (simp add: sec_inv_def)
qed

text \<open>The two places that write, and the two that count.\<close>

lemma sec_write_inv:
  assumes num: "numbering base chunks" and inv: "sec_inv base chunks s" and at: "uncounted (rcv_at s) = 0"
    and p: "carries base chunks p" "m_nSeq p = m_nNextRecvSeq (sec_conn s)"
    and pc: "pc = RStatus \<or> pc = RLoopCount \<and> m_recvList (sec_conn s) \<noteq> []"
  obtains bs where "Write (m_data p) (m_nLen p) (m_byteStream (sec_conn s)) = Inr bs"
    "sec_inv base chunks (s\<lparr>rcv_at := pc, sec_conn := (sec_conn s)\<lparr>m_byteStream := bs\<rparr>\<rparr>)"
proof -
  have st: "sec_stream base chunks s" and app: "app_knows (app_at s) (sec_conn s)" using inv by (simp_all add: sec_inv_def)
  have "uncounted pc = 1" using pc by (auto simp: uncounted_def)
  then obtain bs where bs: "Write (m_data p) (m_nLen p) (m_byteStream (sec_conn s)) = Inr bs"
      "m_vtBuf bs = m_vtBuf (m_byteStream (sec_conn s)) @ take (nat (m_nLen p)) (m_data p)"
      "sec_stream base chunks (s\<lparr>rcv_at := pc, sec_conn := (sec_conn s)\<lparr>m_byteStream := bs\<rparr>\<rparr>)"
    using sec_write [OF num st at p] by blast
  then show ?thesis
    using inv pc app_knows_more [OF app, of "(sec_conn s)\<lparr>m_byteStream := bs\<rparr>"]
    by (intro that [of bs]) (auto simp: sec_inv_def sec_marked_def)
qed

lemma sec_count_inv:
  assumes num: "numbering base chunks" and inv: "sec_inv base chunks s"
    and at: "rcv_at s = RCount \<and> pc = RLoop \<or> rcv_at s = RLoopCount \<and> pc = RLoopStatus"
  shows "sec_inv base chunks (s\<lparr>rcv_at := pc,
    sec_conn := (sec_conn s)\<lparr>m_nNextRecvSeq := wrap32 (m_nNextRecvSeq (sec_conn s) + 1)\<rparr>\<rparr>)" (is "sec_inv _ _ ?s")
proof -
  have st: "sec_stream base chunks s" and app: "app_knows (app_at s) (sec_conn s)" using inv by (simp_all add: sec_inv_def)
  have "sec_stream base chunks ?s" by (rule sec_count [OF num st]) (use at in \<open>auto simp: uncounted_def\<close>)
  then show ?thesis
    using inv at app_knows_more [OF app, of "sec_conn ?s"] by (auto simp: sec_inv_def sec_marked_def)
qed

text \<open>The receiving thread always can take its next statement, and keeps the invariant.\<close>

lemma sec_rcv_inv:
  assumes num: "numbering base chunks" and inv: "sec_inv base chunks s"
  obtains pc c es where "rcv_section a (rcv_at s) (sec_conn s) = Inr (pc, c, es)"
    "sec_inv base chunks (s\<lparr>rcv_at := pc, sec_conn := c\<rparr>)"
proof -
  note goal = that
  have knows: "rcv_knows base chunks (rcv_at s) (sec_conn s)" and mk: "sec_marked s"
    and list: "\<forall>p \<in> set (m_recvList (sec_conn s)). carries base chunks p"
    using inv by (simp_all add: sec_inv_def)
  note still = goal [OF _ sec_still [OF inv]]
  show ?thesis
  proof (cases "rcv_at s")
    case (RWrite p)
    then show ?thesis
      using knows by - (rule sec_write_inv [OF num inv, of p RStatus], auto intro: goal simp: uncounted_def)
  next
    case RLoopWrite
    then obtain q qs where q: "m_recvList (sec_conn s) = q # qs" "m_nSeq q = m_nNextRecvSeq (sec_conn s)"
      using knows by (cases "m_recvList (sec_conn s)") auto
    with RLoopWrite list show ?thesis
      by - (rule sec_write_inv [OF num inv, of q RLoopCount], auto intro: goal simp: uncounted_def)
  next
    case (RCompare p)
    then show ?thesis using knows list mk
      by (cases "m_nSeq p = m_nNextRecvSeq (sec_conn s)"; cases "m_nNextRecvSeq (sec_conn s) < m_nSeq p")
        (auto intro!: still simp: uncounted_def sec_marked_def)
  next
    case RLoop
    then show ?thesis using list mk
      by (cases "m_recvList (sec_conn s)") (auto intro!: still simp: uncounted_def sec_marked_def)
  next
    case RErase
    then show ?thesis using knows list mk
      by (cases "m_recvList (sec_conn s)") (auto intro!: still simp: uncounted_def sec_marked_def)
  next
    case (RInsert p)
    then show ?thesis using knows list mk
      by (auto intro!: still simp: uncounted_def sec_marked_def set_insert_packet)
  next
    case RCount
    then show ?thesis by (intro goal [OF _ sec_count_inv [OF num inv, of RLoop]]) simp_all
  next
    case RLoopCount
    then show ?thesis by (intro goal [OF _ sec_count_inv [OF num inv, of RLoopStatus]]) simp_all
  qed (use knows list mk in \<open>auto intro!: still simp: uncounted_def sec_marked_def mark_readable_def\<close>)
qed

lemma sec_stream_small:
  assumes "sec_stream base chunks s" and "length (concat chunks) < 2 ^ 31"
  shows "length (m_vtBuf (m_byteStream (sec_conn s))) < 2 ^ 31"
proof -
  obtain k where "sec_taken s @ m_vtBuf (m_byteStream (sec_conn s)) = concat (take k chunks)"
    using assms(1) by (auto simp: sec_stream_def)
  then have "sec_taken s @ m_vtBuf (m_byteStream (sec_conn s)) @ concat (drop k chunks) = concat chunks"
    by (metis append_assoc append_take_drop_id concat_append)
  from arg_cong [OF this, of length] assms(2) show ?thesis by simp
qed

lemma sec_read_inv:
  assumes inv: "sec_inv base chunks s" and app: "app_at s = ARead k buf n"
    and read: "Read buf (min k n) (m_byteStream (sec_conn s)) = Inr (buf', bs)"
  shows "sec_inv base chunks (s\<lparr>sec_conn := (sec_conn s)\<lparr>m_byteStream := bs\<rparr>, app_at := AIdle,
    sec_taken := sec_taken s @ take (nat (min k n)) buf'\<rparr>)"
proof -
  let ?st = "m_vtBuf (m_byteStream (sec_conn s))" and ?m = "nat (min k n)"
  have r: "?m \<le> length ?st" "buf' = take ?m ?st @ drop ?m buf" "m_vtBuf bs = drop ?m ?st"
    using read by (auto simp: Read_eq_Inr)
  then have "take ?m buf' @ m_vtBuf bs = ?st" by simp
  moreover have "rcv_knows base chunks (rcv_at s) ((sec_conn s)\<lparr>m_byteStream := bs\<rparr>)"
    using inv by (cases "rcv_at s") (auto simp: sec_inv_def)
  ultimately show ?thesis
    using inv r(3) by (auto simp: sec_inv_def sec_marked_def intro: sec_stream_same)
qed

definition sec_ok :: "int \<Rightarrow> byte list list \<Rightarrow> sections \<Rightarrow> bool" where
  "sec_ok base chunks s \<longleftrightarrow> numbering base chunks \<and> length (concat chunks) < 2 ^ 31 \<and> sec_inv base chunks s"

lemma sec_step_ok:
  assumes step: "sec_step (carries base chunks) a s t" and ok: "sec_ok base chunks s"
  shows "sec_ok base chunks t"
proof -
  have num: "numbering base chunks" and total: "length (concat chunks) < 2 ^ 31" and inv: "sec_inv base chunks s"
    using ok by (simp_all add: sec_ok_def)
  have small: "GetSize (m_byteStream (sec_conn s)) = int (length (m_vtBuf (m_byteStream (sec_conn s))))"
    using sec_stream_small [of base chunks s] total inv by (intro GetSize_small) (simp add: sec_inv_def)
  have "sec_inv base chunks t"
    using step
  proof (cases rule: sec_step.cases)
    case (sec_arrive p)
    then show ?thesis using inv by (auto simp: sec_inv_def sec_stream_def sec_marked_def uncounted_def)
  next
    case (sec_rcv pc c es)
    then show ?thesis using sec_rcv_inv [OF num inv, of a] by auto
  next
    case (sec_read k buf n buf' bs)
    then show ?thesis using sec_read_inv [OF inv sec_read(2,3)] by simp
  next
    case sec_select
    have "rcv_knows base chunks (rcv_at s) ((sec_conn s)\<lparr>m_nStatus := 2\<rparr>)" "app_knows (app_at s) ((sec_conn s)\<lparr>m_nStatus := 2\<rparr>)"
      using inv by (cases "rcv_at s"; cases "app_at s"; auto simp: sec_inv_def)+
    then show ?thesis
      using sec_select inv by (auto simp: sec_inv_def sec_marked_def intro: sec_stream_same)
  next
    case sec_unselect
    let ?c = "UnSelect_conn (sec_conn s)"
    have eq: "m_byteStream ?c = m_byteStream (sec_conn s)" "m_recvList ?c = m_recvList (sec_conn s)"
        "m_nNextRecvSeq ?c = m_nNextRecvSeq (sec_conn s)"
      by (simp_all add: UnSelect_conn_def)
    have "rcv_knows base chunks (rcv_at s) ?c" "app_knows (app_at s) ?c"
      using inv eq by (cases "rcv_at s"; cases "app_at s"; auto simp: sec_inv_def)+
    moreover have "m_nStatus ?c \<in> {0, 1}" "m_nStatus ?c = 0 \<Longrightarrow> m_vtBuf (m_byteStream (sec_conn s)) = []"
      using small by (auto simp: UnSelect_conn_def split: if_splits)
    ultimately show ?thesis
      using sec_unselect inv eq by (auto simp: sec_inv_def sec_marked_def intro: sec_stream_same)
  qed (use inv small in \<open>auto simp: sec_inv_def sec_stream_def sec_marked_def\<close>)
  then show ?thesis using num total by (simp add: sec_ok_def)
qed

interpretation sec: step_invariant "sec_step (carries base chunks) a" "sec_ok base chunks" for base chunks a
  by unfold_locales (rule sec_step_ok)

lemma sec_start_ok:
  assumes "numbering base chunks" "length (concat chunks) < 2 ^ 31" "fresh_conn base c" "m_nStatus c = 0"
  shows "sec_ok base chunks \<lparr>sec_conn = c, rcv_at = RWait, app_at = AIdle, sec_taken = []\<rparr>"
  using assms by (auto simp: sec_ok_def sec_inv_def sec_stream_def sec_marked_def uncounted_def fresh_conn_def
      intro!: exI [of _ 0])

section \<open>Properties\<close>


text \<open>
  C19. The receiving thread and the application side by side, statement by statement: whatever packets of the peer's
  stream arrive, and wherever in a pass the application polls, reads, selects or gives back the connection, the bytes
  it has read followed by those in the stream are the first \<open>k\<close> pieces; no statement of the thread leaves an object;
  the size polled without the lock is still there when it is read; and a connection marked as empty is empty,
  or the thread is about to mark it.
\<close>

theorem sections_safe:
  assumes num: "numbering base chunks" "length (concat chunks) < 2 ^ 31" and new: "fresh_conn base c" "m_nStatus c = 0"
    and run: "(sec_step (carries base chunks) a)\<^sup>*\<^sup>* \<lparr>sec_conn = c, rcv_at = RWait, app_at = AIdle, sec_taken = []\<rparr> s"
  shows "(\<exists>k \<le> length chunks. sec_taken s @ m_vtBuf (m_byteStream (sec_conn s)) = concat (take k chunks))
     \<and> is_ok (rcv_section a (rcv_at s) (sec_conn s))
     \<and> (case app_at s of ARead k buf n \<Rightarrow> is_ok (Read buf (min k n) (m_byteStream (sec_conn s))) | _ \<Rightarrow> True)
     \<and> (m_nStatus (sec_conn s) \<noteq> 0 \<or> m_vtBuf (m_byteStream (sec_conn s)) = []
        \<or> rcv_at s \<in> {RStatus, RLoopCount, RLoopStatus})"
proof -
  have inv: "sec_inv base chunks s"
    using sec.reachable_invar [OF sec_start_ok [OF num new] run] by (simp add: sec_ok_def)
  obtain pc c' es where "rcv_section a (rcv_at s) (sec_conn s) = Inr (pc, c', es)"
    by (rule sec_rcv_inv [OF num(1) inv])
  moreover have "case app_at s of ARead k buf n \<Rightarrow> is_ok (Read buf (min k n) (m_byteStream (sec_conn s))) | _ \<Rightarrow> True"
    using inv by (cases "app_at s") (auto simp: sec_inv_def is_ok_iff Read_eq_Inr)
  moreover have "\<exists>k \<le> length chunks. sec_taken s @ m_vtBuf (m_byteStream (sec_conn s)) = concat (take k chunks)"
    using inv by (auto simp: sec_inv_def sec_stream_def)
  ultimately show ?thesis using inv by (auto simp: sec_inv_def sec_marked_def)
qed

text \<open>The application reads a message between its write and the change of the status.\<close>

lemma sections_example_run:
  "\<exists>s. (sec_step (carries 1 [''a'', ''b'', ''c'']) addr_example)\<^sup>*\<^sup>*
       \<lparr>sec_conn = conn_example 1, rcv_at = RWait, app_at = AIdle, sec_taken = []\<rparr> s
     \<and> rcv_at s = RStatus \<and> sec_taken s = ''a''"
proof -
  let ?step = "sec_step (carries 1 [''a'', ''b'', ''c'']) addr_example"
  let ?p = "pkt_example 1 ''a''" and ?c = "conn_example 1"
  let ?s = "\<lambda>pc app c tk. \<lparr>sec_conn = c, rcv_at = pc, app_at = app, sec_taken = tk\<rparr>"
  let ?c1 = "?c\<lparr>m_byteStream := \<lparr>m_vtBuf = ''a''\<rparr>\<rparr>" and ?c2 = "?c\<lparr>m_byteStream := \<lparr>m_vtBuf = []\<rparr>\<rparr>"
  have 1: "?step (?s RWait AIdle ?c []) (?s (RCompare ?p) AIdle ?c [])"
    using sec_step.sec_arrive [of "?s RWait AIdle ?c []" _ ?p] carries_example(1) by simp
  have 2: "?step (?s (RCompare ?p) AIdle ?c []) (?s (RWrite ?p) AIdle ?c [])"
    using sec_step.sec_rcv [of "?s (RCompare ?p) AIdle ?c []" addr_example "RWrite ?p" ?c "[]"]
    by (simp add: pkt_example_def conn_example_def)
  have "rcv_section addr_example (RWrite ?p) ?c
      = Inr (RStatus, ?c1, [Lock (ByteStreamLock addr_example), UnLock (ByteStreamLock addr_example)])"
    by (simp add: Write_eq pkt_example_def conn_example_def Conn_init_def CByteStream_init_def)
  then have 3: "?step (?s (RWrite ?p) AIdle ?c []) (?s RStatus AIdle ?c1 [])"
    using sec_step.sec_rcv [of "?s (RWrite ?p) AIdle ?c []" addr_example RStatus ?c1] by (simp del: rcv_section.simps)
  have 4: "?step (?s RStatus AIdle ?c1 []) (?s RStatus (APoll ''x'' 1) ?c1 [])"
    using sec_step.sec_call [of "?s RStatus AIdle ?c1 []" 1 "''x''"] by simp
  have 5: "?step (?s RStatus (APoll ''x'' 1) ?c1 []) (?s RStatus (ARead 1 ''x'' 1) ?c1 [])"
    using sec_step.sec_poll [of "?s RStatus (APoll ''x'' 1) ?c1 []" "''x''" 1] by (simp add: GetSize_def int32_range_def)
  have 6: "?step (?s RStatus (ARead 1 ''x'' 1) ?c1 []) (?s RStatus AIdle ?c2 ''a'')"
    using sec_step.sec_read [of "?s RStatus (ARead 1 ''x'' 1) ?c1 []" 1 "''x''" 1 "''a''" "\<lparr>m_vtBuf = []\<rparr>"]
    by (simp add: Read_eq_Inr)
  have "?step\<^sup>*\<^sup>* (?s RWait AIdle ?c []) (?s RStatus AIdle ?c2 ''a'')"
    using 1 2 3 4 5 6 by (meson converse_rtranclp_into_rtranclp rtranclp.rtrancl_refl)
  then show ?thesis by (intro exI [of _ "?s RStatus AIdle ?c2 ''a''"]) simp
qed

theorem sections_safe_witness:
  "\<exists>s :: sections. rcv_at s = RStatus \<and> sec_taken s = ''a'' \<and> is_ok (rcv_section addr_example RStatus (sec_conn s))
     \<and> (\<exists>k \<le> length [''a'', ''b'', ''c'']. sec_taken s @ m_vtBuf (m_byteStream (sec_conn s)) = concat (take k [''a'', ''b'', ''c'']))"
proof -
  obtain s where s: "(sec_step (carries 1 [''a'', ''b'', ''c'']) addr_example)\<^sup>*\<^sup>*
       \<lparr>sec_conn = conn_example 1, rcv_at = RWait, app_at = AIdle, sec_taken = []\<rparr> s"
      "rcv_at s = RStatus" "sec_taken s = ''a''"
    using sections_example_run by blast
  have h: "numbering 1 [''a'', ''b'', ''c'']" "length (concat [''a'', ''b'', ''c'']) < 2 ^ 31" "m_nStatus (conn_example 1) = 0"
    by (simp_all add: numbering_def conn_example_def Conn_init_def)
  note safe = sections_safe [OF h(1,2) fresh_conn_example h(3) s(1)]
  show ?thesis
    using safe [THEN conjunct1] safe [THEN conjunct2, THEN conjunct1] s(2,3) by (intro exI [of _ s] conjI) simp_all
qed

end
