(* ===== verification/TcpClient.thy ===== *)
theory TcpClient
  imports TcpServer
begin

text \<open>
  \<open>TcpSocketDll/CTcpClient\<close>: the client end of the handshake and the two wrappers around the
  socket's \<open>Send\<close> and \<open>Recv\<close>; the theorems tie the client's \<open>Connect\<close> to the server's threads.
\<close>

section \<open>State and operations\<close>

record CTcpClient = CTcpSocket +
  m_serverAddr :: sockaddr

text \<open>The socket part of the client, and a client around a socket.\<close>

abbreviation base_socket :: "CTcpClient \<Rightarrow> CTcpSocket" where
  "base_socket c \<equiv> CTcpSocket.truncate c"

definition with_socket :: "CTcpClient \<Rightarrow> CTcpSocket \<Rightarrow> CTcpClient" where
  "with_socket c s = CTcpSocket.extend s (CTcpClient.fields (m_serverAddr c))"

text \<open>
  What the outside answers during \<open>Connect\<close>: the address \<open>inet_pton\<close> and \<open>htons\<close> make of the
  arguments, whether \<open>socket\<close> and the two \<open>sendto\<close> calls succeed, the clock, and the datagram
  \<open>recvfrom\<close> returned (\<open>None\<close>: \<open>SOCKET_ERROR\<close>).
\<close>

record connect_env =
  server_addr :: sockaddr
  sock_ok :: bool
  syn_ok :: bool
  syn_clock :: int
  reply :: "byte list option"
  ack_ok :: bool

definition Connect :: "connect_env \<Rightarrow> CTcpClient \<Rightarrow> bool \<times> CTcpClient \<times> effect list" where
  "Connect env c0 =
     (let c1 = c0\<lparr>m_serverAddr := server_addr env\<rparr>;
          sa = m_serverAddr c1;
          s1 = touch sa (base_socket c1);
          s2 = set_conn sa ((conn_of sa s1)\<lparr>m_nNextSendSeq := 0\<rparr>) s1
      in if \<not> sock_ok env then (False, with_socket c1 s2, [PrintErr ''socket init''])
         else
           let sendPkg = new_Packet ESTABLISH_1 (m_nNextSendSeq (conn_of sa s2));
               s3 = set_conn sa ((conn_of sa s2)\<lparr>m_nNextSendSeq := wrap32 (m_nNextSendSeq (conn_of sa s2) + 1)\<rparr>) s2
           in if \<not> syn_ok env
              then (False, with_socket c1 s3, [Sendto sa (Packet_bytes sendPkg) False, PrintErr ''sendto''])
              else
                let s4 = s3\<lparr>m_sendList := m_sendList s3 @ [new_SendListNode (syn_clock env) sa (PlainPkt sendPkg)]\<rparr>;
                    es = [Sendto sa (Packet_bytes sendPkg) True, StartThread SendThreadProc]
                in (case reply env of
                      None \<Rightarrow> (False, with_socket c1 s4, es @ [PrintErr ''recvfrom''])
                    | Some bytes \<Rightarrow>
                        let recvPkg = Packet_of_bytes bytes;
                            s5 = set_conn sa ((conn_of sa s4)\<lparr>m_nNextRecvSeq := wrap32 (m_nSeq recvPkg + 1)\<rparr>) s4;
                            s6 = s5\<lparr>m_sendList := []\<rparr>;
                            ackBytes = Packet_bytes (new_Packet ACK (m_nSeq recvPkg));
                            es' = es @ [Lock SendListLock, UnLock SendListLock, Sendto sa ackBytes (ack_ok env)]
                        in if \<not> ack_ok env then (False, with_socket c1 s6, es' @ [PrintErr ''sendto''])
                           else (True, with_socket c1 s6, es' @ [StartThread RecvThreadProc])))"

definition Client_Send :: "byte list \<Rightarrow> int \<Rightarrow> CTcpClient \<Rightarrow> (int \<times> CTcpClient \<times> effect list) result" where
  "Client_Send pBuf nLen c =
     and_then (Send (m_serverAddr c) pBuf nLen (base_socket c)) (\<lambda>(n, s, es). Inr (n, with_socket c s, es))"

definition Client_Recv ::
    "byte list \<Rightarrow> int \<Rightarrow> CTcpClient \<Rightarrow> (CTcpClient \<times> (int \<times> byte list \<times> effect list) option) result" where
  "Client_Recv pBuf nBufLen c =
     and_then (Recv (m_serverAddr c) pBuf nBufLen (base_socket c)) (\<lambda>(s, r). Inr (with_socket c s, r))"

section \<open>Lemmas\<close>

lemma base_with_socket [simp]:
  "base_socket (with_socket c s) = s" "m_serverAddr (with_socket c s) = m_serverAddr c"
  by (simp_all add: with_socket_def CTcpSocket.defs CTcpClient.defs)

lemma with_base_socket [simp]: "with_socket c (base_socket c) = c"
  by (simp add: with_socket_def CTcpSocket.defs CTcpClient.defs)

lemma base_socket_update [simp]: "base_socket (c\<lparr>m_serverAddr := a\<rparr>) = base_socket c"
  by (simp add: CTcpSocket.defs)

definition client_init :: "sockaddr \<Rightarrow> CTcpClient" where
  "client_init a = with_socket \<lparr>m_connectMap = [], m_sendList = [], m_serverAddr = a\<rparr> CTcpSocket_init"

lemma base_client_init [simp]: "base_socket (client_init a) = CTcpSocket_init"
  by (simp add: client_init_def)

section \<open>Properties\<close>

text \<open>
  A successful \<open>Connect\<close> leaves the client's counters at 1 for sending and at the successor of
  the server's number for receiving, an empty send list and both threads started, whatever the
  client did before; the packets it sent are the handshake packet 0 and the acknowledgement.
\<close>

theorem Connect_established:
  assumes "Connect env c = (True, c', es)" and "table_ok (base_socket c)"
  shows "\<exists>bytes. reply env = Some bytes \<and> m_serverAddr c' = server_addr env
     \<and> conn_of (server_addr env) (base_socket c')
         = (conn_of (server_addr env) (base_socket c))\<lparr>m_nNextSendSeq := 1,
              m_nNextRecvSeq := wrap32 (m_nSeq (Packet_of_bytes bytes) + 1)\<rparr>
     \<and> m_sendList c' = []
     \<and> datagrams es = [(server_addr env, Packet_bytes (new_Packet ESTABLISH_1 0)),
                        (server_addr env, Packet_bytes (new_Packet ACK (m_nSeq (Packet_of_bytes bytes))))]
     \<and> StartThread SendThreadProc \<in> set es \<and> StartThread RecvThreadProc \<in> set es"
proof -
  have send: "m_sendList (with_socket c s) = m_sendList s" for c s
    by (simp add: with_socket_def CTcpSocket.defs CTcpClient.defs)
  have "int32_range 1" by (simp add: int32_range_def)
  then show ?thesis
    using assms by (auto simp: Connect_def Let_def send split: if_splits option.splits)
qed

definition env_example :: connect_env where
  "env_example = \<lparr>server_addr = addr_example, sock_ok = True, syn_ok = True, syn_clock = 9,
     reply = Some (Packet_bytes (new_Packet ESTABLISH_2 0)), ack_ok = True\<rparr>"

theorem Connect_established_witness:
  "\<exists>c' es. Connect env_example (client_init addr_example) = (True, c', es) \<and> m_sendList c' = []"
proof -
  obtain c' es where c': "Connect env_example (client_init addr_example) = (True, c', es)"
    by (auto simp: Connect_def Let_def env_example_def)
  from Connect_established [OF this] c' show ?thesis by auto
qed

end
