(* ===== verification/Channel.thy ===== *)
theory Channel
  imports TcpClient
begin

text \<open>
  Two sockets and the network between them. One socket sends, the other receives and
  acknowledges; the network may lose, repeat, delay and reorder datagrams in both directions.
  The steps are the operations of the code: \<open>Send\<close>, a pass of the sending thread, a pass of
  either receiving thread, and \<open>Recv\<close>. The theorems state what holds in every state that any
  interleaving of them reaches.
\<close>

section \<open>The system\<close>

text \<open>
  The network is the set of all datagrams sent so far: one that is never delivered was lost, one
  that is delivered again was repeated. \<open>sent\<close> lists the pieces handed to \<open>Send\<close>, \<open>taken\<close> the
  bytes \<open>Recv\<close> has returned.
\<close>

record channel =
  snd_sock :: CTcpSocket
  rcv_sock :: CTcpSocket
  to_rcv :: "byte list set"
  to_snd :: "byte list set"
  sent :: "byte list list"
  taken :: "byte list"

inductive ch_step :: "sockaddr \<Rightarrow> sockaddr \<Rightarrow> channel \<Rightarrow> channel \<Rightarrow> bool" for sa ra where
  app_send: "0 \<le> n \<Longrightarrow> nat n \<le> length buf \<Longrightarrow> bs = segments (take (nat n) buf) \<Longrightarrow>
     m_nNextSendSeq (conn_of ra (snd_sock c)) + int (length bs) < 2 ^ 31 \<Longrightarrow>
     Send ra buf n (snd_sock c) = Inr (r, s', es) \<Longrightarrow>
     ch_step sa ra c (c\<lparr>snd_sock := s', sent := sent c @ bs\<rparr>)"
| transmit: "SendThreadProc_pass clk ok (snd_sock c) = Inr (v, s', es) \<Longrightarrow>
     ch_step sa ra c (c\<lparr>snd_sock := s', to_rcv := to_rcv c \<union> {b. (ra, b) \<in> set (datagrams es)}\<rparr>)"
| arrive: "b \<in> to_rcv c \<Longrightarrow> RecvThreadProc_pass (Some (b, sa)) ok (rcv_sock c) = Inr (v, s', es) \<Longrightarrow>
     ch_step sa ra c (c\<lparr>rcv_sock := s', to_snd := to_snd c \<union> {b. (sa, b) \<in> set (datagrams es)}\<rparr>)"
| arrive_ack: "b \<in> to_snd c \<Longrightarrow> RecvThreadProc_pass (Some (b, ra)) ok (snd_sock c) = Inr (v, s', es) \<Longrightarrow>
     ch_step sa ra c (c\<lparr>snd_sock := s', to_rcv := to_rcv c \<union> {b. (ra, b) \<in> set (datagrams es)}\<rparr>)"
| app_recv: "Recv sa buf n (rcv_sock c) = Inr (s', Some (m, buf', es)) \<Longrightarrow>
     ch_step sa ra c (c\<lparr>rcv_sock := s', taken := taken c @ take (nat m) buf'\<rparr>)"

inductive_cases ch_stepE: "ch_step sa ra c d"

text \<open>The state after the handshake: nothing in flight, the counters agree.\<close>

definition ch_start :: "int \<Rightarrow> sockaddr \<Rightarrow> sockaddr \<Rightarrow> channel \<Rightarrow> bool" where
  "ch_start base sa ra c \<longleftrightarrow>
     table_ok (snd_sock c) \<and> table_ok (rcv_sock c) \<and> - (2 ^ 31) \<le> base \<and> base < 2 ^ 31
     \<and> m_nNextSendSeq (conn_of ra (snd_sock c)) = base \<and> m_sendList (snd_sock c) = []
     \<and> fresh_conn base (conn_of sa (rcv_sock c))
     \<and> to_rcv c = {} \<and> to_snd c = {} \<and> sent c = [] \<and> taken c = []"

section \<open>Data packets and their datagrams\<close>

definition data_pkt :: "int \<Rightarrow> byte list list \<Rightarrow> nat \<Rightarrow> DataPacket" where
  "data_pkt base chunks i =
     \<lparr>m_nType = 2, m_nSeq = base + int i, m_nLen = int (length (chunks ! i)), m_data = chunks ! i\<rparr>"

definition data_datagram :: "int \<Rightarrow> byte list list \<Rightarrow> nat \<Rightarrow> byte list" where
  "data_datagram base chunks i =
     le32 2 @ le32 (base + int i) @ le32 (int (length (chunks ! i))) @ chunks ! i"

definition pieces_ok :: "byte list list \<Rightarrow> bool" where
  "pieces_ok chunks \<longleftrightarrow> (\<forall>b \<in> set chunks. length b \<le> 1024)"

definition node_ok :: "sockaddr \<Rightarrow> int \<Rightarrow> byte list list \<Rightarrow> SendListNode \<Rightarrow> bool" where
  "node_ok ra base chunks n \<longleftrightarrow>
     m_addr n = ra \<and> (\<exists>i < length chunks. m_packet n = DataPkt (data_pkt base chunks i))"

text \<open>The indices the receiver has: below its counter, or in its out-of-order list.\<close>

definition received :: "int \<Rightarrow> Conn \<Rightarrow> nat set" where
  "received base c = {i. base + int i < m_nNextRecvSeq c \<or> base + int i \<in> m_nSeq ` set (m_recvList c)}"

lemma numbering_range: "numbering base chunks \<Longrightarrow> i < length chunks \<Longrightarrow> int32_range (base + int i)"
  by (simp add: numbering_def int32_range_def)

lemma node_ok_value:
  assumes "node_ok ra base chunks n" and "numbering base chunks" and "pieces_ok chunks"
  obtains i where "i < length chunks" "node_datagram n = Inr (Some (data_datagram base chunks i))"
    "ptr_seq (m_packet n) = base + int i" "m_addr n = ra"
proof -
  obtain i where i: "i < length chunks" "m_packet n = DataPkt (data_pkt base chunks i)" "m_addr n = ra"
    using assms(1) by (auto simp: node_ok_def)
  then have "node_datagram n = Inr (Some (data_datagram base chunks i))"
    using data_packet_bytes [of "base + int i" "chunks ! i"] numbering_range [OF assms(2) i(1)] assms(3)
    by (simp add: node_datagram_def data_pkt_def data_datagram_def pieces_ok_def)
  with that i show ?thesis by (simp add: data_pkt_def)
qed

lemma node_ok_datagram:
  assumes "node_ok ra base chunks n" and "numbering base chunks" and "pieces_ok chunks"
    and "node_datagram n = Inr (Some bs)"
  shows "\<exists>i < length chunks. bs = data_datagram base chunks i"
  using node_ok_value [OF assms(1-3)] assms(4) by auto

lemma data_datagram_decoded:
  assumes "numbering base chunks" and "pieces_ok chunks" and "i < length chunks"
  shows "carries base chunks (DataPacket_of_bytes (data_datagram base chunks i))"
    and "m_nType (DataPacket_of_bytes (data_datagram base chunks i)) = type_code DATA"
    and "m_nSeq (DataPacket_of_bytes (data_datagram base chunks i)) = base + int i"
proof -
  have len: "length (chunks ! i) \<le> 1024" using assms(2,3) by (simp add: pieces_ok_def)
  then have "int32_range 2" "int32_range (int (length (chunks ! i)))"
    by (simp_all add: int32_range_def)
  then have eq: "DataPacket_of_bytes (data_datagram base chunks i)
      = \<lparr>m_nType = 2, m_nSeq = base + int i, m_nLen = int (length (chunks ! i)),
         m_data = chunks ! i @ replicate (1024 - length (chunks ! i)) NUL\<rparr>"
    using DataPacket_of_header [OF len] numbering_range [OF assms(1,3)] by (simp add: data_datagram_def)
  show "carries base chunks (DataPacket_of_bytes (data_datagram base chunks i))"
    "m_nType (DataPacket_of_bytes (data_datagram base chunks i)) = type_code DATA"
    "m_nSeq (DataPacket_of_bytes (data_datagram base chunks i)) = base + int i"
    using assms(3) by (simp_all add: eq carries_def)
qed

section \<open>What the receiver has, it keeps\<close>

lemma received_delivered:
  "delivered base chunks tk k c \<Longrightarrow>
   received base c = {..<k} \<union> {i. base + int i \<in> m_nSeq ` set (m_recvList c)}"
  by (auto simp: received_def delivered_def)

lemma received_drop:
  assumes "map m_nSeq (take (k' - k) ps) = map (\<lambda>i. base + int i) [k..<k']"
    and "base + int i \<in> m_nSeq ` set ps"
  shows "i < k' \<or> base + int i \<in> m_nSeq ` set (drop (k' - k) ps)"
proof -
  have "base + int i \<in> set (map m_nSeq (take (k' - k) ps)) \<union> m_nSeq ` set (drop (k' - k) ps)"
    using assms(2) by (metis (no_types, lifting) append_take_drop_id image_Un list.set_map set_append)
  then show ?thesis using assms(1) by auto
qed

lemma receive_data_received:
  assumes num: "numbering base chunks" and p: "carries base chunks p" "m_nSeq p = base + int i"
    and c: "delivered base chunks tk k c" "waiting_ok base chunks c"
    and step: "receive_data addr p c = Inr (c', es)"
  shows "insert i (received base c) \<subseteq> received base c'"
proof (cases "m_nSeq p = m_nNextRecvSeq c")
  case True
  obtain c1 es1 where c1: "accept_packet addr p c = Inr (c1, es1)"
      "delivered base chunks tk (Suc k) c1" "m_recvList c1 = m_recvList c"
    using accept_packet_delivered [OF num p(1) c(1) True] by blast
  obtain k' c2 es2 where d: "drain addr (m_recvList c) c1 = Inr (c2, es2)" "Suc k \<le> k'"
      "delivered base chunks tk k' c2" "m_recvList c2 = drop (k' - Suc k) (m_recvList c)"
      "map m_nSeq (take (k' - Suc k) (m_recvList c)) = map (\<lambda>i. base + int i) [Suc k..<k']"
    using drain_spec [OF num _ c1(2), where addr = addr and ps = "m_recvList c"] c(2)
    by (auto simp: waiting_ok_def)
  have "c' = c2" "i = k" using step True c1 d(1) p(2) c(1)
    by (auto simp: receive_data_def delivered_def)
  then show ?thesis
    using received_drop [OF d(5)] d(2,4) by (auto simp: received_delivered [OF c(1)] received_delivered [OF d(3)])
next
  case False
  then show ?thesis
    using step p(2) by (auto simp: receive_data_def received_def set_insert_packet split: if_splits)
qed

section \<open>The invariant\<close>

abbreviation rcv_conn :: "sockaddr \<Rightarrow> channel \<Rightarrow> Conn" where
  "rcv_conn sa c \<equiv> conn_of sa (rcv_sock c)"

definition queued :: "int \<Rightarrow> CTcpSocket \<Rightarrow> nat set" where
  "queued base s = {i. base + int i \<in> (\<lambda>n. ptr_seq (m_packet n)) ` set (m_sendList s)}"

text \<open>The sender: its counter, its list, and the datagrams it has put on the wire.\<close>

definition snd_inv :: "int \<Rightarrow> sockaddr \<Rightarrow> channel \<Rightarrow> bool" where
  "snd_inv base ra c \<longleftrightarrow>
     table_ok (snd_sock c) \<and> numbering base (sent c) \<and> pieces_ok (sent c)
     \<and> m_nNextSendSeq (conn_of ra (snd_sock c)) = base + int (length (sent c))
     \<and> (\<forall>n \<in> set (m_sendList (snd_sock c)). node_ok ra base (sent c) n)
     \<and> to_rcv c \<subseteq> data_datagram base (sent c) ` {..<length (sent c)}"

text \<open>The receiver: the delivered prefix, the waiting packets, and acknowledgements of what it has.\<close>

definition rcv_inv :: "int \<Rightarrow> sockaddr \<Rightarrow> channel \<Rightarrow> bool" where
  "rcv_inv base sa c \<longleftrightarrow>
     table_ok (rcv_sock c) \<and> (\<exists>k. delivered base (sent c) (taken c) k (rcv_conn sa c))
     \<and> waiting_ok base (sent c) (rcv_conn sa c)
     \<and> to_snd c \<subseteq> (\<lambda>i. ack_datagram (base + int i)) ` (received base (rcv_conn sa c) \<inter> {..<length (sent c)})"

text \<open>No piece is lost: it is received, or the sender still has it.\<close>

definition no_loss :: "int \<Rightarrow> sockaddr \<Rightarrow> channel \<Rightarrow> bool" where
  "no_loss base sa c \<longleftrightarrow>
     {..<length (sent c)} \<subseteq> received base (rcv_conn sa c) \<union> queued base (snd_sock c)"

definition ch_inv :: "int \<Rightarrow> sockaddr \<Rightarrow> sockaddr \<Rightarrow> channel \<Rightarrow> bool" where
  "ch_inv base sa ra c \<longleftrightarrow> snd_inv base ra c \<and> rcv_inv base sa c \<and> no_loss base sa c"

section \<open>More pieces\<close>

lemma data_pkt_append [simp]: "i < length xs \<Longrightarrow> data_pkt base (xs @ ys) i = data_pkt base xs i"
  by (simp add: data_pkt_def nth_append)

lemma data_datagram_append [simp]:
  "i < length xs \<Longrightarrow> data_datagram base (xs @ ys) i = data_datagram base xs i"
  by (simp add: data_datagram_def nth_append)

lemma node_ok_append: "node_ok ra base xs n \<Longrightarrow> node_ok ra base (xs @ ys) n"
  unfolding node_ok_def by (metis data_pkt_append length_append trans_less_add1)

lemma carries_append: "carries base xs p \<Longrightarrow> carries base (xs @ ys) p"
  by (auto simp: carries_def nth_append)

lemma delivered_append: "delivered base xs tk k c \<Longrightarrow> delivered base (xs @ ys) tk k c"
  by (simp add: delivered_def)

lemma waiting_ok_append: "waiting_ok base xs c \<Longrightarrow> waiting_ok base (xs @ ys) c"
  by (auto simp: waiting_ok_def carries_append)

lemma segment_nodes_ok:
  "n \<in> set (segment_nodes ra (base + int (length xs)) ys) \<Longrightarrow> node_ok ra base (xs @ ys) n"
proof (induction ys arbitrary: xs)
  case (Cons y ys)
  show ?case
  proof (cases "n \<in> set (segment_nodes ra (base + int (length xs) + 1) ys)")
    case True
    then show ?thesis using Cons.IH [of "xs @ [y]"] by (simp add: algebra_simps)
  next
    case False
    with Cons.prems show ?thesis
      by (auto simp: node_ok_def data_pkt_def intro!: exI [of _ "length xs"])
  qed
qed simp

lemma queued_segment_nodes:
  "i < length ys \<Longrightarrow> base + int (length xs + i)
     \<in> (\<lambda>n. ptr_seq (m_packet n)) ` set (segment_nodes ra (base + int (length xs)) ys)"
proof -
  assume "i < length ys"
  then have "base + int (length xs) + int i \<in> set (map (\<lambda>i. base + int (length xs) + int i) [0..<length ys])"
    by simp
  then have "base + int (length xs) + int i
      \<in> set (map (\<lambda>n. ptr_seq (m_packet n)) (segment_nodes ra (base + int (length xs)) ys))"
    by (simp only: segment_nodes_seqs)
  then show ?thesis by (simp add: add.assoc)
qed

section \<open>Every step keeps the invariant\<close>

lemma snd_inv_send:
  assumes inv: "snd_inv base ra c" and n: "0 \<le> n" "nat n \<le> length buf"
    and bs: "bs = segments (take (nat n) buf)"
    and room: "m_nNextSendSeq (conn_of ra (snd_sock c)) + int (length bs) < 2 ^ 31"
    and step: "Send ra buf n (snd_sock c) = Inr (r, s', es)"
  shows "snd_inv base ra (c\<lparr>snd_sock := s', sent := sent c @ bs\<rparr>)"
    and "m_sendList s' = m_sendList (snd_sock c) @ segment_nodes ra (base + int (length (sent c))) bs"
proof -
  let ?q = "m_nNextSendSeq (conn_of ra (snd_sock c))"
  have q: "?q = base + int (length (sent c))" "- (2 ^ 31) \<le> ?q"
    using inv by (auto simp: snd_inv_def numbering_def)
  have s': "s' = set_conn ra ((conn_of ra (snd_sock c))\<lparr>m_nNextSendSeq := ?q + int (length bs)\<rparr>)
      (touch ra (snd_sock c))\<lparr>m_sendList := m_sendList (snd_sock c) @ segment_nodes ra ?q bs\<rparr>"
    using Send_ok [OF n, of ra "snd_sock c"] step inv room q(2) unfolding bs by (simp add: snd_inv_def)
  then show "m_sendList s' = m_sendList (snd_sock c) @ segment_nodes ra (base + int (length (sent c))) bs"
    by (simp add: q)
  have "pieces_ok bs" using segments_bounds bs by (auto simp: pieces_ok_def)
  moreover have "data_datagram base (sent c) ` {..<length (sent c)}
      \<subseteq> data_datagram base (sent c @ bs) ` {..<length (sent c @ bs)}"
    by (auto simp: image_iff) (metis data_datagram_append lessThan_iff trans_less_add1)
  ultimately show "snd_inv base ra (c\<lparr>snd_sock := s', sent := sent c @ bs\<rparr>)"
    using inv s' q room
    by (auto simp: snd_inv_def numbering_def pieces_ok_def node_ok_append segment_nodes_ok)
qed

lemma inv_send:
  assumes inv: "ch_inv base sa ra c" and n: "0 \<le> n" "nat n \<le> length buf"
    and bs: "bs = segments (take (nat n) buf)"
    and room: "m_nNextSendSeq (conn_of ra (snd_sock c)) + int (length bs) < 2 ^ 31"
    and step: "Send ra buf n (snd_sock c) = Inr (r, s', es)"
  shows "ch_inv base sa ra (c\<lparr>snd_sock := s', sent := sent c @ bs\<rparr>)"
proof -
  have si: "snd_inv base ra c" using inv by (simp add: ch_inv_def)
  note new = snd_inv_send [OF si n bs room step]
  have "rcv_inv base sa (c\<lparr>snd_sock := s', sent := sent c @ bs\<rparr>)"
    using inv by (auto simp: ch_inv_def rcv_inv_def delivered_append waiting_ok_append) (use delivered_append in blast)
  moreover have "no_loss base sa (c\<lparr>snd_sock := s', sent := sent c @ bs\<rparr>)"
    unfolding no_loss_def
  proof
    fix i assume i: "i \<in> {..<length (sent (c\<lparr>snd_sock := s', sent := sent c @ bs\<rparr>))}"
    show "i \<in> received base (rcv_conn sa (c\<lparr>snd_sock := s', sent := sent c @ bs\<rparr>))
        \<union> queued base (snd_sock (c\<lparr>snd_sock := s', sent := sent c @ bs\<rparr>))"
    proof (cases "i < length (sent c)")
      case True
      then show ?thesis using inv new(2) by (auto simp: ch_inv_def no_loss_def queued_def)
    next
      case False
      then have "i - length (sent c) < length bs" using i by auto
      from queued_segment_nodes [OF this, of base "sent c" ra] False new(2) show ?thesis
        by (auto simp: queued_def image_Un)
    qed
  qed
  ultimately show ?thesis using new(1) by (simp add: ch_inv_def)
qed

lemma inv_transmit:
  assumes inv: "ch_inv base sa ra c" and step: "SendThreadProc_pass clk ok (snd_sock c) = Inr (v, s', es)"
  shows "ch_inv base sa ra (c\<lparr>snd_sock := s', to_rcv := to_rcv c \<union> {b. (ra, b) \<in> set (datagrams es)}\<rparr>)"
proof -
  have si: "snd_inv base ra c" using inv by (simp add: ch_inv_def)
  obtain ns es1 where pass: "send_nodes clk ok 0 (m_sendList (snd_sock c)) = Inr (v, ns, es1)"
      "s' = (snd_sock c)\<lparr>m_sendList := ns\<rparr>" "datagrams es = datagrams es1"
    using step by (auto simp: SendThreadProc_pass_def split: if_splits)
  note keep = send_nodes_keeps [OF pass(1)]
  have nodes: "(\<lambda>n. (m_addr n, m_packet n)) ` set ns
      = (\<lambda>n. (m_addr n, m_packet n)) ` set (m_sendList (snd_sock c))"
    using keep by (metis list.set_map)
  have "node_ok ra base (sent c) n" if "n \<in> set ns" for n
  proof -
    have "(m_addr n, m_packet n) \<in> (\<lambda>n. (m_addr n, m_packet n)) ` set (m_sendList (snd_sock c))"
      using that by (simp only: nodes [symmetric]) (rule imageI)
    then obtain n' where "n' \<in> set (m_sendList (snd_sock c))" "m_addr n = m_addr n'" "m_packet n = m_packet n'"
      by auto
    then show ?thesis using si by (auto simp: snd_inv_def node_ok_def)
  qed
  moreover have "b \<in> data_datagram base (sent c) ` {..<length (sent c)}" if d: "(ra, b) \<in> set (datagrams es)" for b
  proof -
    obtain n where "n \<in> set (m_sendList (snd_sock c))" "node_datagram n = Inr (Some b)"
      using send_nodes_only_listed [OF pass(1), of ra b] d pass(3) by auto
    then show ?thesis
      using node_ok_datagram [of ra base "sent c" n b] si by (auto simp: snd_inv_def)
  qed
  ultimately have "snd_inv base ra (c\<lparr>snd_sock := s', to_rcv := to_rcv c \<union> {b. (ra, b) \<in> set (datagrams es)}\<rparr>)"
    using si pass(2) by (auto simp: snd_inv_def)
  moreover have "map (\<lambda>n. ptr_seq (m_packet n)) ns = map (\<lambda>n. ptr_seq (m_packet n)) (m_sendList (snd_sock c))"
    using arg_cong [OF keep, of "map (ptr_seq \<circ> snd)"] by (simp add: comp_def)
  then have "queued base s' = queued base (snd_sock c)"
    by (simp add: queued_def pass(2) flip: set_map)
  ultimately show ?thesis
    using inv by (simp add: ch_inv_def rcv_inv_def no_loss_def)
qed

lemma accept_packet_datagrams: "accept_packet a p c = Inr (c', es) \<Longrightarrow> datagrams es = []"
  by (auto simp: accept_packet_def)

lemma drain_datagrams: "drain a ps c = Inr (c', es) \<Longrightarrow> datagrams es = []"
proof (induction a ps c arbitrary: c' es rule: drain.induct)
  case (2 a p ps c)
  then show ?case by (fastforce simp: accept_packet_datagrams split: if_splits)
qed simp

lemma receive_data_datagrams: "receive_data a p c = Inr (c', es) \<Longrightarrow> datagrams es = []"
  by (auto simp: receive_data_def accept_packet_datagrams drain_datagrams split: if_splits)

text \<open>A data datagram at the receiver: rejected by a failing \<open>sendto\<close>, or received and acknowledged.\<close>

lemma arrive_cases:
  assumes num: "numbering base chunks" and pc: "pieces_ok chunks" and i: "i < length chunks"
    and step: "RecvThreadProc_pass (Some (data_datagram base chunks i, sa)) ok s = Inr (v, s', es)"
    and tab: "table_ok s"
  obtains (failed) "s' = touch sa s" "datagrams es = []"
  | (received) c' es' where
      "receive_data sa (DataPacket_of_bytes (data_datagram base chunks i)) (conn_of sa s) = Inr (c', es')"
      "conn_of sa s' = c'" "table_ok s'" "datagrams es = [(sa, ack_datagram (base + int i))]"
proof -
  note dec = data_datagram_decoded [OF num pc i]
  have "on_data ok sa (DataPacket_of_bytes (data_datagram base chunks i)) (touch sa s) = Inr (v, s', es)"
    using step dec(2) by (auto simp: RecvThreadProc_pass_def Let_def)
  then show ?thesis
    using that tab dec(3)
    by (auto simp: on_data_def ack_bytes_def ack_datagram_def receive_data_datagrams split: if_splits)
qed

lemma inv_arrive:
  assumes inv: "ch_inv base sa ra c" and b: "b \<in> to_rcv c"
    and step: "RecvThreadProc_pass (Some (b, sa)) ok (rcv_sock c) = Inr (v, s', es)"
  shows "ch_inv base sa ra (c\<lparr>rcv_sock := s', to_snd := to_snd c \<union> {b. (sa, b) \<in> set (datagrams es)}\<rparr>)"
proof -
  have num: "numbering base (sent c)" "pieces_ok (sent c)" and tab: "table_ok (rcv_sock c)"
    using inv by (auto simp: ch_inv_def snd_inv_def rcv_inv_def)
  obtain i where i: "i < length (sent c)" "b = data_datagram base (sent c) i"
    using inv b by (auto simp: ch_inv_def snd_inv_def)
  note dec = data_datagram_decoded [OF num i(1)]
  from num i(1) step [unfolded i(2)] tab show ?thesis
  proof (cases rule: arrive_cases)
    case failed
    then show ?thesis
      using inv tab by (simp add: ch_inv_def snd_inv_def rcv_inv_def no_loss_def)
  next
    case (received c' es')
    obtain k where k: "delivered base (sent c) (taken c) k (rcv_conn sa c)"
        "waiting_ok base (sent c) (rcv_conn sa c)"
      using inv by (auto simp: ch_inv_def rcv_inv_def)
    obtain k' where k': "delivered base (sent c) (taken c) k' c'" "waiting_ok base (sent c) c'"
      using receive_data_delivered [OF num(1) dec(1) k, where addr = sa] received(1) by auto
    have "insert i (received base (rcv_conn sa c)) \<subseteq> received base c'"
      using receive_data_received [OF num(1) dec(1,3) k received(1)] .
    then show ?thesis
      using inv received k' i(1)
      by (auto simp: ch_inv_def snd_inv_def rcv_inv_def no_loss_def) blast+
  qed
qed

lemma queued_erase:
  assumes "\<forall>n \<in> set ns. node_ok ra base chunks n"
  shows "{j. base + int j \<in> (\<lambda>n. ptr_seq (m_packet n)) ` set ns}
     \<subseteq> insert i {j. base + int j \<in> (\<lambda>n. ptr_seq (m_packet n)) ` set (erase_acked (base + int i) ns)}"
  by (induction ns) auto

lemma set_erase_acked: "set (erase_acked q ns) \<subseteq> set ns"
  by (induction ns) auto

lemma inv_ack:
  assumes inv: "ch_inv base sa ra c" and b: "b \<in> to_snd c"
    and step: "RecvThreadProc_pass (Some (b, ra)) ok (snd_sock c) = Inr (v, s', es)"
  shows "ch_inv base sa ra (c\<lparr>snd_sock := s', to_rcv := to_rcv c \<union> {b. (ra, b) \<in> set (datagrams es)}\<rparr>)"
proof -
  obtain i where i: "i < length (sent c)" "i \<in> received base (rcv_conn sa c)" "b = ack_datagram (base + int i)"
    using inv b by (auto simp: ch_inv_def rcv_inv_def)
  have "int32_range (base + int i)"
    using inv i(1) by (auto simp: ch_inv_def snd_inv_def numbering_range)
  with step i(3) have s': "s' = touch ra (snd_sock c)\<lparr>m_sendList := erase_acked (base + int i) (m_sendList (snd_sock c))\<rparr>"
      "datagrams es = []"
    by (auto simp: pass_ack)
  have "queued base (snd_sock c) \<subseteq> insert i (queued base s')"
    using inv queued_erase [of "m_sendList (snd_sock c)" ra base "sent c" i]
    by (simp add: queued_def s'(1) ch_inv_def snd_inv_def)
  then show ?thesis
    using inv i(2) s' set_erase_acked [of "base + int i" "m_sendList (snd_sock c)"]
    by (auto simp: ch_inv_def snd_inv_def rcv_inv_def no_loss_def)
qed

lemma Recv_returns:
  assumes "Recv a buf n s = Inr (s', Some (m, buf', es))" and "table_ok s"
  shows "table_ok s' \<and> take (nat m) buf' = take (nat m) (m_vtBuf (m_byteStream (conn_of a s)))
     \<and> conn_of a s' = (conn_of a s)\<lparr>m_byteStream := \<lparr>m_vtBuf = drop (nat m) (m_vtBuf (m_byteStream (conn_of a s)))\<rparr>\<rparr>"
  using assms by (auto simp: Recv_def Let_def Read_eq_Inr split: if_splits)

lemma inv_recv:
  assumes inv: "ch_inv base sa ra c" and step: "Recv sa buf n (rcv_sock c) = Inr (s', Some (m, buf', es))"
  shows "ch_inv base sa ra (c\<lparr>rcv_sock := s', taken := taken c @ take (nat m) buf'\<rparr>)"
proof -
  have "table_ok (rcv_sock c)" using inv by (simp add: ch_inv_def rcv_inv_def)
  from Recv_returns [OF step this] inv show ?thesis
    by (auto simp: ch_inv_def snd_inv_def rcv_inv_def no_loss_def delivered_def waiting_ok_def received_def)
qed

lemma ch_step_inv: "ch_step sa ra c d \<Longrightarrow> ch_inv base sa ra c \<Longrightarrow> ch_inv base sa ra d"
  by (elim ch_stepE) (auto intro: inv_send inv_transmit inv_arrive inv_ack inv_recv)

interpretation chan: step_invariant "ch_step sa ra" "ch_inv base sa ra" for sa ra base
  by unfold_locales (rule ch_step_inv)

lemma ch_start_inv: "ch_start base sa ra c \<Longrightarrow> ch_inv base sa ra c"
  by (auto simp: ch_start_def ch_inv_def snd_inv_def rcv_inv_def no_loss_def numbering_def pieces_ok_def
      intro: fresh_conn_start)

section \<open>A run\<close>

text \<open>One message sent, transmitted and received, as an instance of the step relation.\<close>

definition peer_example :: sockaddr where
  "peer_example = sockaddr_in 16777343 40000"

definition ch_example :: channel where
  "ch_example = \<lparr>snd_sock = set_conn peer_example (Conn_init\<lparr>m_nNextSendSeq := 1\<rparr>) CTcpSocket_init,
     rcv_sock = set_conn addr_example (conn_example 1) CTcpSocket_init,
     to_rcv = {}, to_snd = {}, sent = [], taken = []\<rparr>"

lemma ch_example_start: "ch_start 1 addr_example peer_example ch_example"
  by (simp add: ch_start_def ch_example_def fresh_conn_example)

lemma ch_example_run:
  "\<exists>c. (ch_step addr_example peer_example)\<^sup>*\<^sup>* ch_example c \<and> sent c = [''hi'']
     \<and> data_datagram 1 [''hi''] 0 \<in> to_rcv c
     \<and> m_vtBuf (m_byteStream (conn_of addr_example (rcv_sock c))) = ''hi''
     \<and> m_nNextRecvSeq (conn_of addr_example (rcv_sock c)) = 2 \<and> m_recvList (conn_of addr_example (rcv_sock c)) = []"
proof -
  let ?step = "ch_step addr_example peer_example"
  let ?snd = "snd_sock ch_example" and ?rcv = "rcv_sock ch_example"
  have seg: "segments (take (nat 2) ''hi'') = [''hi'']" by (simp add: segments_short)
  obtain s1 es1 where s1: "Send peer_example ''hi'' 2 ?snd = Inr (2, s1, es1)"
      "m_sendList s1 = segment_nodes peer_example 1 [''hi'']"
    using Send_ok [of 2 "''hi''" peer_example ?snd] seg
    by (auto simp: ch_example_def)
  let ?c1 = "ch_example\<lparr>snd_sock := s1, sent := [''hi'']\<rparr>"
  have one: "?step ch_example ?c1"
    using ch_step.app_send [of 2 "''hi''" "[''hi'']" peer_example ch_example 2 s1 es1 addr_example] s1(1) seg
    by (simp add: ch_example_def)
  let ?d = "data_datagram 1 [''hi''] 0"
  obtain s2 es2 where s2: "SendThreadProc_pass (\<lambda>_. 5) (\<lambda>_. True) s1 = Inr (Continue, s2, es2)"
      "datagrams es2 = [(peer_example, ?d)]"
    by (auto simp: SendThreadProc_pass_def s1(2) node_datagram_def DataPacket_bytes_def Size_def
        int32_range_def Let_def data_datagram_def)
  let ?c2 = "?c1\<lparr>snd_sock := s2, to_rcv := {?d}\<rparr>"
  have "?step ?c1 (?c1\<lparr>snd_sock := s2, to_rcv := to_rcv ?c1 \<union> {b. (peer_example, b) \<in> set (datagrams es2)}\<rparr>)"
    using s2(1) by (intro ch_step.transmit) simp
  then have two: "?step ?c1 ?c2" using s2(2) by (simp add: ch_example_def)
  have dec: "DataPacket_of_bytes ?d = \<lparr>m_nType = 2, m_nSeq = 1, m_nLen = 2, m_data = ''hi'' @ replicate 1022 NUL\<rparr>"
    using DataPacket_of_header [of "''hi''" 2 1 2] by (simp add: data_datagram_def int32_range_def)
  obtain s3 es3 where s3: "RecvThreadProc_pass (Some (?d, addr_example)) True (rcv_sock ?c2) = Inr (Continue, s3, es3)"
      "m_vtBuf (m_byteStream (conn_of addr_example s3)) = ''hi''"
      "m_nNextRecvSeq (conn_of addr_example s3) = 2" "m_recvList (conn_of addr_example s3) = []"
    by (auto simp: RecvThreadProc_pass_def dec on_data_def receive_data_def accept_packet_def Write_eq Let_def
        ch_example_def conn_example_def Conn_init_def CByteStream_init_def int32_range_def)
  let ?c3 = "?c2\<lparr>rcv_sock := s3, to_snd := to_snd ?c2 \<union> {b. (addr_example, b) \<in> set (datagrams es3)}\<rparr>"
  have three: "?step ?c2 ?c3"
    using s3(1) by (intro ch_step.arrive) simp_all
  have "?step\<^sup>*\<^sup>* ch_example ?c3"
    using one two three by (meson converse_rtranclp_into_rtranclp rtranclp.rtrancl_refl)
  then show ?thesis using s3(2-4) by (intro exI [of _ ?c3]) simp
qed

section \<open>What every reachable state satisfies\<close>

text \<open>
  Reliability of the stream, safety: in every state that sending, transmission, loss,
  repetition, reordering, acknowledgement and reading can reach from an established connection,
  the bytes the receiving application has taken, followed by those waiting in its stream, are
  exactly the first \<open>k\<close> pieces handed to \<open>Send\<close>.
\<close>

lemma channel_prefix:
  assumes "ch_start base sa ra c0" and "(ch_step sa ra)\<^sup>*\<^sup>* c0 c"
  shows "\<exists>k \<le> length (sent c). m_nNextRecvSeq (conn_of sa (rcv_sock c)) = base + int k
     \<and> taken c @ m_vtBuf (m_byteStream (conn_of sa (rcv_sock c))) = concat (take k (sent c))"
proof -
  have "ch_inv base sa ra c"
    using ch_start_inv [OF assms(1)] assms(2) by (rule chan.reachable_invar)
  then show ?thesis by (auto simp: ch_inv_def rcv_inv_def delivered_def)
qed

text \<open>
  No acknowledged loss: in every reachable state each piece handed to \<open>Send\<close> is still in the
  sender's list, or below the receiver's counter, or in the receiver's out-of-order list; the
  sender forgets a piece only after the receiver has it.
\<close>

lemma channel_no_loss:
  assumes "ch_start base sa ra c0" and "(ch_step sa ra)\<^sup>*\<^sup>* c0 c" and "i < length (sent c)"
  shows "(\<exists>n \<in> set (m_sendList (snd_sock c)). ptr_seq (m_packet n) = base + int i)
     \<or> base + int i < m_nNextRecvSeq (conn_of sa (rcv_sock c))
     \<or> (\<exists>p \<in> set (m_recvList (conn_of sa (rcv_sock c))). m_nSeq p = base + int i)"
proof -
  have "ch_inv base sa ra c"
    using ch_start_inv [OF assms(1)] assms(2) by (rule chan.reachable_invar)
  then have "i \<in> received base (conn_of sa (rcv_sock c)) \<union> queued base (snd_sock c)"
    using assms(3) by (auto simp: ch_inv_def no_loss_def)
  then show ?thesis by (fastforce simp: received_def queued_def)
qed

text \<open>
  The receiving thread is safe on everything the peer can send: in a reachable state no
  datagram in flight to the receiver makes a pass of its thread leave an object, and it ends the
  thread only when the acknowledgement cannot be sent.
\<close>

lemma channel_receiver_safe:
  assumes "ch_start base sa ra c0" and "(ch_step sa ra)\<^sup>*\<^sup>* c0 c" and "b \<in> to_rcv c"
  shows "\<exists>s' es. RecvThreadProc_pass (Some (b, sa)) ok (rcv_sock c) = Inr (if ok then Continue else Return, s', es)"
proof -
  have inv: "ch_inv base sa ra c"
    using ch_start_inv [OF assms(1)] assms(2) by (rule chan.reachable_invar)
  then have num: "numbering base (sent c)" "pieces_ok (sent c)" and tab: "table_ok (rcv_sock c)"
    by (auto simp: ch_inv_def snd_inv_def rcv_inv_def)
  obtain i where i: "i < length (sent c)" "b = data_datagram base (sent c) i"
    using inv assms(3) by (auto simp: ch_inv_def snd_inv_def)
  note dec = data_datagram_decoded [OF num i(1)]
  obtain k where "delivered base (sent c) (taken c) k (rcv_conn sa c)" "waiting_ok base (sent c) (rcv_conn sa c)"
    using inv by (auto simp: ch_inv_def rcv_inv_def)
  from receive_data_delivered [OF num(1) dec(1) this, where addr = sa] obtain c' es where
    "receive_data sa (DataPacket_of_bytes b) (conn_of sa (rcv_sock c)) = Inr (c', es)"
    using i(2) by blast
  then show ?thesis
    using dec(2) i(2) tab by (simp add: RecvThreadProc_pass_def Let_def on_data_def)
qed

section \<open>Properties\<close>

text \<open>
  C15. The handshake establishes a channel: when the client's first packet reaches a server without
  pending packets, the server's next sending pass emits exactly its answer; with that answer
  \<open>Connect\<close> succeeds, the client's acknowledgement empties the server's list, and the two sockets
  are in the start state of the channel, in both directions, with first sequence number 1.
\<close>

theorem handshake_establishes:
  assumes sv: "table_ok sv" "m_sendList sv = []" "conn_of ca sv = Conn_init"
    and cl: "table_ok (base_socket c)" "conn_of sa (base_socket c) = Conn_init"
    and env: "server_addr env = sa" "sock_ok env" "syn_ok env" "ack_ok env"
  shows "\<exists>sv1 es1 sv2 es2 c' es sv3 es3.
     RecvThreadProc_pass (Some (Packet_bytes (new_Packet ESTABLISH_1 0), ca)) True sv = Inr (Continue, sv1, es1)
     \<and> SendThreadProc_pass clk (\<lambda>_. True) sv1 = Inr (Continue, sv2, es2)
     \<and> datagrams es2 = [(ca, Packet_bytes (new_Packet ESTABLISH_2 0))]
     \<and> Connect (env\<lparr>reply := Some (Packet_bytes (new_Packet ESTABLISH_2 0))\<rparr>) c = (True, c', es)
     \<and> (sa, ack_datagram 0) \<in> set (datagrams es)
     \<and> RecvThreadProc_pass (Some (ack_datagram 0, ca)) True sv2 = Inr (Continue, sv3, es3)
     \<and> ch_start 1 ca sa \<lparr>snd_sock = base_socket c', rcv_sock = sv3, to_rcv = {}, to_snd = {}, sent = [], taken = []\<rparr>
     \<and> ch_start 1 sa ca \<lparr>snd_sock = sv3, rcv_sock = base_socket c', to_rcv = {}, to_snd = {}, sent = [], taken = []\<rparr>"
proof -
  have r: "int32_range 0" "int32_range 1" "int32_range (0 + 1)" by (simp_all add: int32_range_def)
  define sv1 where "sv1 = set_conn ca (Conn_init\<lparr>m_nNextSendSeq := 1, m_nNextRecvSeq := 1\<rparr>) (touch ca sv)
    \<lparr>m_sendList := [\<lparr>m_time = 0, m_addr = ca, m_packet = PlainPkt (new_Packet ESTABLISH_2 0)\<rparr>]\<rparr>"
  have one: "RecvThreadProc_pass (Some (Packet_bytes (new_Packet ESTABLISH_1 0), ca)) True sv
      = Inr (Continue, sv1, [Lock SendListLock, UnLock SendListLock])"
    using pass_establish_1 [OF r(1,3) sv(1)] sv by (simp add: sv1_def)
  obtain sv2 es2 t where two: "SendThreadProc_pass clk (\<lambda>_. True) sv1 = Inr (Continue, sv2, es2)"
      "datagrams es2 = [(ca, Packet_bytes (new_Packet ESTABLISH_2 0))]"
      "sv2 = sv1\<lparr>m_sendList := [\<lparr>m_time = t, m_addr = ca, m_packet = PlainPkt (new_Packet ESTABLISH_2 0)\<rparr>]\<rparr>"
    by (auto simp: SendThreadProc_pass_def sv1_def node_datagram_def new_Packet_def Packet_bytes_def Let_def)
  obtain c' es where con: "Connect (env\<lparr>reply := Some (Packet_bytes (new_Packet ESTABLISH_2 0))\<rparr>) c = (True, c', es)"
      "conn_of sa (base_socket c') = Conn_init\<lparr>m_nNextSendSeq := 1, m_nNextRecvSeq := 1\<rparr>"
      "m_sendList (base_socket c') = []" "table_ok (base_socket c')" "(sa, ack_datagram 0) \<in> set (datagrams es)"
    using env cl r by (auto simp: Connect_def Let_def ack_datagram_def Packet_of_Packet_bytes new_Packet_def)
  define sv3 where "sv3 = touch ca sv2\<lparr>m_sendList := []\<rparr>"
  have three: "RecvThreadProc_pass (Some (ack_datagram 0, ca)) True sv2
      = Inr (Continue, sv3, [Lock SendListLock, UnLock SendListLock])"
    using pass_ack [OF r(1)] two(3) by (simp add: sv3_def new_Packet_def)
  have "table_ok sv3" "m_sendList sv3 = []"
      "conn_of ca sv3 = Conn_init\<lparr>m_nNextSendSeq := 1, m_nNextRecvSeq := 1\<rparr>"
    using sv by (simp_all add: sv3_def two(3) sv1_def)
  then have "ch_start 1 ca sa \<lparr>snd_sock = base_socket c', rcv_sock = sv3, to_rcv = {}, to_snd = {}, sent = [], taken = []\<rparr>"
      "ch_start 1 sa ca \<lparr>snd_sock = sv3, rcv_sock = base_socket c', to_rcv = {}, to_snd = {}, sent = [], taken = []\<rparr>"
    using con by (simp_all add: ch_start_def fresh_conn_def Conn_init_def CByteStream_init_def)
  with one two con three show ?thesis by blast
qed

theorem handshake_establishes_witness:
  "\<exists>c' es. Connect (env_example\<lparr>reply := Some (Packet_bytes (new_Packet ESTABLISH_2 0))\<rparr>)
       (client_init addr_example) = (True, c', es) \<and> (addr_example, ack_datagram 0) \<in> set (datagrams es)"
  using handshake_establishes [of CTcpSocket_init peer_example "client_init addr_example" addr_example
      env_example "\<lambda>_. 5"]
  by (auto simp: env_example_def)

end
