(* ===== verification/Delivery.thy ===== *)
theory Delivery
  imports Channel
begin

text \<open>
  Whether a channel delivers. As long as the sender still has the piece the receiver waits for, one pass of
  the sending thread and one arrival deliver it; the only other case is a stale packet at the front of
  the receiver's out-of-order list, and a single repetition on the way leads there, with
  acknowledged data that never reaches the application. The last property leaves the channel's assumption that
  no handshake packet is on its way any more: one that arrives late sets the connection back.
\<close>

section \<open>Steps that can be taken\<close>

lemma all_due: "\<exists>T. \<forall>n \<in> set ns. 1000 \<le> T - m_time n"
proof (induction ns)
  case (Cons n ns)
  then obtain T where "\<forall>n \<in> set ns. 1000 \<le> T - m_time n" by blast
  then show ?case by (intro exI [of _ "max T (1000 + m_time n)"]) fastforce
qed simp

abbreviation send_seqs :: "channel \<Rightarrow> int list" where
  "send_seqs c \<equiv> map (\<lambda>n. ptr_seq (m_packet n)) (m_sendList (snd_sock c))"

text \<open>A pass of the sending thread that comes late enough transmits every listed piece.\<close>

lemma transmit_all:
  assumes inv: "ch_inv base sa ra c"
  obtains d where "ch_step sa ra c d" "rcv_sock d = rcv_sock c" "sent d = sent c" "taken d = taken c"
    "to_snd d = to_snd c" "send_seqs d = send_seqs c"
    "data_datagram base (sent c) ` (queued base (snd_sock c) \<inter> {..<length (sent c)}) \<subseteq> to_rcv d"
proof -
  let ?ns = "m_sendList (snd_sock c)"
  have si: "numbering base (sent c)" "pieces_ok (sent c)" "\<forall>n \<in> set ?ns. node_ok ra base (sent c) n"
    using inv by (auto simp: ch_inv_def snd_inv_def)
  obtain T where T: "\<forall>n \<in> set ?ns. 1000 \<le> T - m_time n" using all_due by blast
  have "is_ok (node_datagram n)" if "n \<in> set ?ns" for n
    using node_ok_value [OF si(3) [rule_format, OF that] si(1,2)] by (metis is_ok_iff)
  then obtain ns es where pass: "send_nodes (\<lambda>_. T) (\<lambda>_. True) 0 ?ns = Inr (Continue, ns, es)"
    using send_nodes_ok by blast
  let ?es = "Lock SendListLock # es @ [UnLock SendListLock]"
  let ?d = "c\<lparr>snd_sock := (snd_sock c)\<lparr>m_sendList := ns\<rparr>, to_rcv := to_rcv c \<union> {b. (ra, b) \<in> set (datagrams ?es)}\<rparr>"
  have step: "ch_step sa ra c ?d"
    using pass by (intro ch_step.transmit [where clk = "\<lambda>_. T" and ok = "\<lambda>_. True"]) (simp add: SendThreadProc_pass_def)
  have seqs: "send_seqs ?d = send_seqs c"
    using arg_cong [OF send_nodes_keeps [OF pass], of "map (ptr_seq \<circ> snd)"] by (simp add: comp_def)
  have "data_datagram base (sent c) i \<in> to_rcv ?d" if i: "i \<in> queued base (snd_sock c)" for i
  proof -
    obtain n where n: "n \<in> set ?ns" "ptr_seq (m_packet n) = base + int i"
      using i by (auto simp: queued_def)
    then have "node_datagram n = Inr (Some (data_datagram base (sent c) i))" "m_addr n = ra"
      using node_ok_value [OF si(3) [rule_format, OF n(1)] si(1,2)] by (metis add_left_cancel of_nat_eq_iff)+
    with send_nodes_transmits [OF pass n(1), of _ T] T n(1) show ?thesis by auto
  qed
  then show ?thesis using step seqs by (intro that [of ?d]) auto
qed

text \<open>A datagram under way can arrive.\<close>

abbreviation nth_packet :: "int \<Rightarrow> channel \<Rightarrow> nat \<Rightarrow> DataPacket" where
  "nth_packet base c i \<equiv> DataPacket_of_bytes (data_datagram base (sent c) i)"

lemma arrive_one:
  assumes inv: "ch_inv base sa ra c" and i: "i < length (sent c)" "data_datagram base (sent c) i \<in> to_rcv c"
  obtains d es where "ch_step sa ra c d" "receive_data sa (nth_packet base c i) (rcv_conn sa c) = Inr (rcv_conn sa d, es)"
    "snd_sock d = snd_sock c" "sent d = sent c" "taken d = taken c" "to_rcv d = to_rcv c"
    "to_snd d = insert (ack_datagram (base + int i)) (to_snd c)"
proof -
  have num: "numbering base (sent c)" "pieces_ok (sent c)" and tab: "table_ok (rcv_sock c)"
    using inv by (auto simp: ch_inv_def snd_inv_def rcv_inv_def)
  note dec = data_datagram_decoded [OF num i(1)]
  obtain k where "delivered base (sent c) (taken c) k (rcv_conn sa c)" "waiting_ok base (sent c) (rcv_conn sa c)"
    using inv by (auto simp: ch_inv_def rcv_inv_def)
  from receive_data_delivered [OF num(1) dec(1) this, where addr = sa]
  obtain c' es where r: "receive_data sa (nth_packet base c i) (rcv_conn sa c) = Inr (c', es)" by blast
  let ?s = "set_conn sa c' (touch sa (rcv_sock c))"
  let ?es = "Sendto sa (ack_datagram (base + int i)) True # es"
  let ?d = "c\<lparr>rcv_sock := ?s, to_snd := to_snd c \<union> {b. (sa, b) \<in> set (datagrams ?es)}\<rparr>"
  have "RecvThreadProc_pass (Some (data_datagram base (sent c) i, sa)) True (rcv_sock c) = Inr (Continue, ?s, ?es)"
    using dec(2,3) r tab by (simp add: RecvThreadProc_pass_def Let_def on_data_def ack_bytes_def ack_datagram_def)
  then have "ch_step sa ra c ?d" by (rule ch_step.arrive [OF i(2)])
  moreover have "to_snd ?d = insert (ack_datagram (base + int i)) (to_snd c)"
    using receive_data_datagrams [OF r] by auto
  moreover have "rcv_conn sa ?d = c'" using tab by simp
  ultimately show ?thesis using r by (intro that [of ?d es]) simp_all
qed

lemma arrive_many:
  assumes "ch_inv base sa ra c" and "\<forall>i \<in> set is. i < length (sent c) \<and> data_datagram base (sent c) i \<in> to_rcv c"
  shows "\<exists>d. (ch_step sa ra)\<^sup>*\<^sup>* c d \<and> receive_all sa (map (nth_packet base c) is) (rcv_conn sa c) = Inr (rcv_conn sa d)
     \<and> snd_sock d = snd_sock c \<and> sent d = sent c \<and> taken d = taken c
     \<and> (\<lambda>i. ack_datagram (base + int i)) ` set is \<subseteq> to_snd d \<and> to_snd c \<subseteq> to_snd d"
  using assms
proof (induction "is" arbitrary: c)
  case (Cons i "is")
  obtain c1 es where c1: "ch_step sa ra c c1"
    "receive_data sa (nth_packet base c i) (rcv_conn sa c) = Inr (rcv_conn sa c1, es)"
    "snd_sock c1 = snd_sock c" "sent c1 = sent c" "taken c1 = taken c" "to_rcv c1 = to_rcv c"
    "to_snd c1 = insert (ack_datagram (base + int i)) (to_snd c)"
    using arrive_one [OF Cons.prems(1), of i] Cons.prems(2) by auto
  obtain d where "(ch_step sa ra)\<^sup>*\<^sup>* c1 d"
      "receive_all sa (map (nth_packet base c) is) (rcv_conn sa c1) = Inr (rcv_conn sa d)"
      "snd_sock d = snd_sock c" "sent d = sent c" "taken d = taken c"
      "(\<lambda>i. ack_datagram (base + int i)) ` set is \<subseteq> to_snd d" "to_snd c1 \<subseteq> to_snd d"
    using Cons.IH [OF ch_step_inv [OF c1(1) Cons.prems(1)]] Cons.prems(2) c1 by auto
  then show ?case
    using c1 by (intro exI [of _ d]) (auto intro: converse_rtranclp_into_rtranclp)
qed auto

text \<open>The acknowledgement of the first listed piece removes it.\<close>

lemma ack_front:
  assumes inv: "ch_inv base sa ra c" and b: "ack_datagram (base + int i) \<in> to_snd c" "i < length (sent c)"
    and front: "send_seqs c = (base + int i) # qs"
  obtains d where "ch_step sa ra c d" "send_seqs d = qs" "rcv_sock d = rcv_sock c" "sent d = sent c"
    "taken d = taken c" "to_snd d = to_snd c"
proof -
  have r: "int32_range (base + int i)"
    using inv b(2) by (auto simp: ch_inv_def snd_inv_def numbering_range)
  let ?s = "touch ra (snd_sock c)\<lparr>m_sendList := erase_acked (base + int i) (m_sendList (snd_sock c))\<rparr>"
  let ?es = "[Lock SendListLock, UnLock SendListLock]"
  let ?d = "c\<lparr>snd_sock := ?s, to_rcv := to_rcv c \<union> {b. (ra, b) \<in> set (datagrams ?es)}\<rparr>"
  have "ch_step sa ra c ?d"
    by (rule ch_step.arrive_ack [OF b(1)]) (rule pass_ack [OF r])
  moreover have "send_seqs ?d = qs" using front by (cases "m_sendList (snd_sock c)") auto
  ultimately show ?thesis by (intro that [of ?d]) simp_all
qed

lemma ack_many:
  assumes "ch_inv base sa ra c" and "send_seqs c = map (\<lambda>i. base + int i) is"
    and "\<forall>i \<in> set is. i < length (sent c) \<and> ack_datagram (base + int i) \<in> to_snd c"
  shows "\<exists>d. (ch_step sa ra)\<^sup>*\<^sup>* c d \<and> m_sendList (snd_sock d) = [] \<and> rcv_sock d = rcv_sock c
     \<and> sent d = sent c \<and> taken d = taken c"
  using assms
proof (induction "is" arbitrary: c)
  case (Cons i "is")
  obtain c1 where c1: "ch_step sa ra c c1" "send_seqs c1 = map (\<lambda>i. base + int i) is" "rcv_sock c1 = rcv_sock c"
    "sent c1 = sent c" "taken c1 = taken c" "to_snd c1 = to_snd c"
    using ack_front [OF Cons.prems(1), of i] Cons.prems(2,3) by auto
  show ?case
    using Cons.IH [OF ch_step_inv [OF c1(1) Cons.prems(1)] c1(2)] Cons.prems(3) c1
    by (auto intro: converse_rtranclp_into_rtranclp)
qed auto

text \<open>Pieces can be handed over one by one.\<close>

lemma send_many:
  assumes "ch_inv base sa ra c" and "base + int (length (sent c) + length bs) < 2 ^ 31"
    and "\<forall>b \<in> set bs. 0 < length b \<and> length b \<le> 1024"
  shows "\<exists>d. (ch_step sa ra)\<^sup>*\<^sup>* c d \<and> sent d = sent c @ bs \<and> rcv_sock d = rcv_sock c \<and> taken d = taken c
     \<and> send_seqs d = send_seqs c @ map (\<lambda>i. base + int i) [length (sent c)..<length (sent c) + length bs]"
  using assms
proof (induction bs arbitrary: c)
  case (Cons b bs)
  let ?q = "m_nNextSendSeq (conn_of ra (snd_sock c))"
  have q: "?q = base + int (length (sent c))" "- (2 ^ 31) \<le> ?q" "table_ok (snd_sock c)"
    using Cons.prems(1) by (auto simp: ch_inv_def snd_inv_def numbering_def)
  have seg': "segments b = [b]" using Cons.prems(3) by (simp add: segments_short)
  then have seg: "[b] = segments (take (nat (int (length b))) b)" by simp
  obtain s es where s: "Send ra b (int (length b)) (snd_sock c) = Inr (int (length b), s, es)"
    using Send_ok [of "int (length b)" b ra "snd_sock c"] q Cons.prems(2) seg' by auto
  let ?d = "c\<lparr>snd_sock := s, sent := sent c @ [b]\<rparr>"
  have step: "ch_step sa ra c ?d"
    using q(1) Cons.prems(2) by (intro ch_step.app_send [OF _ _ seg _ s]) simp_all
  have "snd_inv base ra c" using Cons.prems(1) by (simp add: ch_inv_def)
  from snd_inv_send(2) [OF this _ _ seg _ s] q(1) Cons.prems(2)
  have seqs: "send_seqs ?d = send_seqs c @ [base + int (length (sent c))]" by simp
  obtain d where "(ch_step sa ra)\<^sup>*\<^sup>* ?d d" "sent d = sent c @ b # bs" "rcv_sock d = rcv_sock c" "taken d = taken c"
      "send_seqs d = send_seqs ?d @ map (\<lambda>i. base + int i) [Suc (length (sent c))..<length (sent c) + Suc (length bs)]"
    using Cons.IH [OF ch_step_inv [OF step Cons.prems(1)]] Cons.prems(2,3) by auto
  moreover have "[length (sent c)..<length (sent c) + length (b # bs)]
      = length (sent c) # [Suc (length (sent c))..<length (sent c) + Suc (length bs)]"
    by (subst upt_conv_Cons) simp_all
  ultimately show ?case
    using step seqs by (intro exI [of _ d]) (auto simp del: upt_Suc intro: converse_rtranclp_into_rtranclp)
qed auto


lemma sent_and_transmitted:
  assumes inv: "ch_inv base sa ra c" and new: "sent c = []" "send_seqs c = []"
    and bs: "base + int (length bs) < 2 ^ 31" "\<forall>b \<in> set bs. 0 < length b \<and> length b \<le> 1024"
  shows "\<exists>d. (ch_step sa ra)\<^sup>*\<^sup>* c d \<and> sent d = bs \<and> rcv_sock d = rcv_sock c \<and> taken d = taken c
     \<and> send_seqs d = map (\<lambda>i. base + int i) [0..<length bs]
     \<and> (\<forall>i < length bs. data_datagram base bs i \<in> to_rcv d)"
proof -
  obtain c1 where c1: "(ch_step sa ra)\<^sup>*\<^sup>* c c1" "sent c1 = bs" "rcv_sock c1 = rcv_sock c" "taken c1 = taken c"
      "send_seqs c1 = map (\<lambda>i. base + int i) [0..<length bs]"
    using send_many [OF inv, of bs] new bs by auto
  have "i \<in> queued base (snd_sock c1)" if "i < length bs" for i
  proof -
    have "base + int i \<in> set (send_seqs c1)" using that by (simp add: c1(5) del: set_map) auto
    then show ?thesis by (simp add: queued_def)
  qed
  then have q: "{..<length bs} \<subseteq> queued base (snd_sock c1) \<inter> {..<length (sent c1)}" using c1(2) by auto
  obtain d where d: "ch_step sa ra c1 d" "rcv_sock d = rcv_sock c1" "sent d = sent c1" "taken d = taken c1"
      "send_seqs d = send_seqs c1"
      "data_datagram base (sent c1) ` (queued base (snd_sock c1) \<inter> {..<length (sent c1)}) \<subseteq> to_rcv d"
    by (rule transmit_all [OF chan.reachable_invar [OF inv c1(1)]])
  have "data_datagram base bs ` {..<length bs} \<subseteq> to_rcv d"
    using subset_trans [OF image_mono [OF q, of "data_datagram base bs"]] d(6) c1(2) by simp
  then show ?thesis
    using c1 d(1-5) by (intro exI [of _ d]) (auto intro: rtranclp.rtrancl_into_rtrancl)
qed

section \<open>The front of the out-of-order list\<close>

text \<open>The thread never leaves the packet it waits for at the front of the list.\<close>

definition head_ok :: "Conn \<Rightarrow> bool" where
  "head_ok c \<longleftrightarrow> (\<forall>p qs. m_recvList c = p # qs \<longrightarrow> m_nSeq p \<noteq> m_nNextRecvSeq c)"

lemma receive_data_cases:
  assumes num: "numbering base chunks" and p: "carries base chunks p"
    and c: "delivered base chunks tk k c" "waiting_ok base chunks c"
    and step: "receive_data addr p c = Inr (c', es)"
  obtains (taken) k' where "m_nSeq p = base + int k" "k < k'" "delivered base chunks tk k' c'" "head_ok c'"
  | (early) "base + int k < m_nSeq p" "c' = c\<lparr>m_recvList := insert_packet p (m_recvList c)\<rparr>"
  | (late) "m_nSeq p < base + int k" "c' = c"
proof (cases "m_nSeq p = m_nNextRecvSeq c")
  case True
  obtain c1 es1 where c1: "accept_packet addr p c = Inr (c1, es1)"
      "delivered base chunks tk (Suc k) c1" "m_recvList c1 = m_recvList c"
    using accept_packet_delivered [OF num p c(1) True] by blast
  obtain k' c2 es2 where d: "drain addr (m_recvList c) c1 = Inr (c2, es2)" "Suc k \<le> k'"
      "delivered base chunks tk k' c2" "\<forall>p qs. m_recvList c2 = p # qs \<longrightarrow> m_nSeq p \<noteq> base + int k'"
    using drain_spec [OF num _ c1(2), where addr = addr and ps = "m_recvList c"] c(2)
    by (auto simp: waiting_ok_def)
  have "c' = c2" using step True c1 d(1) by (auto simp: receive_data_def)
  with d True c(1) show ?thesis by (intro taken [of k']) (auto simp: head_ok_def delivered_def)
next
  case False
  then show ?thesis
    using step early late c(1) by (auto simp: receive_data_def delivered_def split: if_splits)
qed

lemma receive_data_head:
  assumes "numbering base chunks" "carries base chunks p" "delivered base chunks tk k c" "waiting_ok base chunks c"
    and step: "receive_data addr p c = Inr (c', es)" and head: "head_ok c"
  shows "head_ok c'"
  using assms(1-5)
proof (cases rule: receive_data_cases)
  case early
  then show ?thesis
    using head assms(3) by (cases "m_recvList c") (auto simp: head_ok_def delivered_def)
qed (use head in simp_all)

lemma ch_step_head:
  assumes step: "ch_step sa ra c d" and inv: "ch_inv base sa ra c" "head_ok (rcv_conn sa c)"
  shows "head_ok (rcv_conn sa d)"
  using step
proof (cases rule: ch_step.cases)
  case (arrive b ok v s' es)
  have num: "numbering base (sent c)" "pieces_ok (sent c)" and tab: "table_ok (rcv_sock c)"
    using inv(1) by (auto simp: ch_inv_def snd_inv_def rcv_inv_def)
  obtain i where i: "i < length (sent c)" "b = data_datagram base (sent c) i"
    using inv(1) arrive(2) by (auto simp: ch_inv_def snd_inv_def)
  from num i(1) arrive(3) [unfolded i(2)] tab show ?thesis
  proof (cases rule: arrive_cases)
    case failed
    then show ?thesis using arrive(1) inv(2) tab by simp
  next
    case (received c' es')
    obtain k where "delivered base (sent c) (taken c) k (rcv_conn sa c)" "waiting_ok base (sent c) (rcv_conn sa c)"
      using inv(1) by (auto simp: ch_inv_def rcv_inv_def)
    from receive_data_head [OF num(1) data_datagram_decoded(1) [OF num i(1)] this received(1) inv(2)]
    show ?thesis using arrive(1) received(2) by simp
  qed
next
  case (app_recv buf n s' m buf' es)
  have "table_ok (rcv_sock c)" using inv(1) by (simp add: ch_inv_def rcv_inv_def)
  from Recv_returns [OF app_recv(2) this] inv(2) app_recv(1) show ?thesis by (simp add: head_ok_def)
qed (use inv(2) in simp_all)

definition live_inv :: "int \<Rightarrow> sockaddr \<Rightarrow> sockaddr \<Rightarrow> channel \<Rightarrow> bool" where
  "live_inv base sa ra c \<longleftrightarrow> ch_inv base sa ra c \<and> head_ok (rcv_conn sa c)"

interpretation live: step_invariant "ch_step sa ra" "live_inv base sa ra" for sa ra base
  by unfold_locales (auto simp: live_inv_def intro: ch_step_inv ch_step_head)

lemma ch_start_live: "ch_start base sa ra c \<Longrightarrow> live_inv base sa ra c"
  by (auto simp: live_inv_def ch_start_inv) (simp add: ch_start_def fresh_conn_def head_ok_def)


section \<open>Properties\<close>



text \<open>Nothing but the packet it waits for moves the receiver's counter.\<close>

lemma receive_all_waits:
  assumes "m_nNextRecvSeq c \<notin> m_nSeq ` set ps" and "receive_all addr ps c = Inr c'"
  shows "m_nNextRecvSeq c' = m_nNextRecvSeq c \<and> m_byteStream c' = m_byteStream c"
  using assms
proof (induction ps arbitrary: c)
  case (Cons p ps)
  then obtain c1 es where "receive_data addr p c = Inr (c1, es)" "receive_all addr ps c1 = Inr c'" by auto
  then show ?case
    using Cons.IH [of c1] Cons.prems(1) by (auto simp: receive_data_def split: if_splits)
qed simp

text \<open>Four packets, the second of them twice and early, the last before the third.\<close>

lemma repeated_early:
  assumes num: "numbering base chunks" "length chunks = 4" and start: "fresh_conn base c"
    and ps: "\<And>i. i < 4 \<Longrightarrow> carries base chunks (p i) \<and> m_nSeq (p i) = base + int i"
    and all: "receive_all addr [p 1, p 1, p 0, p 3, p 2] c = Inr c'"
  shows "delivered base chunks [] 3 c' \<and> m_recvList c' = [p 1, p 3]"
proof -
  have seqs: "m_nSeq (p 0) = base" "m_nSeq (p (Suc 0)) = base + 1" "m_nSeq (p 2) = base + 2" "m_nSeq (p 3) = base + 3"
    using ps [of 0] ps [of 1] ps [of 2] ps [of 3] by simp_all
  have carry: "carries base chunks (p 0)" "carries base chunks (p (Suc 0))" "carries base chunks (p 2)"
    using ps [of 0] ps [of 1] ps [of 2] by simp_all
  let ?c2 = "c\<lparr>m_recvList := [p 1, p 1]\<rparr>"
  have c2: "delivered base chunks [] 0 ?c2" "m_nNextRecvSeq ?c2 = base"
    using start by (auto simp: fresh_conn_def delivered_def)
  obtain c3 e3 where c3: "accept_packet addr (p 0) ?c2 = Inr (c3, e3)" "delivered base chunks [] 1 c3" "m_recvList c3 = [p 1, p 1]"
    using accept_packet_delivered [OF num(1) carry(1) c2(1), where addr = addr] seqs(1) c2(2) by auto
  then have n3: "m_nNextRecvSeq c3 = base + 1" by (simp add: delivered_def)
  obtain c4 e4 where c4: "accept_packet addr (p 1) c3 = Inr (c4, e4)" "delivered base chunks [] 2 c4"
    using accept_packet_delivered [OF num(1) carry(2) c3(2), where addr = addr] seqs(2) n3
    by (auto simp: numeral_2_eq_2)
  then have n4: "m_nNextRecvSeq c4 = base + 2" by (simp add: delivered_def)
  let ?c5 = "c4\<lparr>m_recvList := [p 1, p 3]\<rparr>"
  have c5: "delivered base chunks [] 2 ?c5" "m_nNextRecvSeq ?c5 = base + 2"
    using c4(2) n4 by (simp_all add: delivered_def)
  obtain c6 e6 where c6: "accept_packet addr (p 2) ?c5 = Inr (c6, e6)" "delivered base chunks [] 3 c6" "m_recvList c6 = [p 1, p 3]"
    using accept_packet_delivered [OF num(1) carry(3) c5(1), where addr = addr] seqs(3) c5(2)
    by (auto simp: numeral_3_eq_3 numeral_2_eq_2)
  then have n6: "m_nNextRecvSeq c6 = base + 3" by (simp add: delivered_def)
  have "c' = c6\<lparr>m_recvList := [p 1, p 3]\<rparr>"
    using all start seqs c3 n3 c4 n4 c6 n6 by (simp add: receive_data_def fresh_conn_def)
  with c6 show ?thesis by (simp add: delivered_def)
qed

text \<open>
  C6. Acknowledged data can be lost. From every new connection the following is reachable when four
  pieces are sent: the second arrives twice before the first, the fourth before the third, and all
  four are acknowledged. Then the sender's list is empty, so it never transmits any of them again; the receiver
  has the fourth piece in its list, but waits for it: whatever other packets arrive, of this or any
  later data, the stream stays as it is, three pieces long.
\<close>

theorem acknowledged_data_lost:
  assumes "ch_start base sa ra c0" and "base + 4 < 2 ^ 31"
    and "length bs = 4" "\<forall>b \<in> set bs. 0 < length b \<and> length b \<le> 1024"
  shows "\<exists>c. (ch_step sa ra)\<^sup>*\<^sup>* c0 c \<and> sent c = bs \<and> m_sendList (snd_sock c) = []
     \<and> base + 3 \<in> m_nSeq ` set (m_recvList (rcv_conn sa c))
     \<and> m_nNextRecvSeq (rcv_conn sa c) = base + 3
     \<and> taken c @ m_vtBuf (m_byteStream (rcv_conn sa c)) = concat (take 3 bs)
     \<and> (\<forall>ps c'. base + 3 \<notin> m_nSeq ` set ps \<longrightarrow> receive_all sa ps (rcv_conn sa c) = Inr c' \<longrightarrow>
          m_nNextRecvSeq c' = base + 3 \<and> m_byteStream c' = m_byteStream (rcv_conn sa c))"
proof -
  have inv: "ch_inv base sa ra c0" by (rule ch_start_inv [OF assms(1)])
  have start: "sent c0 = []" "taken c0 = []" "send_seqs c0 = []" "fresh_conn base (rcv_conn sa c0)"
    using assms(1) by (simp_all add: ch_start_def)
  have less_four: "(\<forall>i < 4. P i) \<longleftrightarrow> P 0 \<and> P 1 \<and> P 2 \<and> P (3 :: nat)" for P
    by (auto simp: numeral_eq_Suc less_Suc_eq)
  obtain c2 where c2: "(ch_step sa ra)\<^sup>*\<^sup>* c0 c2" "rcv_sock c2 = rcv_sock c0" "sent c2 = bs" "taken c2 = []"
      "send_seqs c2 = map (\<lambda>i. base + int i) [0..<4]" "\<forall>i < 4. data_datagram base bs i \<in> to_rcv c2"
    using sent_and_transmitted [OF inv, of bs] start assms(2-4) by (auto simp del: upt_Suc)
  have inv2: "ch_inv base sa ra c2" by (rule chan.reachable_invar [OF inv c2(1)])
  then have num: "numbering base bs" "pieces_ok bs" using c2(3) by (auto simp: ch_inv_def snd_inv_def)
  let ?p = "\<lambda>i. DataPacket_of_bytes (data_datagram base bs i)"
  obtain c3 where c3: "(ch_step sa ra)\<^sup>*\<^sup>* c2 c3"
      "receive_all sa [?p 1, ?p 1, ?p 0, ?p 3, ?p 2] (rcv_conn sa c0) = Inr (rcv_conn sa c3)"
      "send_seqs c3 = map (\<lambda>i. base + int i) [0..<4]" "sent c3 = bs" "taken c3 = []"
      "\<forall>i < 4. ack_datagram (base + int i) \<in> to_snd c3"
    using arrive_many [OF inv2, of "[1, 1, 0, 3, 2]"] c2(2-6) assms(3) by (auto simp: less_four)
  have inv3: "ch_inv base sa ra c3" by (rule chan.reachable_invar [OF inv2 c3(1)])
  have got: "delivered base bs [] 3 (rcv_conn sa c3)" "m_recvList (rcv_conn sa c3) = [?p 1, ?p 3]"
    using repeated_early [OF num(1) assms(3) start(4), where p = ?p, OF _ c3(2)] data_datagram_decoded(1,3) [OF num] assms(3)
    by auto
  obtain c4 where c4: "(ch_step sa ra)\<^sup>*\<^sup>* c3 c4" "m_sendList (snd_sock c4) = []" "rcv_sock c4 = rcv_sock c3"
      "sent c4 = bs" "taken c4 = []"
    using ack_many [OF inv3 c3(3)] c3(4-6) assms(3) by auto
  have "(ch_step sa ra)\<^sup>*\<^sup>* c0 c4"
    using c2(1) c3(1) c4(1) by (meson rtranclp_trans)
  moreover have "m_nSeq (?p 3) = base + 3" using data_datagram_decoded(3) [OF num, of 3] assms(3) by simp
  moreover have n: "m_nNextRecvSeq (rcv_conn sa c4) = base + 3"
    using got(1) c4(3) by (simp add: delivered_def)
  moreover have "taken c4 @ m_vtBuf (m_byteStream (rcv_conn sa c4)) = concat (take 3 bs)"
    using got(1) c4(3,5) by (simp add: delivered_def)
  moreover have "base + 3 \<notin> m_nSeq ` set ps \<Longrightarrow> receive_all sa ps (rcv_conn sa c4) = Inr c' \<Longrightarrow>
          m_nNextRecvSeq c' = base + 3 \<and> m_byteStream c' = m_byteStream (rcv_conn sa c4)" for ps c'
    using receive_all_waits [of "rcv_conn sa c4" ps sa c'] by (simp add: n)
  ultimately show ?thesis
    using c4 got(2) by (intro exI [of _ c4]) auto
qed

theorem acknowledged_data_lost_witness:
  "\<exists>c c' es. (ch_step addr_example peer_example)\<^sup>*\<^sup>* ch_example c \<and> sent c = [''a'', ''b'', ''c'', ''d'']
     \<and> m_sendList (snd_sock c) = []
     \<and> receive_data addr_example (pkt_example 5 ''e'') (rcv_conn addr_example c) = Inr (c', es)
     \<and> taken c @ m_vtBuf (m_byteStream c') = ''abc''"
proof -
  let ?bs = "[''a'', ''b'', ''c'', ''d'']" and ?p = "pkt_example 5 ''e''"
  obtain c where c: "(ch_step addr_example peer_example)\<^sup>*\<^sup>* ch_example c" "sent c = ?bs"
      "m_sendList (snd_sock c) = []" "m_nNextRecvSeq (rcv_conn addr_example c) = 4"
      "taken c @ m_vtBuf (m_byteStream (rcv_conn addr_example c)) = ''abc''"
    using acknowledged_data_lost [OF ch_example_start, of ?bs] by (auto simp: numeral_3_eq_3)
  let ?c' = "(rcv_conn addr_example c)\<lparr>m_recvList := insert_packet ?p (m_recvList (rcv_conn addr_example c))\<rparr>"
  have "receive_data addr_example ?p (rcv_conn addr_example c) = Inr (?c', [])"
    using c(4) by (simp add: receive_data_def pkt_example_def)
  with c show ?thesis by (intro exI [of _ c] exI [of _ ?c'] exI [of _ "[]"]) simp
qed

text \<open>
  C7. A repeated handshake packet breaks a connection in use. The client's first packet may be repeated and arrive when
  pieces have been delivered; the receiving thread then sets both counters back to 1. When the first piece
  is repeated too, it is delivered a second time, so the stream is no prefix of what was sent any more; and what this
  end sends from now on carries old numbers, which the other end acknowledges and drops.
\<close>

theorem late_handshake:
  assumes start: "ch_start 1 sa ra c0" "(ch_step sa ra)\<^sup>*\<^sup>* c0 c"
    and got: "m_nNextRecvSeq (rcv_conn sa c) = 1 + int k" "0 < k" "m_recvList (rcv_conn sa c) = []"
    and again: "data_datagram 1 (sent c) 0 \<in> to_rcv c"
  shows "\<exists>s1 es1 s2 es2. RecvThreadProc_pass (Some (Packet_bytes (new_Packet ESTABLISH_1 0), sa)) True (rcv_sock c)
        = Inr (Continue, s1, es1)
     \<and> RecvThreadProc_pass (Some (data_datagram 1 (sent c) 0, sa)) True s1 = Inr (Continue, s2, es2)
     \<and> taken c @ m_vtBuf (m_byteStream (conn_of sa s2)) = concat (take k (sent c)) @ sent c ! 0
     \<and> m_nNextSendSeq (conn_of sa s2) = 1
     \<and> (\<forall>p conn. m_nSeq p = m_nNextSendSeq (conn_of sa s2) \<longrightarrow> 1 < m_nNextRecvSeq conn \<longrightarrow>
          receive_data ra p conn = Inr (conn, []))"
proof -
  have inv: "ch_inv 1 sa ra c" by (rule chan.reachable_invar [OF ch_start_inv [OF start(1)] start(2)])
  then have num: "numbering 1 (sent c)" "pieces_ok (sent c)" and tab: "table_ok (rcv_sock c)"
    and str: "taken c @ m_vtBuf (m_byteStream (rcv_conn sa c)) = concat (take k (sent c))" "k \<le> length (sent c)"
    using got(1) by (auto simp: ch_inv_def snd_inv_def rcv_inv_def delivered_def)
  have i: "0 < length (sent c)" using got(2) str(2) by linarith
  note dec = data_datagram_decoded [OF num i]
  let ?c1 = "(rcv_conn sa c)\<lparr>m_nNextSendSeq := 1, m_nNextRecvSeq := 1\<rparr>"
  have r: "int32_range 0" "int32_range (0 + 1)" by (simp_all add: int32_range_def)
  obtain s1 es1 where 1: "RecvThreadProc_pass (Some (Packet_bytes (new_Packet ESTABLISH_1 0), sa)) True (rcv_sock c)
      = Inr (Continue, s1, es1)" "conn_of sa s1 = ?c1" "table_ok s1"
    using pass_establish_1 [OF r tab, of sa True] tab by simp
  let ?p = "DataPacket_of_bytes (data_datagram 1 (sent c) 0)"
  have data: "nat (m_nLen ?p) \<le> length (m_data ?p)" "take (nat (m_nLen ?p)) (m_data ?p) = sent c ! 0"
    using dec(1,3) by (auto simp: carries_def prefix_def)
  obtain c2 es2 where 2: "receive_data sa ?p ?c1 = Inr (c2, es2)"
      "m_vtBuf (m_byteStream c2) = m_vtBuf (m_byteStream (rcv_conn sa c)) @ sent c ! 0" "m_nNextSendSeq c2 = 1"
    using dec(3) data got(3)
    by (cases "m_nStatus (rcv_conn sa c) = 0") (auto simp: receive_data_def accept_packet_def Write_eq mark_readable_def)
  obtain s2 es3 where 3: "RecvThreadProc_pass (Some (data_datagram 1 (sent c) 0, sa)) True s1 = Inr (Continue, s2, es3)"
      "conn_of sa s2 = c2"
    using dec(2) 1(2,3) 2(1) by (auto simp: RecvThreadProc_pass_def Let_def on_data_def)
  have "taken c @ m_vtBuf (m_byteStream (conn_of sa s2)) = concat (take k (sent c)) @ sent c ! 0"
    using str(1) by (simp add: 3(2) 2(2) flip: append_assoc)
  then show ?thesis using 1(1) 3 2(3) by (auto simp: receive_data_def)
qed

theorem late_handshake_witness:
  "\<exists>c s1 es1 s2 es2. (ch_step addr_example peer_example)\<^sup>*\<^sup>* ch_example c
     \<and> RecvThreadProc_pass (Some (Packet_bytes (new_Packet ESTABLISH_1 0), addr_example)) True (rcv_sock c) = Inr (Continue, s1, es1)
     \<and> RecvThreadProc_pass (Some (data_datagram 1 [''hi''] 0, addr_example)) True s1 = Inr (Continue, s2, es2)
     \<and> taken c @ m_vtBuf (m_byteStream (conn_of addr_example s2)) = ''hihi''"
proof -
  obtain c where c: "(ch_step addr_example peer_example)\<^sup>*\<^sup>* ch_example c" "sent c = [''hi'']"
      "data_datagram 1 (sent c) 0 \<in> to_rcv c" "m_nNextRecvSeq (rcv_conn addr_example c) = 1 + int 1"
      "m_recvList (rcv_conn addr_example c) = []"
    using ch_example_run by auto
  from late_handshake [OF ch_example_start c(1,4) _ c(5,3)] c(2) have
    "\<exists>s1 es1 s2 es2. RecvThreadProc_pass (Some (Packet_bytes (new_Packet ESTABLISH_1 0), addr_example)) True (rcv_sock c)
        = Inr (Continue, s1, es1)
     \<and> RecvThreadProc_pass (Some (data_datagram 1 [''hi''] 0, addr_example)) True s1 = Inr (Continue, s2, es2)
     \<and> taken c @ m_vtBuf (m_byteStream (conn_of addr_example s2)) = ''hihi''"
    by simp blast
  with c(1) show ?thesis by blast
qed

end
