(* ===== verification/Streams.thy ===== *)
theory Streams
  imports TcpClient
begin

text \<open>
  The byte-stream interface the application code sees: \<open>Send\<close> appends to what goes out to one
  peer, \<open>Recv\<close> takes from the front of what has come in from it. The locale \<open>stream_port\<close> states
  this contract; it is interpreted on the server's socket (for any address) and on the client.
  Requests and answers of the application are frames, a 4-byte length and that many bytes; the
  locale's lemmas say how frames go out and come in.
\<close>

section \<open>Views\<close>

text \<open>The data bytes queued for a peer, in the order they were handed over.\<close>

fun payload :: "sockaddr \<Rightarrow> SendListNode list \<Rightarrow> byte list" where
  "payload addr [] = []"
| "payload addr (n # ns) =
     (case m_packet n of
        PlainPkt _ \<Rightarrow> []
      | DataPkt p \<Rightarrow> if m_addr n = addr then m_data p else []) @ payload addr ns"

definition outgoing :: "sockaddr \<Rightarrow> CTcpSocket \<Rightarrow> byte list" where
  "outgoing addr s = payload addr (m_sendList s)"

definition incoming :: "sockaddr \<Rightarrow> CTcpSocket \<Rightarrow> byte list" where
  "incoming addr s = m_vtBuf (m_byteStream (conn_of addr s))"

text \<open>The table is in order and \<open>k\<close> more packets to the peer have sequence numbers.\<close>

definition room :: "sockaddr \<Rightarrow> nat \<Rightarrow> CTcpSocket \<Rightarrow> bool" where
  "room addr k s \<longleftrightarrow> table_ok s \<and> - (2 ^ 31) \<le> m_nNextSendSeq (conn_of addr s)
     \<and> m_nNextSendSeq (conn_of addr s) + int k < 2 ^ 31"

definition packets :: "nat \<Rightarrow> nat" where
  "packets n = (n + 1023) div 1024"

definition frame :: "byte list \<Rightarrow> byte list" where
  "frame bs = le32 (int (length bs)) @ bs"

section \<open>The contract\<close>

locale stream_port =
  fixes send :: "byte list \<Rightarrow> int \<Rightarrow> 's \<Rightarrow> (int \<times> 's \<times> effect list) result"
    and recv :: "byte list \<Rightarrow> int \<Rightarrow> 's \<Rightarrow> ('s \<times> (int \<times> byte list \<times> effect list) option) result"
    and outp :: "'s \<Rightarrow> byte list"
    and inp :: "'s \<Rightarrow> byte list"
    and rm :: "nat \<Rightarrow> 's \<Rightarrow> bool"
  assumes send_ok: "0 \<le> n \<Longrightarrow> nat n \<le> length b \<Longrightarrow> rm k s \<Longrightarrow> packets (nat n) \<le> k \<Longrightarrow>
      \<exists>s'. send b n s = Inr (n, s', [Lock SendListLock, UnLock SendListLock])
         \<and> outp s' = outp s @ take (nat n) b
         \<and> inp s' = inp s \<and> rm (k - packets (nat n)) s'"
    and recv_ok: "rm k s \<Longrightarrow> inp s \<noteq> [] \<Longrightarrow> length (inp s) < 2 ^ 31 \<Longrightarrow> 0 \<le> n \<Longrightarrow>
      min (length (inp s)) (nat n) \<le> length b \<Longrightarrow>
      \<exists>s' es. recv b n s = Inr (s', Some (int (min (length (inp s)) (nat n)),
                take (nat n) (inp s) @ drop (min (length (inp s)) (nat n)) b, es))
         \<and> inp s' = drop (nat n) (inp s) \<and> outp s' = outp s \<and> rm k s'"
    and recv_empty: "rm k s \<Longrightarrow> inp s = [] \<Longrightarrow>
      \<exists>s'. recv b n s = Inr (s', None) \<and> inp s' = [] \<and> outp s' = outp s \<and> rm k s'"
    and recv_negative: "rm k s \<Longrightarrow> inp s \<noteq> [] \<Longrightarrow> length (inp s) < 2 ^ 31 \<Longrightarrow> n < 0 \<Longrightarrow>
      recv b n s = Inl NegativeSize"
    and recv_overflow: "rm k s \<Longrightarrow> inp s \<noteq> [] \<Longrightarrow> length (inp s) < 2 ^ 31 \<Longrightarrow>
      length b < length (inp s) \<Longrightarrow> int (length b) < n \<Longrightarrow> recv b n s = Inl OutOfBounds"
begin

lemma recv_exact:
  assumes "rm k s" "inp s = w @ rest" "w \<noteq> []" "length (inp s) < 2 ^ 31" "length w \<le> length b"
  shows "\<exists>s' es. recv b (int (length w)) s
       = Inr (s', Some (int (length w), w @ drop (length w) b, es))
     \<and> inp s' = rest \<and> outp s' = outp s \<and> rm k s'"
  using recv_ok [of k s "int (length w)" b] assms by simp

lemma recv_int:
  assumes "rm k s" "inp s = le32 n @ rest" "length (inp s) < 2 ^ 31"
  shows "\<exists>s' es. recv (le32 x) 4 s = Inr (s', Some (4, le32 n, es))
     \<and> inp s' = rest \<and> outp s' = outp s \<and> rm k s'"
  using recv_exact [OF assms(1,2) _ assms(3), of "le32 x"] by (auto simp: le32_def)

text \<open>One frame goes out: the length, then the bytes.\<close>

lemma send_frame:
  assumes "rm k s" "1 + packets n \<le> k" "n \<le> length b" "n < 2 ^ 31"
  shows "\<exists>s1 s2. send (le32 (int n)) 4 s = Inr (4, s1, [Lock SendListLock, UnLock SendListLock])
     \<and> send b (int n) s1 = Inr (int n, s2, [Lock SendListLock, UnLock SendListLock])
     \<and> outp s2 = outp s @ frame (take n b) \<and> inp s2 = inp s \<and> rm (k - (1 + packets n)) s2"
proof -
  have le: "packets n \<le> k - 1" using assms(2) by simp
  have "packets (nat 4) = 1" by (simp add: packets_def)
  then obtain s1 where s1: "send (le32 (int n)) 4 s = Inr (4, s1, [Lock SendListLock, UnLock SendListLock])"
      "outp s1 = outp s @ le32 (int n)" "inp s1 = inp s" "rm (k - 1) s1"
    using send_ok [of 4 "le32 (int n)" k s] assms by auto
  moreover obtain s2 where "send b (int n) s1 = Inr (int n, s2, [Lock SendListLock, UnLock SendListLock])"
      "outp s2 = outp s1 @ take n b" "inp s2 = inp s1" "rm (k - 1 - packets n) s2"
    using send_ok [of "int n" b "k - 1" s1] s1(4) assms le by auto
  ultimately show ?thesis using assms(3) by (simp add: frame_def)
qed

text \<open>One frame comes in: the length into an \<open>int\<close>, then the bytes to the start of a buffer.\<close>

lemma recv_frame:
  assumes "rm k s" "inp s = frame w @ rest" "w \<noteq> []" "length (inp s) < 2 ^ 31" "length w \<le> length b"
  shows "\<exists>s1 es1 s2 es2. recv (le32 x) 4 s = Inr (s1, Some (4, le32 (int (length w)), es1))
     \<and> un_le32 (le32 (int (length w))) = int (length w)
     \<and> recv b (int (length w)) s1 = Inr (s2, Some (int (length w), w @ drop (length w) b, es2))
     \<and> inp s2 = rest \<and> outp s2 = outp s \<and> rm k s2"
proof -
  obtain s1 es1 where s1: "recv (le32 x) 4 s = Inr (s1, Some (4, le32 (int (length w)), es1))"
      "inp s1 = w @ rest" "outp s1 = outp s" "rm k s1"
    using recv_int [of k s "int (length w)" "w @ rest" x] assms by (auto simp: frame_def)
  moreover obtain s2 es2 where
      "recv b (int (length w)) s1 = Inr (s2, Some (int (length w), w @ drop (length w) b, es2))"
      "inp s2 = rest" "outp s2 = outp s1" "rm k s2"
    using recv_exact [OF s1(4,2) assms(3) _ assms(5)] s1(2) assms(2,4) by (auto simp: frame_def)
  moreover have "un_le32 (le32 (int (length w))) = int (length w)"
    using assms(2,4) by (simp add: codec_simps frame_def int32_range_def)
  ultimately show ?thesis by auto
qed

end

section \<open>Server sockets and clients are stream ports\<close>

lemma payload_append [simp]: "payload addr (ns @ ms) = payload addr ns @ payload addr ms"
  by (induction ns) simp_all

lemma payload_segment_nodes:
  "payload a (segment_nodes addr seq bs) = (if a = addr then concat bs else [])"
  by (induction bs arbitrary: seq) auto

lemma Send_stream:
  assumes "0 \<le> n" "nat n \<le> length b" "room addr k s" "packets (nat n) \<le> k"
  shows "\<exists>s'. Send addr b n s = Inr (n, s', [Lock SendListLock, UnLock SendListLock])
     \<and> outgoing addr s' = outgoing addr s @ take (nat n) b
     \<and> incoming addr s' = incoming addr s \<and> room addr (k - packets (nat n)) s'
     \<and> (\<forall>a. a \<noteq> addr \<longrightarrow> outgoing a s' = outgoing a s \<and> conn_of a s' = conn_of a s)"
proof -
  have "length (segments (take (nat n) b)) = packets (nat n)"
    using assms(2) by (simp add: length_segments packets_def)
  with Send_ok [of n b addr s] assms show ?thesis
    by (auto simp: room_def outgoing_def incoming_def payload_segment_nodes concat_segments)
qed

lemma Recv_stream:
  assumes "room addr k s" "incoming addr s \<noteq> []" "length (incoming addr s) < 2 ^ 31" "0 \<le> n"
    and "min (length (incoming addr s)) (nat n) \<le> length b"
  shows "\<exists>s' es. Recv addr b n s = Inr (s', Some (int (min (length (incoming addr s)) (nat n)),
      take (nat n) (incoming addr s) @ drop (min (length (incoming addr s)) (nat n)) b, es))
     \<and> incoming addr s' = drop (nat n) (incoming addr s) \<and> outgoing addr s' = outgoing addr s
     \<and> room addr k s'"
proof -
  let ?c = "conn_of addr s" and ?m = "min (length (incoming addr s)) (nat n)"
  have tab: "table_ok s" using assms(1) by (simp add: room_def)
  have size: "GetSize (m_byteStream ?c) = int (length (incoming addr s))"
    using assms(3) by (simp add: GetSize_small incoming_def)
  have m: "min (int (length (incoming addr s))) n = int ?m" using assms(4) by auto
  have "Read b (int ?m) (m_byteStream ?c)
      = Inr (take ?m (incoming addr s) @ drop ?m b, (m_byteStream ?c)\<lparr>m_vtBuf := drop ?m (incoming addr s)\<rparr>)"
    using assms(5) by (subst Read_eq_Inr) (simp add: incoming_def)
  moreover have "take ?m (incoming addr s) = take (nat n) (incoming addr s)"
    "drop ?m (incoming addr s) = drop (nat n) (incoming addr s)"
    by (auto simp: min_def)
  ultimately show ?thesis
    using assms(1,2) tab size m
    by (simp add: Recv_def Let_def room_def) (simp add: incoming_def outgoing_def)
qed

lemma Recv_stream_empty:
  "room addr k s \<Longrightarrow> incoming addr s = [] \<Longrightarrow>
   \<exists>s'. Recv addr b n s = Inr (s', None) \<and> incoming addr s' = [] \<and> outgoing addr s' = outgoing addr s
      \<and> room addr k s'"
  by (simp add: Recv_def room_def incoming_def outgoing_def GetSize_def int32_range_def)

lemma Recv_stream_negative:
  assumes "room addr k s" "incoming addr s \<noteq> []" "length (incoming addr s) < 2 ^ 31" "n < 0"
  shows "Recv addr b n s = Inl NegativeSize"
  using assms by (simp add: Recv_def room_def incoming_def GetSize_small Read_negative)

lemma Recv_stream_overflow:
  assumes "room addr k s" "incoming addr s \<noteq> []" "length (incoming addr s) < 2 ^ 31"
    and "length b < length (incoming addr s)" "int (length b) < n"
  shows "Recv addr b n s = Inl OutOfBounds"
proof -
  have "Read b (min (int (length (incoming addr s))) n) (m_byteStream (conn_of addr s)) = Inl OutOfBounds"
    using assms by (intro Read_overflow) auto
  with assms show ?thesis by (simp add: Recv_def room_def incoming_def GetSize_small)
qed

interpretation server_port: stream_port "Send addr" "Recv addr" "outgoing addr" "incoming addr" "room addr"
  for addr
proof unfold_locales
  fix n :: int and b :: "byte list" and k s
  assume "0 \<le> n" "nat n \<le> length b" "room addr k s" "packets (nat n) \<le> k"
  then show "\<exists>s'. Send addr b n s = Inr (n, s', [Lock SendListLock, UnLock SendListLock])
      \<and> outgoing addr s' = outgoing addr s @ take (nat n) b
      \<and> incoming addr s' = incoming addr s \<and> room addr (k - packets (nat n)) s'"
    using Send_stream by blast
qed (rule Recv_stream Recv_stream_empty Recv_stream_negative Recv_stream_overflow; assumption)+

text \<open>The same views of a client, whose only peer is its server.\<close>

definition client_out :: "CTcpClient \<Rightarrow> byte list" where
  "client_out c = outgoing (m_serverAddr c) (base_socket c)"

definition client_in :: "CTcpClient \<Rightarrow> byte list" where
  "client_in c = incoming (m_serverAddr c) (base_socket c)"

definition client_room :: "nat \<Rightarrow> CTcpClient \<Rightarrow> bool" where
  "client_room k c = room (m_serverAddr c) k (base_socket c)"

lemmas client_views = client_out_def client_in_def client_room_def

interpretation client_port: stream_port Client_Send Client_Recv client_out client_in client_room
proof unfold_locales
  fix n :: int and b :: "byte list" and k c
  assume "0 \<le> n" "nat n \<le> length b" "client_room k c" "packets (nat n) \<le> k"
  then show "\<exists>c'. Client_Send b n c = Inr (n, c', [Lock SendListLock, UnLock SendListLock])
      \<and> client_out c' = client_out c @ take (nat n) b
      \<and> client_in c' = client_in c \<and> client_room (k - packets (nat n)) c'"
    using server_port.send_ok [of n b "m_serverAddr c" k "base_socket c"]
    by (auto simp: Client_Send_def client_views)
next
  fix k c and b :: "byte list" and n :: int
  assume "client_room k c" "client_in c \<noteq> []" "length (client_in c) < 2 ^ 31" "0 \<le> n"
    "min (length (client_in c)) (nat n) \<le> length b"
  then show "\<exists>c' es. Client_Recv b n c = Inr (c', Some (int (min (length (client_in c)) (nat n)),
        take (nat n) (client_in c) @ drop (min (length (client_in c)) (nat n)) b, es))
      \<and> client_in c' = drop (nat n) (client_in c) \<and> client_out c' = client_out c \<and> client_room k c'"
    using server_port.recv_ok [of "m_serverAddr c" k "base_socket c" n b]
    by (auto simp: Client_Recv_def client_views)
next
  fix k c and b :: "byte list" and n :: int
  assume "client_room k c" "client_in c = []"
  then show "\<exists>c'. Client_Recv b n c = Inr (c', None) \<and> client_in c' = [] \<and> client_out c' = client_out c
      \<and> client_room k c'"
    using server_port.recv_empty [of "m_serverAddr c" k "base_socket c" b n]
    by (auto simp: Client_Recv_def client_views)
qed (simp_all add: Client_Recv_def client_views server_port.recv_negative server_port.recv_overflow)

end
