(* ===== verification/Mysql.thy ===== *)
theory Mysql
  imports Prelude
begin

text \<open>
  \<open>MysqlDll/CMysql\<close>: the wrapper around the MySQL client library. The library is not part of
  the repository's sources; the functions the wrapper calls are a record of operations on an
  abstract connection state \<open>'db\<close>, which every definition that needs them takes as an argument.
\<close>

section \<open>The client library as a parameter\<close>

text \<open>
  A result set is the field names and the rows, each cell a C string or a null pointer.
  Integer results are the library's return codes (0 is success); \<open>mysql_affected_rows\<close> is a
  64-bit unsigned number.
\<close>

record MYSQL_RES =
  res_fields :: "string list"
  res_rows :: "string option list list"

record 'db mysql_api =
  mysql_library_init :: "'db \<Rightarrow> int \<times> 'db"
  mysql_init :: "'db \<Rightarrow> bool \<times> 'db"
  mysql_set_character_set :: "string \<Rightarrow> 'db \<Rightarrow> int \<times> 'db"
  mysql_real_connect :: "string \<Rightarrow> string \<Rightarrow> string \<Rightarrow> int \<Rightarrow> 'db \<Rightarrow> bool \<times> 'db"
  mysql_query :: "string \<Rightarrow> 'db \<Rightarrow> int \<times> 'db"
  mysql_error :: "'db \<Rightarrow> string"
  mysql_affected_rows :: "'db \<Rightarrow> nat"
  mysql_use_result :: "'db \<Rightarrow> MYSQL_RES option \<times> 'db"

section \<open>Operations\<close>

text \<open>
  \<open>OutputDebugPrintf\<close> formats into a \<open>char[256]\<close>; its argument here is the formatted text.
\<close>

definition OutputDebugPrintf :: "string \<Rightarrow> string result" where
  "OutputDebugPrintf txt = (if 256 < length txt + 1 then Inl OutOfBounds else Inr txt)"

definition Mysql_Init ::
    "'db mysql_api \<Rightarrow> string \<Rightarrow> string \<Rightarrow> string \<Rightarrow> 'db \<Rightarrow> (bool \<times> 'db) result" where
  "Mysql_Init api host user password db0 =
     (case mysql_library_init api db0 of (rc, db1) \<Rightarrow>
      if rc \<noteq> 0
      then and_then (OutputDebugPrintf (''could not initialize MySQL client library'' @ [CHR 0x0A]))
             (\<lambda>_. Inr (False, db1))
      else case mysql_init api db1 of (handle, db2) \<Rightarrow>
      if \<not> handle
      then and_then (OutputDebugPrintf (''mysql_init: '' @ mysql_error api db2 @ [CHR 0x0A]))
             (\<lambda>_. Inr (False, db2))
      else case mysql_set_character_set api ''gbk'' db2 of (rc', db3) \<Rightarrow>
      if rc' \<noteq> 0
      then and_then (OutputDebugPrintf (''mysql_set_character_set: '' @ mysql_error api db3 @ [CHR 0x0A]))
             (\<lambda>_. Inr (False, db3))
      else case mysql_real_connect api host user password 3306 db3 of (conn, db4) \<Rightarrow>
      if \<not> conn
      then and_then (OutputDebugPrintf (''mysql_real_connect: '' @ mysql_error api db4 @ [CHR 0x0A]))
             (\<lambda>_. Inr (False, db4))
      else Inr (True, db4))"

text \<open>\<open>return mysql_affected_rows(m_mysql)\<close> narrows the 64-bit count to \<open>int\<close>.\<close>

definition Query :: "'db mysql_api \<Rightarrow> string \<Rightarrow> 'db \<Rightarrow> (int \<times> 'db) result" where
  "Query api sql db0 =
     (case mysql_query api sql db0 of (rc, db1) \<Rightarrow>
      if rc \<noteq> 0
      then and_then (OutputDebugPrintf (''mysql_query: '' @ mysql_error api db1 @ [CHR 0x0A]))
             (\<lambda>_. Inr (- 1, db1))
      else Inr (wrap32 (int (mysql_affected_rows api db1)), db1))"

text \<open>The overload that also fetches the result set; \<open>res\<close> is the caller's pointer before the call.\<close>

definition Query_res ::
    "'db mysql_api \<Rightarrow> string \<Rightarrow> MYSQL_RES option \<Rightarrow> 'db \<Rightarrow> (int \<times> MYSQL_RES option \<times> 'db) result" where
  "Query_res api sql res db0 =
     (case mysql_query api sql db0 of (rc, db1) \<Rightarrow>
      if rc \<noteq> 0
      then and_then (OutputDebugPrintf (''mysql_query: '' @ mysql_error api db1 @ [CHR 0x0A]))
             (\<lambda>_. Inr (- 1, res, db1))
      else case mysql_use_result api db1 of (res', db2) \<Rightarrow>
           Inr (wrap32 (int (mysql_affected_rows api db2)), res', db2))"

section \<open>Lemmas\<close>

lemma OutputDebugPrintf_ok_iff: "is_ok (OutputDebugPrintf txt) \<longleftrightarrow> length txt \<le> 255"
  by (simp add: OutputDebugPrintf_def)

lemma Query_ok:
  "mysql_query api sql db0 = (0, db1) \<Longrightarrow>
   Query api sql db0 = Inr (wrap32 (int (mysql_affected_rows api db1)), db1)"
  by (simp add: Query_def)

lemma Query_failed:
  "mysql_query api sql db0 = (rc, db1) \<Longrightarrow> rc \<noteq> 0 \<Longrightarrow> length (mysql_error api db1) \<le> 241 \<Longrightarrow>
   Query api sql db0 = Inr (- 1, db1)"
  by (simp add: Query_def OutputDebugPrintf_def)

section \<open>Properties\<close>

text \<open>
  A failing statement is reported by \<open>-1\<close>, but only while the library's error text is at most
  241 bytes: a longer one overflows the 256-byte buffer of \<open>OutputDebugPrintf\<close>, in both overloads
  of \<open>Query\<close>.
\<close>

theorem Query_error_text:
  assumes "mysql_query api sql db0 = (rc, db1)" and "rc \<noteq> 0"
  shows "Query api sql db0 = (if length (mysql_error api db1) \<le> 241 then Inr (- 1, db1) else Inl OutOfBounds)
     \<and> Query_res api sql res db0
        = (if length (mysql_error api db1) \<le> 241 then Inr (- 1, res, db1) else Inl OutOfBounds)"
  using assms by (simp add: Query_def Query_res_def OutputDebugPrintf_def)

text \<open>A library whose every statement fails with a fixed message, for the witnesses.\<close>

definition api_failing :: "string \<Rightarrow> unit mysql_api" where
  "api_failing msg = \<lparr>mysql_library_init = \<lambda>db. (0, db), mysql_init = \<lambda>db. (True, db),
     mysql_set_character_set = \<lambda>_ db. (0, db), mysql_real_connect = \<lambda>_ _ _ _ db. (True, db),
     mysql_query = \<lambda>_ db. (1, db), mysql_error = \<lambda>_. msg, mysql_affected_rows = \<lambda>_. 0,
     mysql_use_result = \<lambda>db. (None, db)\<rparr>"

theorem Query_error_text_witness:
  "Query (api_failing (replicate 242 CHR ''x'')) ''SELECT'' () = Inl OutOfBounds"
  using Query_error_text [of "api_failing (replicate 242 CHR ''x'')" "''SELECT''" "()" 1 "()"]
  by (simp add: api_failing_def)

text \<open>
  \<open>Init\<close> connects only after the library, the handle and the character set are set up: it returns
  true exactly when all four calls succeed, and a failing call ends it without the later ones.
\<close>

theorem Mysql_Init_true_iff:
  "(\<exists>db. Mysql_Init api host user password db0 = Inr (True, db)) \<longleftrightarrow>
    (\<exists>db1 db2 db3 db4. mysql_library_init api db0 = (0, db1) \<and> mysql_init api db1 = (True, db2)
      \<and> mysql_set_character_set api ''gbk'' db2 = (0, db3)
      \<and> mysql_real_connect api host user password 3306 db3 = (True, db4))"
  by (auto simp: Mysql_Init_def OutputDebugPrintf_def split: prod.splits if_splits)

end
