(* ===== verification/Server.thy ===== *)
theory Server
  imports Streams Mysql
begin

text \<open>
  \<open>SchoolSystemServer/CServer\<close>: start-up, one round of the request loop, the execution of an SQL
  task and the format of an answer. A request is a 4-byte length and that many bytes of SQL with
  a terminating NUL; the answer is the number of affected rows, or two length-prefixed blocks
  of NUL-terminated strings, the field names and the cells row by row.
\<close>

section \<open>Start-up\<close>

definition sql_create_database :: string where
  "sql_create_database = ''CREATE DATABASE IF NOT EXISTS test;''"

definition sql_use :: string where
  "sql_use = ''USE test;''"

definition sql_create_class :: string where
  "sql_create_class = ''CREATE TABLE IF NOT EXISTS t_class('' @ ''class_id varchar(64),''
     @ ''class_name varchar(64) NOT NULL,'' @ ''PRIMARY KEY(class_id));''"

definition sql_create_student :: string where
  "sql_create_student = ''CREATE TABLE IF NOT EXISTS t_student('' @ ''stu_id varchar(64),''
     @ ''stu_name varchar(64) NOT NULL,'' @ ''class_id varchar(64) NOT NULL,''
     @ ''PRIMARY KEY(stu_id),''
     @ ''CONSTRAINT FK_CLASSID FOREIGN KEY(class_id) REFERENCES t_class(class_id));''"

definition sql_create_course :: string where
  "sql_create_course = ''CREATE TABLE IF NOT EXISTS t_course('' @ ''course_id varchar(64),''
     @ ''course_name varchar(64) NOT NULL,'' @ ''PRIMARY KEY(course_id));''"

definition sql_create_select :: string where
  "sql_create_select = ''CREATE TABLE IF NOT EXISTS t_select('' @ ''stu_id varchar(64),''
     @ ''course_id varchar(64),'' @ ''score float DEFAULT NULL,''
     @ ''PRIMARY KEY(stu_id, course_id),''
     @ ''CONSTRAINT FK_COURSEID FOREIGN KEY(course_id) REFERENCES t_course(course_id),''
     @ ''CONSTRAINT FK_STUID FOREIGN KEY(stu_id) REFERENCES t_student(stu_id));''"

text \<open>The statements of \<open>CreateTables\<close> in their order; the first failure returns false.\<close>

fun run_statements :: "'db mysql_api \<Rightarrow> string list \<Rightarrow> 'db \<Rightarrow> (bool \<times> 'db) result" where
  "run_statements api [] db = Inr (True, db)"
| "run_statements api (sql # sqls) db =
     and_then (Query api sql db) (\<lambda>(n, db').
       if n < 0 then Inr (False, db') else run_statements api sqls db')"

definition table_statements :: "string list" where
  "table_statements = [sql_create_database, sql_use, sql_create_class, sql_create_student,
     sql_create_course, sql_create_select]"

definition CreateTables :: "'db mysql_api \<Rightarrow> 'db \<Rightarrow> (bool \<times> 'db) result" where
  "CreateTables api db = run_statements api table_statements db"

text \<open>\<open>CServer::Init\<close>: database, tables, then the socket (\<open>socket_ok\<close>, \<open>bind_ok\<close> as in \<open>Listen\<close>).\<close>

definition Server_Init ::
    "'db mysql_api \<Rightarrow> bool \<Rightarrow> bool \<Rightarrow> 'db \<Rightarrow> (bool \<times> 'db \<times> effect list) result" where
  "Server_Init api socket_ok bind_ok db0 =
     and_then (Mysql_Init api ''localhost'' ''root'' ''root'' db0) (\<lambda>(ok, db1).
       if \<not> ok then Inr (False, db1, [])
       else and_then (CreateTables api db1) (\<lambda>(ok', db2).
         if \<not> ok' then Inr (False, db2, [])
         else (case Listen socket_ok bind_ok of (ok'', es) \<Rightarrow> Inr (ok'', db2, es))))"

section \<open>Requests\<close>

text \<open>
  The two \<open>Recv\<close> calls of one round of the loop in \<open>CServer::CServer\<close>, for a selected address:
  the length into a zeroed \<open>int\<close>, the text into a zeroed \<open>char[0x1000]\<close>, neither return value
  looked at. \<open>ev i\<close> is what the socket's threads do to the socket until the \<open>i\<close>-th \<open>Recv\<close> looks at
  the stream for the last time; \<open>None\<close>: a \<open>Recv\<close> polls an empty stream for ever. The result is
  \<open>string(buf)\<close>, the bytes before the first NUL.
\<close>

definition read_request ::
    "(nat \<Rightarrow> CTcpSocket \<Rightarrow> CTcpSocket) \<Rightarrow> sockaddr \<Rightarrow> CTcpSocket \<Rightarrow> (CTcpSocket \<times> string option) result" where
  "read_request ev addr s0 =
     and_then (Recv addr (le32 0) 4 (ev 0 s0)) (\<lambda>(s1, r1).
       case r1 of
         None \<Rightarrow> Inr (s1, None)
       | Some (_, nLen, _) \<Rightarrow>
           and_then (Recv addr (replicate 0x1000 NUL) (un_le32 nLen) (ev 1 s1)) (\<lambda>(s2, r2).
             case r2 of
               None \<Rightarrow> Inr (s2, None)
             | Some (_, buf, _) \<Rightarrow>
                 and_then (strlen buf) (\<lambda>k. Inr (s2, Some (take k buf)))))"

section \<open>Answers\<close>

text \<open>
  The packing loops of \<open>SendResByteAry\<close>: \<open>strlen\<close> of each string, then the string with its NUL is
  copied to \<open>p\<close>, which is \<open>off\<close> bytes into \<open>buf\<close>. A null cell is handed to \<open>strlen\<close> like any other.
\<close>

fun pack :: "string option list \<Rightarrow> byte list \<Rightarrow> nat \<Rightarrow> (byte list \<times> nat) result" where
  "pack [] buf off = Inr (buf, off)"
| "pack (None # xs) buf off = Inl NullPointer"
| "pack (Some s # xs) buf off =
     and_then (strlen (s @ [NUL])) (\<lambda>k. let nLen = int k + 1 in
     and_then (memcpy_at buf off (s @ [NUL]) nLen) (\<lambda>buf'. pack xs buf' (off + nat nLen)))"

text \<open>A block: its length as an \<open>int\<close>, then its bytes.\<close>

definition send_block ::
    "sockaddr \<Rightarrow> byte list \<Rightarrow> nat \<Rightarrow> CTcpSocket \<Rightarrow> (CTcpSocket \<times> effect list) result" where
  "send_block addr buf n s =
     and_then (Send addr (le32 (int n)) 4 s) (\<lambda>(_, s1, es1).
     and_then (Send addr buf (int n) s1) (\<lambda>(_, s2, es2). Inr (s2, es1 @ es2)))"

definition SendResByteAry ::
    "MYSQL_RES \<Rightarrow> sockaddr \<Rightarrow> CTcpSocket \<Rightarrow> (CTcpSocket \<times> effect list) result" where
  "SendResByteAry res addr s =
     and_then (pack (map Some (res_fields res)) (replicate 0x1000 NUL) 0) (\<lambda>(buf, n).
     and_then (send_block addr buf n s) (\<lambda>(s1, es1).
     and_then (pack (concat (res_rows res)) buf 0) (\<lambda>(buf', n').
     and_then (send_block addr buf' n' s1) (\<lambda>(s2, es2). Inr (s2, es1 @ es2)))))"

section \<open>Tasks and the request loop\<close>

record CSqlTask =
  task_addr :: sockaddr
  task_sql :: string

definition new_CSqlTask :: "sockaddr \<Rightarrow> string \<Rightarrow> CSqlTask" where
  "new_CSqlTask addr sql = \<lparr>task_addr = addr, task_sql = sql\<rparr>"

text \<open>
  One round of the loop in \<open>CServer::CServer\<close>: the connection \<open>Select\<close> found and the task handed to
  \<open>AddTask\<close>. \<open>None\<close>: the round still waits, in \<open>Select\<close> or in a \<open>Recv\<close>.
\<close>

definition CServer_round ::
    "(nat \<Rightarrow> CTcpSocket \<Rightarrow> CTcpSocket) \<Rightarrow> CTcpSocket \<Rightarrow> (CTcpSocket \<times> CSqlTask option) result" where
  "CServer_round ev s0 =
     (case Select s0 of
        None \<Rightarrow> Inr (s0, None)
      | Some (addr, s1) \<Rightarrow>
          and_then (read_request ev addr s1) (\<lambda>(s2, sql).
            Inr (s2, map_option (new_CSqlTask addr) sql)))"

definition Execute ::
    "'db mysql_api \<Rightarrow> CSqlTask \<Rightarrow> CTcpSocket \<times> 'db \<Rightarrow> (int \<times> CTcpSocket \<times> 'db \<times> effect list) result" where
  "Execute api t sd =
     (case sd of (s, db) \<Rightarrow>
       and_then (Query_res api (task_sql t) None db) (\<lambda>(nRet, res, db').
       and_then
         (case res of
            None \<Rightarrow> and_then (Send (task_addr t) (le32 nRet) 4 s) (\<lambda>(_, s1, es1). Inr (s1, es1))
          | Some r \<Rightarrow> SendResByteAry r (task_addr t) s)
         (\<lambda>(s1, es1). case UnSelect (task_addr t) s1 of (s2, es2) \<Rightarrow> Inr (0, s2, db', es1 @ es2))))"

definition Abort :: "CSqlTask \<Rightarrow> int" where
  "Abort t = 0"

section \<open>Lemmas\<close>

text \<open>The block a list of strings is packed into.\<close>

definition flat :: "string list \<Rightarrow> byte list" where
  "flat ss = concat (map (\<lambda>s. c_str s @ [NUL]) ss)"

lemma flat_simps [simp]:
  "flat [] = []" "flat (s # ss) = c_str s @ NUL # flat ss"
  "flat (ss @ ts) = flat ss @ flat ts"
  by (simp_all add: flat_def)

lemma strlen_c_str: "strlen (s @ NUL # r) = Inr (length (c_str s))"
  by (induction s) (auto simp: c_str_def)

lemma c_str_prefix: "take (Suc (length (c_str s))) (s @ [NUL]) = c_str s @ [NUL]"
  by (induction s) (auto simp: c_str_def)

lemma c_str_take: "take (length (c_str s)) (s @ r) = c_str s"
  by (induction s) (auto simp: c_str_def)

lemma c_str_id: "NUL \<notin> set s \<Longrightarrow> c_str s = s"
  unfolding c_str_def by (rule takeWhile_eq_all_conv [THEN iffD2]) auto

lemma c_str_length: "length (c_str s) \<le> length s"
  by (simp add: c_str_def length_takeWhile_le)

lemma pack_Some_step:
  assumes "off \<le> length buf"
  shows "pack (Some s # xs) buf off =
     (if off + Suc (length (c_str s)) \<le> length buf
      then pack xs (take off buf @ c_str s @ NUL # drop (off + Suc (length (c_str s))) buf)
             (off + Suc (length (c_str s)))
      else Inl OutOfBounds)"
proof -
  have "nat (int (length (c_str s)) + 1) = Suc (length (c_str s))" by simp
  then show ?thesis
    using c_str_length [of s] assms
    by (simp add: strlen_c_str Let_def memcpy_at_def c_str_prefix del: take_append)
qed

lemma pack_ok:
  "off + length (flat ss) \<le> length buf \<Longrightarrow>
   pack (map Some ss) buf off
     = Inr (take off buf @ flat ss @ drop (off + length (flat ss)) buf, off + length (flat ss))"
proof (induction ss arbitrary: buf off)
  case (Cons s ss)
  let ?k = "Suc (length (c_str s))"
  let ?buf = "take off buf @ c_str s @ NUL # drop (off + ?k) buf"
  have len: "length ?buf = length buf" "off + ?k \<le> length buf" using Cons.prems by auto
  have "take (off + ?k) ?buf = take off buf @ c_str s @ [NUL]" using len(2) by simp
  moreover have "drop (off + ?k + length (flat ss)) ?buf = drop (off + ?k + length (flat ss)) buf"
    using len(2) by (simp add: algebra_simps)
  ultimately show ?case
    using Cons.IH [of "off + ?k" ?buf] Cons.prems len
    by (simp add: pack_Some_step add.assoc del: pack.simps)
qed simp

lemma pack_ok_iff:
  "off \<le> length buf \<Longrightarrow>
   is_ok (pack xs buf off) \<longleftrightarrow> None \<notin> set xs \<and> off + length (flat (map the xs)) \<le> length buf"
proof (induction xs arbitrary: buf off)
  case (Cons x xs)
  show ?case
  proof (cases x)
    case (Some s)
    then show ?thesis
      using Cons.IH [of "off + Suc (length (c_str s))"] Cons.prems
      by (auto simp: pack_Some_step add.assoc simp del: pack.simps)
  qed simp
qed simp

lemma packets_block: "n \<le> 0x1000 \<Longrightarrow> packets n \<le> 4"
  by (simp add: packets_def)

lemma room_less: "room addr k s \<Longrightarrow> j \<le> k \<Longrightarrow> room addr j s"
  by (auto simp: room_def)

lemma send_block_frame:
  assumes "room addr (5 + k) s" "length w \<le> 0x1000"
  shows "\<exists>s' es. send_block addr (w @ r) (length w) s = Inr (s', es) \<and> room addr k s'
     \<and> outgoing addr s' = outgoing addr s @ frame w \<and> incoming addr s' = incoming addr s"
proof -
  have "1 + packets (length w) \<le> 5 + k" "length w \<le> length (w @ r)"
    using packets_block [OF assms(2)] by simp_all
  with server_port.send_frame [OF assms(1) this] assms(2) packets_block [OF assms(2)]
  show ?thesis by (fastforce simp: send_block_def elim: room_less)
qed

text \<open>A result set whose blocks fit is answered with two frames.\<close>

definition answer :: "MYSQL_RES \<Rightarrow> byte list" where
  "answer res = frame (flat (res_fields res)) @ frame (flat (map the (concat (res_rows res))))"

definition answerable :: "MYSQL_RES \<Rightarrow> bool" where
  "answerable res \<longleftrightarrow> None \<notin> set (concat (res_rows res))
     \<and> length (flat (res_fields res)) \<le> 0x1000 \<and> length (flat (map the (concat (res_rows res)))) \<le> 0x1000"

lemma map_Some_the: "None \<notin> set xs \<Longrightarrow> map Some (map the xs) = xs"
  by (induction xs) auto

lemma pack_cells:
  "None \<notin> set xs \<Longrightarrow> off + length (flat (map the xs)) \<le> length buf \<Longrightarrow>
   pack xs buf off = Inr (take off buf @ flat (map the xs) @ drop (off + length (flat (map the xs))) buf,
     off + length (flat (map the xs)))"
  using pack_ok [of off "map the xs" buf] map_Some_the [of xs] by simp

lemma SendResByteAry_answers:
  assumes "room addr 10 s" "answerable res"
  shows "\<exists>s' es. SendResByteAry res addr s = Inr (s', es) \<and> room addr 0 s'
     \<and> outgoing addr s' = outgoing addr s @ answer res \<and> incoming addr s' = incoming addr s"
proof -
  let ?f = "flat (res_fields res)" and ?d = "flat (map the (concat (res_rows res)))"
  let ?b = "?f @ replicate (0x1000 - length ?f) NUL"
  have len: "length ?f \<le> 0x1000" "length ?d \<le> 0x1000" "length ?b = 0x1000"
    using assms(2) by (auto simp: answerable_def)
  have f: "pack (map Some (res_fields res)) (replicate 0x1000 NUL) 0 = Inr (?b, length ?f)"
    using pack_ok [of 0 "res_fields res" "replicate 0x1000 NUL"] len by simp
  have d: "pack (concat (res_rows res)) ?b 0 = Inr (?d @ drop (length ?d) ?b, length ?d)"
    using pack_cells [of "concat (res_rows res)" 0 ?b] len assms(2) by (simp add: answerable_def)
  obtain s1 es1 where s1: "send_block addr ?b (length ?f) s = Inr (s1, es1)" "room addr 5 s1"
      "outgoing addr s1 = outgoing addr s @ frame ?f" "incoming addr s1 = incoming addr s"
    using send_block_frame [of addr 5 s ?f "replicate (0x1000 - length ?f) NUL"] assms(1) len by auto
  obtain s2 es2 where "send_block addr (?d @ drop (length ?d) ?b) (length ?d) s1 = Inr (s2, es2)"
      "room addr 0 s2" "outgoing addr s2 = outgoing addr s1 @ frame ?d" "incoming addr s2 = incoming addr s1"
    using send_block_frame [of addr 0 s1 ?d "drop (length ?d) ?b"] s1(2) len by auto
  with f d s1 show ?thesis by (simp add: SendResByteAry_def answer_def)
qed

lemma SendResByteAry_fails:
  assumes "\<not> answerable res"
  shows "\<not> is_ok (SendResByteAry res addr s)"
proof
  assume "is_ok (SendResByteAry res addr s)"
  then obtain b n b' n' where f: "pack (map Some (res_fields res)) (replicate 0x1000 NUL) 0 = Inr (b, n)"
      and d: "pack (concat (res_rows res)) b 0 = Inr (b', n')"
    by (auto simp: is_ok_iff SendResByteAry_def)
  have len: "length (flat (res_fields res)) \<le> 0x1000"
    using pack_ok_iff [of 0 "replicate 0x1000 NUL" "map Some (res_fields res)"] f by (simp add: comp_def)
  then have "length b = 0x1000"
    using pack_ok [of 0 "res_fields res" "replicate 0x1000 NUL"] f by simp
  with pack_ok_iff [of 0 b "concat (res_rows res)"] d len assms show False
    by (simp add: answerable_def)
qed

lemma UnSelect_views:
  assumes "table_ok s" "length (incoming addr s) < 2 ^ 31"
  shows "outgoing a (fst (UnSelect addr s)) = outgoing a s"
    "incoming a (fst (UnSelect addr s)) = incoming a s"
    "m_nStatus (conn_of addr (fst (UnSelect addr s))) = (if incoming addr s = [] then 0 else 1)"
  using assms
  by (auto simp: UnSelect_def Let_def outgoing_def incoming_def UnSelect_conn_def GetSize_small)

text \<open>The state of the database after a run of statements, and the statements of a failing run.\<close>

definition after :: "'db mysql_api \<Rightarrow> string list \<Rightarrow> 'db \<Rightarrow> 'db" where
  "after api sqls db = foldl (\<lambda>d q. snd (mysql_query api q d)) db sqls"

definition succeeds :: "'db mysql_api \<Rightarrow> string \<Rightarrow> 'db \<Rightarrow> bool" where
  "succeeds api sql db \<longleftrightarrow> fst (mysql_query api sql db) = 0
     \<and> 0 \<le> wrap32 (int (mysql_affected_rows api (snd (mysql_query api sql db))))"

lemma run_statements_true:
  "run_statements api sqls db = Inr (True, db') \<longleftrightarrow>
     (\<forall>i < length sqls. succeeds api (sqls ! i) (after api (take i sqls) db)) \<and> db' = after api sqls db"
proof (induction sqls arbitrary: db)
  case (Cons sql sqls)
  obtain rc db1 where q: "mysql_query api sql db = (rc, db1)" by fastforce
  have "run_statements api (sql # sqls) db = Inr (True, db') \<longleftrightarrow>
      succeeds api sql db \<and> run_statements api sqls db1 = Inr (True, db')"
    using q by (auto simp: Query_def succeeds_def OutputDebugPrintf_def split: if_splits)
  moreover have "after api (sql # qs) db = after api qs db1" for qs
    using q by (simp add: after_def)
  ultimately show ?case
    unfolding Cons.IH by (auto simp: All_less_Suc2 after_def)
qed (auto simp: after_def)

text \<open>
  A connection with the bytes \<open>bs\<close> in its stream, and an environment after which it has \<open>bs'\<close>.
\<close>

definition holds :: "sockaddr \<Rightarrow> nat \<Rightarrow> byte list \<Rightarrow> CTcpSocket \<Rightarrow> bool" where
  "holds addr k bs s \<longleftrightarrow> room addr k s \<and> incoming addr s = bs \<and> length bs < 2 ^ 31"

definition brings :: "sockaddr \<Rightarrow> nat \<Rightarrow> byte list \<Rightarrow> byte list \<Rightarrow> (CTcpSocket \<Rightarrow> CTcpSocket) \<Rightarrow> bool" where
  "brings addr k bs bs' e \<longleftrightarrow> length bs' < 2 ^ 31 \<and> (\<forall>s. holds addr k bs s \<longrightarrow> holds addr k bs' (e s))"

lemma brings_id: "length bs < 2 ^ 31 \<Longrightarrow> brings addr k bs bs (\<lambda>s. s)"
  by (simp add: brings_def)

lemma Recv_header:
  assumes "holds addr k (le32 n @ got) s"
  shows "\<exists>s' es. Recv addr (le32 0) 4 s = Inr (s', Some (4, le32 n, es)) \<and> holds addr k got s'"
  using server_port.recv_int [of addr k s n got 0] assms by (auto simp: holds_def)

lemma replicate_NUL_split: "n < m \<Longrightarrow> replicate (m - n) NUL = NUL # replicate (m - Suc n) NUL"
  by (simp add: Suc_diff_Suc flip: replicate_Suc)

lemma read_request_available:
  assumes "holds addr k (le32 n @ got) (ev 0 s)" and "brings addr k got avail (ev 1)"
    and "avail \<noteq> []" and "0 \<le> n" "n < 2 ^ 31" and "min (length avail) (nat n) < 0x1000"
  shows "\<exists>s'. read_request ev addr s = Inr (s', Some (c_str (take (nat n) avail)))
     \<and> incoming addr s' = drop (nat n) avail \<and> room addr k s'"
proof -
  let ?m = "min (length avail) (nat n)"
  have n: "un_le32 (le32 n) = n" using assms(4,5) by (simp add: codec_simps int32_range_def)
  obtain s1 es1 where s1: "Recv addr (le32 0) 4 (ev 0 s) = Inr (s1, Some (4, le32 n, es1))" "holds addr k got s1"
    using Recv_header [OF assms(1)] by blast
  then have av: "room addr k (ev 1 s1)" "incoming addr (ev 1 s1) = avail" "length avail < 2 ^ 31"
    using assms(2) by (auto simp: brings_def holds_def)
  have "drop ?m (replicate 0x1000 NUL) = NUL # replicate (0x1000 - Suc ?m) NUL"
    using replicate_NUL_split [OF assms(6)] by (simp only: drop_replicate)
  then obtain s2 es2 where "Recv addr (replicate 0x1000 NUL) n (ev 1 s1)
      = Inr (s2, Some (int ?m, take (nat n) avail @ NUL # replicate (0x1000 - Suc ?m) NUL, es2))"
      and s2: "incoming addr s2 = drop (nat n) avail" "room addr k s2"
    using server_port.recv_ok [OF av(1), of n "replicate 0x1000 NUL"] av(2,3) assms(3,4,6) by auto
  with s1(1) n strlen_c_str c_str_take have "read_request ev addr s = Inr (s2, Some (c_str (take (nat n) avail)))"
    by (simp add: read_request_def del: take_append)
  with s2 show ?thesis by blast
qed

lemma Execute_result:
  assumes "room (task_addr t) 10 s" and "length (incoming (task_addr t) s) < 2 ^ 31"
    and "Query_res api (task_sql t) None db = Inr (n, res, db')" and "pred_option answerable res"
  shows "\<exists>s' es. Execute api t (s, db) = Inr (0, s', db', es)
     \<and> outgoing (task_addr t) s'
         = outgoing (task_addr t) s @ (case res of None \<Rightarrow> le32 n | Some r \<Rightarrow> answer r)
     \<and> incoming (task_addr t) s' = incoming (task_addr t) s
     \<and> m_nStatus (conn_of (task_addr t) s') = (if incoming (task_addr t) s = [] then 0 else 1)"
proof -
  let ?a = "task_addr t"
  let ?body = "case res of
            None \<Rightarrow> and_then (Send ?a (le32 n) 4 s) (\<lambda>(_, s1, es1). Inr (s1, es1))
          | Some r \<Rightarrow> SendResByteAry r ?a s"
  have one: "packets 4 = 1" by (simp add: packets_def)
  obtain s1 es1 where s1: "?body = Inr (s1, es1)" "room ?a 0 s1" "incoming ?a s1 = incoming ?a s"
      "outgoing ?a s1 = outgoing ?a s @ (case res of None \<Rightarrow> le32 n | Some r \<Rightarrow> answer r)"
  proof (cases res)
    case None
    then show ?thesis
      using that server_port.send_ok [of 4 "le32 n" ?a 10 s] assms(1) one
        room_less [of ?a 9 _ 0] by fastforce
  next
    case (Some r)
    then show ?thesis using that SendResByteAry_answers [OF assms(1), of r] assms(4) by auto
  qed
  have "table_ok s1" "length (incoming ?a s1) < 2 ^ 31" using s1(2,3) assms(2) by (simp_all add: room_def)
  from UnSelect_views [OF this] s1 assms(3) show ?thesis
    by (cases "UnSelect ?a s1") (auto simp: Execute_def)
qed

text \<open>The frame of a request, read when its length and then its whole text are there.\<close>

lemma read_request_frame:
  assumes "holds addr k (take 4 (frame (sql @ [NUL])) @ got) (ev 0 s)"
    and "brings addr k got (drop 4 (frame (sql @ [NUL])) @ rest) (ev 1)"
    and "length sql < 0x1000 - 1" and "NUL \<notin> set sql"
  shows "\<exists>s'. read_request ev addr s = Inr (s', Some sql) \<and> holds addr k rest s'"
proof -
  let ?n = "int (length (sql @ [NUL]))" and ?avail = "(sql @ [NUL]) @ rest"
  have h: "holds addr k (le32 ?n @ got) (ev 0 s)" "brings addr k got ?avail (ev 1)"
    using assms(1,2) by (simp_all add: frame_def)
  have n: "nat ?n = length (sql @ [NUL])" by (rule nat_int)
  have c: "c_str (take (nat ?n) ?avail) = sql" "drop (nat ?n) ?avail = rest"
    unfolding n using assms(4) c_str_append_NUL [of sql "[]"] by simp_all
  have small: "?avail \<noteq> []" "0 \<le> ?n" "?n < 2 ^ 31" "min (length ?avail) (nat ?n) < 0x1000"
    using assms(3) unfolding n by simp_all
  have "length rest < 2 ^ 31" using h(2) by (simp add: brings_def)
  with read_request_available [OF h small] show ?thesis unfolding c holds_def by blast
qed

text \<open>The stream of a socket with one open connection, for the examples.\<close>

definition sock_with :: "byte list \<Rightarrow> CTcpSocket" where
  "sock_with bs = \<lparr>m_connectMap = [(addr_example, Conn_init\<lparr>m_byteStream := \<lparr>m_vtBuf = bs\<rparr>, m_nStatus := 1\<rparr>)],
     m_sendList = []\<rparr>"

lemma conn_of_sock_with:
  "conn_of addr_example (sock_with bs) = Conn_init\<lparr>m_byteStream := \<lparr>m_vtBuf = bs\<rparr>, m_nStatus := 1\<rparr>"
  by (simp add: conn_of_def sock_with_def)

lemma sock_with_views [simp]:
  "incoming addr_example (sock_with bs) = bs" "outgoing a (sock_with bs) = []"
  "k < 2 ^ 31 \<Longrightarrow> room addr_example k (sock_with bs)" "table_ok (sock_with bs)"
proof -
  show "table_ok (sock_with bs)" by (simp add: sock_with_def table_ok_def map_sorted_def)
  then show "k < 2 ^ 31 \<Longrightarrow> room addr_example k (sock_with bs)"
    by (simp add: room_def conn_of_sock_with Conn_init_def)
qed (simp_all add: conn_of_sock_with incoming_def outgoing_def, simp add: sock_with_def)

section \<open>Properties\<close>

text \<open>
  What the server takes for a request: when the length has arrived and, at the second \<open>Recv\<close>,
  some bytes of the text, the task gets the first \<open>n\<close> of the bytes that are there, up to the
  first NUL, and the rest stays in the stream. A request that has arrived completely is so read exactly.
\<close>

theorem read_request_takes:
  assumes "holds addr k (le32 n @ got) (ev 0 s)" and "brings addr k got avail (ev 1)"
    and "avail \<noteq> []" and "0 \<le> n" "n < 2 ^ 31" and "min (length avail) (nat n) < 0x1000"
  shows "\<exists>s'. read_request ev addr s = Inr (s', Some (c_str (take (nat n) avail)))
     \<and> incoming addr s' = drop (nat n) avail \<and> room addr k s'"
  using assms by (rule read_request_available)

text \<open>
  A request that has arrived only in part is not waited for: with the length and a proper
  non-empty part of the text in the stream when the second \<open>Recv\<close> looks, the task gets the truncated text and
  nothing is left in the stream, so that the missing bytes will be taken for the next request.
\<close>

theorem read_request_partial:
  assumes "holds addr k (le32 n @ part) (ev 0 s)" and "\<And>s. ev 1 s = s" and "part \<noteq> []"
    and "int (length part) < n" "n < 2 ^ 31" and "length part < 0x1000" and "NUL \<notin> set part"
  shows "\<exists>s'. read_request ev addr s = Inr (s', Some part) \<and> incoming addr s' = []"
proof -
  have "ev 1 = (\<lambda>s. s)" using assms(2) by blast
  moreover obtain s1 es1 where s1: "Recv addr (le32 0) 4 (ev 0 s) = Inr (s1, Some (4, le32 n, es1))" "holds addr k part s1"
    using Recv_header [OF assms(1)] by blast
  moreover have n: "un_le32 (le32 n) = n" using assms(4,5) by (simp add: codec_simps int32_range_def)
  moreover have "min (length part) (nat n) = length part" using assms(4) by auto
  then obtain s2 es2 where "Recv addr (replicate 0x1000 NUL) n s1
      = Inr (s2, Some (int (length part), part @ NUL # replicate (0x1000 - Suc (length part)) NUL, es2))"
      "incoming addr s2 = []"
    using server_port.recv_ok [of addr k s1 n "replicate 0x1000 NUL"] s1(2) assms(3,4,6)
      replicate_NUL_split [OF assms(6)] by (auto simp: holds_def)
  moreover have "c_str part = part" using assms(7) by (rule c_str_id)
  ultimately show ?thesis
    using strlen_c_str by (simp add: read_request_def)
qed

theorem read_request_partial_witness:
  "\<exists>s'. read_request (\<lambda>i s. s) addr_example (sock_with (le32 30 @ ''DELETE FROM t_class ''))
       = Inr (s', Some ''DELETE FROM t_class '') \<and> incoming addr_example s' = []"
  using read_request_partial [of addr_example 0 30 "''DELETE FROM t_class ''" "\<lambda>i s. s"
      "sock_with (le32 30 @ ''DELETE FROM t_class '')"]
  by (simp add: holds_def)

text \<open>
  The length of a request is not checked: a negative one is a negative copy size, and one above
  4096 with more than 4096 bytes in the stream writes past the request buffer.
\<close>

lemma read_request_unchecked_length:
  assumes "holds addr k (le32 n @ got) (ev 0 s)" and "brings addr k got avail (ev 1)"
    and "avail \<noteq> []" and "int32_range n"
  shows "(n < 0 \<longrightarrow> read_request ev addr s = Inl NegativeSize)
     \<and> (0x1000 < n \<and> 0x1000 < length avail \<longrightarrow> read_request ev addr s = Inl OutOfBounds)"
proof -
  have n: "un_le32 (le32 n) = n" using assms(4) by (simp add: codec_simps)
  obtain s1 es1 where s1: "Recv addr (le32 0) 4 (ev 0 s) = Inr (s1, Some (4, le32 n, es1))" "holds addr k got s1"
    using Recv_header [OF assms(1)] by blast
  then have av: "room addr k (ev 1 s1)" "incoming addr (ev 1 s1) = avail" "length avail < 2 ^ 31"
    using assms(2) by (auto simp: brings_def holds_def)
  show ?thesis
    using server_port.recv_negative [OF av(1), of n] server_port.recv_overflow [OF av(1), of "replicate 0x1000 NUL" n]
      s1(1) av(2,3) n assms(3)
    by (auto simp: read_request_def)
qed

text \<open>
  C27. \<open>SendResByteAry\<close> is safe exactly for result sets without null cells whose field names and
  whose cells each take at most 4096 bytes with their NULs; then the peer's stream grows by two
  frames, the field names and the cells row by row.
\<close>

theorem SendResByteAry_safe_iff:
  assumes "room addr 10 s"
  shows "(is_ok (SendResByteAry res addr s) \<longleftrightarrow> answerable res)
     \<and> (\<forall>s' es. SendResByteAry res addr s = Inr (s', es) \<longrightarrow>
          outgoing addr s' = outgoing addr s @ frame (flat (res_fields res))
            @ frame (flat (map the (concat (res_rows res)))))"
proof (cases "answerable res")
  case True
  with SendResByteAry_answers [OF assms True] show ?thesis by (auto simp: answer_def)
next
  case False
  with SendResByteAry_fails [of res addr s] show ?thesis by (auto simp: is_ok_iff)
qed

definition res_example :: "string option \<Rightarrow> MYSQL_RES" where
  "res_example v = \<lparr>res_fields = [''stu_id'', ''score''], res_rows = [[Some ''7'', v]]\<rparr>"

theorem SendResByteAry_safe_iff_witness:
  "is_ok (SendResByteAry (res_example (Some ''90'')) addr_example (sock_with []))
   \<and> \<not> is_ok (SendResByteAry (res_example None) addr_example (sock_with []))"
  using SendResByteAry_safe_iff [of addr_example "sock_with []" "res_example (Some ''90'')"]
    SendResByteAry_safe_iff [of addr_example "sock_with []" "res_example None"]
  by (simp add: answerable_def res_example_def c_str_def)

text \<open>
  C28. Executing a task answers its client and gives the connection back: a statement without result
  set is answered with its row count (or \<open>-1\<close>), a result set that fits with its two frames; then the
  connection is readable again exactly when more of its requests have arrived.
\<close>

theorem Execute_answers:
  assumes "room (task_addr t) 10 s" and "length (incoming (task_addr t) s) < 2 ^ 31"
    and "Query_res api (task_sql t) None db = Inr (n, res, db')" and "pred_option answerable res"
  shows "\<exists>s' es. Execute api t (s, db) = Inr (0, s', db', es)
     \<and> outgoing (task_addr t) s'
         = outgoing (task_addr t) s @ (case res of None \<Rightarrow> le32 n | Some r \<Rightarrow> answer r)
     \<and> incoming (task_addr t) s' = incoming (task_addr t) s
     \<and> m_nStatus (conn_of (task_addr t) s') = (if incoming (task_addr t) s = [] then 0 else 1)"
  using assms by (rule Execute_result)

theorem Execute_answers_witness:
  "\<exists>s' es. Execute (api_failing ''no'') (new_CSqlTask addr_example ''x'') (sock_with [], ()) = Inr (0, s', (), es)
     \<and> outgoing addr_example s' = le32 (- 1)"
  using Execute_answers [of "new_CSqlTask addr_example ''x''" "sock_with []" "api_failing ''no''" "()" "- 1" None "()"]
  by (auto simp: new_CSqlTask_def Query_res_def api_failing_def OutputDebugPrintf_def)

text \<open>
  The server opens its port only on a complete schema: \<open>Init\<close> returns true exactly when the
  database connection came up, each of the six statements succeeded on the state the ones before
  it left (database, \<open>USE\<close>, then each table after the tables it references), and the socket
  could be bound; both socket threads then run.
\<close>

theorem Server_Init_ready:
  "Server_Init api socket_ok bind_ok db0 = Inr (True, db, es) \<longleftrightarrow>
     (\<exists>db1. Mysql_Init api ''localhost'' ''root'' ''root'' db0 = Inr (True, db1)
       \<and> (\<forall>i < 6. succeeds api (table_statements ! i) (after api (take i table_statements) db1))
       \<and> db = after api table_statements db1)
     \<and> socket_ok \<and> bind_ok \<and> es = [StartThread SendThreadProc, StartThread RecvThreadProc]"
proof -
  have six: "length table_statements = 6" by (simp add: table_statements_def)
  show ?thesis
    using run_statements_true [of api table_statements]
    by (auto simp: Server_Init_def CreateTables_def Listen_def six split: if_splits)
qed

definition api_ok :: "unit mysql_api" where
  "api_ok = (api_failing [])\<lparr>mysql_query := \<lambda>_ db. (0, db)\<rparr>"

end
