(* ===== verification/ShowList.thy ===== *)
theory ShowList
  imports Server
begin

text \<open>
  The client side of requests and answers, \<open>SchoolSystem/SchoolSystemDlg.cpp\<close>: \<open>SendSql\<close> and
  \<open>ShowList\<close>. Calls of the list control, the tab control and the message boxes are recorded as
  values of \<open>ui\<close> in the order the code makes them. A run may wait or loop for ever, so its type
  is an option (\<open>None\<close>: it does not return); \<open>ev i\<close> is what the socket's threads do until the \<open>i\<close>-th \<open>Recv\<close>
  of the run looks at the stream for the last time.
\<close>

section \<open>Runs\<close>

type_synonym 'a run = "'a result option"

definition run_bind :: "'a run \<Rightarrow> ('a \<Rightarrow> 'b run) \<Rightarrow> 'b run" where
  "run_bind m f = (case m of None \<Rightarrow> None | Some (Inl e) \<Rightarrow> Some (Inl e) | Some (Inr x) \<Rightarrow> f x)"

lemma run_bind_simps [simp]:
  "run_bind None f = None" "run_bind (Some (Inl e)) f = Some (Inl e)" "run_bind (Some (Inr x)) f = f x"
  by (simp_all add: run_bind_def)

section \<open>The dialog\<close>

datatype ui =
    DeleteAllItems
  | DeleteColumn int bool
  | InsertColumn int string
  | InsertItem int
  | SetItemText int int string
  | DeleteItem int
  | TabInsertItem int string
  | SetIcon bool
  | SetExtendedStyle
  | AfxMessageBox string
  | EndDialog int

text \<open>\<open>m_fieldMap\<close> is a \<open>map<string, string>\<close>; the controls are outside the model.\<close>

record CSchoolSystemDlg =
  m_nCurTabSel :: int
  m_tcpClient :: CTcpClient
  m_fieldMap :: "string \<rightharpoonup> string"

text \<open>The titles of the constructor, in the GBK bytes of the source.\<close>

definition fieldMap_init :: "string \<rightharpoonup> string" where
  "fieldMap_init =
     [''stu_id'' \<mapsto> [CHR 0xD1, CHR 0xA7, CHR 0xC9, CHR 0xFA, CHR 0x49, CHR 0x44],
      ''stu_name'' \<mapsto> [CHR 0xD1, CHR 0xA7, CHR 0xC9, CHR 0xFA, CHR 0xD0, CHR 0xD5, CHR 0xC3, CHR 0xFB],
      ''class_id'' \<mapsto> [CHR 0xB0, CHR 0xE0, CHR 0xBC, CHR 0xB6, CHR 0x49, CHR 0x44],
      ''class_name'' \<mapsto> [CHR 0xB0, CHR 0xE0, CHR 0xBC, CHR 0xB6, CHR 0xC3, CHR 0xFB],
      ''course_id'' \<mapsto> [CHR 0xBF, CHR 0xCE, CHR 0xB3, CHR 0xCC, CHR 0x49, CHR 0x44],
      ''course_name'' \<mapsto> [CHR 0xBF, CHR 0xCE, CHR 0xB3, CHR 0xCC, CHR 0xC3, CHR 0xFB],
      ''score'' \<mapsto> [CHR 0xB3, CHR 0xC9, CHR 0xBC, CHR 0xA8]]"

text \<open>\<open>m_fieldMap[p]\<close> inserts an empty title for a name it does not have.\<close>

definition field_ref :: "string \<Rightarrow> (string \<rightharpoonup> string) \<Rightarrow> (string \<rightharpoonup> string)" where
  "field_ref name fm = (if fm name = None then fm(name \<mapsto> []) else fm)"

section \<open>SendSql\<close>

definition SendSql :: "string \<Rightarrow> CSchoolSystemDlg \<Rightarrow> CSchoolSystemDlg result" where
  "SendSql sql d =
     (let nLen = wrap32 (int (length sql) + 1)
      in and_then (Client_Send (le32 nLen) 4 (m_tcpClient d)) (\<lambda>(_, c1, _).
         and_then (Client_Send (sql @ [NUL]) nLen c1) (\<lambda>(_, c2, _). Inr (d\<lparr>m_tcpClient := c2\<rparr>))))"

section \<open>ShowList\<close>

text \<open>\<open>m_tcpClient.Recv(buf, n)\<close>: the polling loop ends when the stream is not empty.\<close>

definition await_Recv ::
    "(CTcpClient \<Rightarrow> CTcpClient) \<Rightarrow> byte list \<Rightarrow> int \<Rightarrow> CTcpClient \<Rightarrow> (CTcpClient \<times> byte list) run" where
  "await_Recv e buf n c =
     (case Client_Recv buf n (e c) of
        Inl er \<Rightarrow> Some (Inl er)
      | Inr (c', None) \<Rightarrow> None
      | Inr (c', Some (_, buf', _)) \<Rightarrow> Some (Inr (c', buf')))"

lemma and_then_cong [fundef_cong]:
  "r = r' \<Longrightarrow> (\<And>x. r' = Inr x \<Longrightarrow> f x = g x) \<Longrightarrow> and_then r f = and_then r' g"
  by (cases r') auto

text \<open>
  The loop over the field names; \<open>off\<close> is \<open>p - pBuf\<close>. Each turn moves \<open>p\<close> by at least one byte.
\<close>

function show_columns ::
    "byte list \<Rightarrow> int \<Rightarrow> nat \<Rightarrow> int \<Rightarrow> (string \<rightharpoonup> string) \<Rightarrow> (ui list \<times> int \<times> (string \<rightharpoonup> string)) result" where
  "show_columns pBuf nBytes off nCol fm =
     (if int off < nBytes
      then and_then (strlen (drop off pBuf)) (\<lambda>k.
             let name = take k (drop off pBuf); fm' = field_ref name fm
             in and_then (show_columns pBuf nBytes (off + k + 1) (nCol + 1) fm') (\<lambda>(us, n, fm'').
                  Inr (InsertColumn nCol (the (fm' name)) # us, n, fm'')))
      else Inr ([], nCol, fm))"
  by pat_completeness auto
termination
  by (relation "measure (\<lambda>(pBuf, nBytes, off, nCol, fm). nat (nBytes - int off))") auto

declare show_columns.simps [simp del]

text \<open>The inner loop over the cells of a row, and the loop over the rows.\<close>

fun set_cells :: "byte list \<Rightarrow> int \<Rightarrow> int \<Rightarrow> nat \<Rightarrow> nat \<Rightarrow> (ui list \<times> nat) result" where
  "set_cells pBuf nRow i 0 off = Inr ([], off)"
| "set_cells pBuf nRow i (Suc todo) off =
     and_then (strlen (drop off pBuf)) (\<lambda>k.
     and_then (set_cells pBuf nRow (i + 1) todo (off + k + 1)) (\<lambda>(us, off').
       Inr (SetItemText nRow i (take k (drop off pBuf)) # us, off')))"

partial_function (option) show_rows ::
    "byte list \<Rightarrow> int \<Rightarrow> int \<Rightarrow> nat \<Rightarrow> int \<Rightarrow> ui list run" where
  "show_rows pBuf nBytes nCol off nRow =
     (if int off < nBytes
      then (case set_cells pBuf nRow 0 (nat nCol) off of
              Inl e \<Rightarrow> Some (Inl e)
            | Inr (us, off') \<Rightarrow>
                Option.bind (show_rows pBuf nBytes nCol off' (nRow + 1))
                  (\<lambda>r. Some (and_then r (\<lambda>vs. Inr (InsertItem nRow # us @ vs)))))
      else Some (Inr []))"

text \<open>\<open>nDel\<close> is how often \<open>DeleteColumn(0)\<close> finds a column.\<close>

definition ShowList ::
    "nat \<Rightarrow> (nat \<Rightarrow> CTcpClient \<Rightarrow> CTcpClient) \<Rightarrow> CSchoolSystemDlg \<Rightarrow> (CSchoolSystemDlg \<times> ui list) run" where
  "ShowList nDel ev d =
     (let clear = DeleteAllItems # replicate nDel (DeleteColumn 0 True) @ [DeleteColumn 0 False]
      in run_bind (await_Recv (ev 0) (le32 0) 4 (m_tcpClient d)) (\<lambda>(c1, b1).
         let nBytes = un_le32 b1
         in run_bind (await_Recv (ev 1) (replicate 0x1000 NUL) nBytes c1) (\<lambda>(c2, pBuf).
            run_bind (Some (show_columns pBuf nBytes 0 0 (m_fieldMap d))) (\<lambda>(cols, nCol, fm).
            run_bind (await_Recv (ev 2) b1 4 c2) (\<lambda>(c3, b3).
            let nBytes' = un_le32 b3
            in if nBytes' = 0
               then Some (Inr (d\<lparr>m_tcpClient := c3, m_fieldMap := fm\<rparr>, clear @ cols))
               else run_bind (await_Recv (ev 3) pBuf nBytes' c3) (\<lambda>(c4, pBuf').
                    run_bind (show_rows pBuf' nBytes' nCol 0 0) (\<lambda>rows.
                      Some (Inr (d\<lparr>m_tcpClient := c4, m_fieldMap := fm\<rparr>, clear @ cols @ rows)))))))))"

section \<open>What a result set looks like on the screen\<close>

definition title :: "(string \<rightharpoonup> string) \<Rightarrow> string \<Rightarrow> string" where
  "title fm name = (case fm name of None \<Rightarrow> [] | Some t \<Rightarrow> t)"

definition column_calls :: "(string \<rightharpoonup> string) \<Rightarrow> nat \<Rightarrow> string list \<Rightarrow> ui list" where
  "column_calls fm k names = map (\<lambda>(i, n). InsertColumn (int i) (title fm n)) (enumerate k names)"

definition cell_calls :: "nat \<Rightarrow> nat \<Rightarrow> string list \<Rightarrow> ui list" where
  "cell_calls r k cells = map (\<lambda>(i, x). SetItemText (int r) (int i) x) (enumerate k cells)"

definition row_calls :: "nat \<Rightarrow> string list list \<Rightarrow> ui list" where
  "row_calls k rows = concat (map (\<lambda>(r, cells). InsertItem (int r) # cell_calls r 0 cells) (enumerate k rows))"

definition field_refs :: "string list \<Rightarrow> (string \<rightharpoonup> string) \<Rightarrow> (string \<rightharpoonup> string)" where
  "field_refs names fm = fold field_ref names fm"

lemma call_simps [simp]:
  "column_calls fm k [] = []" "cell_calls r k [] = []" "row_calls k [] = []"
  "column_calls fm k (n # ns) = InsertColumn (int k) (title fm n) # column_calls fm (Suc k) ns"
  "cell_calls r k (x # xs) = SetItemText (int r) (int k) x # cell_calls r (Suc k) xs"
  "row_calls k (cs # rs) = InsertItem (int k) # cell_calls k 0 cs @ row_calls (Suc k) rs"
  "field_refs [] fm = fm" "field_refs (n # ns) fm = field_refs ns (field_ref n fm)"
  by (simp_all add: column_calls_def cell_calls_def row_calls_def field_refs_def)

lemma title_field_ref [simp]:
  "title (field_ref n fm) = title fm" "the (field_ref n fm n) = title fm n"
  by (auto simp: title_def field_ref_def fun_eq_iff)

lemma column_calls_field_ref [simp]: "column_calls (field_ref n fm) = column_calls fm"
  by (simp add: column_calls_def fun_eq_iff)

text \<open>One string of a packed block at the read position.\<close>

lemma flat_step:
  assumes "drop off pBuf = flat (x # xs) @ junk" and "NUL \<notin> set x"
  shows "strlen (drop off pBuf) = Inr (length x)" "take (length x) (drop off pBuf) = x"
    "drop (off + length x + 1) pBuf = flat xs @ junk"
proof -
  have eq: "drop off pBuf = x @ NUL # flat xs @ junk" using assms by (simp add: c_str_id)
  show "strlen (drop off pBuf) = Inr (length x)" "take (length x) (drop off pBuf) = x"
    using assms(2) by (simp_all add: eq)
  have "drop (off + length x + 1) pBuf = drop (Suc (length x)) (drop off pBuf)"
    by (simp add: add.commute add.left_commute)
  then show "drop (off + length x + 1) pBuf = flat xs @ junk" by (simp add: eq)
qed

definition no_NUL :: "string list \<Rightarrow> bool" where
  "no_NUL ss \<longleftrightarrow> (\<forall>s \<in> set ss. NUL \<notin> set s)"

lemma no_NUL_simps [simp]:
  "no_NUL []" "no_NUL (s # ss) \<longleftrightarrow> NUL \<notin> set s \<and> no_NUL ss"
  "no_NUL (ss @ ts) \<longleftrightarrow> no_NUL ss \<and> no_NUL ts"
  by (auto simp: no_NUL_def)

lemma show_columns_flat:
  "drop off pBuf = flat names @ junk \<Longrightarrow> no_NUL names \<Longrightarrow>
   show_columns pBuf (int (off + length (flat names))) off (int k) fm
     = Inr (column_calls fm k names, int (k + length names), field_refs names fm)"
proof (induction names arbitrary: off k fm)
  case Nil
  then show ?case by (simp add: show_columns.simps)
next
  case (Cons x xs)
  note step = flat_step [OF Cons.prems(1)]
  have x: "NUL \<notin> set x" "c_str x = x" using Cons.prems(2) by (simp_all add: c_str_id)
  have "show_columns pBuf (int (off + length x + 1 + length (flat xs))) (off + length x + 1)
      (int (Suc k)) (field_ref x fm)
    = Inr (column_calls fm (Suc k) xs, int (Suc k + length xs), field_refs xs (field_ref x fm))"
    using Cons.IH [OF step(3) [OF x(1)], of "Suc k" "field_ref x fm"] Cons.prems(2) by simp
  then show ?case
    using step(1,2) [OF x(1)] x(2) by (subst show_columns.simps) (simp add: algebra_simps)
qed

lemma set_cells_flat:
  "drop off pBuf = flat cells @ junk \<Longrightarrow> no_NUL cells \<Longrightarrow>
   set_cells pBuf (int r) (int k) (length cells) off = Inr (cell_calls r k cells, off + length (flat cells))"
proof (induction cells arbitrary: off k)
  case (Cons x xs)
  note step = flat_step [OF Cons.prems(1)]
  have x: "NUL \<notin> set x" "c_str x = x" using Cons.prems(2) by (simp_all add: c_str_id)
  with Cons.IH [OF step(3) [OF x(1)], of "Suc k"] step(1,2) [OF x(1)] Cons.prems(2)
  show ?case by (simp add: algebra_simps)
qed simp

lemma show_rows_flat:
  "drop off pBuf = flat (concat rows) @ junk \<Longrightarrow> no_NUL (concat rows) \<Longrightarrow>
   \<forall>cells \<in> set rows. length cells = n \<Longrightarrow> 0 < n \<Longrightarrow>
   show_rows pBuf (int (off + length (flat (concat rows)))) (int n) off (int r) = Some (Inr (row_calls r rows))"
proof (induction rows arbitrary: off r)
  case Nil
  then show ?case by (simp add: show_rows.simps)
next
  case (Cons cells rows)
  let ?off = "off + length (flat cells)"
  have len: "length cells = n" and nul: "no_NUL cells" using Cons.prems by simp_all
  have dr: "drop off pBuf = flat cells @ (flat (concat rows) @ junk)" using Cons.prems(1) by simp
  have cs: "set_cells pBuf (int r) 0 n off = Inr (cell_calls r 0 cells, ?off)"
    using set_cells_flat [OF dr nul, of r 0] len by simp
  have "drop ?off pBuf = drop (length (flat cells)) (drop off pBuf)"
    by (simp add: add.commute)
  then have "drop ?off pBuf = flat (concat rows) @ junk" by (simp add: dr)
  then have "show_rows pBuf (int (?off + length (flat (concat rows)))) (int n) ?off (int (Suc r))
      = Some (Inr (row_calls (Suc r) rows))"
    using Cons.IH [of ?off "Suc r"] Cons.prems by simp
  moreover have "0 < length (flat cells)" using len Cons.prems(4) by (cases cells) auto
  then have "0 < int (length (flat cells)) + int (length (flat (concat rows)))" by linarith
  ultimately show ?case
    using cs by (subst show_rows.simps) (simp add: algebra_simps)
qed

section \<open>Waiting for an answer\<close>

text \<open>A client with the bytes \<open>bs\<close> in its stream, and an environment after which it has \<open>bs'\<close>.\<close>

definition client_holds :: "nat \<Rightarrow> byte list \<Rightarrow> CTcpClient \<Rightarrow> bool" where
  "client_holds k bs c \<longleftrightarrow> client_room k c \<and> client_in c = bs \<and> length bs < 2 ^ 31"

definition client_brings :: "nat \<Rightarrow> byte list \<Rightarrow> byte list \<Rightarrow> (CTcpClient \<Rightarrow> CTcpClient) \<Rightarrow> bool" where
  "client_brings k bs bs' e \<longleftrightarrow> (\<forall>c. client_holds k bs c \<longrightarrow> client_holds k bs' (e c))"

lemma client_brings_id: "client_brings k bs bs (\<lambda>c. c)"
  by (simp add: client_brings_def)

text \<open>
  The four \<open>Recv\<close> calls of \<open>ShowList\<close> each find what they ask for; \<open>bs\<close> is in the stream before
  the first, and \<open>rest\<close> after the last.
\<close>

definition timely ::
    "nat \<Rightarrow> (nat \<Rightarrow> CTcpClient \<Rightarrow> CTcpClient) \<Rightarrow> byte list \<Rightarrow> byte list \<Rightarrow> byte list \<Rightarrow> byte list \<Rightarrow> bool" where
  "timely k ev bs F D rest \<longleftrightarrow>
     (\<exists>g1 g2 g3. client_brings k bs (le32 (int (length F)) @ g1) (ev 0)
        \<and> client_brings k g1 (F @ g2) (ev 1)
        \<and> client_brings k g2 (le32 (int (length D)) @ g3) (ev 2)
        \<and> (if D = [] then g3 = rest else client_brings k g3 (D @ rest) (ev 3)))"

lemma timely_id: "timely k (\<lambda>_ c. c) (frame F @ frame D @ rest) F D rest"
  unfolding timely_def frame_def
  by (rule exI [of _ "F @ frame D @ rest"], rule exI [of _ "frame D @ rest"], rule exI [of _ "D @ rest"])
    (simp add: client_brings_id frame_def)

lemma await_exact:
  assumes "client_holds k bs c" "client_brings k bs (w @ rest) e" "w \<noteq> []" "length w \<le> length b"
  shows "\<exists>c'. await_Recv e b (int (length w)) c = Some (Inr (c', w @ drop (length w) b)) \<and> client_holds k rest c'"
proof -
  have "client_room k (e c)" "client_in (e c) = w @ rest" "length (client_in (e c)) < 2 ^ 31"
    using assms(1,2) by (auto simp: client_brings_def client_holds_def)
  with client_port.recv_exact [OF this(1,2) assms(3) this(3) assms(4)] show ?thesis
    by (auto simp: await_Recv_def client_holds_def)
qed

lemma await_int:
  assumes "client_holds k bs c" "client_brings k bs (le32 n @ rest) e" "length b = 4"
  shows "\<exists>c'. await_Recv e b 4 c = Some (Inr (c', le32 n)) \<and> client_holds k rest c'"
proof -
  have "le32 n \<noteq> []" by (simp add: le32_def)
  from await_exact [OF assms(1,2) this, of b] assms(3) show ?thesis by simp
qed

lemma show_columns_block:
  assumes "no_NUL names" and "drop (length (flat names)) pBuf = junk" and "take (length (flat names)) pBuf = flat names"
  shows "show_columns pBuf (int (length (flat names))) 0 0 fm
     = Inr (column_calls fm 0 names, int (length names), field_refs names fm)"
proof -
  have "drop 0 pBuf = flat names @ junk"
    using assms(2,3) by (metis append_take_drop_id drop_0)
  from show_columns_flat [OF this assms(1), of 0] show ?thesis by simp
qed

lemma flat_Nil_iff [simp]: "flat ss = [] \<longleftrightarrow> ss = []"
  by (cases ss) simp_all

text \<open>A result set a table control can show: named columns, and every row has one text per column.\<close>

definition tabular :: "MYSQL_RES \<Rightarrow> bool" where
  "tabular res \<longleftrightarrow> res_fields res \<noteq> [] \<and> no_NUL (res_fields res)
     \<and> no_NUL (map the (concat (res_rows res)))
     \<and> (\<forall>cells \<in> set (res_rows res). length cells = length (res_fields res))"

definition clear_calls :: "nat \<Rightarrow> ui list" where
  "clear_calls nDel = DeleteAllItems # replicate nDel (DeleteColumn 0 True) @ [DeleteColumn 0 False]"

definition table_calls :: "(string \<rightharpoonup> string) \<Rightarrow> MYSQL_RES \<Rightarrow> ui list" where
  "table_calls fm res = column_calls fm 0 (res_fields res) @ row_calls 0 (map (map the) (res_rows res))"

text \<open>The first three receives: the length of the names, the names, the length of the cells.\<close>

lemma ShowList_head:
  assumes small: "F \<noteq> []" "length F \<le> 0x1000" "length D \<le> 0x1000" and holds: "client_holds k bs c"
    and br: "client_brings k bs (le32 (int (length F)) @ g1) (ev 0)" "client_brings k g1 (F @ g2) (ev 1)"
      "client_brings k g2 (le32 (int (length D)) @ g3) (ev 2)"
  obtains c1 c2 c3 where
    "await_Recv (ev 0) (le32 0) 4 c = Some (Inr (c1, le32 (int (length F))))"
    "await_Recv (ev 1) (replicate 0x1000 NUL) (int (length F)) c1 = Some (Inr (c2, F @ replicate (0x1000 - length F) NUL))"
    "await_Recv (ev 2) (le32 (int (length F))) 4 c2 = Some (Inr (c3, le32 (int (length D))))" "client_holds k g3 c3"
    "un_le32 (le32 (int (length F))) = int (length F)" "un_le32 (le32 (int (length D))) = int (length D)"
proof -
  obtain c1 where c1: "await_Recv (ev 0) (le32 0) 4 c = Some (Inr (c1, le32 (int (length F))))" "client_holds k g1 c1"
    using await_int [OF holds br(1), of "le32 0"] by auto
  obtain c2 where c2: "await_Recv (ev 1) (replicate 0x1000 NUL) (int (length F)) c1
      = Some (Inr (c2, F @ replicate (0x1000 - length F) NUL))" "client_holds k g2 c2"
    using await_exact [OF c1(2) br(2) small(1), of "replicate 0x1000 NUL"] small(2) by auto
  obtain c3 where c3: "await_Recv (ev 2) (le32 (int (length F))) 4 c2 = Some (Inr (c3, le32 (int (length D))))"
      "client_holds k g3 c3"
    using await_int [OF c2(2) br(3), of "le32 (int (length F))"] by auto
  have "un_le32 (le32 (int (length F))) = int (length F)" "un_le32 (le32 (int (length D))) = int (length D)"
    using small(2,3) by (simp_all add: codec_simps int32_range_def)
  with c1(1) c2(1) c3 show ?thesis by (rule that)
qed

lemma ShowList_table:
  assumes "answerable res" and "tabular res" and "client_holds k bs (m_tcpClient d)"
    and "timely k ev bs (flat (res_fields res)) (flat (map the (concat (res_rows res)))) rest"
  shows "\<exists>c'. ShowList nDel ev d
       = Some (Inr (d\<lparr>m_tcpClient := c', m_fieldMap := field_refs (res_fields res) (m_fieldMap d)\<rparr>,
                    clear_calls nDel @ table_calls (m_fieldMap d) res))
     \<and> client_holds k rest c'"
proof -
  let ?F = "flat (res_fields res)" and ?rows = "map (map the) (res_rows res)"
  let ?D = "flat (concat ?rows)"
  have D: "flat (map the (concat (res_rows res))) = ?D" by (simp add: map_concat)
  have small: "length ?F \<le> 0x1000" "length ?D \<le> 0x1000" "no_NUL (res_fields res)" "?F \<noteq> []" "no_NUL (concat ?rows)"
    using assms(1,2) by (simp_all add: answerable_def tabular_def map_concat)
  obtain g1 g2 g3 where br: "client_brings k bs (le32 (int (length ?F)) @ g1) (ev 0)"
      "client_brings k g1 (?F @ g2) (ev 1)" "client_brings k g2 (le32 (int (length ?D)) @ g3) (ev 2)"
      "if ?D = [] then g3 = rest else client_brings k g3 (?D @ rest) (ev 3)"
    using assms(4) unfolding timely_def D by blast
  let ?b = "?F @ replicate (0x1000 - length ?F) NUL"
  obtain c1 c2 c3 where c: "await_Recv (ev 0) (le32 0) 4 (m_tcpClient d) = Some (Inr (c1, le32 (int (length ?F))))"
      "await_Recv (ev 1) (replicate 0x1000 NUL) (int (length ?F)) c1 = Some (Inr (c2, ?b))"
      "await_Recv (ev 2) (le32 (int (length ?F))) 4 c2 = Some (Inr (c3, le32 (int (length ?D))))" "client_holds k g3 c3"
      "un_le32 (le32 (int (length ?F))) = int (length ?F)" "un_le32 (le32 (int (length ?D))) = int (length ?D)"
    using ShowList_head [OF small(4,1,2) assms(3) br(1-3)] by metis
  have cols: "show_columns ?b (int (length ?F)) 0 0 (m_fieldMap d)
      = Inr (column_calls (m_fieldMap d) 0 (res_fields res), int (length (res_fields res)),
             field_refs (res_fields res) (m_fieldMap d))"
    by (rule show_columns_block [OF small(3)]) simp_all
  show ?thesis
  proof (cases "?D = []")
    case True
    then have "concat (res_rows res) = []" by (simp add: map_concat)
    moreover have "res_fields res \<noteq> []" "\<forall>cells \<in> set (res_rows res). length cells = length (res_fields res)"
      using assms(2) by (simp_all add: tabular_def)
    ultimately have "res_rows res = []" by (cases "res_rows res") auto
    with c cols br(4) show ?thesis
      by (auto simp: ShowList_def Let_def clear_calls_def table_calls_def)
  next
    case False
    let ?junk = "drop (length ?D) ?b"
    obtain c4 where c4: "await_Recv (ev 3) ?b (int (length ?D)) c3 = Some (Inr (c4, ?D @ ?junk))"
        "client_holds k rest c4"
      using await_exact [OF c(4), of ?D rest "ev 3" ?b] br(4) False small(1,2) by auto
    have "\<forall>cells \<in> set ?rows. length cells = length (res_fields res)" "0 < length (res_fields res)"
      using assms(2) by (auto simp: tabular_def)
    then have rows: "show_rows (?D @ ?junk) (int (length ?D)) (int (length (res_fields res))) 0 0
        = Some (Inr (row_calls 0 ?rows))"
      using show_rows_flat [of 0 "?D @ ?junk" ?rows ?junk "length (res_fields res)" 0] small(5) by simp
    have "int (length ?D) \<noteq> 0" using False by simp
    with c(1-3,5,6) c4(1) cols rows have "ShowList nDel ev d
        = Some (Inr (d\<lparr>m_tcpClient := c4, m_fieldMap := field_refs (res_fields res) (m_fieldMap d)\<rparr>,
                     clear_calls nDel @ table_calls (m_fieldMap d) res))"
      by (simp only: ShowList_def Let_def clear_calls_def table_calls_def run_bind_simps prod.case if_False append_assoc)
    with c4(2) show ?thesis by blast
  qed
qed

section \<open>The row loop\<close>

lemma set_cells_advances: "set_cells pBuf r i todo off = Inr (us, off') \<Longrightarrow> off + todo \<le> off'"
proof (induction todo arbitrary: i off us)
  case (Suc todo)
  then obtain k us' where "set_cells pBuf r (i + 1) todo (off + k + 1) = Inr (us', off')"
    by auto
  from Suc.IH [OF this] show ?case by simp
qed simp

lemma show_rows_returns:
  assumes "0 < nCol"
  shows "\<exists>r. show_rows pBuf nBytes nCol off nRow = Some r"
proof (induction "nat (nBytes - int off)" arbitrary: off nRow rule: less_induct)
  case less
  show ?case
  proof (cases "int off < nBytes")
    case True
    show ?thesis
    proof (cases "set_cells pBuf nRow 0 (nat nCol) off")
      case (Inr y)
      then obtain us off' where y: "set_cells pBuf nRow 0 (nat nCol) off = Inr (us, off')" by (cases y) auto
      have "off < off'" using set_cells_advances [OF y] assms by simp
      then obtain r where "show_rows pBuf nBytes nCol off' (nRow + 1) = Some r"
        using less True by fastforce
      with y True show ?thesis by (subst show_rows.simps) simp
    qed (subst show_rows.simps, simp)
  qed (subst show_rows.simps, simp)
qed

lemma show_rows_no_columns:
  assumes "show_rows pBuf nBytes nCol off nRow = Some y"
  shows "nCol \<le> 0 \<longrightarrow> nBytes \<le> int off"
proof (rule show_rows.raw_induct
    [where P = "\<lambda>pBuf nBytes nCol off nRow y. nCol \<le> 0 \<longrightarrow> nBytes \<le> int off", OF _ assms], goal_cases)
  case (1 rec pBuf nBytes nCol off nRow y)
  show ?case
  proof (intro impI, rule ccontr)
    assume n: "nCol \<le> 0" "\<not> nBytes \<le> int off"
    with 1(2) obtain r where "rec pBuf nBytes nCol off (nRow + 1) = Some r"
      by (auto split: bind_splits)
    with 1(1) n show False by blast
  qed
qed

section \<open>SendSql\<close>

lemma SendSql_frame:
  assumes "client_room (1 + packets (length sql + 1)) (m_tcpClient d)" and "length sql < 2 ^ 31 - 1"
  shows "\<exists>c'. SendSql sql d = Inr (d\<lparr>m_tcpClient := c'\<rparr>)
     \<and> client_out c' = client_out (m_tcpClient d) @ frame (sql @ [NUL])
     \<and> client_in c' = client_in (m_tcpClient d) \<and> client_room 0 c'"
proof -
  have "wrap32 (int (length sql) + 1) = int (length sql + 1)"
    using assms(2) by (simp add: int32_range_def)
  then show ?thesis
    using client_port.send_frame [OF assms(1), of "length sql + 1" "sql @ [NUL]"] assms(2)
    by (auto simp: SendSql_def Let_def)
qed

text \<open>A dialog whose client has given bytes in its stream, for the examples.\<close>

definition dlg_with :: "byte list \<Rightarrow> CSchoolSystemDlg" where
  "dlg_with bs = \<lparr>m_nCurTabSel = 0, m_tcpClient = with_socket (client_init addr_example) (sock_with bs),
     m_fieldMap = fieldMap_init\<rparr>"

lemma dlg_with_holds: "length bs < 2 ^ 31 \<Longrightarrow> k < 2 ^ 31 \<Longrightarrow> client_holds k bs (m_tcpClient (dlg_with bs))"
  by (simp add: dlg_with_def client_holds_def client_views client_init_def)

lemma dlg_with_out: "client_out (m_tcpClient (dlg_with bs)) = []"
  by (simp add: dlg_with_def client_views client_init_def)

lemma res_example_ok: "answerable (res_example (Some ''90''))" "tabular (res_example (Some ''90''))"
  by (simp_all add: answerable_def tabular_def res_example_def c_str_def)

section \<open>Properties\<close>

text \<open>
  C8. \<open>ShowList\<close> shows exactly the result set the server packed: when the two frames of an answer
  arrive in time, the list is cleared, gets one column per field with the field's title, and one
  row per record with its cells in their columns, and nothing of the next answer is consumed.
\<close>

theorem ShowList_shows_answer:
  assumes "answerable res" and "tabular res" and "client_holds k bs (m_tcpClient d)"
    and "timely k ev bs (flat (res_fields res)) (flat (map the (concat (res_rows res)))) rest"
  shows "\<exists>c'. ShowList nDel ev d
       = Some (Inr (d\<lparr>m_tcpClient := c', m_fieldMap := field_refs (res_fields res) (m_fieldMap d)\<rparr>,
                    DeleteAllItems # replicate nDel (DeleteColumn 0 True) @ [DeleteColumn 0 False]
                    @ column_calls (m_fieldMap d) 0 (res_fields res) @ row_calls 0 (map (map the) (res_rows res))))
     \<and> client_in c' = rest"
  using ShowList_table [OF assms] by (auto simp: clear_calls_def table_calls_def client_holds_def)

theorem ShowList_shows_answer_witness:
  "\<exists>d'. ShowList 0 (\<lambda>_ c. c) (dlg_with (answer (res_example (Some ''90'')) @ ''+'')) = Some (Inr (d',
     [DeleteAllItems, DeleteColumn 0 False, InsertColumn 0 (title fieldMap_init ''stu_id''),
      InsertColumn 1 (title fieldMap_init ''score''), InsertItem 0, SetItemText 0 0 ''7'', SetItemText 0 1 ''90'']))"
proof -
  let ?r = "res_example (Some ''90'')"
  let ?d = "dlg_with (answer ?r @ ''+'')"
  have "length (answer ?r @ ''+'') < 2 ^ 31"
    by (simp add: answer_def res_example_def frame_def c_str_def)
  then have "client_holds 0 (answer ?r @ ''+'') (m_tcpClient ?d)" by (rule dlg_with_holds) simp
  moreover have "timely 0 (\<lambda>_ c. c) (answer ?r @ ''+'') (flat (res_fields ?r)) (flat (map the (concat (res_rows ?r)))) ''+''"
    by (simp add: answer_def timely_id)
  ultimately show ?thesis
    using ShowList_shows_answer [OF res_example_ok, of 0 _ ?d _ _ 0]
    by (fastforce simp: res_example_def dlg_with_def)
qed

text \<open>
  C39. A failed query hangs or corrupts the client: the server answers a failing \<open>SELECT\<close> with the
  single number \<open>-1\<close>, and \<open>ShowList\<close> takes it for the size of the field block; it then never
  returns when nothing more arrives, and otherwise asks for \<open>-1\<close> bytes.
\<close>

theorem ShowList_failed_query:
  assumes "client_holds k bs (m_tcpClient d)" and "client_brings k bs (le32 (- 1) @ got) (ev 0)"
    and "client_brings k got avail (ev 1)"
  shows "ShowList nDel ev d = (if avail = [] then None else Some (Inl NegativeSize))"
proof -
  obtain c1 where c1: "await_Recv (ev 0) (le32 0) 4 (m_tcpClient d) = Some (Inr (c1, le32 (- 1)))"
      "client_holds k got c1"
    using await_int [OF assms(1,2), of "le32 0"] by auto
  have n: "un_le32 (le32 (- 1)) = - 1" by (simp add: codec_simps int32_range_def)
  have "client_room k (ev 1 c1)" "client_in (ev 1 c1) = avail" "length avail < 2 ^ 31"
    using assms(3) c1(2) by (auto simp: client_brings_def client_holds_def)
  then have "await_Recv (ev 1) (replicate 0x1000 NUL) (- 1) c1
      = (if avail = [] then None else Some (Inl NegativeSize))"
    using client_port.recv_empty [of k "ev 1 c1" "replicate 0x1000 NUL" "- 1"]
      client_port.recv_negative [of k "ev 1 c1" "- 1" "replicate 0x1000 NUL"]
    by (auto simp: await_Recv_def)
  with c1(1) n show ?thesis by (simp add: ShowList_def)
qed

theorem ShowList_failed_query_witness:
  "ShowList 0 (\<lambda>_ c. c) (dlg_with (le32 (- 1))) = None"
  using ShowList_failed_query [of 0 "le32 (- 1)" "dlg_with (le32 (- 1))" "[]" "\<lambda>_ c. c" "[]" 0]
  by (simp add: dlg_with_holds client_brings_id)

text \<open>
  C38. The loop that fills the rows ends exactly when it has a column to fill or nothing to show: with
  no columns and a non-empty block of records it runs for ever.
\<close>

theorem show_rows_returns_iff:
  "(\<exists>r. show_rows pBuf nBytes nCol off nRow = Some r) \<longleftrightarrow> 0 < nCol \<or> nBytes \<le> int off"
proof
  assume "\<exists>r. show_rows pBuf nBytes nCol off nRow = Some r"
  then show "0 < nCol \<or> nBytes \<le> int off" using show_rows_no_columns by fastforce
next
  assume "0 < nCol \<or> nBytes \<le> int off"
  then show "\<exists>r. show_rows pBuf nBytes nCol off nRow = Some r"
  proof
    assume "nBytes \<le> int off"
    then show ?thesis by (subst show_rows.simps) simp
  qed (rule show_rows_returns)
qed

text \<open>
  C11. Request round trip: the bytes \<open>SendSql\<close> queues are read by the server's loop as the same SQL text,
  whenever its two \<open>Recv\<close> calls find the length and then the whole text, and the bytes after
  them stay for the next request.
\<close>

theorem SendSql_read_request:
  assumes "client_room (1 + packets (length sql + 1)) (m_tcpClient d)" and "length sql < 0x1000 - 1"
    and "NUL \<notin> set sql"
  shows "\<exists>c' req. SendSql sql d = Inr (d\<lparr>m_tcpClient := c'\<rparr>)
     \<and> client_out c' = client_out (m_tcpClient d) @ req
     \<and> (\<forall>addr k ev s got rest. holds addr k (take 4 req @ got) (ev 0 s)
          \<and> brings addr k got (drop 4 req @ rest) (ev 1)
        \<longrightarrow> (\<exists>s'. read_request ev addr s = Inr (s', Some sql) \<and> incoming addr s' = rest))"
proof -
  obtain c' where c': "SendSql sql d = Inr (d\<lparr>m_tcpClient := c'\<rparr>)"
      "client_out c' = client_out (m_tcpClient d) @ frame (sql @ [NUL])"
    using SendSql_frame [OF assms(1)] assms(2) by auto
  have "\<exists>s'. read_request ev addr s = Inr (s', Some sql) \<and> incoming addr s' = rest"
    if "holds addr k (take 4 (frame (sql @ [NUL])) @ got) (ev 0 s)"
      "brings addr k got (drop 4 (frame (sql @ [NUL])) @ rest) (ev 1)"
    for addr k ev s got rest
    using read_request_frame [OF that assms(2,3)] by (auto simp: holds_def)
  then show ?thesis
    using c' by (intro exI [of _ c'] exI [of _ "frame (sql @ [NUL])"]) blast
qed

theorem SendSql_read_request_witness:
  "\<exists>c' req. SendSql ''USE x'' (dlg_with []) = Inr ((dlg_with [])\<lparr>m_tcpClient := c'\<rparr>) \<and> client_out c' = req"
proof -
  have "client_room (1 + packets (length ''USE x'' + 1)) (m_tcpClient (dlg_with []))"
    using dlg_with_holds [of "[]" "Suc (Suc 0)"] by (simp add: packets_def client_holds_def)
  from SendSql_read_request [OF this] show ?thesis by auto
qed

end
