(* ===== verification/Requests.thy ===== *)
theory Requests
  imports Delivery ShowList
begin

text \<open>
  What a channel can do for a request: everything that was sent can be delivered, a channel on which nothing was sent is as
  new, and the server's loop reads a request that has arrived.
\<close>

section \<open>A network that delivers everything\<close>

lemma deliver_all:
  assumes inv: "ch_inv base sa ra c" and new: "fresh_conn base (rcv_conn sa c)" "taken c = []"
    and listed: "{..<length (sent c)} \<subseteq> queued base (snd_sock c)"
  shows "\<exists>d. (ch_step sa ra)\<^sup>*\<^sup>* c d \<and> sent d = sent c \<and> taken d = []
     \<and> incoming sa (rcv_sock d) = concat (sent c)"
proof -
  obtain c1 where c1: "ch_step sa ra c c1" "rcv_sock c1 = rcv_sock c" "sent c1 = sent c" "taken c1 = taken c"
      "data_datagram base (sent c) ` (queued base (snd_sock c) \<inter> {..<length (sent c)}) \<subseteq> to_rcv c1"
    by (rule transmit_all [OF inv])
  note inv1 = ch_step_inv [OF c1(1) inv]
  then have num: "numbering base (sent c)" "pieces_ok (sent c)" using c1(3) by (auto simp: ch_inv_def snd_inv_def)
  have wired: "\<forall>i < length (sent c). data_datagram base (sent c) i \<in> to_rcv c1"
    using c1(5) Int_absorb1 [OF listed] by auto
  let ?is = "[0..<length (sent c)]"
  let ?ps = "map (nth_packet base c1) ?is"
  obtain d where d: "(ch_step sa ra)\<^sup>*\<^sup>* c1 d" "receive_all sa ?ps (rcv_conn sa c1) = Inr (rcv_conn sa d)"
      "sent d = sent c1" "taken d = taken c1"
    using arrive_many [OF inv1, of ?is] wired c1(3) by auto
  have packets: "carries base (sent c) p \<and> index_of base p < length (sent c)" if "p \<in> set ?ps" for p
    using that data_datagram_decoded [OF num] c1(3) by (auto simp: index_of_def)
  have index: "map (index_of base) ?ps = ?is"
    using data_datagram_decoded(3) [OF num] c1(3) by (auto simp: index_of_def intro!: map_idI)
  obtain k where "delivered base (sent c) [] k (rcv_conn sa d)" "gap_at base {..<length (sent c)} k (rcv_conn sa d)"
    using receive_all_gap [OF num(1), where ps = ?ps and got = "{}" and taken = "[]" and k = 0 and c = "rcv_conn sa c1"
        and addr = sa] fresh_conn_start [OF new(1)] packets index d(2) c1(2)
    by (auto simp: lessThan_atLeast0 simp flip: set_map simp del: map_map)
  then have "incoming sa (rcv_sock d) = concat (sent c)"
    by (auto simp: gap_at_def delivered_def not_less incoming_def)
  then show ?thesis
    using c1 d new(2) by (intro exI [of _ d]) (auto intro: converse_rtranclp_into_rtranclp)
qed

section \<open>Receiving leaves the other counter alone\<close>

lemma accept_packet_counter: "accept_packet a p c = Inr (c', es) \<Longrightarrow> m_nNextSendSeq c' = m_nNextSendSeq c"
  by (auto simp: accept_packet_def)

lemma drain_counter: "drain a ps c = Inr (c', es) \<Longrightarrow> m_nNextSendSeq c' = m_nNextSendSeq c"
proof (induction a ps c arbitrary: c' es rule: drain.induct)
  case (2 a p ps c)
  then show ?case by (fastforce dest: accept_packet_counter split: if_splits)
qed auto

lemma receive_data_counter: "receive_data a p c = Inr (c', es) \<Longrightarrow> m_nNextSendSeq c' = m_nNextSendSeq c"
  by (auto simp: receive_data_def split: if_splits) (metis accept_packet_counter drain_counter)

section \<open>What has arrived\<close>

lemma new_channel_fresh:
  assumes inv: "ch_inv base sa ra c" and "sent c = []"
  shows "fresh_conn base (rcv_conn sa c)" "taken c = []"
proof -
  have "\<forall>p \<in> set (m_recvList (rcv_conn sa c)). base \<le> m_nSeq p \<and> m_nSeq p < base"
    using assms by (auto simp: ch_inv_def rcv_inv_def waiting_ok_def carries_def)
  then have "m_recvList (rcv_conn sa c) = []" by (cases "m_recvList (rcv_conn sa c)") auto
  then show "fresh_conn base (rcv_conn sa c)" "taken c = []"
    using assms by (auto simp: ch_inv_def rcv_inv_def delivered_def fresh_conn_def)
qed

text \<open>The server's loop reads a request that is there.\<close>

lemma arrived_request:
  assumes h: "holds addr 0 (frame (sql @ [NUL])) s" and sql: "length sql < 0x1000 - 1" "NUL \<notin> set sql"
  obtains s' where "read_request (\<lambda>i s. s) addr s = Inr (s', Some sql)" "incoming addr s' = []"
proof -
  let ?f = "frame (sql @ [NUL])"
  have "length (drop 4 ?f @ []) \<le> length ?f" by simp
  also have "\<dots> < 2 ^ 31" using h by (simp add: holds_def)
  finally have "length (drop 4 ?f @ []) < 2 ^ 31" .
  from brings_id [OF this] have "brings addr 0 (drop 4 ?f) (drop 4 ?f @ []) ((\<lambda>i s. s) (1 :: nat))" by simp
  moreover have "holds addr 0 (take 4 ?f @ drop 4 ?f) ((\<lambda>i s. s) (0 :: nat) s)" using h by simp
  ultimately show ?thesis
    using read_request_frame [of addr 0 sql "drop 4 ?f" "\<lambda>i s. s" s "[]"] sql that by (auto simp: holds_def)
qed

end
