(* ===== verification/Duplex.thy ===== *)
theory Duplex
  imports Requests
begin

text \<open>
  A connection in use: both ends send and receive over the same pair of sockets, so each socket's two threads and its
  application change one connection table and one send list, and each wire carries data and
  acknowledgements mixed. Each direction of such a connection is a channel: what Channel proves of one direction
  holds of both at once, in every interleaving of the two.
\<close>

section \<open>The system\<close>

record duplex =
  sock_a :: CTcpSocket
  sock_b :: CTcpSocket
  wire_ab :: "byte list set"
  wire_ba :: "byte list set"
  sent_ab :: "byte list list"
  sent_ba :: "byte list list"
  taken_a :: "byte list"
  taken_b :: "byte list"

definition flip :: "duplex \<Rightarrow> duplex" where
  "flip d = \<lparr>sock_a = sock_b d, sock_b = sock_a d, wire_ab = wire_ba d, wire_ba = wire_ab d,
     sent_ab = sent_ba d, sent_ba = sent_ab d, taken_a = taken_b d, taken_b = taken_a d\<rparr>"

text \<open>
  What the end \<open>a\<close> does; \<open>peer\<close> is the address of the other. Besides sending and receiving, the
  application marks the connection as served and gives it back.
\<close>

inductive half_step :: "sockaddr \<Rightarrow> duplex \<Rightarrow> duplex \<Rightarrow> bool" for peer where
  half_send: "0 \<le> n \<Longrightarrow> nat n \<le> length buf \<Longrightarrow> bs = segments (take (nat n) buf) \<Longrightarrow>
     m_nNextSendSeq (conn_of peer (sock_a d)) + int (length bs) < 2 ^ 31 \<Longrightarrow>
     Send peer buf n (sock_a d) = Inr (r, s', es) \<Longrightarrow>
     half_step peer d (d\<lparr>sock_a := s', sent_ab := sent_ab d @ bs\<rparr>)"
| half_transmit: "SendThreadProc_pass clk ok (sock_a d) = Inr (v, s', es) \<Longrightarrow>
     half_step peer d (d\<lparr>sock_a := s', wire_ab := wire_ab d \<union> {b. (peer, b) \<in> set (datagrams es)}\<rparr>)"
| half_arrive: "b \<in> wire_ba d \<Longrightarrow> RecvThreadProc_pass (Some (b, peer)) ok (sock_a d) = Inr (v, s', es) \<Longrightarrow>
     half_step peer d (d\<lparr>sock_a := s', wire_ab := wire_ab d \<union> {b. (peer, b) \<in> set (datagrams es)}\<rparr>)"
| half_recv: "Recv peer buf n (sock_a d) = Inr (s', Some (m, buf', es)) \<Longrightarrow>
     half_step peer d (d\<lparr>sock_a := s', taken_a := taken_a d @ take (nat m) buf'\<rparr>)"
| half_select: "Select (sock_a d) = Some (a, s') \<Longrightarrow> half_step peer d (d\<lparr>sock_a := s'\<rparr>)"
| half_unselect: "UnSelect a (sock_a d) = (s', es) \<Longrightarrow> half_step peer d (d\<lparr>sock_a := s'\<rparr>)"

inductive dx_step :: "sockaddr \<Rightarrow> sockaddr \<Rightarrow> duplex \<Rightarrow> duplex \<Rightarrow> bool" for aa ab where
  left: "half_step ab d d' \<Longrightarrow> dx_step aa ab d d'"
| right: "half_step aa (flip d) d' \<Longrightarrow> dx_step aa ab d (flip d')"

inductive_cases half_stepE: "half_step peer d d'"
inductive_cases dx_stepE: "dx_step aa ab d d'"

text \<open>One direction: the receiver's thread tells the datagrams apart by their type.\<close>

definition has_type :: "PackageType \<Rightarrow> byte list \<Rightarrow> bool" where
  "has_type t b \<longleftrightarrow> m_nType (DataPacket_of_bytes b) = type_code t"

definition view :: "duplex \<Rightarrow> channel" where
  "view d = \<lparr>snd_sock = sock_a d, rcv_sock = sock_b d, to_rcv = {b \<in> wire_ab d. has_type DATA b},
     to_snd = {b \<in> wire_ba d. has_type ACK b}, sent = sent_ab d, taken = taken_b d\<rparr>"

text \<open>After the handshake both directions are new channels.\<close>

definition dx_start :: "int \<Rightarrow> int \<Rightarrow> sockaddr \<Rightarrow> sockaddr \<Rightarrow> duplex \<Rightarrow> bool" where
  "dx_start na nb aa ab d \<longleftrightarrow> ch_start na aa ab (view d) \<and> ch_start nb ab aa (view (flip d))
     \<and> wire_ab d = {} \<and> wire_ba d = {}"

definition dx_inv :: "int \<Rightarrow> int \<Rightarrow> sockaddr \<Rightarrow> sockaddr \<Rightarrow> duplex \<Rightarrow> bool" where
  "dx_inv na nb aa ab d \<longleftrightarrow> ch_inv na aa ab (view d) \<and> ch_inv nb ab aa (view (flip d))
     \<and> (\<forall>b \<in> wire_ab d \<union> wire_ba d. has_type DATA b \<or> has_type ACK b)"

lemma flip_flip [simp]: "flip (flip d) = d"
  by (simp add: flip_def)

lemma flip_sel [simp]:
  "sock_a (flip d) = sock_b d" "sock_b (flip d) = sock_a d" "wire_ab (flip d) = wire_ba d" "wire_ba (flip d) = wire_ab d"
  "sent_ab (flip d) = sent_ba d" "sent_ba (flip d) = sent_ab d" "taken_a (flip d) = taken_b d"
  "taken_b (flip d) = taken_a d"
  by (simp_all add: flip_def)

lemma view_sel [simp]:
  "snd_sock (view d) = sock_a d" "rcv_sock (view d) = sock_b d" "sent (view d) = sent_ab d" "taken (view d) = taken_b d"
  "to_rcv (view d) = {b \<in> wire_ab d. has_type DATA b}" "to_snd (view d) = {b \<in> wire_ba d. has_type ACK b}"
  by (simp_all add: view_def)

lemma dx_inv_flip: "dx_inv nb na ab aa (flip d) \<longleftrightarrow> dx_inv na nb aa ab d"
  by (auto simp: dx_inv_def)

lemma dx_start_inv: "dx_start na nb aa ab d \<Longrightarrow> dx_inv na nb aa ab d"
  by (simp add: dx_start_def dx_inv_def ch_start_inv)

text \<open>What \<open>Channel.handshake_establishes\<close> states of the two sockets is such a start.\<close>

lemma established:
  assumes "ch_start na ca sa \<lparr>snd_sock = s, rcv_sock = t, to_rcv = {}, to_snd = {}, sent = [], taken = []\<rparr>"
    and "ch_start nb sa ca \<lparr>snd_sock = t, rcv_sock = s, to_rcv = {}, to_snd = {}, sent = [], taken = []\<rparr>"
  shows "dx_start na nb ca sa \<lparr>sock_a = s, sock_b = t, wire_ab = {}, wire_ba = {}, sent_ab = [], sent_ba = [],
    taken_a = [], taken_b = []\<rparr>"
  using assms by (simp add: dx_start_def ch_start_def)

section \<open>The directions do not disturb each other\<close>

text \<open>What the sender's side of an invariant depends on, and what the receiver's does.\<close>

definition same_sending :: "sockaddr \<Rightarrow> CTcpSocket \<Rightarrow> CTcpSocket \<Rightarrow> bool" where
  "same_sending peer s s' \<longleftrightarrow> table_ok s' \<and> m_sendList s' = m_sendList s
     \<and> m_nNextSendSeq (conn_of peer s') = m_nNextSendSeq (conn_of peer s)"

definition same_receiving :: "sockaddr \<Rightarrow> CTcpSocket \<Rightarrow> CTcpSocket \<Rightarrow> bool" where
  "same_receiving peer s s' \<longleftrightarrow> table_ok s' \<and> m_nNextRecvSeq (conn_of peer s') = m_nNextRecvSeq (conn_of peer s)
     \<and> m_byteStream (conn_of peer s') = m_byteStream (conn_of peer s)
     \<and> m_recvList (conn_of peer s') = m_recvList (conn_of peer s)"

lemma ch_inv_sending: "ch_inv base sa ra c \<Longrightarrow> same_sending ra (snd_sock c) s' \<Longrightarrow> ch_inv base sa ra (c\<lparr>snd_sock := s'\<rparr>)"
  by (simp add: ch_inv_def snd_inv_def rcv_inv_def no_loss_def queued_def same_sending_def)

lemma ch_inv_receiving: "ch_inv base sa ra c \<Longrightarrow> same_receiving sa (rcv_sock c) s' \<Longrightarrow> ch_inv base sa ra (c\<lparr>rcv_sock := s'\<rparr>)"
  by (simp add: ch_inv_def snd_inv_def rcv_inv_def no_loss_def received_def delivered_def waiting_ok_def same_receiving_def)

lemma ack_type: "int32_range q \<Longrightarrow> has_type ACK (ack_datagram q) \<and> \<not> has_type DATA (ack_datagram q)"
  by (simp add: has_type_def ack_datagram_def Packet_bytes_def new_Packet_def DataPacket_of_short int32_range_def)

lemma data_type:
  "numbering base chunks \<Longrightarrow> pieces_ok chunks \<Longrightarrow> i < length chunks \<Longrightarrow>
   has_type DATA (data_datagram base chunks i) \<and> \<not> has_type ACK (data_datagram base chunks i)"
  by (simp add: has_type_def data_datagram_decoded(2))

lemma ch_inv_data_type:
  assumes "ch_inv base sa ra c" and "b \<in> data_datagram base (sent c) ` {..<length (sent c)}"
  shows "has_type DATA b \<and> \<not> has_type ACK b"
  using assms data_type [of base "sent c"] by (auto simp: ch_inv_def snd_inv_def)

text \<open>A pass of the sending thread emits data only, one of the receiving thread on data an acknowledgement at most.\<close>

lemma transmit_data_only:
  assumes inv: "ch_inv base sa ra c" and step: "SendThreadProc_pass clk ok (snd_sock c) = Inr (v, s', es)"
    and b: "(ra, b) \<in> set (datagrams es)"
  shows "has_type DATA b \<and> \<not> has_type ACK b"
proof -
  have "ch_inv base sa ra (c\<lparr>snd_sock := s', to_rcv := to_rcv c \<union> {b. (ra, b) \<in> set (datagrams es)}\<rparr>)"
    by (rule inv_transmit [OF inv step])
  then have "b \<in> data_datagram base (sent c) ` {..<length (sent c)}"
    using b by (auto simp: ch_inv_def snd_inv_def)
  then show ?thesis by (rule ch_inv_data_type [OF inv])
qed

lemma transmit_receiving:
  "SendThreadProc_pass clk ok s = Inr (v, s', es) \<Longrightarrow> table_ok s \<Longrightarrow> same_receiving peer s s'"
  by (auto simp: SendThreadProc_pass_def same_receiving_def)

lemma Send_receiving:
  "Send peer buf n s = Inr (r, s', es) \<Longrightarrow> table_ok s \<Longrightarrow> same_receiving peer s s'"
  by (auto simp: Send_def Let_def same_receiving_def)

lemma Recv_sending:
  "Recv peer buf n s = Inr (s', Some (m, buf', es)) \<Longrightarrow> table_ok s \<Longrightarrow> same_sending peer s s'"
  by (auto simp: Recv_def Let_def same_sending_def split: if_splits)

lemma arrive_data:
  assumes inv: "ch_inv base sa ra c" and b: "b \<in> to_rcv c"
    and step: "RecvThreadProc_pass (Some (b, sa)) ok (rcv_sock c) = Inr (v, s', es)"
  shows "same_sending sa (rcv_sock c) s'"
    and "(sa, d) \<in> set (datagrams es) \<Longrightarrow> has_type ACK d \<and> \<not> has_type DATA d"
proof -
  have num: "numbering base (sent c)" "pieces_ok (sent c)" and tab: "table_ok (rcv_sock c)"
    using inv by (auto simp: ch_inv_def snd_inv_def rcv_inv_def)
  obtain i where i: "i < length (sent c)" "b = data_datagram base (sent c) i"
    using inv b by (auto simp: ch_inv_def snd_inv_def)
  note ack = ack_type [OF numbering_range [OF num(1) i(1)]]
  have list: "m_sendList s' = m_sendList (rcv_sock c)"
    using step num i tab data_datagram_decoded(2) [OF num i(1)]
    by (auto simp: RecvThreadProc_pass_def Let_def on_data_def split: if_splits)
  from num i(1) step [unfolded i(2)] tab
  have "same_sending sa (rcv_sock c) s' \<and> (\<forall>d. (sa, d) \<in> set (datagrams es) \<longrightarrow> has_type ACK d \<and> \<not> has_type DATA d)"
    by (cases rule: arrive_cases) (use tab list ack receive_data_counter in \<open>auto simp: same_sending_def\<close>)
  then show "same_sending sa (rcv_sock c) s'"
    and "(sa, d) \<in> set (datagrams es) \<Longrightarrow> has_type ACK d \<and> \<not> has_type DATA d" by blast+
qed

lemma arrive_ack_effect:
  assumes inv: "ch_inv base sa ra c" and b: "b \<in> to_snd c"
    and step: "RecvThreadProc_pass (Some (b, ra)) ok (snd_sock c) = Inr (v, s', es)"
  shows "same_receiving ra (snd_sock c) s'" and "datagrams es = []"
proof -
  obtain i where i: "i < length (sent c)" "b = ack_datagram (base + int i)"
    using inv b by (auto simp: ch_inv_def rcv_inv_def)
  have "int32_range (base + int i)" "table_ok (snd_sock c)"
    using inv i(1) by (auto simp: ch_inv_def snd_inv_def numbering_range)
  with step i(2) show "same_receiving ra (snd_sock c) s'" "datagrams es = []"
    by (auto simp: pass_ack same_receiving_def)
qed

lemma Select_same:
  "Select s = Some (a, s') \<Longrightarrow> table_ok s \<Longrightarrow> same_sending peer s s' \<and> same_receiving peer s s'"
  using Select_least [of s] by (cases "peer = a") (auto simp: same_sending_def same_receiving_def)

lemma UnSelect_same:
  "UnSelect a s = (s', es) \<Longrightarrow> table_ok s \<Longrightarrow> same_sending peer s s' \<and> same_receiving peer s s'"
  by (cases "peer = a") (auto simp: UnSelect_def UnSelect_conn_def Let_def same_sending_def same_receiving_def)

lemma dx_invD:
  assumes "dx_inv na nb aa ab d"
  shows "ch_inv na aa ab (view d)" "ch_inv nb ab aa (view (flip d))" "table_ok (sock_a d)"
    "\<forall>b \<in> wire_ab d \<union> wire_ba d. has_type DATA b \<or> has_type ACK b"
  using assms by (simp_all add: dx_inv_def ch_inv_def snd_inv_def)

lemma half_transmit_inv:
  assumes inv: "dx_inv na nb aa ab d" and step: "SendThreadProc_pass clk ok (sock_a d) = Inr (v, s', es)"
  shows "dx_inv na nb aa ab (d\<lparr>sock_a := s', wire_ab := wire_ab d \<union> {b. (ab, b) \<in> set (datagrams es)}\<rparr>)" (is "dx_inv _ _ _ _ ?d")
proof -
  note dx = dx_invD [OF inv]
  let ?out = "{b. (ab, b) \<in> set (datagrams es)}"
  have step': "SendThreadProc_pass clk ok (snd_sock (view d)) = Inr (v, s', es)" using step by simp
  have out: "\<forall>b \<in> ?out. has_type DATA b \<and> \<not> has_type ACK b" using transmit_data_only [OF dx(1) step'] by simp
  then have "view ?d = (view d)\<lparr>snd_sock := s', to_rcv := to_rcv (view d) \<union> ?out\<rparr>"
    "view (flip ?d) = (view (flip d))\<lparr>rcv_sock := s'\<rparr>"
    by (auto simp: view_def flip_def)
  then show ?thesis
    using inv_transmit [OF dx(1) step'] ch_inv_receiving [OF dx(2), of s'] transmit_receiving [OF step dx(3)] dx(4) out
    by (auto simp: dx_inv_def)
qed

lemma half_data_inv:
  assumes inv: "dx_inv na nb aa ab d" and b: "b \<in> wire_ba d" "has_type DATA b"
    and step: "RecvThreadProc_pass (Some (b, ab)) ok (sock_a d) = Inr (v, s', es)"
  shows "dx_inv na nb aa ab (d\<lparr>sock_a := s', wire_ab := wire_ab d \<union> {b. (ab, b) \<in> set (datagrams es)}\<rparr>)" (is "dx_inv _ _ _ _ ?d")
proof -
  note dx = dx_invD [OF inv]
  let ?out = "{b. (ab, b) \<in> set (datagrams es)}"
  have b': "b \<in> to_rcv (view (flip d))" using b by simp
  have step': "RecvThreadProc_pass (Some (b, ab)) ok (rcv_sock (view (flip d))) = Inr (v, s', es)" using step by simp
  note eff = arrive_data [OF dx(2) b' step']
  have out: "\<forall>b \<in> ?out. has_type ACK b \<and> \<not> has_type DATA b" using eff(2) by simp
  then have "view ?d = (view d)\<lparr>snd_sock := s'\<rparr>"
    "view (flip ?d) = (view (flip d))\<lparr>rcv_sock := s', to_snd := to_snd (view (flip d)) \<union> ?out\<rparr>"
    by (auto simp: view_def flip_def)
  then show ?thesis
    using inv_arrive [OF dx(2) b' step'] ch_inv_sending [OF dx(1), of s'] eff(1) dx(4) out
    by (auto simp: dx_inv_def)
qed

lemma half_ack_inv:
  assumes inv: "dx_inv na nb aa ab d" and b: "b \<in> wire_ba d" "has_type ACK b"
    and step: "RecvThreadProc_pass (Some (b, ab)) ok (sock_a d) = Inr (v, s', es)"
  shows "dx_inv na nb aa ab (d\<lparr>sock_a := s', wire_ab := wire_ab d \<union> {b. (ab, b) \<in> set (datagrams es)}\<rparr>)" (is "dx_inv _ _ _ _ ?d")
proof -
  note dx = dx_invD [OF inv]
  let ?out = "{b. (ab, b) \<in> set (datagrams es)}"
  have b': "b \<in> to_snd (view d)" using b by simp
  have step': "RecvThreadProc_pass (Some (b, ab)) ok (snd_sock (view d)) = Inr (v, s', es)" using step by simp
  note eff = arrive_ack_effect [OF dx(1) b' step']
  have v: "view ?d = (view d)\<lparr>snd_sock := s', to_rcv := to_rcv (view d) \<union> ?out\<rparr>"
    "view (flip ?d) = (view (flip d))\<lparr>rcv_sock := s'\<rparr>"
    using eff(2) by (auto simp: view_def flip_def)
  have "ch_inv na aa ab (view ?d)" unfolding v by (rule inv_ack [OF dx(1) b' step'])
  moreover have "ch_inv nb ab aa (view (flip ?d))"
    unfolding v using eff(1) by (intro ch_inv_receiving [OF dx(2)]) simp
  ultimately show ?thesis using dx(4) eff(2) by (simp add: dx_inv_def)
qed

lemma half_step_inv:
  assumes step: "half_step ab d d'" and inv: "dx_inv na nb aa ab d"
  shows "dx_inv na nb aa ab d'"
proof -
  note dx = dx_invD [OF inv]
  from step show ?thesis
  proof (cases rule: half_step.cases)
    case (half_send n buf bs r s' es)
    have "ch_inv na aa ab ((view d)\<lparr>snd_sock := s', sent := sent (view d) @ bs\<rparr>)"
      by (rule inv_send [OF dx(1) half_send(2-4)]) (use half_send(5,6) in simp_all)
    moreover have "ch_inv nb ab aa ((view (flip d))\<lparr>rcv_sock := s'\<rparr>)"
      using Send_receiving [OF half_send(6) dx(3)] by (intro ch_inv_receiving [OF dx(2)]) simp
    ultimately show ?thesis
      using dx(4) by (simp add: dx_inv_def half_send(1) view_def flip_def)
  next
    case (half_transmit clk ok v s' es)
    show ?thesis unfolding half_transmit(1) by (rule half_transmit_inv [OF inv half_transmit(2)])
  next
    case (half_arrive b ok v s' es)
    then have "has_type DATA b \<or> has_type ACK b" using dx(4) by blast
    then show ?thesis
      unfolding half_arrive(1) using half_data_inv [OF inv half_arrive(2) _ half_arrive(3)] half_ack_inv [OF inv half_arrive(2) _ half_arrive(3)] by blast
  next
    case (half_recv buf n s' m buf' es)
    have "ch_inv nb ab aa ((view (flip d))\<lparr>rcv_sock := s', taken := taken (view (flip d)) @ take (nat m) buf'\<rparr>)"
      by (rule inv_recv [OF dx(2)]) (use half_recv(2) in simp)
    moreover have "ch_inv na aa ab ((view d)\<lparr>snd_sock := s'\<rparr>)"
      using Recv_sending [OF half_recv(2) dx(3)] by (intro ch_inv_sending [OF dx(1)]) simp
    ultimately show ?thesis
      using dx(4) by (simp add: dx_inv_def half_recv(1) view_def flip_def)
  next
    case (half_select a s')
    then show ?thesis
      using Select_same [OF half_select(2) dx(3)] ch_inv_sending [OF dx(1), of s'] ch_inv_receiving [OF dx(2), of s'] dx(4)
      by (simp add: dx_inv_def view_def flip_def)
  next
    case (half_unselect a s' es)
    then show ?thesis
      using UnSelect_same [OF half_unselect(2) dx(3)] ch_inv_sending [OF dx(1), of s'] ch_inv_receiving [OF dx(2), of s'] dx(4)
      by (simp add: dx_inv_def view_def flip_def)
  qed
qed

lemma dx_step_inv: "dx_step aa ab d d' \<Longrightarrow> dx_inv na nb aa ab d \<Longrightarrow> dx_inv na nb aa ab d'"
  by (elim dx_stepE) (metis half_step_inv, metis half_step_inv dx_inv_flip)

interpretation duplex: step_invariant "dx_step aa ab" "dx_inv na nb aa ab" for aa ab na nb
  by unfold_locales (rule dx_step_inv)

section \<open>A channel's steps are steps of the connection\<close>

text \<open>Every step of one direction can be taken while the other direction stays as it is.\<close>

lemma ch_step_lift:
  assumes step: "ch_step aa ab (view d) c" and inv: "dx_inv na nb aa ab d"
  obtains d' where "dx_step aa ab d d'" "view d' = c" "sent_ba d' = sent_ba d" "taken_a d' = taken_a d"
proof -
  have F: "ch_inv na aa ab (view d)" using inv by (simp add: dx_inv_def)
  from step show thesis
  proof (cases rule: ch_step.cases)
    case (app_send n buf bs r s' es)
    have st: "half_step ab d (d\<lparr>sock_a := s', sent_ab := sent_ab d @ bs\<rparr>)"
      using app_send by (intro half_step.half_send) simp_all
    then show thesis using app_send(1) by (intro that [OF dx_step.left [OF st]]) (auto simp: view_def)
  next
    case (transmit clk ok v s' es)
    have st: "half_step ab d (d\<lparr>sock_a := s', wire_ab := wire_ab d \<union> {b. (ab, b) \<in> set (datagrams es)}\<rparr>)"
      using transmit(2) by (intro half_step.half_transmit) simp
    then show thesis
      using transmit transmit_data_only [OF F transmit(2)] by (intro that [OF dx_step.left [OF st]]) (auto simp: view_def)
  next
    case (arrive b ok v s' es)
    have st: "half_step aa (flip d) ((flip d)\<lparr>sock_a := s', wire_ab := wire_ab (flip d) \<union> {b. (aa, b) \<in> set (datagrams es)}\<rparr>)"
      using arrive by (intro half_step.half_arrive) simp_all
    then show thesis
      using arrive arrive_data(2) [OF F arrive(2,3)] by (intro that [OF dx_step.right [OF st]]) (auto simp: view_def flip_def)
  next
    case (arrive_ack b ok v s' es)
    have st: "half_step ab d (d\<lparr>sock_a := s', wire_ab := wire_ab d \<union> {b. (ab, b) \<in> set (datagrams es)}\<rparr>)"
      using arrive_ack by (intro half_step.half_arrive) simp_all
    then show thesis
      using arrive_ack arrive_ack_effect(2) [OF F arrive_ack(2,3)] by (intro that [OF dx_step.left [OF st]]) (auto simp: view_def)
  next
    case (app_recv buf n s' m buf' es)
    have st: "half_step aa (flip d) ((flip d)\<lparr>sock_a := s', taken_a := taken_a (flip d) @ take (nat m) buf'\<rparr>)"
      using app_recv by (intro half_step.half_recv) simp
    then show thesis using app_recv(1) by (intro that [OF dx_step.right [OF st]]) (auto simp: view_def flip_def)
  qed
qed

lemma ch_steps_lift:
  assumes "(ch_step aa ab)\<^sup>*\<^sup>* (view d) c" and inv: "dx_inv na nb aa ab d"
  shows "\<exists>d'. (dx_step aa ab)\<^sup>*\<^sup>* d d' \<and> view d' = c \<and> sent_ba d' = sent_ba d \<and> taken_a d' = taken_a d"
  using assms(1)
proof (induction rule: rtranclp_induct)
  case (step c c')
  then obtain d1 where d1: "(dx_step aa ab)\<^sup>*\<^sup>* d d1" "view d1 = c" "sent_ba d1 = sent_ba d" "taken_a d1 = taken_a d"
    by blast
  have "ch_step aa ab (view d1) c'" using step(2) d1(2) by simp
  then obtain d2 where "dx_step aa ab d1 d2" "view d2 = c'" "sent_ba d2 = sent_ba d1" "taken_a d2 = taken_a d1"
    by (rule ch_step_lift [OF _ duplex.reachable_invar [OF inv d1(1)]])
  then show ?case using d1 by (intro exI [of _ d2]) (auto intro: rtranclp.rtrancl_into_rtrancl)
qed auto

section \<open>What the steps keep\<close>

lemma half_step_grows:
  "half_step peer d d' \<Longrightarrow> prefix (sent_ab d) (sent_ab d') \<and> prefix (taken_a d) (taken_a d')
     \<and> sent_ba d' = sent_ba d \<and> taken_b d' = taken_b d"
  by (cases rule: half_step.cases) (auto simp: prefix_def)

definition grows :: "duplex \<Rightarrow> duplex \<Rightarrow> bool" where
  "grows d d' \<longleftrightarrow> prefix (sent_ab d) (sent_ab d') \<and> prefix (sent_ba d) (sent_ba d')
     \<and> prefix (taken_a d) (taken_a d') \<and> prefix (taken_b d) (taken_b d')"

lemma dx_step_grows: "dx_step aa ab d d' \<Longrightarrow> grows d d'"
  unfolding grows_def by (elim dx_stepE) (use half_step_grows in fastforce)+

lemma dx_steps_grow: "(dx_step aa ab)\<^sup>*\<^sup>* d d' \<Longrightarrow> grows d d'"
proof (induction rule: rtranclp_induct)
  case (step e f)
  then show ?case using dx_step_grows [OF step(2)] unfolding grows_def by (meson prefix_order.trans)
qed (simp add: grows_def)

lemma flip_inject [simp]: "flip d = flip e \<longleftrightarrow> d = e"
  by (metis flip_flip)

lemma dx_step_flip:
  assumes "dx_step ab aa (flip d) e"
  shows "dx_step aa ab d (flip e)"
  using assms by (cases rule: dx_step.cases) (auto intro: dx_step.intros)

lemma dx_steps_flip: "(dx_step ab aa)\<^sup>*\<^sup>* (flip d) e \<Longrightarrow> (dx_step aa ab)\<^sup>*\<^sup>* d (flip e)"
proof (induction rule: rtranclp_induct)
  case (step e e')
  have "dx_step aa ab (flip e) (flip e')" using step(2) by (intro dx_step_flip) simp
  with step.IH show ?case by (rule rtranclp.rtrancl_into_rtrancl)
qed simp

text \<open>An end whose connection is consistent can send: its counter is a sequence number.\<close>

lemma dx_inv_counter:
  assumes "dx_inv na nb aa ab d"
  shows "m_nNextSendSeq (conn_of ab (sock_a d)) = na + int (length (sent_ab d))" "- (2 ^ 31) \<le> na"
    "na + int (length (sent_ab d)) \<le> 2 ^ 31" "table_ok (sock_a d)"
  using assms by (auto simp: dx_inv_def ch_inv_def snd_inv_def numbering_def)

section \<open>A run\<close>

definition dx_example :: duplex where
  "dx_example = \<lparr>sock_a = snd_sock ch_example, sock_b = rcv_sock ch_example, wire_ab = {}, wire_ba = {},
     sent_ab = [], sent_ba = [], taken_a = [], taken_b = []\<rparr>"

lemma dx_example_view: "view dx_example = ch_example"
  by (simp add: view_def dx_example_def ch_example_def)

lemma dx_example_start: "dx_start 1 0 addr_example peer_example dx_example"
  unfolding dx_start_def dx_example_view
  using ch_example_start
  by (simp add: ch_start_def dx_example_def ch_example_def fresh_conn_def conn_example_def Conn_init_def CByteStream_init_def)

section \<open>Properties\<close>

text \<open>
  C2. Reliability of a connection in use, safety: after the handshake both ends send and receive over the same two
  sockets. In every state that sending, transmission, loss, repetition, reordering, acknowledgement, reading, and
  serving the connection reach in both directions at once, the bytes each application has taken, followed by those
  waiting in its stream, are exactly the first \<open>k\<close> pieces handed to \<open>Send\<close> at the other end, and every
  further piece is still in the other end's list or waits in the out-of-order list.
\<close>

theorem duplex_streams:
  assumes "dx_start na nb aa ab d0" and "(dx_step aa ab)\<^sup>*\<^sup>* d0 d"
  shows "(\<exists>k \<le> length (sent_ab d). taken_b d @ incoming aa (sock_b d) = concat (take k (sent_ab d))
       \<and> {k..<length (sent_ab d)} \<subseteq> queued na (sock_a d) \<union> received na (conn_of aa (sock_b d)))
     \<and> (\<exists>k \<le> length (sent_ba d). taken_a d @ incoming ab (sock_a d) = concat (take k (sent_ba d))
       \<and> {k..<length (sent_ba d)} \<subseteq> queued nb (sock_b d) \<union> received nb (conn_of ab (sock_a d)))"
proof -
  have inv: "dx_inv na nb aa ab d"
    using dx_start_inv [OF assms(1)] assms(2) by (rule duplex.reachable_invar)
  have one: "\<exists>k \<le> length (sent c). taken c @ incoming sa (rcv_sock c) = concat (take k (sent c))
      \<and> {k..<length (sent c)} \<subseteq> queued base (snd_sock c) \<union> received base (conn_of sa (rcv_sock c))"
    if "ch_inv base sa ra c" for base sa ra c
    using that by (fastforce simp: ch_inv_def rcv_inv_def delivered_def no_loss_def incoming_def)
  from inv one [of na aa ab "view d"] one [of nb ab aa "view (flip d)"] show ?thesis
    by (simp add: dx_inv_def)
qed

theorem duplex_streams_witness:
  "\<exists>d. (dx_step addr_example peer_example)\<^sup>*\<^sup>* dx_example d \<and> sent_ab d = [''hi'']
     \<and> incoming addr_example (sock_b d) = ''hi''
     \<and> (\<exists>k \<le> 1. taken_b d @ ''hi'' = concat (take k [''hi'']))"
proof -
  obtain c where c: "(ch_step addr_example peer_example)\<^sup>*\<^sup>* (view dx_example) c" "sent c = [''hi'']"
      "incoming addr_example (rcv_sock c) = ''hi''"
    using ch_example_run unfolding dx_example_view incoming_def by blast
  obtain d where d: "(dx_step addr_example peer_example)\<^sup>*\<^sup>* dx_example d" "view d = c"
    using ch_steps_lift [OF c(1) dx_start_inv [OF dx_example_start]] by blast
  have "sent_ab d = [''hi'']" "incoming addr_example (sock_b d) = ''hi''"
    using c(2,3) by (simp_all add: d(2) [symmetric])
  with duplex_streams [OF dx_example_start d(1)] d(1) show ?thesis
    by (intro exI [of _ d]) auto
qed

end
