(* ===== verification/Crowd.thy ===== *)
theory Crowd
  imports Duplex
begin

text \<open>
  A connection among others. The server keeps the connections of all its clients in one table, their packets in one
  list, and two threads serve them all. Whatever arrives from other addresses, and whatever the application
  sends to and reads from them, the streams of a connection stay right. (That no piece is lost holds without the
  others only: an acknowledgement of one client can remove the packet of another.)
\<close>

section \<open>The system\<close>

text \<open>What happens at a socket on behalf of other peers: any datagram, any \<open>Send\<close>, any \<open>Recv\<close>.\<close>

inductive foreign_step :: "sockaddr \<Rightarrow> CTcpSocket \<Rightarrow> CTcpSocket \<Rightarrow> effect list \<Rightarrow> bool" for peer where
  foreign_arrive: "a \<noteq> peer \<Longrightarrow> RecvThreadProc_pass (Some (bytes, a)) ok s = Inr (v, s', es) \<Longrightarrow> foreign_step peer s s' es"
| foreign_send: "a \<noteq> peer \<Longrightarrow> Send a buf n s = Inr (r, s', es) \<Longrightarrow> foreign_step peer s s' es"
| foreign_recv: "a \<noteq> peer \<Longrightarrow> Recv a buf n s = Inr (s', Some (m, buf', es)) \<Longrightarrow> foreign_step peer s s' es"

text \<open>A step of the end \<open>a\<close>, and of either end.\<close>

inductive busy_step :: "sockaddr \<Rightarrow> duplex \<Rightarrow> duplex \<Rightarrow> bool" for peer where
  own: "half_step peer d d' \<Longrightarrow> busy_step peer d d'"
| foreign: "foreign_step peer (sock_a d) s' es \<Longrightarrow>
     busy_step peer d (d\<lparr>sock_a := s', wire_ab := wire_ab d \<union> {b. (peer, b) \<in> set (datagrams es)}\<rparr>)"

inductive crowd_step :: "sockaddr \<Rightarrow> sockaddr \<Rightarrow> duplex \<Rightarrow> duplex \<Rightarrow> bool" for aa ab where
  crowd_left: "busy_step ab d d' \<Longrightarrow> crowd_step aa ab d d'"
| crowd_right: "busy_step aa (flip d) d' \<Longrightarrow> crowd_step aa ab d (flip d')"

inductive_cases crowd_stepE: "crowd_step aa ab d d'"

text \<open>The start: nothing of this connection is in flight or listed; other connections may exist.\<close>

definition crowd_start :: "int \<Rightarrow> int \<Rightarrow> sockaddr \<Rightarrow> sockaddr \<Rightarrow> duplex \<Rightarrow> bool" where
  "crowd_start na nb aa ab d \<longleftrightarrow> (\<forall>q \<in> {na, nb}. - (2 ^ 31) \<le> q \<and> q < 2 ^ 31)
     \<and> table_ok (sock_a d) \<and> m_nNextSendSeq (conn_of ab (sock_a d)) = na \<and> fresh_conn nb (conn_of ab (sock_a d))
     \<and> table_ok (sock_b d) \<and> m_nNextSendSeq (conn_of aa (sock_b d)) = nb \<and> fresh_conn na (conn_of aa (sock_b d))
     \<and> (\<forall>n \<in> set (m_sendList (sock_a d)). m_addr n \<noteq> ab) \<and> (\<forall>n \<in> set (m_sendList (sock_b d)). m_addr n \<noteq> aa)
     \<and> wire_ab d = {} \<and> wire_ba d = {} \<and> sent_ab d = [] \<and> sent_ba d = [] \<and> taken_a d = [] \<and> taken_b d = []"

section \<open>The invariant of an end\<close>

definition listed_ok :: "int \<Rightarrow> sockaddr \<Rightarrow> byte list list \<Rightarrow> CTcpSocket \<Rightarrow> bool" where
  "listed_ok base peer out s \<longleftrightarrow> (\<forall>n \<in> set (m_sendList s). m_addr n = peer \<longrightarrow> node_ok peer base out n)"

definition wire_ok :: "int \<Rightarrow> int \<Rightarrow> byte list list \<Rightarrow> byte list list \<Rightarrow> byte list set \<Rightarrow> bool" where
  "wire_ok nout nin out inn w \<longleftrightarrow> w \<subseteq> data_datagram nout out ` {..<length out}
     \<union> (\<lambda>i. ack_datagram (nin + int i)) ` {..<length inn}"

definition end_ok ::
    "int \<Rightarrow> int \<Rightarrow> sockaddr \<Rightarrow> CTcpSocket \<Rightarrow> byte list list \<Rightarrow> byte list list \<Rightarrow> byte list \<Rightarrow> byte list set \<Rightarrow> bool" where
  "end_ok nout nin peer s out inn tk w \<longleftrightarrow> table_ok s \<and> numbering nout out \<and> pieces_ok out
     \<and> m_nNextSendSeq (conn_of peer s) = nout + int (length out) \<and> listed_ok nout peer out s
     \<and> (\<exists>k. delivered nin inn tk k (conn_of peer s)) \<and> waiting_ok nin inn (conn_of peer s) \<and> wire_ok nout nin out inn w"

abbreviation a_ok :: "int \<Rightarrow> int \<Rightarrow> sockaddr \<Rightarrow> duplex \<Rightarrow> bool" where
  "a_ok na nb ab d \<equiv> end_ok na nb ab (sock_a d) (sent_ab d) (sent_ba d) (taken_a d) (wire_ab d)"

definition crowd_inv :: "int \<Rightarrow> int \<Rightarrow> sockaddr \<Rightarrow> sockaddr \<Rightarrow> duplex \<Rightarrow> bool" where
  "crowd_inv na nb aa ab d \<longleftrightarrow> a_ok na nb ab d \<and> a_ok nb na aa (flip d)"

lemma crowd_inv_flip: "crowd_inv nb na ab aa (flip d) \<longleftrightarrow> crowd_inv na nb aa ab d"
  by (auto simp: crowd_inv_def)

lemma crowd_start_inv: "crowd_start na nb aa ab d \<Longrightarrow> crowd_inv na nb aa ab d"
  by (auto simp: crowd_start_def crowd_inv_def end_ok_def listed_ok_def wire_ok_def numbering_def pieces_ok_def
      intro: fresh_conn_start)

lemma dx_start_crowd: "dx_start na nb aa ab d \<Longrightarrow> crowd_start na nb aa ab d"
  by (auto simp: dx_start_def ch_start_def crowd_start_def)

text \<open>The other end, when this one sends more or puts something on the wire.\<close>

lemma wire_ok_append: "wire_ok nout nin out inn w \<Longrightarrow> wire_ok nout nin (out @ bs) (inn @ cs) w"
proof -
  have "data_datagram nout out ` {..<length out} \<subseteq> data_datagram nout (out @ bs) ` {..<length (out @ bs)}"
    by (auto simp: image_iff) (metis data_datagram_append lessThan_iff trans_less_add1)
  moreover have "{..<length inn} \<subseteq> {..<length (inn @ cs)}" by auto
  ultimately show "wire_ok nout nin out inn w \<Longrightarrow> wire_ok nout nin (out @ bs) (inn @ cs) w"
    unfolding wire_ok_def by (meson Un_mono image_mono order_trans)
qed

lemma end_ok_more:
  "end_ok nout nin peer s out inn tk w \<Longrightarrow> end_ok nout nin peer s out (inn @ bs) tk w"
  using delivered_append waiting_ok_append wire_ok_append [of nout nin out inn w "[]" bs]
  by (fastforce simp: end_ok_def)

section \<open>What changes nothing of the connection\<close>

text \<open>The socket has the same connection, and no new packets to the peer.\<close>

definition same_conn :: "sockaddr \<Rightarrow> CTcpSocket \<Rightarrow> CTcpSocket \<Rightarrow> bool" where
  "same_conn peer s s' \<longleftrightarrow> table_ok s' \<and> m_nNextSendSeq (conn_of peer s') = m_nNextSendSeq (conn_of peer s)
     \<and> m_nNextRecvSeq (conn_of peer s') = m_nNextRecvSeq (conn_of peer s)
     \<and> m_byteStream (conn_of peer s') = m_byteStream (conn_of peer s)
     \<and> m_recvList (conn_of peer s') = m_recvList (conn_of peer s)
     \<and> (\<forall>n \<in> set (m_sendList s'). m_addr n = peer \<longrightarrow> n \<in> set (m_sendList s))"

lemma end_ok_same:
  "end_ok nout nin peer s out inn tk w \<Longrightarrow> same_conn peer s s' \<Longrightarrow> end_ok nout nin peer s' out inn tk w"
  by (auto simp: end_ok_def same_conn_def listed_ok_def delivered_def waiting_ok_def)

lemma Send_loop_addr:
  "Send_loop a k buf q = Inr (rest, q', nodes) \<Longrightarrow> \<forall>n \<in> set nodes. m_addr n = a"
proof (induction a k buf q arbitrary: rest q' nodes rule: Send_loop.induct)
  case (2 a k buf q)
  then show ?case by (fastforce simp: new_SendListNode_def)
qed simp

lemma foreign_same:
  assumes step: "foreign_step peer s s' es" and tab: "table_ok s"
  shows "same_conn peer s s' \<and> (peer, b) \<notin> set (datagrams es)"
  using step
proof (cases rule: foreign_step.cases)
  case (foreign_arrive a bytes ok v)
  from foreign_arrive(2) show ?thesis
  proof (cases rule: RecvThreadProc_cases)
    case data
    then show ?thesis
      using tab foreign_arrive(1) by (auto simp: on_data_def same_conn_def receive_data_datagrams split: if_splits)
  next
    case ack
    then show ?thesis
      using tab foreign_arrive(1) by (auto simp: on_ack_def same_conn_def dest: subsetD [OF set_erase_acked])
  qed (use tab foreign_arrive(1) in
      \<open>auto simp: on_establish_1_def on_establish_2_def same_conn_def new_SendListNode_def Let_def split: if_splits\<close>)
next
  case (foreign_send a buf n r)
  then show ?thesis
    using tab by (fastforce simp: Send_def Let_def same_conn_def new_SendListNode_def dest: Send_loop_addr split: if_splits)
next
  case (foreign_recv a buf n m buf')
  then show ?thesis using tab by (auto simp: Recv_def Let_def same_conn_def split: if_splits)
qed

section \<open>The steps of the connection itself\<close>

lemma end_Send:
  assumes ok: "end_ok nout nin peer s out inn tk w" and n: "0 \<le> n" "nat n \<le> length buf"
    and bs: "bs = segments (take (nat n) buf)" and room: "m_nNextSendSeq (conn_of peer s) + int (length bs) < 2 ^ 31"
    and step: "Send peer buf n s = Inr (r, s', es)"
  shows "end_ok nout nin peer s' (out @ bs) inn tk w"
proof -
  let ?q = "m_nNextSendSeq (conn_of peer s)"
  have q: "?q = nout + int (length out)" "- (2 ^ 31) \<le> ?q" using ok by (auto simp: end_ok_def numbering_def)
  have s': "s' = set_conn peer ((conn_of peer s)\<lparr>m_nNextSendSeq := ?q + int (length bs)\<rparr>)
      (touch peer s)\<lparr>m_sendList := m_sendList s @ segment_nodes peer ?q bs\<rparr>"
    using Send_ok [OF n, of peer s] step ok room q(2) unfolding bs by (simp add: end_ok_def)
  have "pieces_ok bs" using segments_bounds bs by (auto simp: pieces_ok_def)
  moreover have "listed_ok nout peer (out @ bs) s'"
    using ok q(1) segment_nodes_ok [of _ peer nout out bs]
    by (auto simp: s' end_ok_def listed_ok_def node_ok_append)
  ultimately show ?thesis
    using ok q room wire_ok_append [of nout nin out inn w bs "[]"]
    by (auto simp: s' end_ok_def numbering_def pieces_ok_def delivered_def waiting_ok_def)
qed

lemma end_transmit:
  assumes ok: "end_ok nout nin peer s out inn tk w" and step: "SendThreadProc_pass clk sok s = Inr (v, s', es)"
  shows "end_ok nout nin peer s' out inn tk (w \<union> {b. (peer, b) \<in> set (datagrams es)})"
proof -
  obtain ns es1 where pass: "send_nodes clk sok 0 (m_sendList s) = Inr (v, ns, es1)"
      "s' = s\<lparr>m_sendList := ns\<rparr>" "datagrams es = datagrams es1"
    using step by (auto simp: SendThreadProc_pass_def split: if_splits)
  have nodes: "(\<lambda>n. (m_addr n, m_packet n)) ` set ns = (\<lambda>n. (m_addr n, m_packet n)) ` set (m_sendList s)"
    using send_nodes_keeps [OF pass(1)] by (metis list.set_map)
  have "listed_ok nout peer out s'"
    unfolding listed_ok_def
  proof (intro ballI impI)
    fix n assume n: "n \<in> set (m_sendList s')" "m_addr n = peer"
    then have "(m_addr n, m_packet n) \<in> (\<lambda>n. (m_addr n, m_packet n)) ` set (m_sendList s)"
      using nodes pass(2) by force
    then show "node_ok peer nout out n" using ok n(2) by (auto simp: end_ok_def listed_ok_def node_ok_def)
  qed
  moreover have "b \<in> data_datagram nout out ` {..<length out}" if d: "(peer, b) \<in> set (datagrams es)" for b
  proof -
    obtain n where "n \<in> set (m_sendList s)" "m_addr n = peer" "node_datagram n = Inr (Some b)"
      using send_nodes_only_listed [OF pass(1), of peer b] d pass(3) by auto
    then show ?thesis
      using node_ok_datagram [of peer nout out n b] ok by (auto simp: end_ok_def listed_ok_def)
  qed
  ultimately show ?thesis using ok pass(2) by (auto simp: end_ok_def wire_ok_def)
qed

lemma end_Recv:
  assumes ok: "end_ok nout nin peer s out inn tk w" and step: "Recv peer buf n s = Inr (s', Some (m, buf', es))"
  shows "end_ok nout nin peer s' out inn (tk @ take (nat m) buf') w"
proof -
  have tab: "table_ok s" using ok by (simp add: end_ok_def)
  have "m_sendList s' = m_sendList s" using Recv_sending [OF step tab] by (simp add: same_sending_def)
  then show ?thesis
    using Recv_returns [OF step tab] ok by (auto simp: end_ok_def listed_ok_def delivered_def waiting_ok_def)
qed

text \<open>A datagram of the peer: one of its pieces, or an acknowledgement.\<close>

lemma end_arrive:
  assumes ok: "end_ok nout nin peer s out inn tk w" and other: "end_ok nin nout me t inn out tk' w'" and b: "b \<in> w'"
    and step: "RecvThreadProc_pass (Some (b, peer)) rok s = Inr (v, s', es)"
  shows "end_ok nout nin peer s' out inn tk (w \<union> {b. (peer, b) \<in> set (datagrams es)})"
proof -
  have num: "numbering nout out" "numbering nin inn" "pieces_ok inn" and tab: "table_ok s"
    using ok other by (auto simp: end_ok_def)
  consider i where "i < length inn" "b = data_datagram nin inn i"
    | i where "i < length out" "b = ack_datagram (nout + int i)"
    using other b by (auto simp: end_ok_def wire_ok_def)
  then show ?thesis
  proof cases
    case 1
    note dec = data_datagram_decoded [OF num(2,3) 1(1)]
    have sl: "m_sendList s' = m_sendList s"
      using step 1(2) dec(2) by (auto simp: RecvThreadProc_pass_def Let_def on_data_def split: if_splits)
    from num(2,3) 1(1) step [unfolded 1(2)] tab show ?thesis
    proof (cases rule: arrive_cases)
      case failed
      then show ?thesis using ok tab by (simp add: end_ok_def listed_ok_def)
    next
      case (received c' es')
      obtain k where "delivered nin inn tk k (conn_of peer s)" "waiting_ok nin inn (conn_of peer s)"
        using ok by (auto simp: end_ok_def)
      with receive_data_delivered [OF num(2) dec(1) this, where addr = peer] received(1)
      obtain k' where "delivered nin inn tk k' c'" "waiting_ok nin inn c'" by auto
      then show ?thesis
        using ok received sl receive_data_counter [OF received(1)] 1(1)
        by (auto simp: end_ok_def listed_ok_def wire_ok_def)
    qed
  next
    case 2
    have "s' = touch peer s\<lparr>m_sendList := erase_acked (nout + int i) (m_sendList s)\<rparr>" "datagrams es = []"
      using pass_ack [OF numbering_range [OF num(1) 2(1)]] step 2(2) by auto
    then show ?thesis
      using ok tab by (auto simp: end_ok_def listed_ok_def dest: subsetD [OF set_erase_acked])
  qed
qed

section \<open>Every step keeps the invariant\<close>

lemma half_step_crowd:
  assumes step: "half_step ab d d'" and inv: "crowd_inv na nb aa ab d"
  shows "crowd_inv na nb aa ab d'"
proof -
  have A: "a_ok na nb ab d" and B: "a_ok nb na aa (flip d)" using inv by (simp_all add: crowd_inv_def)
  have tab: "table_ok (sock_a d)" using A by (simp add: end_ok_def)
  have still: "crowd_inv na nb aa ab (d\<lparr>sock_a := s'\<rparr>)" if "same_conn ab (sock_a d) s'" for s'
    using end_ok_same [OF A that] B by (simp add: crowd_inv_def flip_def)
  from step show ?thesis
  proof (cases rule: half_step.cases)
    case (half_send n buf bs r s' es)
    then show ?thesis
      using end_Send [OF A half_send(2-6)] end_ok_more [OF B, of bs] by (simp add: crowd_inv_def flip_def)
  next
    case (half_transmit clk ok v s' es)
    then show ?thesis using end_transmit [OF A half_transmit(2)] B by (simp add: crowd_inv_def flip_def)
  next
    case (half_arrive b ok v s' es)
    have "b \<in> wire_ab (flip d)" using half_arrive(2) by simp
    from end_arrive [OF A B [unfolded flip_sel] _ half_arrive(3)] half_arrive(1,2) B show ?thesis
      by (simp add: crowd_inv_def flip_def)
  next
    case (half_recv buf n s' m buf' es)
    then show ?thesis using end_Recv [OF A half_recv(2)] B by (simp add: crowd_inv_def flip_def)
  next
    case (half_select a s')
    have "m_sendList s' = m_sendList (sock_a d)"
      using Select_same [OF half_select(2) tab] by (simp add: same_sending_def)
    then show ?thesis
      using half_select(1) Select_same [OF half_select(2) tab]
      by (auto intro!: still simp: same_conn_def same_sending_def same_receiving_def)
  next
    case (half_unselect a s' es)
    have "m_sendList s' = m_sendList (sock_a d)"
      using UnSelect_same [OF half_unselect(2) tab] by (simp add: same_sending_def)
    then show ?thesis
      using half_unselect(1) UnSelect_same [OF half_unselect(2) tab]
      by (auto intro!: still simp: same_conn_def same_sending_def same_receiving_def)
  qed
qed

lemma busy_step_crowd:
  assumes "busy_step ab d d'" and inv: "crowd_inv na nb aa ab d"
  shows "crowd_inv na nb aa ab d'"
  using assms(1)
proof (cases rule: busy_step.cases)
  case own
  then show ?thesis using half_step_crowd inv by blast
next
  case (foreign s' es)
  have A: "a_ok na nb ab d" and B: "a_ok nb na aa (flip d)" using inv by (simp_all add: crowd_inv_def)
  note same = foreign_same [OF foreign(2)]
  have "same_conn ab (sock_a d) s'" and none: "{b. (ab, b) \<in> set (datagrams es)} = {}"
    using same A by (auto simp: end_ok_def)
  from end_ok_same [OF A this(1)] B show ?thesis
    unfolding foreign(1) none by (simp add: crowd_inv_def flip_def)
qed

lemma crowd_step_inv: "crowd_step aa ab d d' \<Longrightarrow> crowd_inv na nb aa ab d \<Longrightarrow> crowd_inv na nb aa ab d'"
  by (elim crowd_stepE) (metis busy_step_crowd, metis busy_step_crowd crowd_inv_flip)

interpretation crowd: step_invariant "crowd_step aa ab" "crowd_inv na nb aa ab" for aa ab na nb
  by unfold_locales (rule crowd_step_inv)

section \<open>Properties\<close>

text \<open>
  C3. A connection in a crowd, safety: while the server's socket also serves other clients, whatever datagrams arrive
  from other addresses (handshakes, data, acknowledgements, anything), and whatever its application sends to, reads
  from and selects of them, the bytes each application of this connection has taken, followed by those in its
  stream, are the first \<open>k\<close> pieces handed to \<open>Send\<close> at the other end.
\<close>

theorem crowd_streams:
  assumes "crowd_start na nb aa ab d0" and "(crowd_step aa ab)\<^sup>*\<^sup>* d0 d"
  shows "(\<exists>k \<le> length (sent_ab d). m_nNextRecvSeq (conn_of aa (sock_b d)) = na + int k
       \<and> taken_b d @ incoming aa (sock_b d) = concat (take k (sent_ab d)))
     \<and> (\<exists>k \<le> length (sent_ba d). m_nNextRecvSeq (conn_of ab (sock_a d)) = nb + int k
       \<and> taken_a d @ incoming ab (sock_a d) = concat (take k (sent_ba d)))"
  using crowd.reachable_invar [OF crowd_start_inv [OF assms(1)] assms(2)]
  by (auto simp: crowd_inv_def end_ok_def delivered_def incoming_def)

text \<open>The message of the example, then a handshake of another client.\<close>

lemma dx_crowd: "(dx_step aa ab)\<^sup>*\<^sup>* d d' \<Longrightarrow> (crowd_step aa ab)\<^sup>*\<^sup>* d d'"
  by (induction rule: rtranclp_induct)
    (auto elim!: dx_stepE intro: rtranclp.rtrancl_into_rtrancl crowd_step.intros busy_step.intros)

lemma crowd_example_run:
  "\<exists>d. (crowd_step addr_example peer_example)\<^sup>*\<^sup>* dx_example d \<and> sent_ab d = [''hi'']
     \<and> incoming addr_example (sock_b d) = ''hi'' \<and> m_sendList (sock_b d) \<noteq> []"
proof -
  obtain c where c: "(ch_step addr_example peer_example)\<^sup>*\<^sup>* (view dx_example) c" "sent c = [''hi'']"
      "incoming addr_example (rcv_sock c) = ''hi''"
    using ch_example_run unfolding dx_example_view incoming_def by blast
  obtain d where d: "(dx_step addr_example peer_example)\<^sup>*\<^sup>* dx_example d" "view d = c"
    using ch_steps_lift [OF c(1) dx_start_inv [OF dx_example_start]] by blast
  have hi: "sent_ab d = [''hi'']" "incoming addr_example (sock_b d) = ''hi''"
    using c(2,3) by (simp_all add: d(2) [symmetric])
  have run: "(crowd_step addr_example peer_example)\<^sup>*\<^sup>* dx_example d" by (rule dx_crowd [OF d(1)])
  have tab: "table_ok (sock_b d)"
    using crowd.reachable_invar [OF crowd_start_inv [OF dx_start_crowd [OF dx_example_start]] run]
    by (simp add: crowd_inv_def end_ok_def)
  let ?a = "sockaddr_in 1 2"
  have other: "?a \<noteq> addr_example" by (simp add: addr_example_def)
  have r: "int32_range 0" "int32_range (0 + 1)" by (simp_all add: int32_range_def)
  obtain s es where s: "RecvThreadProc_pass (Some (Packet_bytes (new_Packet ESTABLISH_1 0), ?a)) True (sock_b d)
      = Inr (Continue, s, es)" "m_sendList s \<noteq> []" "conn_of addr_example s = conn_of addr_example (sock_b d)"
    using pass_establish_1 [OF r tab, of ?a True] tab other by auto
  let ?d = "(flip d)\<lparr>sock_a := s, wire_ab := wire_ab (flip d) \<union> {b. (addr_example, b) \<in> set (datagrams es)}\<rparr>"
  have "foreign_step addr_example (sock_a (flip d)) s es"
    using foreign_step.foreign_arrive [OF other s(1)] by simp
  then have "crowd_step addr_example peer_example d (flip ?d)"
    by (intro crowd_step.crowd_right busy_step.foreign)
  with run have "(crowd_step addr_example peer_example)\<^sup>*\<^sup>* dx_example (flip ?d)"
    by (rule rtranclp.rtrancl_into_rtrancl)
  then show ?thesis using hi s(2,3) by (intro exI [of _ "flip ?d"]) (simp add: flip_def incoming_def)
qed

theorem crowd_streams_witness:
  "\<exists>d. (crowd_step addr_example peer_example)\<^sup>*\<^sup>* dx_example d \<and> m_sendList (sock_b d) \<noteq> []
     \<and> (\<exists>k \<le> 1. m_nNextRecvSeq (conn_of addr_example (sock_b d)) = 1 + int k
         \<and> taken_b d @ ''hi'' = concat (take k [''hi'']))"
proof -
  obtain d where d: "(crowd_step addr_example peer_example)\<^sup>*\<^sup>* dx_example d" "sent_ab d = [''hi'']"
      "incoming addr_example (sock_b d) = ''hi''" "m_sendList (sock_b d) \<noteq> []"
    using crowd_example_run by blast
  from crowd_streams [OF dx_start_crowd [OF dx_example_start] d(1)] d show ?thesis
    by (intro exI [of _ d]) auto
qed

end
