(* ===== verification/Endpoint.thy ===== *)
theory Endpoint
  imports Crowd
begin

text \<open>
  What the applications rely on. The locale \<open>endpoint\<close> is the contract of one end of a connection: its calls are
  steps, its counter is known, and its stream is what the other end sent. From it follows, for every system with
  such ends, what \<open>SendSql\<close>, the server's loop, \<open>SendResByteAry\<close> and \<open>ShowList\<close> do there. The locale \<open>link\<close> has
  two of them. It is interpreted for a connection alone and for one among others.
\<close>

section \<open>Steps at one end\<close>

text \<open>The end \<open>a\<close> hands pieces with the bytes \<open>w\<close> to \<open>Send\<close>; it takes bytes from its stream.\<close>

definition sends :: "(duplex \<Rightarrow> duplex \<Rightarrow> bool) \<Rightarrow> byte list \<Rightarrow> nat \<Rightarrow> duplex \<Rightarrow> duplex \<Rightarrow> bool" where
  "sends step w k d d' \<longleftrightarrow> step\<^sup>*\<^sup>* d d' \<and> concat (sent_ab d') = concat (sent_ab d) @ w
     \<and> length (sent_ab d') \<le> length (sent_ab d) + k \<and> sock_b d' = sock_b d \<and> sent_ba d' = sent_ba d
     \<and> taken_a d' = taken_a d \<and> taken_b d' = taken_b d"

definition takes :: "(duplex \<Rightarrow> duplex \<Rightarrow> bool) \<Rightarrow> sockaddr \<Rightarrow> duplex \<Rightarrow> duplex \<Rightarrow> bool" where
  "takes step peer d d' \<longleftrightarrow> step\<^sup>*\<^sup>* d d' \<and> sock_b d' = sock_b d \<and> sent_ab d' = sent_ab d
     \<and> sent_ba d' = sent_ba d \<and> taken_b d' = taken_b d
     \<and> taken_a d' @ incoming peer (sock_a d') = taken_a d @ incoming peer (sock_a d)"

lemma sends_trans:
  "sends step w k d e \<Longrightarrow> sends step v j e f \<Longrightarrow> sends step (w @ v) (k + j) d f"
  by (auto simp: sends_def)

lemma takes_trans: "takes step peer d e \<Longrightarrow> takes step peer e f \<Longrightarrow> takes step peer d f"
  by (auto simp: takes_def)

text \<open>A consistent connection with the bytes \<open>req\<close> and \<open>ans\<close> on their way, all others having been read.\<close>

definition owes :: "(duplex \<Rightarrow> bool) \<Rightarrow> byte list \<Rightarrow> byte list \<Rightarrow> duplex \<Rightarrow> bool" where
  "owes invar req ans d \<longleftrightarrow> invar d \<and> taken_b d @ req = concat (sent_ab d) \<and> taken_a d @ ans = concat (sent_ba d)"

definition arrived :: "sockaddr \<Rightarrow> byte list \<Rightarrow> CTcpSocket \<Rightarrow> bool" where
  "arrived addr w s \<longleftrightarrow> length w \<le> length (incoming addr s) \<and> length (incoming addr s) < 2 ^ 31"

lemma with_socket_twice [simp]: "with_socket (with_socket c s) t = with_socket c t"
  by (simp add: with_socket_def CTcpSocket.defs CTcpClient.defs)

lemma run_bind_eq: "run_bind m f = Some (Inr y) \<longleftrightarrow> (\<exists>x. m = Some (Inr x) \<and> f x = Some (Inr y))"
  by (auto simp: run_bind_def split: option.splits sum.splits)

text \<open>What the server sends for the result of a statement: its number of rows, or its result set.\<close>

definition reply :: "int \<Rightarrow> MYSQL_RES option \<Rightarrow> byte list" where
  "reply n res = (case res of None \<Rightarrow> le32 n | Some r \<Rightarrow> answer r)"

definition replyable :: "MYSQL_RES option \<Rightarrow> bool" where
  "replyable res \<longleftrightarrow> pred_option (\<lambda>r. answerable r \<and> tabular r) res"

text \<open>What the client does with it: it shows the result set, or reads the number.\<close>

definition client_sees ::
    "nat \<Rightarrow> int \<Rightarrow> MYSQL_RES option \<Rightarrow> CSchoolSystemDlg \<Rightarrow> CSchoolSystemDlg \<Rightarrow> bool" where
  "client_sees nDel n res w w' \<longleftrightarrow>
     (case res of
        None \<Rightarrow> await_Recv (\<lambda>c. c) (le32 0) 4 (m_tcpClient w) = Some (Inr (m_tcpClient w', le32 n))
      | Some r \<Rightarrow> ShowList nDel (\<lambda>_ c. c) w = Some (Inr (w', clear_calls nDel @ table_calls (m_fieldMap w) r)))"

section \<open>One end\<close>

locale endpoint = step_invariant step invar
  for step :: "duplex \<Rightarrow> duplex \<Rightarrow> bool" and invar :: "duplex \<Rightarrow> bool" +
  fixes base :: int and peer :: sockaddr
  assumes acts: "half_step peer d d' \<Longrightarrow> step d d'"
    and sender: "invar d \<Longrightarrow> table_ok (sock_a d) \<and> - (2 ^ 31) \<le> base
      \<and> m_nNextSendSeq (conn_of peer (sock_a d)) = base + int (length (sent_ab d))"
    and receiver: "invar d \<Longrightarrow> \<exists>k. taken_a d @ incoming peer (sock_a d) = concat (take k (sent_ba d))"
begin

lemma sends_invar: "sends step w k d d' \<Longrightarrow> invar d \<Longrightarrow> invar d'"
  unfolding sends_def by (blast intro: steps_keep)

lemma Send_sends:
  assumes inv: "invar d" and n: "n \<le> length buf" and room: "base + int (length (sent_ab d)) + int (packets n) < 2 ^ 31"
  obtains s es d' where "Send peer buf (int n) (sock_a d) = Inr (int n, s, es)" "sock_a d' = s"
    "sends step (take n buf) (packets n) d d'"
proof -
  let ?q = "m_nNextSendSeq (conn_of peer (sock_a d))" and ?bs = "segments (take n buf)"
  have q: "?q = base + int (length (sent_ab d))" "- (2 ^ 31) \<le> ?q" "table_ok (sock_a d)" using sender [OF inv] by auto
  have len: "length ?bs = packets n" using n by (simp add: length_segments packets_def)
  obtain s es where s: "Send peer buf (int n) (sock_a d) = Inr (int n, s, es)"
    using Send_ok [of "int n" buf peer "sock_a d"] q room len n by auto
  let ?d = "d\<lparr>sock_a := s, sent_ab := sent_ab d @ ?bs\<rparr>"
  have "step d ?d"
    by (rule acts, rule half_step.half_send [OF _ _ _ _ s]) (use n q(1) room len in simp_all)
  then show ?thesis
    using s len by (intro that [of s es ?d]) (auto simp: sends_def concat_segments)
qed

lemma send_block_sends:
  assumes inv: "invar d" and w: "length w \<le> 0x1000" and room: "base + int (length (sent_ab d)) + 5 < 2 ^ 31"
  obtains s es d' where "send_block peer (w @ r) (length w) (sock_a d) = Inr (s, es)" "sock_a d' = s"
    "sends step (frame w) 5 d d'"
proof -
  let ?n = "length w"
  have p: "packets 4 = 1" "packets ?n \<le> 4" using packets_block [OF w] by (simp_all add: packets_def)
  obtain s1 es1 d1 where 1: "Send peer (le32 (int ?n)) (int 4) (sock_a d) = Inr (int 4, s1, es1)" "sock_a d1 = s1"
      "sends step (take 4 (le32 (int ?n))) (packets 4) d d1"
    by (rule Send_sends [OF inv, of 4 "le32 (int ?n)"]) (use room p in auto)
  then have "length (sent_ab d1) \<le> length (sent_ab d) + 1" using p(1) by (simp add: sends_def)
  then have room1: "base + int (length (sent_ab d1)) + int (packets ?n) < 2 ^ 31" using room p(2) by linarith
  obtain s2 es2 d2 where 2: "Send peer (w @ r) (int ?n) (sock_a d1) = Inr (int ?n, s2, es2)" "sock_a d2 = s2"
      "sends step (take ?n (w @ r)) (packets ?n) d1 d2"
    by (rule Send_sends [OF sends_invar [OF 1(3) inv], of ?n "w @ r"]) (use room1 in auto)
  have "sends step (frame w) (1 + packets ?n) d d2"
    using sends_trans [OF 1(3) 2(3)] p(1) by (simp add: frame_def)
  then have "sends step (frame w) 5 d d2" using p(2) by (auto simp: sends_def)
  then show ?thesis using 1 2 by (intro that [of s2 "es1 @ es2" d2]) (simp_all add: send_block_def)
qed

lemma SendResByteAry_sends:
  assumes inv: "invar d" and res: "answerable res" and room: "base + int (length (sent_ab d)) + 10 < 2 ^ 31"
  obtains s es d' where "SendResByteAry res peer (sock_a d) = Inr (s, es)" "sock_a d' = s"
    "sends step (answer res) 10 d d'"
proof -
  let ?f = "flat (res_fields res)" and ?d = "flat (map the (concat (res_rows res)))"
  let ?b = "?f @ replicate (0x1000 - length ?f) NUL"
  have len: "length ?f \<le> 0x1000" "length ?d \<le> 0x1000" "length ?b = 0x1000"
    using res by (auto simp: answerable_def)
  have f: "pack (map Some (res_fields res)) (replicate 0x1000 NUL) 0 = Inr (?b, length ?f)"
    using pack_ok [of 0 "res_fields res" "replicate 0x1000 NUL"] len by simp
  have d: "pack (concat (res_rows res)) ?b 0 = Inr (?d @ drop (length ?d) ?b, length ?d)"
    using pack_cells [of "concat (res_rows res)" 0 ?b] len res by (simp add: answerable_def)
  obtain s1 es1 d1 where 1: "send_block peer ?b (length ?f) (sock_a d) = Inr (s1, es1)" "sock_a d1 = s1"
      "sends step (frame ?f) 5 d d1"
    by (rule send_block_sends [OF inv len(1)]) (use room in auto)
  have room1: "base + int (length (sent_ab d1)) + 5 < 2 ^ 31" using room 1(3) by (auto simp: sends_def)
  obtain s2 es2 d2 where 2: "send_block peer (?d @ drop (length ?d) ?b) (length ?d) (sock_a d1) = Inr (s2, es2)"
      "sock_a d2 = s2" "sends step (frame ?d) 5 d1 d2"
    by (rule send_block_sends [OF sends_invar [OF 1(3) inv] len(2) room1])
  show ?thesis
    using f d 1 2 sends_trans [OF 1(3) 2(3)]
    by (intro that [of s2 "es1 @ es2" d2]) (simp_all add: SendResByteAry_def answer_def)
qed

lemma SendSql_sends:
  assumes inv: "invar d" and cl: "base_socket (m_tcpClient w) = sock_a d" "m_serverAddr (m_tcpClient w) = peer"
    and sql: "length sql < 0x1000 - 1" and room: "base + int (length (sent_ab d)) + 5 < 2 ^ 31"
  obtains s d' where "SendSql sql w = Inr (w\<lparr>m_tcpClient := with_socket (m_tcpClient w) s\<rparr>)" "sock_a d' = s"
    "sends step (frame (sql @ [NUL])) 5 d d'"
proof -
  let ?n = "length (sql @ [NUL])"
  have n: "wrap32 (int (length sql) + 1) = int ?n" using sql by (simp add: int32_range_def)
  obtain s es d' where "send_block peer ((sql @ [NUL]) @ []) ?n (sock_a d) = Inr (s, es)" "sock_a d' = s"
      "sends step (frame (sql @ [NUL])) 5 d d'"
    by (rule send_block_sends [OF inv _ room, of "sql @ [NUL]" "[]"]) (use sql in auto)
  then show ?thesis
    using cl n by (intro that [of s d']) (auto simp: send_block_def SendSql_def Client_Send_def Let_def)
qed

lemma Recv_takes:
  assumes "Recv peer buf n (sock_a d) = Inr (s', Some (m, buf', es))" and inv: "invar d"
  obtains d' where "takes step peer d d'" "sock_a d' = s'" "invar d'"
proof -
  let ?d = "d\<lparr>sock_a := s', taken_a := taken_a d @ take (nat m) buf'\<rparr>"
  have st: "step d ?d" by (intro acts half_step.half_recv) (fact assms(1))
  have "takes step peer d ?d"
    using Recv_returns [OF assms(1)] sender [OF inv] st by (auto simp: takes_def incoming_def)
  then show ?thesis using step_keeps [OF st inv] by (intro that [of ?d]) simp_all
qed

lemma await_takes:
  assumes "await_Recv (\<lambda>c. c) b n c = Some (Inr (c', b'))" and inv: "invar d"
    and "base_socket c = sock_a d" "m_serverAddr c = peer"
  obtains d' where "takes step peer d d'" "invar d'" "base_socket c' = sock_a d'" "m_serverAddr c' = peer"
proof -
  obtain s m es where "Recv peer b n (sock_a d) = Inr (s, Some (m, b', es))" "c' = with_socket c s"
    using assms(1,3,4) by (auto simp: await_Recv_def Client_Recv_def split: sum.splits option.splits)
  with Recv_takes [OF this(1) inv] assms(4) show ?thesis
    by (metis base_with_socket that)
qed

lemma ShowList_takes:
  assumes shown: "ShowList nDel (\<lambda>_ c. c) w = Some (Inr (w', us))" and inv: "invar d"
    and client: "base_socket (m_tcpClient w) = sock_a d" "m_serverAddr (m_tcpClient w) = peer"
  obtains d' where "takes step peer d d'" "invar d'" "base_socket (m_tcpClient w') = sock_a d'"
    "m_serverAddr (m_tcpClient w') = peer"
proof -
  let ?id = "\<lambda>c :: CTcpClient. c"
  obtain c1 b1 c2 b2 c3 b3 where c: "await_Recv ?id (le32 0) 4 (m_tcpClient w) = Some (Inr (c1, b1))"
      "await_Recv ?id (replicate 0x1000 NUL) (un_le32 b1) c1 = Some (Inr (c2, b2))"
      "await_Recv ?id b1 4 c2 = Some (Inr (c3, b3))"
      and last: "m_tcpClient w' = c3 \<or> (\<exists>b4. await_Recv ?id b2 (un_le32 b3) c3 = Some (Inr (m_tcpClient w', b4)))"
    using shown by (auto simp: ShowList_def Let_def run_bind_eq split: if_splits)
  obtain d1 where 1: "takes step peer d d1" "invar d1" "base_socket c1 = sock_a d1" "m_serverAddr c1 = peer"
    by (rule await_takes [OF c(1) inv client])
  obtain d2 where 2: "takes step peer d1 d2" "invar d2" "base_socket c2 = sock_a d2" "m_serverAddr c2 = peer"
    by (rule await_takes [OF c(2) 1(2-4)])
  obtain d3 where 3: "takes step peer d2 d3" "invar d3" "base_socket c3 = sock_a d3" "m_serverAddr c3 = peer"
    by (rule await_takes [OF c(3) 2(2-4)])
  note to3 = takes_trans [OF takes_trans [OF 1(1) 2(1)] 3(1)]
  from last show ?thesis
  proof
    assume "m_tcpClient w' = c3"
    then show ?thesis using that [OF to3 3(2)] 3(3,4) by simp
  next
    assume "\<exists>b4. await_Recv ?id b2 (un_le32 b3) c3 = Some (Inr (m_tcpClient w', b4))"
    then obtain b4 where "await_Recv ?id b2 (un_le32 b3) c3 = Some (Inr (m_tcpClient w', b4))" by blast
    then show ?thesis using await_takes [OF _ 3(2-4)] that takes_trans [OF to3] by metis
  qed
qed

lemma request_takes:
  assumes read: "read_request (\<lambda>i s. s) peer (sock_a d) = Inr (s, Some sql)" and inv: "invar d"
  obtains d' where "takes step peer d d'" "invar d'" "sock_a d' = s"
proof -
  obtain s1 m b es s2 m2 b2 es2 where r: "Recv peer (le32 0) 4 (sock_a d) = Inr (s1, Some (m, b, es))"
      "Recv peer (replicate 0x1000 NUL) (un_le32 b) s1 = Inr (s, Some (m2, b2, es2))"
    using read by (auto simp: read_request_def split: option.splits)
  obtain d1 where 1: "takes step peer d d1" "sock_a d1 = s1" "invar d1"
    by (rule Recv_takes [OF r(1) inv])
  obtain d2 where 2: "takes step peer d1 d2" "sock_a d2 = s" "invar d2"
    by (rule Recv_takes [OF r(2) [folded 1(2)] 1(3)])
  then show ?thesis using that takes_trans [OF 1(1) 2(1)] by blast
qed

lemma sends_owes: "owes invar [] ans d \<Longrightarrow> sends step w k d d' \<Longrightarrow> owes invar w ans d'"
  using sends_invar [of w k d d'] by (auto simp: owes_def sends_def)

text \<open>What has arrived is what is on its way, and the end can read and send.\<close>

lemma owes_arrived:
  assumes d: "owes invar req w d" and in_time: "arrived peer w (sock_a d)"
  shows "incoming peer (sock_a d) = w"
proof -
  obtain k where k: "taken_a d @ incoming peer (sock_a d) = concat (take k (sent_ba d))"
    using receiver d by (auto simp: owes_def)
  have "taken_a d @ w = concat (sent_ba d)" using d by (simp add: owes_def)
  then have "taken_a d @ incoming peer (sock_a d) @ concat (drop k (sent_ba d)) = taken_a d @ w"
    using k by (metis append_assoc append_take_drop_id concat_append)
  then show ?thesis using in_time by (auto simp: arrived_def append_eq_append_conv2)
qed

lemma owes_holds:
  assumes d: "owes invar req w d" and "arrived peer w (sock_a d)" and "base + int (length (sent_ab d)) < 2 ^ 31"
  shows "holds peer 0 w (sock_a d)"
  using owes_arrived [OF assms(1,2)] assms(2,3) sender [of d] d
  by (auto simp: holds_def room_def arrived_def owes_def)

lemma takes_owes:
  assumes "takes step peer d d'" and "owes invar req w d" and "invar d'"
    and "incoming peer (sock_a d) = w" "incoming peer (sock_a d') = []"
  shows "owes invar req [] d'"
  using assms by (simp add: takes_def owes_def)

text \<open>The client's request, the server's loop reading it, the server's answer, and the client showing it.\<close>

lemma request_sent:
  assumes d: "owes invar [] ans d" and room: "base + int (length (sent_ab d)) + 5 < 2 ^ 31"
    and client: "base_socket (m_tcpClient w) = sock_a d" "m_serverAddr (m_tcpClient w) = peer"
    and sql: "length sql < 0x1000 - 1"
  shows "\<exists>s d'. SendSql sql w = Inr (w\<lparr>m_tcpClient := with_socket (m_tcpClient w) s\<rparr>) \<and> sock_a d' = s
     \<and> sends step (frame (sql @ [NUL])) 5 d d' \<and> owes invar (frame (sql @ [NUL])) ans d'"
  using SendSql_sends [OF _ client sql room] sends_owes [OF d] d unfolding owes_def by metis

lemma answer_sent:
  assumes d: "owes invar [] req d" and room: "base + int (length (sent_ab d)) + 10 < 2 ^ 31" and res: "answerable res"
  shows "\<exists>s es d'. SendResByteAry res peer (sock_a d) = Inr (s, es) \<and> sock_a d' = s
     \<and> sends step (answer res) 10 d d' \<and> owes invar (answer res) req d'"
  using SendResByteAry_sends [OF _ res room] sends_owes [OF d] d unfolding owes_def by metis

lemma request_read:
  assumes d: "owes invar ans (frame (sql @ [NUL])) d" and in_time: "arrived peer (frame (sql @ [NUL])) (sock_a d)"
    and room: "base + int (length (sent_ab d)) < 2 ^ 31" and sql: "length sql < 0x1000 - 1" "NUL \<notin> set sql"
  shows "\<exists>s d'. read_request (\<lambda>i s. s) peer (sock_a d) = Inr (s, Some sql) \<and> sock_a d' = s
     \<and> takes step peer d d' \<and> owes invar ans [] d'"
proof -
  have inv: "invar d" using d by (simp add: owes_def)
  obtain s where s: "read_request (\<lambda>i s. s) peer (sock_a d) = Inr (s, Some sql)" "incoming peer s = []"
    by (rule arrived_request [OF owes_holds [OF d in_time room] sql])
  obtain d' where d': "takes step peer d d'" "invar d'" "sock_a d' = s" by (rule request_takes [OF s(1) inv])
  have "owes invar ans [] d'" using takes_owes [OF d'(1) d d'(2) owes_arrived [OF d in_time]] s(2) d'(3) by simp
  then show ?thesis using s(1) d' by blast
qed

lemma answer_shown:
  assumes d: "owes invar req (answer res) d" and in_time: "arrived peer (answer res) (sock_a d)"
    and room: "base + int (length (sent_ab d)) < 2 ^ 31" and res: "answerable res" "tabular res"
    and client: "base_socket (m_tcpClient w) = sock_a d" "m_serverAddr (m_tcpClient w) = peer"
  shows "\<exists>w' d'. ShowList nDel (\<lambda>_ c. c) w = Some (Inr (w', clear_calls nDel @ table_calls (m_fieldMap w) res))
     \<and> sock_a d' = base_socket (m_tcpClient w') \<and> takes step peer d d' \<and> owes invar req [] d'"
proof -
  let ?F = "flat (res_fields res)" and ?D = "flat (map the (concat (res_rows res)))"
  have inv: "invar d" using d by (simp add: owes_def)
  have h: "client_holds 0 (answer res) (m_tcpClient w)"
    using owes_holds [OF d in_time room] client by (simp add: client_holds_def client_views holds_def)
  have "timely 0 (\<lambda>_ c. c) (answer res) ?F ?D []"
    using timely_id [of 0 ?F ?D "[]"] by (simp add: answer_def)
  from ShowList_table [OF res h this, of nDel] obtain c' where
    shown: "ShowList nDel (\<lambda>_ c. c) w = Some (Inr (w\<lparr>m_tcpClient := c', m_fieldMap := field_refs (res_fields res) (m_fieldMap w)\<rparr>,
        clear_calls nDel @ table_calls (m_fieldMap w) res))" and c': "client_holds 0 [] c'" by blast
  obtain d' where d': "takes step peer d d'" "invar d'" "base_socket c' = sock_a d'" "m_serverAddr c' = peer"
    by (rule ShowList_takes [OF shown inv client]) simp
  have "incoming peer (sock_a d') = []" using c' d'(3,4) by (simp add: client_holds_def client_views)
  from takes_owes [OF d'(1) d d'(2) owes_arrived [OF d in_time] this] show ?thesis
    using shown d' by (intro exI conjI) (auto simp: takes_def)
qed

text \<open>A round of the server's loop that finds this connection, and the task it makes.\<close>

lemma round_read:
  assumes d: "owes invar ans (frame (sql @ [NUL])) d" and in_time: "arrived peer (frame (sql @ [NUL])) (sock_a d)"
    and sel: "Select (sock_a d) = Some (peer, s0)"
    and room: "base + int (length (sent_ab d)) < 2 ^ 31" and sql: "length sql < 0x1000 - 1" "NUL \<notin> set sql"
  shows "\<exists>s d'. CServer_round (\<lambda>i s. s) (sock_a d) = Inr (s, Some (new_CSqlTask peer sql)) \<and> sock_a d' = s
     \<and> takes step peer d d' \<and> owes invar ans [] d'"
proof -
  let ?d = "d\<lparr>sock_a := s0\<rparr>"
  have inv: "invar d" using d by (simp add: owes_def)
  have st: "step d ?d" by (rule acts [OF half_step.half_select [OF sel]])
  have same: "incoming peer s0 = incoming peer (sock_a d)"
    using Select_same [OF sel] sender [OF inv] by (simp add: same_receiving_def incoming_def)
  have t: "takes step peer d ?d" using st same by (simp add: takes_def)
  have d0: "owes invar ans (frame (sql @ [NUL])) ?d" using d step_keeps [OF st inv] by (simp add: owes_def)
  have a0: "arrived peer (frame (sql @ [NUL])) (sock_a ?d)" using in_time same by (simp add: arrived_def)
  have r0: "base + int (length (sent_ab ?d)) < 2 ^ 31" using room by simp
  from request_read [OF d0 a0 r0 sql] obtain s d' where
    "read_request (\<lambda>i s. s) peer s0 = Inr (s, Some sql)" "sock_a d' = s" "takes step peer ?d d'" "owes invar ans [] d'"
    by auto
  then show ?thesis
    using takes_trans [OF t] sel by (intro exI [of _ s] exI [of _ d']) (simp add: CServer_round_def)
qed

lemma reply_sent:
  assumes d: "owes invar [] req d" and room: "base + int (length (sent_ab d)) + 10 < 2 ^ 31" and res: "replyable res"
  shows "\<exists>s es d'. (case res of None \<Rightarrow> and_then (Send peer (le32 n) 4 (sock_a d)) (\<lambda>(_, s1, es1). Inr (s1, es1))
        | Some r \<Rightarrow> SendResByteAry r peer (sock_a d)) = Inr (s, es)
     \<and> sock_a d' = s \<and> sends step (reply n res) 10 d d' \<and> owes invar (reply n res) req d'"
proof (cases res)
  case None
  have inv: "invar d" using d by (simp add: owes_def)
  have "base + int (length (sent_ab d)) + int (packets 4) < 2 ^ 31" using room by (simp add: packets_def)
  then obtain s es d' where s: "Send peer (le32 n) (int 4) (sock_a d) = Inr (int 4, s, es)" "sock_a d' = s"
      "sends step (take 4 (le32 n)) (packets 4) d d'"
    by (rule Send_sends [OF inv, of 4 "le32 n", rotated]) auto
  then have "sends step (le32 n) 10 d d'" by (auto simp: sends_def packets_def)
  with s(1,2) sends_owes [OF d this] None show ?thesis by (auto simp: reply_def)
next
  case (Some r)
  then show ?thesis using answer_sent [OF d room, of r] res by (simp add: reply_def replyable_def)
qed

lemma task_answers:
  assumes d: "owes invar [] req d" and room: "base + int (length (sent_ab d)) + 10 < 2 ^ 31"
    and db: "Query_res api sql None db = Inr (n, res, db')" "replyable res"
  shows "\<exists>s es d'. Execute api (new_CSqlTask peer sql) (sock_a d, db) = Inr (0, s, db', es) \<and> sock_a d' = s
     \<and> sends step (reply n res) 10 d d' \<and> owes invar (reply n res) req d'"
proof -
  from reply_sent [OF d room db(2), of n] obtain s1 es1 d1 where
    1: "(case res of None \<Rightarrow> and_then (Send peer (le32 n) 4 (sock_a d)) (\<lambda>(_, s1, es1). Inr (s1, es1))
        | Some r \<Rightarrow> SendResByteAry r peer (sock_a d)) = Inr (s1, es1)" "sock_a d1 = s1" "sends step (reply n res) 10 d d1"
    and o1: "owes invar (reply n res) req d1" by blast
  obtain s2 es2 where u: "UnSelect peer s1 = (s2, es2)" by fastforce
  let ?d = "d1\<lparr>sock_a := s2\<rparr>"
  have st: "step d1 ?d" using u 1(2) by (intro acts half_step.half_unselect) simp
  then have "sends step [] 0 d1 ?d" by (simp add: sends_def r_into_rtranclp)
  from sends_trans [OF 1(3) this] have "sends step (reply n res) 10 d ?d" by simp
  moreover have "owes invar (reply n res) req ?d" using o1 step_keeps [OF st] by (simp add: owes_def)
  moreover have "Execute api (new_CSqlTask peer sql) (sock_a d, db) = Inr (0, s2, db', es1 @ es2)"
    using 1(1) u db(1) by (simp add: Execute_def new_CSqlTask_def cong: option.case_cong)
  ultimately show ?thesis by (intro exI [of _ s2] exI [of _ "es1 @ es2"] exI [of _ ?d]) simp
qed

lemma reply_seen:
  assumes d: "owes invar req (reply n res) d" and in_time: "arrived peer (reply n res) (sock_a d)"
    and room: "base + int (length (sent_ab d)) < 2 ^ 31" and res: "replyable res"
    and client: "base_socket (m_tcpClient w) = sock_a d" "m_serverAddr (m_tcpClient w) = peer"
  shows "\<exists>w' d'. client_sees nDel n res w w' \<and> sock_a d' = base_socket (m_tcpClient w') \<and> takes step peer d d' \<and> owes invar req [] d'"
proof (cases res)
  case None
  have inv: "invar d" using d by (simp add: owes_def)
  have r: "reply n res = le32 n" by (simp add: None reply_def)
  have "client_holds 0 (le32 n @ []) (m_tcpClient w)"
    using owes_holds [OF d in_time room] client r by (simp add: client_holds_def client_views holds_def)
  from await_int [OF this client_brings_id, of "le32 0"] obtain c' where
    c': "await_Recv (\<lambda>c. c) (le32 0) 4 (m_tcpClient w) = Some (Inr (c', le32 n))" "client_holds 0 [] c'" by auto
  obtain d' where d': "takes step peer d d'" "invar d'" "base_socket c' = sock_a d'" "m_serverAddr c' = peer"
    by (rule await_takes [OF c'(1) inv client])
  have "incoming peer (sock_a d') = []" using c'(2) d'(3,4) by (simp add: client_holds_def client_views)
  from takes_owes [OF d'(1) d d'(2) owes_arrived [OF d in_time] this] show ?thesis
    using c'(1) d' None by (intro exI [of _ "w\<lparr>m_tcpClient := c'\<rparr>"] exI [of _ d']) (simp add: client_sees_def)
next
  case (Some r)
  then show ?thesis
    using answer_shown [of req r d w nDel] d in_time room res client by (auto simp: reply_def replyable_def client_sees_def)
qed

end

section \<open>Two ends\<close>

text \<open>The threads and the network at work between two calls of the applications.\<close>

definition net_step :: "(duplex \<Rightarrow> duplex \<Rightarrow> bool) \<Rightarrow> duplex \<Rightarrow> duplex \<Rightarrow> bool" where
  "net_step step d d' \<longleftrightarrow> step d d' \<and> sent_ab d' = sent_ab d \<and> sent_ba d' = sent_ba d
     \<and> taken_a d' = taken_a d \<and> taken_b d' = taken_b d"

text \<open>Nothing that was sent is unread.\<close>

definition quiet :: "duplex \<Rightarrow> bool" where
  "quiet d \<longleftrightarrow> taken_b d = concat (sent_ab d) \<and> taken_a d = concat (sent_ba d)"

text \<open>The dialog after \<open>SendSql\<close>, whose socket the threads have worked on since.\<close>

definition dlg_sock :: "CSchoolSystemDlg \<Rightarrow> CTcpSocket \<Rightarrow> CSchoolSystemDlg" where
  "dlg_sock w s = w\<lparr>m_tcpClient := with_socket (m_tcpClient w) s\<rparr>"

lemma dlg_sock_sel [simp]:
  "base_socket (m_tcpClient (dlg_sock w s)) = s" "m_serverAddr (m_tcpClient (dlg_sock w s)) = m_serverAddr (m_tcpClient w)"
  "m_fieldMap (dlg_sock w s) = m_fieldMap w" "dlg_sock (dlg_sock w s) t = dlg_sock w t"
  by (simp_all add: dlg_sock_def)

definition flipped :: "(duplex \<Rightarrow> duplex \<Rightarrow> bool) \<Rightarrow> duplex \<Rightarrow> duplex \<Rightarrow> bool" where
  "flipped step d d' \<longleftrightarrow> step (flip d) (flip d')"

lemma flipped_steps: "(flipped step)\<^sup>*\<^sup>* d d' \<Longrightarrow> step\<^sup>*\<^sup>* (flip d) (flip d')"
  by (induction rule: rtranclp_induct) (auto simp: flipped_def intro: rtranclp.rtrancl_into_rtrancl)

lemma owes_flip: "owes (\<lambda>d. invar (flip d)) ans req d \<longleftrightarrow> owes invar req ans (flip d)"
  by (auto simp: owes_def)

lemma owes_quiet: "owes invar [] [] d \<longleftrightarrow> invar d \<and> quiet d"
  by (simp add: owes_def quiet_def)

locale link =
  fixes step :: "duplex \<Rightarrow> duplex \<Rightarrow> bool" and invar :: "duplex \<Rightarrow> bool"
    and na nb :: int and aa ab :: sockaddr
  assumes client_end: "endpoint step invar na ab"
    and server_end: "endpoint (flipped step) (\<lambda>d. invar (flip d)) nb aa"
begin

lemma net_steps: "(net_step step)\<^sup>*\<^sup>* d d' \<Longrightarrow> step\<^sup>*\<^sup>* d d' \<and> sent_ab d' = sent_ab d \<and> sent_ba d' = sent_ba d"
  by (induction rule: rtranclp_induct) (auto simp: net_step_def intro: rtranclp.rtrancl_into_rtrancl)

lemma net_owes: "(net_step step)\<^sup>*\<^sup>* d d' \<Longrightarrow> owes invar req ans d \<Longrightarrow> owes invar req ans d'"
proof (induction rule: rtranclp_induct)
  case (step e f)
  have "invar f" if "invar e"
    using step(2) that client_end unfolding net_step_def endpoint_def step_invariant_def by blast
  then show ?case using step by (auto simp: net_step_def owes_def)
qed simp

lemmas client_sends = endpoint.request_sent [OF client_end]
lemmas client_shows = endpoint.answer_shown [OF client_end]
lemmas client_reads = endpoint.reply_seen [OF client_end]

text \<open>The server's end, seen from the client's.\<close>

lemma server_reads:
  assumes d: "owes invar (frame (sql @ [NUL])) ans d" and in_time: "arrived aa (frame (sql @ [NUL])) (sock_b d)"
    and room: "nb + int (length (sent_ba d)) < 2 ^ 31" and sql: "length sql < 0x1000 - 1" "NUL \<notin> set sql"
  shows "\<exists>s d'. read_request (\<lambda>i s. s) aa (sock_b d) = Inr (s, Some sql) \<and> step\<^sup>*\<^sup>* d d' \<and> sock_b d' = s
     \<and> sock_a d' = sock_a d \<and> sent_ab d' = sent_ab d \<and> sent_ba d' = sent_ba d \<and> owes invar [] ans d'"
proof -
  have "owes (\<lambda>d. invar (flip d)) ans (frame (sql @ [NUL])) (flip d)" using d by (simp add: owes_flip)
  from endpoint.request_read [OF server_end this] in_time room sql obtain s e where
    s: "read_request (\<lambda>i s. s) aa (sock_b d) = Inr (s, Some sql)" "sock_a e = s"
    and e: "takes (flipped step) aa (flip d) e" "owes (\<lambda>d. invar (flip d)) ans [] e" by auto
  have "owes invar [] ans (flip e)" using e(2) by (simp add: owes_flip)
  then show ?thesis
    using s e(1) flipped_steps [of step "flip d" e]
    by (intro exI [of _ s] exI [of _ "flip e"]) (simp add: takes_def)
qed

lemma server_answers:
  assumes d: "owes invar req [] d" and room: "nb + int (length (sent_ba d)) + 10 < 2 ^ 31" and res: "answerable res"
  shows "\<exists>s es d'. SendResByteAry res aa (sock_b d) = Inr (s, es) \<and> step\<^sup>*\<^sup>* d d' \<and> sock_b d' = s
     \<and> sock_a d' = sock_a d \<and> sent_ab d' = sent_ab d \<and> owes invar req (answer res) d'"
proof -
  have "owes (\<lambda>d. invar (flip d)) [] req (flip d)" using d by (simp add: owes_flip)
  from endpoint.answer_sent [OF server_end this _ res] room obtain s es e where
    s: "SendResByteAry res aa (sock_b d) = Inr (s, es)" "sock_a e = s"
    and e: "sends (flipped step) (answer res) 10 (flip d) e" "owes (\<lambda>d. invar (flip d)) (answer res) req e" by auto
  have "owes invar req (answer res) (flip e)" using e(2) by (simp add: owes_flip)
  then show ?thesis
    using s e(1) flipped_steps [of step "flip d" e]
    by (intro exI [of _ s] exI [of _ es] exI [of _ "flip e"]) (simp add: sends_def)
qed

lemma server_round:
  assumes d: "owes invar (frame (sql @ [NUL])) ans d" and in_time: "arrived aa (frame (sql @ [NUL])) (sock_b d)"
    and sel: "Select (sock_b d) = Some (aa, s0)"
    and room: "nb + int (length (sent_ba d)) < 2 ^ 31" and sql: "length sql < 0x1000 - 1" "NUL \<notin> set sql"
  shows "\<exists>s d'. CServer_round (\<lambda>i s. s) (sock_b d) = Inr (s, Some (new_CSqlTask aa sql)) \<and> step\<^sup>*\<^sup>* d d' \<and> sock_b d' = s
     \<and> sent_ab d' = sent_ab d \<and> sent_ba d' = sent_ba d \<and> owes invar [] ans d'"
proof -
  have "owes (\<lambda>d. invar (flip d)) ans (frame (sql @ [NUL])) (flip d)" using d by (simp add: owes_flip)
  from endpoint.round_read [OF server_end this] in_time sel room sql obtain s e where
    s: "CServer_round (\<lambda>i s. s) (sock_b d) = Inr (s, Some (new_CSqlTask aa sql))" "sock_a e = s"
    and e: "takes (flipped step) aa (flip d) e" "owes (\<lambda>d. invar (flip d)) ans [] e" by auto
  have "owes invar [] ans (flip e)" using e(2) by (simp add: owes_flip)
  then show ?thesis
    using s e(1) flipped_steps [of step "flip d" e]
    by (intro exI [of _ s] exI [of _ "flip e"]) (simp add: takes_def)
qed

lemma server_task:
  assumes d: "owes invar req [] d" and room: "nb + int (length (sent_ba d)) + 10 < 2 ^ 31"
    and db: "Query_res api sql None db = Inr (n, res, db')" "replyable res"
  shows "\<exists>s es d'. Execute api (new_CSqlTask aa sql) (sock_b d, db) = Inr (0, s, db', es) \<and> step\<^sup>*\<^sup>* d d' \<and> sock_b d' = s
     \<and> sent_ab d' = sent_ab d \<and> owes invar req (reply n res) d'"
proof -
  have "owes (\<lambda>d. invar (flip d)) [] req (flip d)" using d by (simp add: owes_flip)
  from endpoint.task_answers [OF server_end this _ db] room obtain s es e where
    s: "Execute api (new_CSqlTask aa sql) (sock_b d, db) = Inr (0, s, db', es)" "sock_a e = s"
    and e: "sends (flipped step) (reply n res) 10 (flip d) e" "owes (\<lambda>d. invar (flip d)) (reply n res) req e" by auto
  have "owes invar req (reply n res) (flip e)" using e(2) by (simp add: owes_flip)
  then show ?thesis
    using s e(1) flipped_steps [of step "flip d" e]
    by (intro exI [of _ s] exI [of _ es] exI [of _ "flip e"]) (simp add: sends_def)
qed

end

end
