(* ===== verification/Exchange.thy ===== *)
theory Exchange
  imports Endpoint
begin

text \<open>
  Requests and answers over a connection in use: what the client's \<open>SendSql\<close> and the server's tasks hand to the sockets is,
  in every interleaving of both directions and of all other connections, what the server's loop and the client
  read; and after each exchange the connection is quiet again, so the next one follows in the same way. The end \<open>a\<close>
  is the client.
\<close>

section \<open>Every exchange\<close>

context link begin

lemma seen_later:
  assumes d5: "owes invar [] (reply n res) d5" and room: "na + int (length (sent_ab d5)) < 2 ^ 31"
    and res: "replyable res" and client: "m_serverAddr (m_tcpClient w) = ab"
  shows "\<forall>d6. (net_step step)\<^sup>*\<^sup>* d5 d6 \<longrightarrow> arrived ab (reply n res) (sock_a d6) \<longrightarrow>
      (\<exists>w7 d7. client_sees nDel n res (dlg_sock w (sock_a d6)) w7
        \<and> step\<^sup>*\<^sup>* d6 d7 \<and> sock_a d7 = base_socket (m_tcpClient w7) \<and> quiet d7)"
proof (intro allI impI)
  fix d6 assume d6: "(net_step step)\<^sup>*\<^sup>* d5 d6" "arrived ab (reply n res) (sock_a d6)"
  have "na + int (length (sent_ab d6)) < 2 ^ 31" using net_steps [OF d6(1)] room by simp
  from client_reads [OF net_owes [OF d6(1) d5] d6(2) this res, of "dlg_sock w (sock_a d6)" nDel]
  show "\<exists>w7 d7. client_sees nDel n res (dlg_sock w (sock_a d6)) w7
      \<and> step\<^sup>*\<^sup>* d6 d7 \<and> sock_a d7 = base_socket (m_tcpClient w7) \<and> quiet d7"
    unfolding owes_quiet dlg_sock_sel takes_def using client by blast
qed

lemma exchange:
  assumes start: "invar d" "quiet d"
    and room: "na + int (length (sent_ab d)) + 5 < 2 ^ 31" "nb + int (length (sent_ba d)) + 10 < 2 ^ 31"
    and client: "base_socket (m_tcpClient w) = sock_a d" "m_serverAddr (m_tcpClient w) = ab"
    and sql: "length sql < 0x1000 - 1" "NUL \<notin> set sql"
    and db: "Query_res api sql None db = Inr (n, res, db')" "replyable res"
  shows "\<exists>s1 d1. SendSql sql w = Inr (dlg_sock w s1) \<and> step\<^sup>*\<^sup>* d d1 \<and> sock_a d1 = s1 \<and>
     (\<forall>d2 s2. (net_step step)\<^sup>*\<^sup>* d1 d2 \<longrightarrow> arrived aa (frame (sql @ [NUL])) (sock_b d2) \<longrightarrow> Select (sock_b d2) = Some (aa, s2) \<longrightarrow>
       (\<exists>s3 d3. CServer_round (\<lambda>i s. s) (sock_b d2) = Inr (s3, Some (new_CSqlTask aa sql)) \<and> step\<^sup>*\<^sup>* d2 d3 \<and> sock_b d3 = s3 \<and>
         (\<forall>d4. (net_step step)\<^sup>*\<^sup>* d3 d4 \<longrightarrow>
           (\<exists>s5 es d5. Execute api (new_CSqlTask aa sql) (sock_b d4, db) = Inr (0, s5, db', es) \<and> step\<^sup>*\<^sup>* d4 d5 \<and> sock_b d5 = s5 \<and>
             (\<forall>d6. (net_step step)\<^sup>*\<^sup>* d5 d6 \<longrightarrow> arrived ab (reply n res) (sock_a d6) \<longrightarrow>
               (\<exists>w7 d7. client_sees nDel n res (dlg_sock w (sock_a d6)) w7
                 \<and> step\<^sup>*\<^sup>* d6 d7 \<and> sock_a d7 = base_socket (m_tcpClient w7) \<and> quiet d7))))))"
proof -
  have "owes invar [] [] d" using start by (simp add: owes_quiet)
  from client_sends [OF this room(1) client sql(1)] obtain s1 d1 where
    1: "SendSql sql w = Inr (dlg_sock w s1)" "sock_a d1 = s1" "sends step (frame (sql @ [NUL])) 5 d d1"
      and o1: "owes invar (frame (sql @ [NUL])) [] d1"
    unfolding dlg_sock_def by blast
  have sent: "na + int (length (sent_ab d1)) < 2 ^ 31" "sent_ba d1 = sent_ba d" "step\<^sup>*\<^sup>* d d1"
    using 1(3) room(1) by (auto simp: sends_def)
  let ?seen = "\<lambda>d5. \<forall>d6. (net_step step)\<^sup>*\<^sup>* d5 d6 \<longrightarrow> arrived ab (reply n res) (sock_a d6) \<longrightarrow>
      (\<exists>w7 d7. client_sees nDel n res (dlg_sock w (sock_a d6)) w7
        \<and> step\<^sup>*\<^sup>* d6 d7 \<and> sock_a d7 = base_socket (m_tcpClient w7) \<and> quiet d7)"
  let ?answered = "\<lambda>d3. \<forall>d4. (net_step step)\<^sup>*\<^sup>* d3 d4 \<longrightarrow>
      (\<exists>s5 es d5. Execute api (new_CSqlTask aa sql) (sock_b d4, db) = Inr (0, s5, db', es) \<and> step\<^sup>*\<^sup>* d4 d5 \<and> sock_b d5 = s5
        \<and> ?seen d5)"
  have answered: "?answered d3" if d3: "sent_ab d3 = sent_ab d1" "sent_ba d3 = sent_ba d" "owes invar [] [] d3" for d3
  proof (intro allI impI)
    fix d4 assume d4: "(net_step step)\<^sup>*\<^sup>* d3 d4"
    have "nb + int (length (sent_ba d4)) + 10 < 2 ^ 31" using net_steps [OF d4] d3(2) room(2) by simp
    from server_task [OF net_owes [OF d4 d3(3)] this db] obtain s5 es d5 where
      "Execute api (new_CSqlTask aa sql) (sock_b d4, db) = Inr (0, s5, db', es)" "step\<^sup>*\<^sup>* d4 d5" "sock_b d5 = s5"
      and d5: "sent_ab d5 = sent_ab d4" "owes invar [] (reply n res) d5" by blast
    moreover have "?seen d5"
      using d5(1) net_steps [OF d4] d3(1) sent(1) by (intro seen_later [OF d5(2) _ db(2) client(2)]) simp
    ultimately show "\<exists>s5 es d5. Execute api (new_CSqlTask aa sql) (sock_b d4, db) = Inr (0, s5, db', es)
        \<and> step\<^sup>*\<^sup>* d4 d5 \<and> sock_b d5 = s5 \<and> ?seen d5" by blast
  qed
  have "\<exists>s3 d3. CServer_round (\<lambda>i s. s) (sock_b d2) = Inr (s3, Some (new_CSqlTask aa sql)) \<and> step\<^sup>*\<^sup>* d2 d3 \<and> sock_b d3 = s3
      \<and> ?answered d3"
    if d2: "(net_step step)\<^sup>*\<^sup>* d1 d2" "arrived aa (frame (sql @ [NUL])) (sock_b d2)" "Select (sock_b d2) = Some (aa, s2)" for d2 s2
  proof -
    have "nb + int (length (sent_ba d2)) < 2 ^ 31" using net_steps [OF d2(1)] sent(2) room(2) by simp
    from server_round [OF net_owes [OF d2(1) o1] d2(2,3) this sql] obtain s3 d3 where
      "CServer_round (\<lambda>i s. s) (sock_b d2) = Inr (s3, Some (new_CSqlTask aa sql))" "step\<^sup>*\<^sup>* d2 d3" "sock_b d3 = s3"
      and d3: "sent_ab d3 = sent_ab d2" "sent_ba d3 = sent_ba d2" "owes invar [] [] d3" by blast
    moreover have "?answered d3" using d3 net_steps [OF d2(1)] sent(2) by (intro answered) simp_all
    ultimately show ?thesis by blast
  qed
  with 1(1,2) sent(3) show ?thesis by blast
qed

end

section \<open>The contracts hold\<close>

lemma flipped_dx: "flipped (dx_step aa ab) = dx_step ab aa"
  using dx_step_flip [of aa ab] dx_step_flip [of ab aa] by (intro ext) (metis flip_flip flipped_def)

interpretation dx_end: endpoint "dx_step aa ab" "dx_inv na nb aa ab" na ab for aa ab na nb
proof unfold_locales
  fix d assume inv: "dx_inv na nb aa ab d"
  show "table_ok (sock_a d) \<and> - (2 ^ 31) \<le> na \<and> m_nNextSendSeq (conn_of ab (sock_a d)) = na + int (length (sent_ab d))"
    using dx_inv_counter [OF inv] by simp
  show "\<exists>k. taken_a d @ incoming ab (sock_a d) = concat (take k (sent_ba d))"
    using inv by (auto simp: dx_inv_def ch_inv_def rcv_inv_def delivered_def incoming_def)
qed (rule dx_step.left)

interpretation dx: link "dx_step aa ab" "dx_inv na nb aa ab" na nb aa ab for aa ab na nb
  by (rule link.intro) (simp_all add: dx_end.endpoint_axioms flipped_dx dx_inv_flip)

lemma flipped_crowd: "flipped (crowd_step aa ab) = crowd_step ab aa"
proof -
  have "crowd_step ab aa d (flip e)" if "crowd_step aa ab (flip d) e" for aa ab d e
    using that by (cases rule: crowd_step.cases) (auto intro: crowd_step.intros)
  then show ?thesis by (intro ext) (metis flip_flip flipped_def)
qed

interpretation crowd_end: endpoint "crowd_step aa ab" "crowd_inv na nb aa ab" na ab for aa ab na nb
proof unfold_locales
  fix d assume inv: "crowd_inv na nb aa ab d"
  then show "table_ok (sock_a d) \<and> - (2 ^ 31) \<le> na \<and> m_nNextSendSeq (conn_of ab (sock_a d)) = na + int (length (sent_ab d))"
    by (simp add: crowd_inv_def end_ok_def numbering_def)
  show "\<exists>k. taken_a d @ incoming ab (sock_a d) = concat (take k (sent_ba d))"
    using inv by (auto simp: crowd_inv_def end_ok_def delivered_def incoming_def)
qed (auto intro: crowd_step.intros busy_step.intros crowd_step_inv)

interpretation crowded: link "crowd_step aa ab" "crowd_inv na nb aa ab" na nb aa ab for aa ab na nb
  by (rule link.intro) (simp_all add: crowd_end.endpoint_axioms flipped_crowd crowd_inv_flip)

section \<open>What is sent can arrive\<close>

lemma still_steps:
  assumes "(dx_step aa ab)\<^sup>*\<^sup>* d d'" and "sent_ab d' = sent_ab d" "sent_ba d' = sent_ba d"
    "taken_a d' = taken_a d" "taken_b d' = taken_b d"
  shows "(net_step (dx_step aa ab))\<^sup>*\<^sup>* d d'"
  using assms
proof (induction rule: rtranclp_induct)
  case (step e f)
  have "grows d e" "grows e f" using step(1,2) dx_steps_grow dx_step_grows by blast+
  then have "sent_ab e = sent_ab d" "sent_ba e = sent_ba d" "taken_a e = taken_a d" "taken_b e = taken_b d"
    using step.prems by (auto simp: grows_def intro: prefix_order.antisym)
  with step.IH step(2) step.prems show ?case
    by (auto simp: net_step_def intro: rtranclp.rtrancl_into_rtrancl)
qed simp

lemma can_arrive:
  assumes d: "owes (dx_inv na nb aa ab) w ans d" and new: "fresh_conn na (conn_of aa (sock_b d))"
  shows "\<exists>d'. (net_step (dx_step aa ab))\<^sup>*\<^sup>* d d' \<and> incoming aa (sock_b d') = w \<and> owes (dx_inv na nb aa ab) w ans d'"
proof -
  have inv: "dx_inv na nb aa ab d" "ch_inv na aa ab (view d)" using d by (simp_all add: owes_def dx_inv_def)
  then have "taken (view d) = []" using new by (auto simp: ch_inv_def rcv_inv_def delivered_def fresh_conn_def)
  moreover have "{..<length (sent (view d))} \<subseteq> queued na (snd_sock (view d))"
    using inv(2) new by (auto simp: ch_inv_def no_loss_def received_def fresh_conn_def)
  ultimately obtain c where c: "(ch_step aa ab)\<^sup>*\<^sup>* (view d) c" "sent c = sent (view d)" "taken c = taken (view d)"
      "incoming aa (rcv_sock c) = concat (sent (view d))"
    using deliver_all [OF inv(2)] new by auto
  obtain d' where d': "(dx_step aa ab)\<^sup>*\<^sup>* d d'" "view d' = c" "sent_ba d' = sent_ba d" "taken_a d' = taken_a d"
    using ch_steps_lift [OF c(1) inv(1)] by blast
  have net: "(net_step (dx_step aa ab))\<^sup>*\<^sup>* d d'"
    by (rule still_steps [OF d'(1)]) (use c(2,3) d'(2-4) in auto)
  have "incoming aa (sock_b d') = w"
    using c(4) d \<open>taken (view d) = []\<close> by (simp add: d'(2) [symmetric] owes_def)
  then show ?thesis using net dx.net_owes [OF net d] by blast
qed

lemma net_steps_flip: "(net_step (dx_step ab aa))\<^sup>*\<^sup>* (flip d) e \<Longrightarrow> (net_step (dx_step aa ab))\<^sup>*\<^sup>* d (flip e)"
proof (induction rule: rtranclp_induct)
  case (step e e')
  have "net_step (dx_step aa ab) (flip e) (flip e')"
    using step(2) dx_step_flip [of ab aa "flip e" e'] by (simp add: net_step_def)
  with step.IH show ?case by (rule rtranclp.rtrancl_into_rtrancl)
qed simp

lemma dx_owes_flip: "owes (dx_inv nb na ab aa) ans req (flip d) \<longleftrightarrow> owes (dx_inv na nb aa ab) req ans d"
  by (auto simp: owes_def dx_inv_flip)

lemma answer_can_arrive:
  assumes d: "owes (dx_inv na nb aa ab) req w d" and new: "fresh_conn nb (conn_of ab (sock_a d))"
  shows "\<exists>d'. (net_step (dx_step aa ab))\<^sup>*\<^sup>* d d' \<and> incoming ab (sock_a d') = w \<and> owes (dx_inv na nb aa ab) req w d'"
proof -
  have f: "owes (dx_inv nb na ab aa) w req (flip d)" using d by (simp add: dx_owes_flip)
  have "fresh_conn nb (conn_of ab (sock_b (flip d)))" using new by simp
  from can_arrive [OF f this] obtain e where e: "(net_step (dx_step ab aa))\<^sup>*\<^sup>* (flip d) e"
      "incoming ab (sock_b e) = w" "owes (dx_inv nb na ab aa) w req (flip (flip e))" by auto
  then have "owes (dx_inv na nb aa ab) req w (flip e)" unfolding dx_owes_flip by blast
  then show ?thesis using e(2) net_steps_flip [OF e(1)] by (intro exI [of _ "flip e"]) simp
qed

text \<open>An end to which nothing was sent is as new.\<close>

lemma new_end:
  "dx_inv na nb aa ab d \<Longrightarrow> sent_ab d = [] \<Longrightarrow> fresh_conn na (conn_of aa (sock_b d))"
  using new_channel_fresh(1) [of na aa ab "view d"] by (simp add: dx_inv_def)

lemma frame_small: "length w \<le> 0x1000 \<Longrightarrow> length (frame w) \<le> 0x1004"
  by (simp add: frame_def)

lemma answer_small: "answerable res \<Longrightarrow> length (answer res) \<le> 0x2008"
  using frame_small [of "flat (res_fields res)"] frame_small [of "flat (map the (concat (res_rows res)))"]
  by (simp add: answer_def answerable_def)

section \<open>Properties\<close>

lemma dx_start_quiet: "dx_start na nb aa ab d \<Longrightarrow> quiet d \<and> sent_ab d = [] \<and> sent_ba d = []"
  by (simp add: dx_start_def ch_start_def quiet_def)

text \<open>A dialog on the example connection.\<close>

definition dlg_example :: CSchoolSystemDlg where
  "dlg_example = (dlg_with [])\<lparr>m_tcpClient := with_socket (client_init peer_example) (sock_a dx_example)\<rparr>"

lemma dlg_example_client:
  "base_socket (m_tcpClient dlg_example) = sock_a dx_example" "m_serverAddr (m_tcpClient dlg_example) = peer_example"
  by (simp_all add: dlg_example_def client_init_def)

text \<open>A database with one result set.\<close>

definition api_example :: "unit mysql_api" where
  "api_example = api_ok\<lparr>mysql_use_result := \<lambda>db. (Some (res_example (Some ''90'')), db)\<rparr>"

lemma api_example_query:
  "Query_res api_example sql None () = Inr (0, Some (res_example (Some ''90'')), ())" "replyable (Some (res_example (Some ''90'')))"
  using res_example_ok
  by (simp_all add: Query_res_def api_example_def api_ok_def api_failing_def int32_range_def replyable_def)



text \<open>
  C4. The first exchange can be completed: on a connection just established there is a run in which the client's
  request is sent, arrives and is read by the server, the answer is sent, arrives and is shown, and the
  connection is quiet again.
\<close>

theorem first_exchange_completes:
  assumes start: "dx_start na nb aa ab d0" "na + 5 < 2 ^ 31" "nb + 10 < 2 ^ 31"
    and client: "base_socket (m_tcpClient w) = sock_a d0" "m_serverAddr (m_tcpClient w) = ab"
    and sql: "length sql < 0x1000 - 1" "NUL \<notin> set sql" and res: "answerable res" "tabular res"
  shows "\<exists>s1 d1 d2 s3 d3 s5 es d5 d6 w7 d7.
       SendSql sql w = Inr (dlg_sock w s1) \<and> (dx_step aa ab)\<^sup>*\<^sup>* d0 d1 \<and> sock_a d1 = s1
     \<and> (net_step (dx_step aa ab))\<^sup>*\<^sup>* d1 d2
     \<and> read_request (\<lambda>i s. s) aa (sock_b d2) = Inr (s3, Some sql) \<and> (dx_step aa ab)\<^sup>*\<^sup>* d2 d3 \<and> sock_b d3 = s3
     \<and> SendResByteAry res aa s3 = Inr (s5, es) \<and> (dx_step aa ab)\<^sup>*\<^sup>* d3 d5 \<and> sock_b d5 = s5
     \<and> (net_step (dx_step aa ab))\<^sup>*\<^sup>* d5 d6
     \<and> ShowList nDel (\<lambda>_ c. c) (dlg_sock w (sock_a d6)) = Some (Inr (w7, clear_calls nDel @ table_calls (m_fieldMap w) res))
     \<and> (dx_step aa ab)\<^sup>*\<^sup>* d6 d7 \<and> sock_a d7 = base_socket (m_tcpClient w7) \<and> quiet d7"
proof -
  have d0: "owes (dx_inv na nb aa ab) [] [] d0" "sent_ab d0 = []" "sent_ba d0 = []" "dx_inv na nb aa ab d0"
    using dx_start_inv [OF start(1)] dx_start_quiet [OF start(1)] by (simp_all add: owes_quiet)
  have room0: "na + int (length (sent_ab d0)) + 5 < 2 ^ 31" using start(2) d0(2) by simp
  from dx.client_sends [OF d0(1) room0 client sql(1)] obtain s1 d1 where
    1: "SendSql sql w = Inr (dlg_sock w s1)" "sock_a d1 = s1" and sends: "sends (dx_step aa ab) (frame (sql @ [NUL])) 5 d0 d1"
      and o1: "owes (dx_inv na nb aa ab) (frame (sql @ [NUL])) [] d1"
    unfolding dlg_sock_def by blast
  have d1: "(dx_step aa ab)\<^sup>*\<^sup>* d0 d1" "sent_ba d1 = []" "length (sent_ab d1) \<le> 5" "sock_b d1 = sock_b d0"
    using sends d0(2,3) by (simp_all add: sends_def)
  have "fresh_conn na (conn_of aa (sock_b d1))" using new_end [OF d0(4,2)] d1(4) by simp
  from can_arrive [OF o1 this] obtain d2 where 2: "(net_step (dx_step aa ab))\<^sup>*\<^sup>* d1 d2"
      "incoming aa (sock_b d2) = frame (sql @ [NUL])" and o2: "owes (dx_inv na nb aa ab) (frame (sql @ [NUL])) [] d2" by blast
  have sent2: "length (sent_ab d2) \<le> 5" "sent_ba d2 = []" using dx.net_steps [OF 2(1)] d1(2,3) by simp_all
  have "length (frame (sql @ [NUL])) \<le> 0x1004" using sql(1) by (intro frame_small) simp
  then have a2: "arrived aa (frame (sql @ [NUL])) (sock_b d2)" using 2(2) by (simp add: arrived_def)
  have room2: "nb + int (length (sent_ba d2)) < 2 ^ 31" using sent2(2) start(3) by simp
  from dx.server_reads [OF o2 a2 room2 sql] obtain s3 d3 where
    3: "read_request (\<lambda>i s. s) aa (sock_b d2) = Inr (s3, Some sql)" "(dx_step aa ab)\<^sup>*\<^sup>* d2 d3" "sock_b d3 = s3"
      "sent_ab d3 = sent_ab d2" "sent_ba d3 = sent_ba d2" and o3: "owes (dx_inv na nb aa ab) [] [] d3" by blast
  have room3: "nb + int (length (sent_ba d3)) + 10 < 2 ^ 31" using 3(5) sent2(2) start(3) by simp
  from dx.server_answers [OF o3 room3 res(1)] obtain s5 es d5 where
    5: "SendResByteAry res aa (sock_b d3) = Inr (s5, es)" "(dx_step aa ab)\<^sup>*\<^sup>* d3 d5" "sock_b d5 = s5"
      "sock_a d5 = sock_a d3" "sent_ab d5 = sent_ab d3" and o5: "owes (dx_inv na nb aa ab) [] (answer res) d5" by blast
  have "dx_inv nb na ab aa (flip d3)" using o3 by (simp add: owes_def dx_inv_flip)
  from new_end [OF this] 3(5) sent2(2) 5(4) have "fresh_conn nb (conn_of ab (sock_a d5))" by simp
  from answer_can_arrive [OF o5 this] obtain d6 where 6: "(net_step (dx_step aa ab))\<^sup>*\<^sup>* d5 d6"
      "incoming ab (sock_a d6) = answer res" and o6: "owes (dx_inv na nb aa ab) [] (answer res) d6" by blast
  have a6: "arrived ab (answer res) (sock_a d6)" using answer_small [OF res(1)] 6(2) by (simp add: arrived_def)
  have room6: "na + int (length (sent_ab d6)) < 2 ^ 31"
    using dx.net_steps [OF 6(1)] 5(5) 3(4) sent2(1) start(2) by simp
  from dx.client_shows [OF o6 a6 room6 res, of "dlg_sock w (sock_a d6)" nDel] client(2) obtain w7 d7 where
    "ShowList nDel (\<lambda>_ c. c) (dlg_sock w (sock_a d6))
        = Some (Inr (w7, clear_calls nDel @ table_calls (m_fieldMap w) res))"
    "(dx_step aa ab)\<^sup>*\<^sup>* d6 d7" "sock_a d7 = base_socket (m_tcpClient w7)" "quiet d7"
    unfolding owes_quiet dlg_sock_sel takes_def by blast
  with 1 d1(1) 2(1) 3(1-3) 5(1-3) [unfolded 3(3)] 6(1) show ?thesis by blast
qed

theorem first_exchange_completes_witness:
  "\<exists>s1 (d2 :: duplex) s3 s5 es (d6 :: duplex) w7. SendSql ''SELECT 1'' dlg_example = Inr (dlg_sock dlg_example s1)
     \<and> read_request (\<lambda>i s. s) addr_example (sock_b d2) = Inr (s3, Some ''SELECT 1'')
     \<and> SendResByteAry (res_example (Some ''90'')) addr_example s3 = Inr (s5, es)
     \<and> ShowList 0 (\<lambda>_ c. c) (dlg_sock dlg_example (sock_a d6))
       = Some (Inr (w7, clear_calls 0 @ table_calls (m_fieldMap dlg_example) (res_example (Some ''90''))))"
proof -
  have sql: "length ''SELECT 1'' < 0x1000 - 1" "NUL \<notin> set ''SELECT 1''" "(1::int) + 5 < 2 ^ 31" "(0::int) + 10 < 2 ^ 31"
    by simp_all
  show ?thesis
    using first_exchange_completes [OF dx_example_start sql(3,4) dlg_example_client sql(1,2) res_example_ok, of 0]
    by blast
qed

end
