(* ===== verification/ThreadPool.thy ===== *)
theory ThreadPool
  imports Prelude
begin

text \<open>
  \<open>SchoolSystemServer/CThreadPool\<close>: a task queue guarded by a critical section, a counting
  semaphore of queued tasks, a manual-reset event for shutdown, and worker threads created on
  demand. The threads run concurrently, so the component is a step relation: one rule per
  statement that touches shared state, its guard the documented behaviour of the Win32 object it
  waits for (a free critical section, a positive semaphore, a signalled event).
\<close>

section \<open>State\<close>

text \<open>Where a worker is in \<open>ThreadProc\<close>.\<close>

datatype 't worker =
    AtIncrement
  | AtWait
  | AtDecrement
  | AtEnter
  | InCS
  | AtLeave 't
  | Executing 't
  | Returned

text \<open>Where the thread that owns the pool is: in \<open>AddTask\<close>, outside it, or in the destructor.\<close>

datatype 't owner =
    Outside
  | AddEntered 't
  | AddReleased 't
  | AddLeave
  | AddCheck
  | Destroying

record 't pool =
  m_nMaxThreads :: nat
  m_nCurThreads :: nat
  m_nIdleThreads :: nat
  handle_slots :: nat
  m_taskQueue :: "'t list"
  stop_event :: bool
  task_sem :: nat
  sem_limit :: nat
  cs_taken :: bool
  workers :: "'t worker list"
  owner_pc :: "'t owner"
  accepted :: "'t list"
  popped :: "'t list"
  dropped :: "'t list"
  aborted :: "'t list"
  broken :: bool

text \<open>
  The constructor: \<open>cpus\<close> is \<open>dwNumberOfProcessors\<close>. The last fields are not part of the C++
  object: \<open>handle_slots\<close> is the size of the handle array, \<open>accepted\<close>, \<open>popped\<close>, \<open>dropped\<close> and
  \<open>aborted\<close> record the history of tasks, \<open>broken\<close> an access outside the queue or the array.
\<close>

definition CThreadPool :: "nat \<Rightarrow> 't pool" where
  "CThreadPool cpus =
     \<lparr>m_nMaxThreads = cpus, m_nCurThreads = 0, m_nIdleThreads = 0, handle_slots = cpus,
      m_taskQueue = [], stop_event = False, task_sem = 0, sem_limit = cpus * 1000, cs_taken = False,
      workers = [], owner_pc = Outside, accepted = [], popped = [], dropped = [], aborted = [],
      broken = False\<rparr>"

text \<open>The constructor with a wished number of threads, which only lowers the maximum.\<close>

definition CThreadPool_max :: "nat \<Rightarrow> nat \<Rightarrow> 't pool" where
  "CThreadPool_max cpus nMaxThreads =
     (let p = CThreadPool cpus
      in if 1 \<le> nMaxThreads \<and> nMaxThreads \<le> m_nMaxThreads p then p\<lparr>m_nMaxThreads := nMaxThreads\<rparr> else p)"

section \<open>Steps\<close>

text \<open>The owner's steps: \<open>AddTask\<close> statement by statement, and the destructor.\<close>

inductive owner_step :: "'t pool \<Rightarrow> 't pool \<Rightarrow> bool" where
  add_enter: "owner_pc p = Outside \<Longrightarrow> \<not> cs_taken p \<Longrightarrow>
     owner_step p (p\<lparr>owner_pc := AddEntered t, cs_taken := True\<rparr>)"
| add_release: "owner_pc p = AddEntered t \<Longrightarrow> task_sem p < sem_limit p \<Longrightarrow>
     owner_step p (p\<lparr>owner_pc := AddReleased t, task_sem := task_sem p + 1\<rparr>)"
| add_drop: "owner_pc p = AddEntered t \<Longrightarrow> \<not> task_sem p < sem_limit p \<Longrightarrow>
     owner_step p (p\<lparr>owner_pc := AddLeave, dropped := dropped p @ [t]\<rparr>)"
| add_push: "owner_pc p = AddReleased t \<Longrightarrow>
     owner_step p (p\<lparr>owner_pc := AddLeave, m_taskQueue := m_taskQueue p @ [t], accepted := accepted p @ [t]\<rparr>)"
| add_leave: "owner_pc p = AddLeave \<Longrightarrow>
     owner_step p (p\<lparr>owner_pc := AddCheck, cs_taken := False\<rparr>)"
| add_thread: "owner_pc p = AddCheck \<Longrightarrow> m_nIdleThreads p = 0 \<and> m_nCurThreads p < m_nMaxThreads p \<Longrightarrow>
     owner_step p (p\<lparr>owner_pc := Outside, m_nCurThreads := inc_u32 (m_nCurThreads p),
       workers := workers p @ [AtIncrement], broken := (broken p \<or> handle_slots p \<le> m_nCurThreads p)\<rparr>)"
| add_done: "owner_pc p = AddCheck \<Longrightarrow> \<not> (m_nIdleThreads p = 0 \<and> m_nCurThreads p < m_nMaxThreads p) \<Longrightarrow>
     owner_step p (p\<lparr>owner_pc := Outside\<rparr>)"
| destroy_signal: "owner_pc p = Outside \<Longrightarrow>
     owner_step p (p\<lparr>owner_pc := Destroying, stop_event := True\<rparr>)"
| destroy_abort: "owner_pc p = Destroying \<Longrightarrow> \<forall>w \<in> set (workers p). w = Returned \<Longrightarrow> m_taskQueue p = t # q \<Longrightarrow>
     owner_step p (p\<lparr>m_taskQueue := q, popped := popped p @ [t], aborted := aborted p @ [t]\<rparr>)"

text \<open>
  The steps of worker \<open>i\<close>. \<open>WaitForMultipleObjects\<close> reports the event before the semaphore when
  both are signalled.
\<close>

inductive worker_step :: "nat \<Rightarrow> 't pool \<Rightarrow> 't pool \<Rightarrow> bool" for i where
  increment: "i < length (workers p) \<Longrightarrow> workers p ! i = AtIncrement \<Longrightarrow>
     worker_step i p (p\<lparr>workers := (workers p)[i := AtWait], m_nIdleThreads := inc_u32 (m_nIdleThreads p)\<rparr>)"
| stop: "i < length (workers p) \<Longrightarrow> workers p ! i = AtWait \<Longrightarrow> stop_event p \<Longrightarrow>
     worker_step i p (p\<lparr>workers := (workers p)[i := Returned]\<rparr>)"
| wake: "i < length (workers p) \<Longrightarrow> workers p ! i = AtWait \<Longrightarrow> \<not> stop_event p \<Longrightarrow> 0 < task_sem p \<Longrightarrow>
     worker_step i p (p\<lparr>workers := (workers p)[i := AtDecrement], task_sem := task_sem p - 1\<rparr>)"
| decrement: "i < length (workers p) \<Longrightarrow> workers p ! i = AtDecrement \<Longrightarrow>
     worker_step i p (p\<lparr>workers := (workers p)[i := AtEnter], m_nIdleThreads := dec_u32 (m_nIdleThreads p)\<rparr>)"
| enter: "i < length (workers p) \<Longrightarrow> workers p ! i = AtEnter \<Longrightarrow> \<not> cs_taken p \<Longrightarrow>
     worker_step i p (p\<lparr>workers := (workers p)[i := InCS], cs_taken := True\<rparr>)"
| pop: "i < length (workers p) \<Longrightarrow> workers p ! i = InCS \<Longrightarrow> m_taskQueue p = t # q \<Longrightarrow>
     worker_step i p (p\<lparr>workers := (workers p)[i := AtLeave t], m_taskQueue := q, popped := popped p @ [t]\<rparr>)"
| pop_empty: "i < length (workers p) \<Longrightarrow> workers p ! i = InCS \<Longrightarrow> m_taskQueue p = [] \<Longrightarrow>
     worker_step i p (p\<lparr>broken := True\<rparr>)"
| leave: "i < length (workers p) \<Longrightarrow> workers p ! i = AtLeave t \<Longrightarrow>
     worker_step i p (p\<lparr>workers := (workers p)[i := Executing t], cs_taken := False\<rparr>)"
| finish: "i < length (workers p) \<Longrightarrow> workers p ! i = Executing t \<Longrightarrow>
     worker_step i p (p\<lparr>workers := (workers p)[i := AtIncrement]\<rparr>)"

inductive pool_step :: "'t pool \<Rightarrow> 't pool \<Rightarrow> bool" where
  by_owner: "owner_step p q \<Longrightarrow> pool_step p q"
| by_worker: "worker_step i p q \<Longrightarrow> pool_step p q"

inductive_cases pool_stepE: "pool_step p q"
inductive_cases owner_stepE: "owner_step p q"
inductive_cases worker_stepE: "worker_step i p q"

section \<open>The invariant\<close>

text \<open>Workers that have taken a permit and not yet a task.\<close>

fun holds_permit :: "'t worker \<Rightarrow> nat" where
  "holds_permit AtDecrement = 1"
| "holds_permit AtEnter = 1"
| "holds_permit InCS = 1"
| "holds_permit _ = 0"

fun counts_idle :: "'t worker \<Rightarrow> nat" where
  "counts_idle AtWait = 1"
| "counts_idle AtDecrement = 1"
| "counts_idle Returned = 1"
| "counts_idle _ = 0"

fun in_section :: "'t worker \<Rightarrow> nat" where
  "in_section InCS = 1"
| "in_section (AtLeave _) = 1"
| "in_section _ = 0"

fun owner_in_section :: "'t owner \<Rightarrow> nat" where
  "owner_in_section (AddEntered _) = 1"
| "owner_in_section (AddReleased _) = 1"
| "owner_in_section AddLeave = 1"
| "owner_in_section _ = 0"

fun owner_ahead :: "'t owner \<Rightarrow> nat" where
  "owner_ahead (AddReleased _) = 1"
| "owner_ahead _ = 0"

abbreviation total :: "('t worker \<Rightarrow> nat) \<Rightarrow> 't pool \<Rightarrow> nat" where
  "total w p \<equiv> sum_list (map w (workers p))"

definition mutex_inv :: "'t pool \<Rightarrow> bool" where
  "mutex_inv p \<longleftrightarrow> total in_section p + owner_in_section (owner_pc p) = (if cs_taken p then 1 else 0)"

text \<open>While the pool runs, permits given out and permits left match the queue.\<close>

definition permit_inv :: "'t pool \<Rightarrow> bool" where
  "permit_inv p \<longleftrightarrow>
     (\<not> (owner_pc p = Destroying \<and> (\<forall>w \<in> set (workers p). w = Returned)) \<longrightarrow>
        task_sem p + total holds_permit p = length (m_taskQueue p) + owner_ahead (owner_pc p))"

definition count_inv :: "'t pool \<Rightarrow> bool" where
  "count_inv p \<longleftrightarrow>
     m_nCurThreads p = length (workers p) \<and> m_nIdleThreads p = total counts_idle p
     \<and> length (workers p) \<le> m_nMaxThreads p \<and> m_nMaxThreads p \<le> handle_slots p
     \<and> handle_slots p < 2 ^ 32 - 1"

definition task_inv :: "'t pool \<Rightarrow> bool" where
  "task_inv p \<longleftrightarrow> accepted p = popped p @ m_taskQueue p \<and> \<not> broken p
     \<and> (accepted p \<noteq> [] \<and> owner_pc p \<in> {Outside, Destroying} \<longrightarrow> workers p \<noteq> []) \<and> 0 < m_nMaxThreads p"

text \<open>Workers return only during shutdown.\<close>

definition stop_inv :: "'t pool \<Rightarrow> bool" where
  "stop_inv p \<longleftrightarrow> stop_event p = (owner_pc p = Destroying) \<and> (Returned \<in> set (workers p) \<longrightarrow> stop_event p)"

definition pool_inv :: "'t pool \<Rightarrow> bool" where
  "pool_inv p \<longleftrightarrow> mutex_inv p \<and> permit_inv p \<and> count_inv p \<and> task_inv p \<and> stop_inv p"

lemmas pool_inv_defs = mutex_inv_def permit_inv_def count_inv_def task_inv_def stop_inv_def

section \<open>Steps keep the invariant\<close>

lemma worker_mutex: "worker_step i p q \<Longrightarrow> mutex_inv p \<Longrightarrow> mutex_inv q"
  by (elim worker_stepE)
    (use weight_le_sum [of i "workers p" in_section] in \<open>auto simp: mutex_inv_def sum_list_map_update split: if_splits\<close>)

lemma total_idle_le: "total counts_idle p \<le> length (workers p)"
proof (rule sum_list_weight_le)
  show "counts_idle w \<le> 1" for w :: "'t worker" by (cases w) simp_all
qed

lemma worker_count: "worker_step i p q \<Longrightarrow> count_inv p \<Longrightarrow> count_inv q"
  by (elim worker_stepE)
    (use weight_le_sum [of i "workers p" counts_idle] total_idle_le [of p]
      in \<open>auto simp: count_inv_def sum_list_map_update\<close>)

lemma worker_running:
  "worker_step i p q \<Longrightarrow> i < length (workers p) \<and> workers p ! i \<noteq> Returned"
  by (elim worker_stepE) auto

lemma worker_not_all_returned:
  assumes "worker_step i p q"
  shows "\<not> (\<forall>w \<in> set (workers p). w = Returned)"
  using worker_running [OF assms] nth_mem by blast

lemma worker_permit: "worker_step i p q \<Longrightarrow> permit_inv p \<Longrightarrow> permit_inv q"
proof -
  assume s: "worker_step i p q" and inv: "permit_inv p"
  have eq: "task_sem p + total holds_permit p = length (m_taskQueue p) + owner_ahead (owner_pc p)"
    using inv worker_not_all_returned [OF s] by (simp add: permit_inv_def)
  have "task_sem q + total holds_permit q = length (m_taskQueue q) + owner_ahead (owner_pc q)"
    using s
    by (elim worker_stepE)
      (use eq weight_le_sum [of i "workers p" holds_permit] in \<open>auto simp: sum_list_map_update\<close>)
  then show ?thesis by (simp add: permit_inv_def)
qed

text \<open>A worker inside the critical section finds a task: the pop never meets an empty queue.\<close>

lemma worker_pop_ready:
  assumes "mutex_inv p" "permit_inv p" "i < length (workers p)" "workers p ! i = InCS"
  shows "m_taskQueue p \<noteq> []"
proof -
  have "in_section (workers p ! i) \<le> total in_section p" "holds_permit (workers p ! i) \<le> total holds_permit p"
    using assms(3) by (auto intro: weight_le_sum)
  then have "owner_in_section (owner_pc p) = 0" "0 < total holds_permit p"
    using assms(1,4) by (auto simp: mutex_inv_def split: if_splits)
  moreover have "owner_ahead (owner_pc p) \<le> owner_in_section (owner_pc p)"
    by (cases "owner_pc p") simp_all
  moreover have "\<not> (\<forall>w \<in> set (workers p). w = Returned)"
    using assms(3,4) nth_mem by fastforce
  ultimately have "0 < length (m_taskQueue p)"
    using assms(2) unfolding permit_inv_def by linarith
  then show ?thesis by simp
qed

lemma worker_task:
  assumes "worker_step i p q" and "mutex_inv p" "permit_inv p" "task_inv p"
  shows "task_inv q"
  using assms(1)
  by (elim worker_stepE) (use assms worker_pop_ready [of p i] in \<open>auto simp: task_inv_def\<close>)

lemma owner_mutex: "owner_step p q \<Longrightarrow> mutex_inv p \<Longrightarrow> mutex_inv q"
  by (elim owner_stepE) (auto simp: mutex_inv_def split: if_splits)

lemma owner_count: "owner_step p q \<Longrightarrow> count_inv p \<Longrightarrow> count_inv q"
  by (elim owner_stepE) (auto simp: count_inv_def)

lemma owner_permit: "owner_step p q \<Longrightarrow> permit_inv p \<Longrightarrow> permit_inv q"
  by (elim owner_stepE) (auto simp: permit_inv_def)

lemma owner_task: "owner_step p q \<Longrightarrow> count_inv p \<Longrightarrow> task_inv p \<Longrightarrow> task_inv q"
  by (elim owner_stepE) (auto simp: task_inv_def count_inv_def)

lemma worker_stop: "worker_step i p q \<Longrightarrow> stop_inv p \<Longrightarrow> stop_inv q"
  by (elim worker_stepE) (auto simp: stop_inv_def dest: set_update_subset_insert [THEN subsetD])

lemma owner_stop: "owner_step p q \<Longrightarrow> stop_inv p \<Longrightarrow> stop_inv q"
  by (elim owner_stepE) (auto simp: stop_inv_def)

lemma pool_step_inv: "pool_step p q \<Longrightarrow> pool_inv p \<Longrightarrow> pool_inv q"
  unfolding pool_inv_def
  by (elim pool_stepE)
    (auto intro: worker_mutex worker_permit worker_count worker_task owner_mutex owner_permit owner_count owner_task
      worker_stop owner_stop)

interpretation pool: step_invariant pool_step pool_inv
  by unfold_locales (rule pool_step_inv)

lemma pool_inv_CThreadPool_max:
  "0 < cpus \<Longrightarrow> cpus < 2 ^ 32 - 1 \<Longrightarrow> pool_inv (CThreadPool_max cpus n)"
  by (simp add: pool_inv_def pool_inv_defs CThreadPool_max_def CThreadPool_def Let_def)

section \<open>Progress\<close>

text \<open>A worker that holds a permit can move, or another one is inside the critical section and can.\<close>

lemma section_progress:
  assumes "mutex_inv p" "permit_inv p" "cs_taken p" "owner_in_section (owner_pc p) = 0"
  shows "\<exists>j q. worker_step j p q"
proof -
  have "0 < total in_section p" using assms by (simp add: mutex_inv_def)
  then obtain j where j: "j < length (workers p)" "0 < in_section (workers p ! j)"
    using sum_list_pos_witness by metis
  show ?thesis
  proof (cases "workers p ! j")
    case InCS
    with j obtain t q where "m_taskQueue p = t # q"
      using worker_pop_ready [OF assms(1,2)] by (cases "m_taskQueue p") auto
    with j InCS show ?thesis by (blast intro: worker_step.pop)
  next
    case (AtLeave t)
    with j show ?thesis by (blast intro: worker_step.leave)
  qed (use j in auto)
qed

lemma permit_progress:
  assumes "mutex_inv p" "permit_inv p" "owner_in_section (owner_pc p) = 0" "0 < total holds_permit p"
  shows "\<exists>j q. worker_step j p q"
proof -
  obtain j where j: "j < length (workers p)" "0 < holds_permit (workers p ! j)"
    using assms(4) sum_list_pos_witness by metis
  show ?thesis
  proof (cases "workers p ! j")
    case AtDecrement
    with j show ?thesis by (blast intro: worker_step.decrement)
  next
    case AtEnter
    with j assms show ?thesis
      by (cases "cs_taken p") (blast intro: worker_step.enter section_progress)+
  next
    case InCS
    with j show ?thesis
      using worker_pop_ready [OF assms(1,2)] by (cases "m_taskQueue p") (auto intro: worker_step.pop)
  qed (use j in auto)
qed

lemma pool_inv_progress:
  assumes inv: "pool_inv p" and "owner_pc p = Outside" and "m_taskQueue p \<noteq> []"
  shows "\<exists>j q. worker_step j p q"
proof -
  note i = inv [unfolded pool_inv_def]
  have "accepted p \<noteq> []" and run: "\<not> stop_event p" "Returned \<notin> set (workers p)"
    using i assms(2,3) by (auto simp: task_inv_def stop_inv_def)
  then have w: "0 < length (workers p)" using i assms(2) by (auto simp: task_inv_def)
  have sec: "owner_in_section (owner_pc p) = 0" using assms(2) by simp
  show ?thesis
  proof (cases "0 < total holds_permit p")
    case True
    then show ?thesis using i sec by (blast intro: permit_progress)
  next
    case False
    moreover have "task_sem p + total holds_permit p = length (m_taskQueue p)"
      using i assms(2) by (simp add: permit_inv_def)
    ultimately have sem: "0 < task_sem p"
      using assms(3) by (metis add.right_neutral gr0I length_0_conv)
    have w0: "workers p ! 0 \<noteq> Returned" "holds_permit (workers p ! 0) = 0"
      using run(2) nth_mem [OF w] False weight_le_sum [OF w, of holds_permit] by (metis, linarith)
    show ?thesis
    proof (cases "workers p ! 0")
      case AtIncrement
      with w show ?thesis by (blast intro: worker_step.increment)
    next
      case AtWait
      with w run(1) sem show ?thesis by (blast intro: worker_step.wake)
    next
      case (AtLeave t)
      with w show ?thesis by (blast intro: worker_step.leave)
    next
      case (Executing t)
      with w show ?thesis by (blast intro: worker_step.finish)
    qed (use w0 in auto)
  qed
qed

section \<open>Properties\<close>

text \<open>
  C10. The pool is memory-safe and first-in first-out: for any interleaving of one owner and any
  number of workers, no worker takes a task from an empty queue, the handle array is never
  overrun, every accepted task is taken exactly once and in the order it was added, and at most
  one thread is inside the critical section.
\<close>

theorem pool_safe_fifo:
  assumes "0 < cpus" "cpus < 2 ^ 32 - 1" and "pool_step\<^sup>*\<^sup>* (CThreadPool_max cpus n) p"
  shows "\<not> broken p \<and> accepted p = popped p @ m_taskQueue p
     \<and> total in_section p + owner_in_section (owner_pc p) \<le> 1"
proof -
  have "pool_inv p"
    using pool_inv_CThreadPool_max [OF assms(1,2)] assms(3) by (rule pool.reachable_invar)
  then show ?thesis by (simp add: pool_inv_def pool_inv_defs)
qed

text \<open>
  C32. Bounds of the counters: there are never more worker threads than \<open>m_nMaxThreads\<close>, which never
  exceeds the number of processors; \<open>m_nCurThreads\<close> is the number of threads created, and
  \<open>m_nIdleThreads\<close> counts exactly the threads between the increment and the decrement, so neither
  unsigned counter wraps around.
\<close>

theorem pool_bounds:
  assumes "0 < cpus" "cpus < 2 ^ 32 - 1" and "pool_step\<^sup>*\<^sup>* (CThreadPool_max cpus n) p"
  shows "m_nCurThreads p = length (workers p) \<and> m_nCurThreads p \<le> m_nMaxThreads p
     \<and> m_nMaxThreads p \<le> handle_slots p \<and> m_nIdleThreads p = total counts_idle p
     \<and> m_nIdleThreads p \<le> m_nCurThreads p"
proof -
  have "pool_inv p"
    using pool_inv_CThreadPool_max [OF assms(1,2)] assms(3) by (rule pool.reachable_invar)
  then show ?thesis
    using total_idle_le [of p] by (auto simp: pool_inv_def pool_inv_defs)
qed

text \<open>
  C14. Progress: whenever the owner is outside the pool and a task is queued, some worker thread can
  take a step; a queued task is never left without a thread to run it, and the pool cannot
  deadlock on its critical section or semaphore.
\<close>

theorem pool_progress:
  assumes "0 < cpus" "cpus < 2 ^ 32 - 1" and "pool_step\<^sup>*\<^sup>* (CThreadPool_max cpus n) p"
    and "owner_pc p = Outside" and "m_taskQueue p \<noteq> []"
  shows "\<exists>j q. worker_step j p q"
proof -
  have "pool_inv p"
    using pool_inv_CThreadPool_max [OF assms(1,2)] assms(3) by (rule pool.reachable_invar)
  then show ?thesis using assms(4,5) by (rule pool_inv_progress)
qed

section \<open>A run\<close>

text \<open>The witnesses: one task added to a fresh pool, up to the creation of its worker.\<close>

definition pool_example :: "nat pool" where
  "pool_example = (CThreadPool_max 4 2)\<lparr>task_sem := 1, m_taskQueue := [7], accepted := [7],
     m_nCurThreads := 1, workers := [AtIncrement]\<rparr>"

lemma pool_example_reached: "pool_step\<^sup>*\<^sup>* (CThreadPool_max 4 2) pool_example"
proof -
  let ?p = "CThreadPool_max 4 2 :: nat pool"
  let ?p1 = "?p\<lparr>owner_pc := AddEntered 7, cs_taken := True\<rparr>"
  let ?p2 = "?p1\<lparr>owner_pc := AddReleased 7, task_sem := 1\<rparr>"
  let ?p3 = "?p2\<lparr>owner_pc := AddLeave, m_taskQueue := [7], accepted := [7]\<rparr>"
  let ?p4 = "?p3\<lparr>owner_pc := AddCheck, cs_taken := False\<rparr>"
  note simps = CThreadPool_max_def CThreadPool_def Let_def
  have "owner_step ?p ?p1" using owner_step.add_enter [of ?p 7] by (simp add: simps)
  moreover have "owner_step ?p1 ?p2" using owner_step.add_release [of ?p1 7] by (simp add: simps)
  moreover have "owner_step ?p2 ?p3" using owner_step.add_push [of ?p2 7] by (simp add: simps)
  moreover have "owner_step ?p3 ?p4" using owner_step.add_leave [of ?p3] by (simp add: simps)
  moreover have "owner_step ?p4 pool_example"
    using owner_step.add_thread [of ?p4] by (simp add: simps pool_example_def)
  ultimately show ?thesis
    by (meson by_owner converse_rtranclp_into_rtranclp rtranclp.rtrancl_refl)
qed

theorem pool_safe_fifo_witness:
  "\<not> broken pool_example \<and> accepted pool_example = popped pool_example @ m_taskQueue pool_example
     \<and> total in_section pool_example + owner_in_section (owner_pc pool_example) \<le> 1"
  by (rule pool_safe_fifo [OF _ _ pool_example_reached]) simp_all

theorem pool_bounds_witness:
  "m_nCurThreads pool_example = length (workers pool_example)
     \<and> m_nCurThreads pool_example \<le> m_nMaxThreads pool_example
     \<and> m_nMaxThreads pool_example \<le> handle_slots pool_example
     \<and> m_nIdleThreads pool_example = total counts_idle pool_example
     \<and> m_nIdleThreads pool_example \<le> m_nCurThreads pool_example"
  by (rule pool_bounds [OF _ _ pool_example_reached]) simp_all

theorem pool_progress_witness: "\<exists>j q. worker_step j pool_example q"
  by (rule pool_progress [OF _ _ pool_example_reached])
    (simp_all add: pool_example_def CThreadPool_max_def CThreadPool_def Let_def)

end
