(* ===== verification/ServerRun.thy ===== *)
theory ServerRun
  imports Server
begin

text \<open>
  The running server: the loop of \<open>CServer::CServer\<close>, the two threads of its socket, and the workers that
  execute tasks, all on the same socket and the same database connection. The steps are the calls
  the loop and \<open>CSqlTask::Execute\<close> make, so tasks interleave between them.
\<close>

section \<open>State\<close>

text \<open>Where the loop of \<open>CServer::CServer\<close> is.\<close>

datatype main_pc =
    Selecting
  | GotAddr sockaddr
  | GotLen sockaddr int
  | GotText sockaddr string

text \<open>Where a worker is in \<open>Execute\<close>; \<open>Waiting\<close> for a task in \<open>ThreadProc\<close>.\<close>

datatype stage =
    Waiting
  | Taken CSqlTask
  | Queried CSqlTask int
  | Fetched CSqlTask "MYSQL_RES option"
  | Answering CSqlTask int "MYSQL_RES option"
  | Answered CSqlTask

text \<open>\<open>dropped_conns\<close> are the connections whose task \<open>AddTask\<close> dropped because the semaphore was full.\<close>

record 'db server_run =
  sv_sock :: CTcpSocket
  sv_db :: 'db
  main_at :: main_pc
  task_queue :: "CSqlTask list"
  dropped_conns :: "sockaddr list"
  jobs :: "stage list"

section \<open>Steps\<close>

text \<open>The two threads of the socket.\<close>

inductive socket_step :: "'db server_run \<Rightarrow> 'db server_run \<Rightarrow> bool" where
  transmit: "SendThreadProc_pass clk ok (sv_sock s) = Inr (v, s', es) \<Longrightarrow> socket_step s (s\<lparr>sv_sock := s'\<rparr>)"
| receive: "RecvThreadProc_pass rcv ok (sv_sock s) = Inr (v, s', es) \<Longrightarrow> socket_step s (s\<lparr>sv_sock := s'\<rparr>)"

text \<open>
  The loop: \<open>Select\<close>, the two \<open>Recv\<close>s (a poll of an empty stream is no step), and \<open>AddTask\<close>, which
  drops the task when the semaphore is at its limit.
\<close>

inductive main_step :: "'db server_run \<Rightarrow> 'db server_run \<Rightarrow> bool" where
  main_select: "main_at s = Selecting \<Longrightarrow> Select (sv_sock s) = Some (a, s') \<Longrightarrow>
     main_step s (s\<lparr>sv_sock := s', main_at := GotAddr a\<rparr>)"
| main_len: "main_at s = GotAddr a \<Longrightarrow> Recv a (le32 0) 4 (sv_sock s) = Inr (s', Some (m, buf, es)) \<Longrightarrow>
     main_step s (s\<lparr>sv_sock := s', main_at := GotLen a (un_le32 buf)\<rparr>)"
| main_text: "main_at s = GotLen a n \<Longrightarrow>
     Recv a (replicate 0x1000 NUL) n (sv_sock s) = Inr (s', Some (m, buf, es)) \<Longrightarrow> strlen buf = Inr k \<Longrightarrow>
     main_step s (s\<lparr>sv_sock := s', main_at := GotText a (take k buf)\<rparr>)"
| main_add: "main_at s = GotText a sql \<Longrightarrow>
     main_step s (s\<lparr>main_at := Selecting, task_queue := task_queue s @ [new_CSqlTask a sql]\<rparr>)"
| main_drop: "main_at s = GotText a sql \<Longrightarrow>
     main_step s (s\<lparr>main_at := Selecting, dropped_conns := a # dropped_conns s\<rparr>)"

text \<open>
  The workers: a new thread, the next task of the queue, then \<open>Execute\<close> call by call. \<open>Query\<close> is its
  calls of the client library; the answer is one step, since no other worker sends to the same address.
\<close>

inductive job_step :: "'db mysql_api \<Rightarrow> nat \<Rightarrow> 'db server_run \<Rightarrow> 'db server_run \<Rightarrow> bool" for api i where
  new_thread: "i = length (jobs s) \<Longrightarrow> job_step api i s (s\<lparr>jobs := jobs s @ [Waiting]\<rparr>)"
| take_task: "i < length (jobs s) \<Longrightarrow> jobs s ! i = Waiting \<Longrightarrow> task_queue s = t # q \<Longrightarrow>
     job_step api i s (s\<lparr>task_queue := q, jobs := (jobs s)[i := Taken t]\<rparr>)"
| query: "i < length (jobs s) \<Longrightarrow> jobs s ! i = Taken t \<Longrightarrow> mysql_query api (task_sql t) (sv_db s) = (rc, d) \<Longrightarrow>
     job_step api i s (s\<lparr>sv_db := d, jobs := (jobs s)[i := Queried t rc]\<rparr>)"
| query_failed: "i < length (jobs s) \<Longrightarrow> jobs s ! i = Queried t rc \<Longrightarrow> rc \<noteq> 0 \<Longrightarrow>
     OutputDebugPrintf (''mysql_query: '' @ mysql_error api (sv_db s) @ [CHR 0x0A]) = Inr out \<Longrightarrow>
     job_step api i s (s\<lparr>jobs := (jobs s)[i := Answering t (- 1) None]\<rparr>)"
| use_result: "i < length (jobs s) \<Longrightarrow> jobs s ! i = Queried t rc \<Longrightarrow> rc = 0 \<Longrightarrow> mysql_use_result api (sv_db s) = (res, d) \<Longrightarrow>
     job_step api i s (s\<lparr>sv_db := d, jobs := (jobs s)[i := Fetched t res]\<rparr>)"
| affected_rows: "i < length (jobs s) \<Longrightarrow> jobs s ! i = Fetched t res \<Longrightarrow>
     job_step api i s (s\<lparr>jobs := (jobs s)[i := Answering t (wrap32 (int (mysql_affected_rows api (sv_db s)))) res]\<rparr>)"
| answer_count: "i < length (jobs s) \<Longrightarrow> jobs s ! i = Answering t n None \<Longrightarrow>
     Send (task_addr t) (le32 n) 4 (sv_sock s) = Inr (r, s', es) \<Longrightarrow>
     job_step api i s (s\<lparr>sv_sock := s', jobs := (jobs s)[i := Answered t]\<rparr>)"
| answer_rows: "i < length (jobs s) \<Longrightarrow> jobs s ! i = Answering t n (Some res) \<Longrightarrow>
     SendResByteAry res (task_addr t) (sv_sock s) = Inr (s', es) \<Longrightarrow>
     job_step api i s (s\<lparr>sv_sock := s', jobs := (jobs s)[i := Answered t]\<rparr>)"
| unselect: "i < length (jobs s) \<Longrightarrow> jobs s ! i = Answered t \<Longrightarrow> UnSelect (task_addr t) (sv_sock s) = (s', es) \<Longrightarrow>
     job_step api i s (s\<lparr>sv_sock := s', jobs := (jobs s)[i := Waiting]\<rparr>)"

inductive server_step :: "'db mysql_api \<Rightarrow> 'db server_run \<Rightarrow> 'db server_run \<Rightarrow> bool" for api where
  by_socket: "socket_step s s' \<Longrightarrow> server_step api s s'"
| by_main: "main_step s s' \<Longrightarrow> server_step api s s'"
| by_job: "job_step api i s s' \<Longrightarrow> server_step api s s'"

inductive_cases server_stepE: "server_step api s s'"

text \<open>After \<open>Init\<close>: the loop begins, no task exists, no connection is being served.\<close>

definition server_start :: "'db server_run \<Rightarrow> bool" where
  "server_start s \<longleftrightarrow> table_ok (sv_sock s) \<and> main_at s = Selecting \<and> task_queue s = [] \<and> dropped_conns s = [] \<and> jobs s = []"

section \<open>Statuses\<close>

text \<open>An operation that leaves a connection being served marked as such.\<close>

definition keeps_served :: "CTcpSocket \<Rightarrow> CTcpSocket \<Rightarrow> bool" where
  "keeps_served s s' \<longleftrightarrow> table_ok s \<longrightarrow>
     table_ok s' \<and> (\<forall>a. m_nStatus (conn_of a s) = 2 \<longrightarrow> m_nStatus (conn_of a s') = 2)"

lemma keeps_served_refl [simp]: "keeps_served s s"
  by (simp add: keeps_served_def)

lemma keeps_served_trans: "keeps_served s t \<Longrightarrow> keeps_served t u \<Longrightarrow> keeps_served s u"
  by (simp add: keeps_served_def)

lemma Send_served: "Send a b n s = Inr (r, s', es) \<Longrightarrow> keeps_served s s'"
  by (auto simp: Send_def Let_def keeps_served_def split: if_splits)

lemma send_block_served: "send_block a b n s = Inr (s', es) \<Longrightarrow> keeps_served s s'"
  by (auto simp: send_block_def intro: keeps_served_trans dest!: Send_served)

lemma SendResByteAry_served: "SendResByteAry res a s = Inr (s', es) \<Longrightarrow> keeps_served s s'"
  by (auto simp: SendResByteAry_def intro: keeps_served_trans dest!: send_block_served)

lemma Recv_served: "Recv a b n s = Inr (s', r) \<Longrightarrow> keeps_served s s'"
  by (auto simp: Recv_def Let_def keeps_served_def split: if_splits)

lemma transmit_served: "SendThreadProc_pass clk ok s = Inr (v, s', es) \<Longrightarrow> keeps_served s s'"
  by (auto simp: SendThreadProc_pass_def keeps_served_def)

lemma accept_packet_served:
  "accept_packet a p c = Inr (c', es) \<Longrightarrow> m_nStatus c = 2 \<Longrightarrow> m_nStatus c' = 2"
  by (auto simp: accept_packet_def mark_readable_def)

lemma drain_served: "drain a ps c = Inr (c', es) \<Longrightarrow> m_nStatus c = 2 \<Longrightarrow> m_nStatus c' = 2"
proof (induction a ps c arbitrary: c' es rule: drain.induct)
  case (2 a p ps c)
  then show ?case by (fastforce dest: accept_packet_served split: if_splits)
qed auto

lemma receive_data_served: "receive_data a p c = Inr (c', es) \<Longrightarrow> m_nStatus c = 2 \<Longrightarrow> m_nStatus c' = 2"
  by (auto simp: receive_data_def split: if_splits) (metis accept_packet_served drain_served)

lemma on_data_served: "on_data ok a p s = Inr (v, s', es) \<Longrightarrow> keeps_served s s'"
  by (auto simp: on_data_def keeps_served_def receive_data_served split: if_splits)

lemma receive_served: "RecvThreadProc_pass rcv ok s = Inr (v, s', es) \<Longrightarrow> keeps_served s s'"
proof (cases rcv)
  case (Some ba)
  obtain b a where ba: "rcv = Some (b, a)" using Some by (cases ba) auto
  have touch: "keeps_served s (touch a s)" by (simp add: keeps_served_def)
  assume "RecvThreadProc_pass rcv ok s = Inr (v, s', es)"
  then show ?thesis
    using touch keeps_served_trans [OF touch on_data_served] ba
    by (auto simp: RecvThreadProc_pass_def Let_def on_establish_1_def on_establish_2_def on_ack_def
        keeps_served_def split: if_splits)
qed (simp add: RecvThreadProc_pass_def)


section \<open>One task for a connection\<close>

text \<open>How often a connection is being served: by the loop, in the queue, dropped, or by a worker.\<close>

fun main_conn :: "main_pc \<Rightarrow> sockaddr option" where
  "main_conn Selecting = None"
| "main_conn (GotAddr a) = Some a"
| "main_conn (GotLen a n) = Some a"
| "main_conn (GotText a sql) = Some a"

fun stage_conn :: "stage \<Rightarrow> sockaddr option" where
  "stage_conn Waiting = None"
| "stage_conn (Taken t) = Some (task_addr t)"
| "stage_conn (Queried t rc) = Some (task_addr t)"
| "stage_conn (Fetched t res) = Some (task_addr t)"
| "stage_conn (Answering t n res) = Some (task_addr t)"
| "stage_conn (Answered t) = Some (task_addr t)"

definition serving :: "sockaddr \<Rightarrow> 'db server_run \<Rightarrow> nat" where
  "serving a s = (if main_conn (main_at s) = Some a then 1 else 0)
     + length (filter (\<lambda>t. task_addr t = a) (task_queue s)) + count_list (dropped_conns s) a
     + length (filter (\<lambda>st. stage_conn st = Some a) (jobs s))"

definition served_once :: "'db server_run \<Rightarrow> bool" where
  "served_once s \<longleftrightarrow> table_ok (sv_sock s)
     \<and> (\<forall>a. serving a s = 0 \<or> serving a s = 1 \<and> m_nStatus (conn_of a (sv_sock s)) = 2)"

lemma length_filter_update:
  "i < length xs \<Longrightarrow> length (filter P (xs[i := y])) + (if P (xs ! i) then 1 else 0)
     = length (filter P xs) + (if P y then 1 else 0)"
proof (induction xs arbitrary: i)
  case (Cons x xs)
  then show ?case by (cases i) auto
qed simp

lemma length_filter_same:
  "i < length xs \<Longrightarrow> P y = P (xs ! i) \<Longrightarrow> length (filter P (xs[i := y])) = length (filter P xs)"
  using length_filter_update [of i xs P y] by (simp split: if_splits)

text \<open>A step that changes neither, seen from the counts.\<close>

lemma served_once_same:
  assumes "served_once s" and "\<And>a. serving a s' = serving a s" and "keeps_served (sv_sock s) (sv_sock s')"
  shows "served_once s'"
  using assms(1,3) by (simp add: served_once_def keeps_served_def assms(2)) blast

lemma socket_step_served: "socket_step s s' \<Longrightarrow> served_once s \<Longrightarrow> served_once s'"
  by (elim socket_step.cases, simp_all)
    (rule served_once_same; auto simp: serving_def dest: transmit_served receive_served)+

lemma main_step_served:
  assumes "main_step s s'" and inv: "served_once s"
  shows "served_once s'"
  using assms(1)
proof cases
  case (main_select a s1)
  have tab: "table_ok (sv_sock s)" using inv by (simp add: served_once_def)
  have sel: "table_ok s1" "m_nStatus (conn_of a (sv_sock s)) = 1" "conn_of a s1 = (conn_of a (sv_sock s))\<lparr>m_nStatus := 2\<rparr>"
      "\<forall>b. b \<noteq> a \<longrightarrow> conn_of b s1 = conn_of b (sv_sock s)"
    using Select_least [OF tab] main_select(3) by auto
  have "serving a s = 0" using inv sel(2) by (auto simp: served_once_def)
  moreover have "serving b s' = serving b s + (if b = a then 1 else 0)" for b
    using main_select(1,2) by (simp add: serving_def)
  ultimately show ?thesis
    using inv sel main_select(1) by (auto simp: served_once_def)
next
  case (main_len a s1 m buf es)
  show ?thesis by (rule served_once_same [OF inv])
      (use main_len in \<open>auto simp: serving_def dest: Recv_served\<close>)
next
  case (main_text a n s1 m buf es k)
  show ?thesis by (rule served_once_same [OF inv])
      (use main_text in \<open>auto simp: serving_def dest: Recv_served\<close>)
next
  case (main_add a sql)
  show ?thesis by (rule served_once_same [OF inv])
      (use main_add in \<open>auto simp: serving_def new_CSqlTask_def\<close>)
next
  case (main_drop a sql)
  show ?thesis by (rule served_once_same [OF inv])
      (use main_drop in \<open>auto simp: serving_def\<close>)
qed

lemma UnSelect_other:
  "UnSelect a s = (s', es) \<Longrightarrow> table_ok s \<Longrightarrow> table_ok s' \<and> (\<forall>b. b \<noteq> a \<longrightarrow> conn_of b s' = conn_of b s)"
  by (auto simp: UnSelect_def Let_def)

lemma job_step_served:
  assumes "job_step api i s s'" and inv: "served_once s"
  shows "served_once s'"
  using assms(1)
proof cases
  case new_thread
  show ?thesis by (rule served_once_same [OF inv]) (use new_thread in \<open>auto simp: serving_def\<close>)
next
  case (take_task t q)
  have "serving a s' = serving a s" for a
    using length_filter_update [OF take_task(2), of "\<lambda>st. stage_conn st = Some a" "Taken t"] take_task
    by (auto simp: serving_def split: if_splits)
  then show ?thesis using inv take_task(1) by (auto intro: served_once_same)
next
  case (unselect t s1 es)
  have tab: "table_ok (sv_sock s)" using inv by (simp add: served_once_def)
  have less: "serving a s' + (if a = task_addr t then 1 else 0) = serving a s" for a
    using length_filter_update [OF unselect(2), of "\<lambda>st. stage_conn st = Some a" Waiting] unselect(1,3)
    by (auto simp: serving_def split: if_splits)
  have sv_sock: "table_ok (sv_sock s')" "\<forall>b. b \<noteq> task_addr t \<longrightarrow> conn_of b (sv_sock s') = conn_of b (sv_sock s)"
    using UnSelect_other [OF unselect(4) tab] unselect(1) by simp_all
  have "serving a s' = 0 \<or> serving a s' = 1 \<and> m_nStatus (conn_of a (sv_sock s')) = 2" for a
  proof -
    have "serving a s = 0 \<or> serving a s = 1 \<and> m_nStatus (conn_of a (sv_sock s)) = 2"
      using inv by (simp add: served_once_def)
    then show ?thesis using less [of a] sv_sock(2) by (cases "a = task_addr t") auto
  qed
  then show ?thesis using sv_sock(1) by (simp add: served_once_def)
qed (rule served_once_same [OF inv];
      auto simp: serving_def length_filter_same intro: Send_served SendResByteAry_served)+


lemma server_step_served: "server_step api s s' \<Longrightarrow> served_once s \<Longrightarrow> served_once s'"
  by (elim server_stepE) (auto intro: socket_step_served main_step_served job_step_served)

interpretation server: step_invariant "server_step api" served_once for api
  by unfold_locales (rule server_step_served)

lemma server_start_served: "server_start s \<Longrightarrow> served_once s"
  by (simp add: server_start_def served_once_def serving_def)

section \<open>One worker alone\<close>

lemma Query_res_failed:
  assumes "Query_res api sql None d = Inr (m, res, d')" "mysql_query api sql d = (rc, d1)" "rc \<noteq> 0"
  shows "is_ok (OutputDebugPrintf (''mysql_query: '' @ mysql_error api d1 @ [CHR 0x0A])) \<and> m = - 1 \<and> res = None \<and> d' = d1"
  using assms unfolding Query_res_def by (simp add: is_ok_iff) metis

lemma Query_res_done:
  assumes "Query_res api sql None d = Inr (m, res, d')" "mysql_query api sql d = (0, d1)"
  shows "mysql_use_result api d1 = (res, d') \<and> m = wrap32 (int (mysql_affected_rows api d'))"
  using assms unfolding Query_res_def by (cases "mysql_use_result api d1") simp

text \<open>The answer and the return of the connection, from the second half of \<open>Execute\<close>.\<close>

lemma job_answers:
  assumes i: "i < length (jobs s)" "jobs s ! i = Answering t n res"
    and body: "(case res of None \<Rightarrow> and_then (Send (task_addr t) (le32 n) 4 (sv_sock s)) (\<lambda>(_, s1, es1). Inr (s1, es1))
          | Some r \<Rightarrow> SendResByteAry r (task_addr t) (sv_sock s)) = Inr (s1, es1)"
    and un: "UnSelect (task_addr t) s1 = (s2, es2)"
  shows "(job_step api i)\<^sup>*\<^sup>* s (s\<lparr>sv_sock := s2, jobs := (jobs s)[i := Waiting]\<rparr>)"
proof -
  let ?s1 = "s\<lparr>sv_sock := s1, jobs := (jobs s)[i := Answered t]\<rparr>"
  have "job_step api i s ?s1"
    using body i by (cases res) (auto intro: job_step.answer_count job_step.answer_rows)
  moreover have "job_step api i ?s1 (?s1\<lparr>sv_sock := s2, jobs := (jobs ?s1)[i := Waiting]\<rparr>)"
    using i(1) un by (intro job_step.unselect) simp_all
  ultimately show ?thesis by (simp add: converse_rtranclp_into_rtranclp)
qed


section \<open>A run\<close>

definition run_example :: "unit server_run" where
  "run_example = \<lparr>sv_sock = sock_with (frame (''USE x'' @ [NUL])), sv_db = (), main_at = Selecting, task_queue = [],
     dropped_conns = [], jobs = []\<rparr>"

lemma run_example_start: "server_start run_example"
  by (simp add: server_start_def run_example_def)

lemma run_example_taken:
  "\<exists>s. (server_step api)\<^sup>*\<^sup>* run_example s \<and> jobs s = [Taken (new_CSqlTask addr_example ''USE x'')]"
proof -
  let ?a = "addr_example" and ?txt = "''USE x'' @ [NUL]"
  let ?s1 = "(sock_with (frame ?txt))\<lparr>m_connectMap := [(?a, Conn_init\<lparr>m_byteStream := \<lparr>m_vtBuf = frame ?txt\<rparr>, m_nStatus := 2\<rparr>)]\<rparr>"
  have sel: "Select (sock_with (frame ?txt)) = Some (?a, ?s1)"
    by (simp add: Select_def sock_with_def)
  have "holds ?a 0 (le32 6 @ ?txt) ?s1"
    by (simp add: holds_def room_def table_ok_def map_sorted_def conn_of_def incoming_def Conn_init_def frame_def)
  then obtain s2 es2 where s2: "Recv ?a (le32 0) 4 ?s1 = Inr (s2, Some (4, le32 6, es2))" "holds ?a 0 ?txt s2"
    using Recv_header by blast
  have n: "un_le32 (le32 6) = 6" by (simp add: codec_simps int32_range_def)
  obtain s3 es3 where s3: "Recv ?a (replicate 0x1000 NUL) 6 s2 = Inr (s3, Some (6, ?txt @ replicate 4090 NUL, es3))"
    using server_port.recv_ok [of ?a 0 s2 6 "replicate 0x1000 NUL"] s2(2) by (auto simp: holds_def)
  have len: "strlen (?txt @ replicate 4090 NUL) = Inr 5" "take 5 (?txt @ replicate 4090 NUL) = ''USE x''"
    by simp_all
  let ?r1 = "run_example\<lparr>sv_sock := ?s1, main_at := GotAddr ?a\<rparr>"
  let ?r2 = "run_example\<lparr>sv_sock := s2, main_at := GotLen ?a 6\<rparr>"
  let ?r3 = "run_example\<lparr>sv_sock := s3, main_at := GotText ?a ''USE x''\<rparr>"
  let ?t = "new_CSqlTask ?a ''USE x''"
  let ?r4 = "run_example\<lparr>sv_sock := s3, task_queue := [?t]\<rparr>"
  let ?r5 = "run_example\<lparr>sv_sock := s3, task_queue := [?t], jobs := [Waiting]\<rparr>"
  let ?r6 = "run_example\<lparr>sv_sock := s3, jobs := [Taken ?t]\<rparr>"
  have "main_step run_example ?r1"
    using main_step.main_select [of run_example ?a ?s1] sel by (simp add: run_example_def)
  moreover have "main_step ?r1 ?r2"
    using main_step.main_len [of ?r1 ?a s2 4 "le32 6" es2] s2(1) n by (simp add: run_example_def)
  moreover have "main_step ?r2 ?r3"
    using main_step.main_text [of ?r2 ?a 6 s3 6 "?txt @ replicate 4090 NUL" es3 5] s3 len
    by (simp add: run_example_def)
  moreover have "main_step ?r3 ?r4"
    using main_step.main_add [of ?r3 ?a "''USE x''"] by (simp add: run_example_def)
  moreover have "job_step api 0 ?r4 ?r5"
    using job_step.new_thread [of 0 ?r4 api] by (simp add: run_example_def)
  moreover have "job_step api 0 ?r5 ?r6"
    using job_step.take_task [of 0 ?r5 ?t "[]" api] by (simp add: run_example_def)
  ultimately have "(server_step api)\<^sup>*\<^sup>* run_example ?r6"
    by (meson by_main by_job converse_rtranclp_into_rtranclp rtranclp.rtrancl_refl)
  then show ?thesis by (intro exI [of _ ?r6]) simp
qed

section \<open>Properties\<close>

text \<open>
  C9. The status of a connection keeps the server to one task for each client: in every
  interleaving of the socket's threads, the loop and the workers, while a worker executes a task, the loop is not
  reading from the same client, no task of this client is in the queue, no other worker has one, and
  the connection is marked as being served. So the parts of two answers to one client never mix.
\<close>

theorem one_task_per_client:
  assumes "server_start s0" and "(server_step api)\<^sup>*\<^sup>* s0 s"
    and i: "i < length (jobs s)" "stage_conn (jobs s ! i) = Some a"
  shows "main_conn (main_at s) \<noteq> Some a \<and> a \<notin> task_addr ` set (task_queue s)
     \<and> a \<notin> {b. \<exists>j < length (jobs s). j \<noteq> i \<and> stage_conn (jobs s ! j) = Some b}
     \<and> m_nStatus (conn_of a (sv_sock s)) = 2"
proof -
  let ?P = "\<lambda>st. stage_conn st = Some a"
  have "served_once s"
    using server_start_served [OF assms(1)] assms(2) by (rule server.reachable_invar)
  then have "serving a s = 0 \<or> serving a s = 1 \<and> m_nStatus (conn_of a (sv_sock s)) = 2"
    by (simp add: served_once_def)
  moreover have pos: "0 < length (filter ?P (jobs s))" using i by (auto simp: filter_empty_conv)
  ultimately have n: "main_conn (main_at s) \<noteq> Some a" "m_nStatus (conn_of a (sv_sock s)) = 2"
      "length (filter (\<lambda>t. task_addr t = a) (task_queue s)) + count_list (dropped_conns s) a
        + length (filter ?P (jobs s)) = 1"
    by (auto simp: serving_def split: if_splits)
  then have one: "length (filter ?P (jobs s)) = 1" "length (filter (\<lambda>t. task_addr t = a) (task_queue s)) = 0"
    using pos by linarith+
  have none: "filter ?P ((jobs s)[i := Waiting]) = []"
    using length_filter_update [OF i(1), of ?P Waiting] one(1) i(2) by simp
  have "stage_conn (jobs s ! j) \<noteq> Some a" if "j < length (jobs s)" "j \<noteq> i" for j
  proof -
    have "(jobs s)[i := Waiting] ! j \<in> set ((jobs s)[i := Waiting])" using that(1) by (intro nth_mem) simp
    then show ?thesis using none that(2) by (auto simp: filter_empty_conv)
  qed
  then show ?thesis using one(2) n(1,2) by (auto simp: filter_empty_conv)
qed

theorem one_task_per_client_witness:
  "\<exists>s. (server_step api_ok)\<^sup>*\<^sup>* run_example s \<and> jobs s = [Taken (new_CSqlTask addr_example ''USE x'')]
     \<and> main_conn (main_at s) \<noteq> Some addr_example \<and> m_nStatus (conn_of addr_example (sv_sock s)) = 2"
proof -
  obtain s where s: "(server_step api_ok)\<^sup>*\<^sup>* run_example s"
      "jobs s = [Taken (new_CSqlTask addr_example ''USE x'')]"
    using run_example_taken by blast
  then have "0 < length (jobs s)" "stage_conn (jobs s ! 0) = Some addr_example"
    by (simp_all add: new_CSqlTask_def)
  from one_task_per_client [OF run_example_start s(1) this] s show ?thesis by blast
qed

text \<open>
  The calls of one worker, with no other thread between them, are \<open>Execute\<close>: they end with
  the socket and the database as \<open>Execute\<close> leaves them, and the worker waits for its next task.
\<close>

theorem worker_executes:
  assumes "i < length (jobs s)" "jobs s ! i = Taken t"
    and exec: "Execute api t (sv_sock s, sv_db s) = Inr (n, s', d', es)"
  shows "(job_step api i)\<^sup>*\<^sup>* s (s\<lparr>sv_db := d', sv_sock := s', jobs := (jobs s)[i := Waiting]\<rparr>)"
proof -
  obtain m res d2 where q2: "Query_res api (task_sql t) None (sv_db s) = Inr (m, res, d2)"
    using exec by (auto simp: Execute_def)
  obtain s1 es1 where body: "(case res of
            None \<Rightarrow> and_then (Send (task_addr t) (le32 m) 4 (sv_sock s)) (\<lambda>(_, s1, es1). Inr (s1, es1))
          | Some r \<Rightarrow> SendResByteAry r (task_addr t) (sv_sock s)) = Inr (s1, es1)"
    and d: "d2 = d'" "fst (UnSelect (task_addr t) s1) = s'"
    using exec q2 by (auto simp: Execute_def case_prod_beta cong: option.case_cong)
  obtain es2 where un: "UnSelect (task_addr t) s1 = (s', es2)" using d(2) by (metis prod.collapse)
  have q: "Query_res api (task_sql t) None (sv_db s) = Inr (m, res, d')" using q2 d(1) by simp
  obtain rc d1 where rc: "mysql_query api (task_sql t) (sv_db s) = (rc, d1)" by fastforce
  let ?q = "s\<lparr>sv_db := d1, jobs := (jobs s)[i := Queried t rc]\<rparr>"
  let ?a = "s\<lparr>sv_db := d', jobs := (jobs s)[i := Answering t m res]\<rparr>"
  have 1: "job_step api i s ?q" using assms(1,2) rc by (intro job_step.query) simp_all
  have 2: "(job_step api i)\<^sup>*\<^sup>* ?q ?a"
  proof (cases "rc = 0")
    case False
    note f = Query_res_failed [OF q rc False]
    then obtain out where out: "OutputDebugPrintf (''mysql_query: '' @ mysql_error api d1 @ [CHR 0x0A]) = Inr out"
      unfolding is_ok_iff by blast
    then show ?thesis
      using job_step.query_failed [of i ?q t rc api out] assms(1) False f out by simp
  next
    case True
    note u = Query_res_done [OF q rc [unfolded True]]
    let ?f = "s\<lparr>sv_db := d', jobs := (jobs s)[i := Fetched t res]\<rparr>"
    have "job_step api i ?q ?f"
      using job_step.use_result [of i ?q t rc api res d'] assms(1) True u by simp
    moreover have "job_step api i ?f ?a"
      using job_step.affected_rows [of i ?f t res api] assms(1) u by simp
    ultimately show ?thesis by (simp add: converse_rtranclp_into_rtranclp)
  qed
  have "(job_step api i)\<^sup>*\<^sup>* ?a (?a\<lparr>sv_sock := s', jobs := (jobs ?a)[i := Waiting]\<rparr>)"
    using job_answers [of i ?a t m res s1 es1 s' es2 api] assms(1) body un by (simp cong: option.case_cong)
  then have 3: "(job_step api i)\<^sup>*\<^sup>* ?a (s\<lparr>sv_db := d', sv_sock := s', jobs := (jobs s)[i := Waiting]\<rparr>)" by simp
  show ?thesis by (rule converse_rtranclp_into_rtranclp [OF 1 rtranclp_trans [OF 2 3]])
qed

text \<open>
  The documentation of the client library has a query fail while the result of another has not been fetched
  (\<open>pending\<close>), with a short text.
\<close>

definition one_result_at_a_time :: "('db \<Rightarrow> bool) \<Rightarrow> 'db mysql_api \<Rightarrow> bool" where
  "one_result_at_a_time pending api \<longleftrightarrow>
     (\<forall>sql d. pending d \<longrightarrow> fst (mysql_query api sql d) \<noteq> 0 \<and> length (mysql_error api (snd (mysql_query api sql d))) < 200)"

text \<open>
  C29. All workers use the one connection to the database without a lock. When a second worker's query comes between
  the query of a first and its \<open>mysql_use_result\<close>, the second client is answered -1, whatever its statement.
\<close>

theorem shared_connection:
  assumes api: "one_result_at_a_time pending api"
    and i: "i < length (jobs s)" "jobs s ! i = Taken t" and j: "j < length (jobs s)" "jobs s ! j = Taken u" "i \<noteq> j"
    and first: "mysql_query api (task_sql t) (sv_db s) = (0, d)" "pending d"
    and room: "room (task_addr u) 1 (sv_sock s)"
  shows "\<exists>s'. (server_step api)\<^sup>*\<^sup>* s s' \<and> jobs s' ! i = Queried t 0 \<and> jobs s' ! j = Answered u
     \<and> outgoing (task_addr u) (sv_sock s') = outgoing (task_addr u) (sv_sock s) @ le32 (- 1)"
proof -
  obtain rc d2 where q: "mysql_query api (task_sql u) d = (rc, d2)" by fastforce
  then have rc: "rc \<noteq> 0" "length (mysql_error api d2) < 200"
    using api first(2) unfolding one_result_at_a_time_def by (metis fst_conv snd_conv)+
  let ?err = "''mysql_query: '' @ mysql_error api d2 @ [CHR 0x0A]"
  have out: "OutputDebugPrintf ?err = Inr ?err" using rc(2) by (simp add: OutputDebugPrintf_def)
  obtain s1 where send: "Send (task_addr u) (le32 (- 1)) 4 (sv_sock s) = Inr (4, s1, [Lock SendListLock, UnLock SendListLock])"
      "outgoing (task_addr u) s1 = outgoing (task_addr u) (sv_sock s) @ le32 (- 1)"
    using server_port.send_ok [of 4 "le32 (- 1)" "task_addr u" 1 "sv_sock s"] room by (auto simp: packets_def)
  let ?js = "(jobs s)[i := Queried t 0]"
  let ?s1 = "s\<lparr>sv_db := d, jobs := ?js\<rparr>"
  let ?s2 = "s\<lparr>sv_db := d2, jobs := ?js[j := Queried u rc]\<rparr>"
  let ?s3 = "s\<lparr>sv_db := d2, jobs := ?js[j := Answering u (- 1) None]\<rparr>"
  let ?s4 = "s\<lparr>sv_db := d2, sv_sock := s1, jobs := ?js[j := Answered u]\<rparr>"
  have "job_step api i s ?s1" using job_step.query [OF i first(1)] .
  moreover have "job_step api j ?s1 ?s2" using job_step.query [of j ?s1 u api rc d2] j q by simp
  moreover have "job_step api j ?s2 ?s3" using job_step.query_failed [of j ?s2 u rc api ?err] j rc(1) out by simp
  moreover have "job_step api j ?s3 ?s4" using job_step.answer_count [of j ?s3 u "- 1" 4 s1 _ api] j send(1) by simp
  ultimately have "(server_step api)\<^sup>*\<^sup>* s ?s4"
    by (meson by_job converse_rtranclp_into_rtranclp rtranclp.rtrancl_refl)
  then show ?thesis using i(1) j send(2) by (intro exI [of _ ?s4]) simp
qed

text \<open>A library whose state says whether a result waits to be fetched.\<close>

definition api_busy :: "bool mysql_api" where
  "api_busy = \<lparr>mysql_library_init = Pair 0, mysql_init = Pair True, mysql_set_character_set = (\<lambda>_. Pair 0),
     mysql_real_connect = (\<lambda>_ _ _ _. Pair True), mysql_query = (\<lambda>_ d. if d then (1, True) else (0, True)),
     mysql_error = (\<lambda>_. ''Commands out of sync''), mysql_affected_rows = (\<lambda>_. 0),
     mysql_use_result = (\<lambda>_. (Some (res_example (Some ''90'')), False))\<rparr>"

definition two_tasks :: "bool server_run" where
  "two_tasks = \<lparr>sv_sock = sock_with [], sv_db = False, main_at = Selecting, task_queue = [], dropped_conns = [],
     jobs = [Taken (new_CSqlTask addr_example ''SELECT 1''), Taken (new_CSqlTask (sockaddr_in 1 2) ''SELECT 2'')]\<rparr>"

theorem shared_connection_witness:
  "\<exists>s'. (server_step api_busy)\<^sup>*\<^sup>* two_tasks s' \<and> outgoing (sockaddr_in 1 2) (sv_sock s') = le32 (- 1)"
proof -
  have api: "one_result_at_a_time (\<lambda>d. d) api_busy" by (simp add: one_result_at_a_time_def api_busy_def)
  note * = shared_connection [OF api, of 0 two_tasks "new_CSqlTask addr_example ''SELECT 1''" 1
      "new_CSqlTask (sockaddr_in 1 2) ''SELECT 2''" True]
  have "room (sockaddr_in 1 2) 1 (sv_sock two_tasks)"
    by (simp add: two_tasks_def room_def) (simp add: sock_with_def conn_of_def addr_example_def Conn_init_def)
  with * show ?thesis by (auto simp: two_tasks_def new_CSqlTask_def api_busy_def)
qed

end
