(* ===== verification/Lifecycle.thy ===== *)
theory Lifecycle
  imports Server ThreadPool "HOL-Library.Multiset"
begin

text \<open>
  Start and end of the two programs: the constructors and destructors of \<open>CInitSocketLib\<close>, \<open>CLock\<close>,
  \<open>CMysql\<close>, \<open>CThreadPool\<close> and \<open>CServer\<close>, the server's \<open>main\<close>, and \<open>CSchoolSystemApp::InitInstance\<close>, as
  the sequence of what they take from the operating system and the libraries and what they give back.
\<close>

section \<open>Resources\<close>

datatype resource =
    SocketLibrary
  | CriticalSection lock_id
  | PoolSection
  | HandleArray nat
  | StopEvent
  | TaskSemaphore nat
  | PoolThread nat
  | ClientLibrary
  | MysqlHandle
  | UdpSocket
  | ShellManager
  | MainDialog

datatype life_event =
    Acquire resource
  | Release resource
  | Signal resource
  | WaitForAll nat
  | AbortTask
  | MessageBox
  | ModalLoop

text \<open>What is held after some events; \<open>None\<close> when something is given back that is not held.\<close>

fun held_after :: "life_event list \<Rightarrow> resource multiset \<Rightarrow> resource multiset option" where
  "held_after [] R = Some R"
| "held_after (Acquire r # es) R = held_after es (add_mset r R)"
| "held_after (Release r # es) R = (if r \<in># R then held_after es (R - {#r#}) else None)"
| "held_after (e # es) R = held_after es R"

section \<open>Constructors and destructors\<close>

text \<open>\<open>CInitSocketLib\<close>: \<open>ok\<close> is whether \<open>WSAStartup\<close> returned 0; its failure is not remembered.\<close>

definition CInitSocketLib :: "bool \<Rightarrow> life_event list" where
  "CInitSocketLib ok = (if ok then [Acquire SocketLibrary] else [])"

definition CInitSocketLib_dtor :: "life_event list" where
  "CInitSocketLib_dtor = [Release SocketLibrary]"

definition CLock :: "lock_id \<Rightarrow> life_event list" where
  "CLock l = [Acquire (CriticalSection l)]"

definition CLock_dtor :: "lock_id \<Rightarrow> life_event list" where
  "CLock_dtor l = [Release (CriticalSection l)]"

text \<open>
  \<open>CMysql\<close> starts with \<open>m_mysql\<close> null; \<open>Init\<close> may set it. \<open>mysql_close\<close> of a null pointer does nothing.
\<close>

definition CMysql_dtor :: "bool \<Rightarrow> life_event list" where
  "CMysql_dtor m_mysql = (if m_mysql then [Release MysqlHandle] else []) @ [Release ClientLibrary]"

text \<open>What \<open>CMysql::Init\<close> takes, with whether \<open>m_mysql\<close> is set when it returns.\<close>

definition Mysql_Init_takes :: "'db mysql_api \<Rightarrow> 'db \<Rightarrow> bool \<times> life_event list" where
  "Mysql_Init_takes api db0 =
     (case mysql_library_init api db0 of (rc, db1) \<Rightarrow>
      if rc \<noteq> 0 then (False, [])
      else case mysql_init api db1 of (handle, db2) \<Rightarrow>
      if \<not> handle then (False, [Acquire ClientLibrary])
      else (True, [Acquire ClientLibrary, Acquire MysqlHandle]))"

definition CThreadPool_takes :: "'t pool \<Rightarrow> life_event list" where
  "CThreadPool_takes p =
     [Acquire (HandleArray (handle_slots p)), Acquire StopEvent, Acquire (TaskSemaphore (sem_limit p)), Acquire PoolSection]"

text \<open>The destructor for a pool with \<open>m_nCurThreads\<close> threads and the tasks that are left.\<close>

definition CThreadPool_dtor :: "'t pool \<Rightarrow> life_event list" where
  "CThreadPool_dtor p =
     [Signal StopEvent, WaitForAll (m_nCurThreads p)]
     @ map (\<lambda>i. Release (PoolThread i)) [0..<m_nCurThreads p]
     @ map (\<lambda>_. AbortTask) (m_taskQueue p)
     @ [Release (HandleArray (handle_slots p)), Release StopEvent, Release (TaskSemaphore (sem_limit p)), Release PoolSection]"

section \<open>The server\<close>

text \<open>What \<open>CServer::Init\<close> takes: the socket is made once the database and the tables are there.\<close>

definition Server_Init_takes :: "'db mysql_api \<Rightarrow> bool \<Rightarrow> 'db \<Rightarrow> bool \<times> life_event list" where
  "Server_Init_takes api socket_ok db0 =
     (case Mysql_Init_takes api db0 of (m_mysql, es) \<Rightarrow>
       (m_mysql, es @
         (case Mysql_Init api ''localhost'' ''root'' ''root'' db0 of
            Inr (True, db1) \<Rightarrow>
              (case CreateTables api db1 of
                 Inr (True, db2) \<Rightarrow> if socket_ok then [Acquire UdpSocket] else []
               | _ \<Rightarrow> [])
          | _ \<Rightarrow> [])))"

text \<open>
  \<open>main\<close> with the static objects around it. The members of \<open>CServer\<close> are made in their order and
  destroyed in the opposite one. \<open>None\<close>: the constructor stays in its loop for ever.
\<close>

definition main_run ::
    "'db mysql_api \<Rightarrow> bool \<Rightarrow> bool \<Rightarrow> bool \<Rightarrow> nat \<Rightarrow> 'db \<Rightarrow> (int \<times> life_event list) option result" where
  "main_run api startup_ok socket_ok bind_ok cpus db0 =
     and_then (Server_Init api socket_ok bind_ok db0) (\<lambda>(ok, db1, es).
       if ok then Inr None
       else (case Server_Init_takes api socket_ok db0 of (m_mysql, taken) \<Rightarrow>
         Inr (Some (0, CInitSocketLib startup_ok @ CLock SendListLock @ CThreadPool_takes (CThreadPool cpus :: unit pool)
           @ taken
           @ CThreadPool_dtor (CThreadPool cpus :: unit pool) @ CLock_dtor SendListLock @ CMysql_dtor m_mysql
           @ CInitSocketLib_dtor))))"

section \<open>The client\<close>

text \<open>
  \<open>InitInstance\<close> of the client. \<open>sockets_ok\<close> is the result of \<open>AfxSocketInit\<close>, \<open>response\<close> that of
  \<open>DoModal\<close>, which makes no difference; the handlers of the dialog run in \<open>ModalLoop\<close>.
\<close>

definition InitInstance :: "bool \<Rightarrow> int \<Rightarrow> bool \<times> life_event list" where
  "InitInstance sockets_ok response =
     (if \<not> sockets_ok then (False, [MessageBox])
      else (False, [Acquire ShellManager, Acquire MainDialog, ModalLoop, Release ShellManager, Release MainDialog]))"

section \<open>Lemmas\<close>

lemma held_after_append:
  "held_after (es @ fs) R = (case held_after es R of None \<Rightarrow> None | Some S \<Rightarrow> held_after fs S)"
  by (induction es R rule: held_after.induct) auto

lemma held_after_threads:
  "held_after (map (\<lambda>i. Acquire (PoolThread i)) [0..<n]) R = Some (R + mset (map PoolThread [0..<n]))"
  by (induction n) (simp_all add: held_after_append)

lemma held_after_close:
  "held_after (map (\<lambda>i. Release (PoolThread i)) xs) (R + mset (map PoolThread xs)) = Some R"
  by (induction xs arbitrary: R) auto

lemma held_after_abort: "held_after (map (\<lambda>_. AbortTask) q) R = Some R"
  by (induction q) auto

lemma pool_released:
  "held_after (CThreadPool_takes p @ map (\<lambda>i. Acquire (PoolThread i)) [0..<m_nCurThreads p] @ CThreadPool_dtor p) R
     = Some R"
proof -
  let ?S = "add_mset PoolSection (add_mset (TaskSemaphore (sem_limit p)) (add_mset StopEvent
      (add_mset (HandleArray (handle_slots p)) R)))"
  have "held_after (CThreadPool_takes p) R = Some ?S" by (simp add: CThreadPool_takes_def)
  moreover have "held_after (CThreadPool_dtor p) (?S + mset (map PoolThread [0..<m_nCurThreads p])) = Some R"
    by (simp only: CThreadPool_dtor_def append_Cons append_Nil held_after.simps held_after_append
        held_after_close held_after_abort option.case) simp
  ultimately show ?thesis
    by (simp only: held_after_append held_after_threads option.case)
qed

text \<open>What \<open>Init\<close> takes begins with the client library, when that could be initialised.\<close>

lemma Server_Init_takes_cases:
  assumes "fst (mysql_library_init api db0) = 0"
  obtains m socks where "Server_Init_takes api socket_ok db0
      = (m, [Acquire ClientLibrary] @ (if m then [Acquire MysqlHandle] else []) @ socks)"
    "socks = [] \<or> socks = [Acquire UdpSocket]"
proof -
  let ?socks = "case Mysql_Init api ''localhost'' ''root'' ''root'' db0 of
            Inr (True, db1) \<Rightarrow>
              (case CreateTables api db1 of
                 Inr (True, db2) \<Rightarrow> if socket_ok then [Acquire UdpSocket] else []
               | _ \<Rightarrow> [])
          | _ \<Rightarrow> []"
  obtain db1 where 1: "mysql_library_init api db0 = (0, db1)" using assms by (cases "mysql_library_init api db0") auto
  obtain m db2 where 2: "mysql_init api db1 = (m, db2)" by fastforce
  have "?socks = [] \<or> ?socks = [Acquire UdpSocket]" by (simp split: sum.split prod.split bool.split)
  moreover have "Server_Init_takes api socket_ok db0
      = (m, [Acquire ClientLibrary] @ (if m then [Acquire MysqlHandle] else []) @ ?socks)"
    using 1 2 by (cases m) (simp_all add: Server_Init_takes_def Mysql_Init_takes_def)
  ultimately show ?thesis using that by blast
qed

section \<open>Properties\<close>



end
