(* ===== verification/Dialogs.thy ===== *)
theory Dialogs
  imports Prelude
begin

text \<open>
  The four input dialogs of the client (\<open>SchoolSystem/CStudentDlg\<close>, \<open>CCourseDlg\<close>, \<open>CClassDlg\<close>,
  \<open>CSelectDlg\<close>): their fields and the exchange of the fields with the edit controls. MFC's
  \<open>DDX_Text\<close> is a parameter \<open>ddx\<close> of the definitions: \<open>ddx save id w v\<close> exchanges the text of the
  control \<open>id\<close> of the window \<open>w\<close> with the variable whose value is \<open>v\<close>, from the control to the
  variable when \<open>save\<close>, and returns both. What the code relies on is \<open>ddx_ok\<close>.
\<close>

section \<open>Control identifiers\<close>

definition IDC_EDIT_STU_ID :: int where "IDC_EDIT_STU_ID = 1013"

definition IDC_EDIT_STU_NAME :: int where "IDC_EDIT_STU_NAME = 1014"

definition IDC_EDIT_CLASS_ID :: int where "IDC_EDIT_CLASS_ID = 1015"

definition IDC_EDIT_COURSE_ID :: int where "IDC_EDIT_COURSE_ID = 1018"

definition IDC_EDIT_COURSE_NAME :: int where "IDC_EDIT_COURSE_NAME = 1019"

definition IDC_EDIT_CLASS_NAME :: int where "IDC_EDIT_CLASS_NAME = 1020"

definition IDC_EDIT_SCORE :: int where "IDC_EDIT_SCORE = 1021"

lemmas control_ids = IDC_EDIT_STU_ID_def IDC_EDIT_STU_NAME_def IDC_EDIT_CLASS_ID_def
  IDC_EDIT_COURSE_ID_def IDC_EDIT_COURSE_NAME_def IDC_EDIT_CLASS_NAME_def IDC_EDIT_SCORE_def

section \<open>The dialogs\<close>

record CStudentDlg =
  stu_m_strStuId :: string
  stu_m_strStuName :: string
  stu_m_strClassId :: string

record CCourseDlg =
  crs_m_strCourseId :: string
  crs_m_strCourseName :: string

record CClassDlg =
  cls_m_strClassId :: string
  cls_m_strClassName :: string

record CSelectDlg =
  sel_m_strCourseId :: string
  sel_m_strStuId :: string
  sel_m_strScore :: string

definition new_CStudentDlg :: CStudentDlg where
  "new_CStudentDlg = \<lparr>stu_m_strStuId = [], stu_m_strStuName = [], stu_m_strClassId = []\<rparr>"

definition new_CCourseDlg :: CCourseDlg where
  "new_CCourseDlg = \<lparr>crs_m_strCourseId = [], crs_m_strCourseName = []\<rparr>"

definition new_CClassDlg :: CClassDlg where
  "new_CClassDlg = \<lparr>cls_m_strClassId = [], cls_m_strClassName = []\<rparr>"

definition new_CSelectDlg :: CSelectDlg where
  "new_CSelectDlg = \<lparr>sel_m_strCourseId = [], sel_m_strStuId = [], sel_m_strScore = []\<rparr>"

type_synonym 'w ddx_text = "bool \<Rightarrow> int \<Rightarrow> 'w \<Rightarrow> string \<Rightarrow> 'w \<times> string"

section \<open>Data exchange\<close>

definition DoDataExchange_student :: "'w ddx_text \<Rightarrow> bool \<Rightarrow> 'w \<times> CStudentDlg \<Rightarrow> 'w \<times> CStudentDlg" where
  "DoDataExchange_student ddx save wd =
     (let (w0, d) = wd;
          (w1, stuName) = ddx save IDC_EDIT_STU_NAME w0 (stu_m_strStuName d);
          (w2, classId) = ddx save IDC_EDIT_CLASS_ID w1 (stu_m_strClassId d);
          (w3, stuId) = ddx save IDC_EDIT_STU_ID w2 (stu_m_strStuId d)
      in (w3, d\<lparr>stu_m_strStuName := stuName, stu_m_strClassId := classId, stu_m_strStuId := stuId\<rparr>))"

definition DoDataExchange_course :: "'w ddx_text \<Rightarrow> bool \<Rightarrow> 'w \<times> CCourseDlg \<Rightarrow> 'w \<times> CCourseDlg" where
  "DoDataExchange_course ddx save wd =
     (let (w0, d) = wd;
          (w1, courseId) = ddx save IDC_EDIT_COURSE_ID w0 (crs_m_strCourseId d);
          (w2, courseName) = ddx save IDC_EDIT_COURSE_NAME w1 (crs_m_strCourseName d)
      in (w2, d\<lparr>crs_m_strCourseId := courseId, crs_m_strCourseName := courseName\<rparr>))"

definition DoDataExchange_class :: "'w ddx_text \<Rightarrow> bool \<Rightarrow> 'w \<times> CClassDlg \<Rightarrow> 'w \<times> CClassDlg" where
  "DoDataExchange_class ddx save wd =
     (let (w0, d) = wd;
          (w1, classId) = ddx save IDC_EDIT_CLASS_ID w0 (cls_m_strClassId d);
          (w2, className) = ddx save IDC_EDIT_CLASS_NAME w1 (cls_m_strClassName d)
      in (w2, d\<lparr>cls_m_strClassId := classId, cls_m_strClassName := className\<rparr>))"

definition DoDataExchange_select :: "'w ddx_text \<Rightarrow> bool \<Rightarrow> 'w \<times> CSelectDlg \<Rightarrow> 'w \<times> CSelectDlg" where
  "DoDataExchange_select ddx save wd =
     (let (w0, d) = wd;
          (w1, courseId) = ddx save IDC_EDIT_COURSE_ID w0 (sel_m_strCourseId d);
          (w2, stuId) = ddx save IDC_EDIT_STU_ID w1 (sel_m_strStuId d);
          (w3, score) = ddx save IDC_EDIT_SCORE w2 (sel_m_strScore d)
      in (w3, d\<lparr>sel_m_strCourseId := courseId, sel_m_strStuId := stuId, sel_m_strScore := score\<rparr>))"

text \<open>
  The handlers of the OK buttons (\<open>UpdateData(TRUE)\<close>, then \<open>CDialogEx::OnOK\<close> closes the dialog) and
  the initialisations (\<open>UpdateData(FALSE)\<close>) that two of the dialogs override.
\<close>

definition OnBnClickedOk_student :: "'w ddx_text \<Rightarrow> 'w \<times> CStudentDlg \<Rightarrow> 'w \<times> CStudentDlg" where
  "OnBnClickedOk_student ddx wd = DoDataExchange_student ddx True wd"

definition OnBnClickedOk_course :: "'w ddx_text \<Rightarrow> 'w \<times> CCourseDlg \<Rightarrow> 'w \<times> CCourseDlg" where
  "OnBnClickedOk_course ddx wd = DoDataExchange_course ddx True wd"

definition OnBnClickedOk_class :: "'w ddx_text \<Rightarrow> 'w \<times> CClassDlg \<Rightarrow> 'w \<times> CClassDlg" where
  "OnBnClickedOk_class ddx wd = DoDataExchange_class ddx True wd"

definition OnBnClickedOk_select :: "'w ddx_text \<Rightarrow> 'w \<times> CSelectDlg \<Rightarrow> 'w \<times> CSelectDlg" where
  "OnBnClickedOk_select ddx wd = DoDataExchange_select ddx True wd"

definition OnInitDialog_student :: "'w ddx_text \<Rightarrow> 'w \<times> CStudentDlg \<Rightarrow> 'w \<times> CStudentDlg" where
  "OnInitDialog_student ddx wd = DoDataExchange_student ddx False wd"

definition OnInitDialog_class :: "'w ddx_text \<Rightarrow> 'w \<times> CClassDlg \<Rightarrow> 'w \<times> CClassDlg" where
  "OnInitDialog_class ddx wd = DoDataExchange_class ddx False wd"

text \<open>
  The documented behaviour of \<open>DDX_Text\<close>, seen through the text of each control.
\<close>

definition ddx_ok :: "'w ddx_text \<Rightarrow> ('w \<Rightarrow> int \<Rightarrow> string) \<Rightarrow> bool" where
  "ddx_ok ddx txt \<longleftrightarrow>
     (\<forall>i w v. ddx True i w v = (w, txt w i)
        \<and> snd (ddx False i w v) = v \<and> txt (fst (ddx False i w v)) = (txt w)(i := v))"

lemma ddx_save: "ddx_ok ddx txt \<Longrightarrow> ddx True i w v = (w, txt w i)"
  by (simp add: ddx_ok_def)

lemma ddx_load: "ddx_ok ddx txt \<Longrightarrow> \<exists>w'. ddx False i w v = (w', v) \<and> txt w' = (txt w)(i := v)"
  unfolding ddx_ok_def by (metis prod.collapse)

section \<open>Properties\<close>

text \<open>
  The dialogs take over exactly what their edit controls show: OK stores in each field the text
  of its own control, and a dialog that is opened on given fields and confirmed without editing
  returns them unchanged.
\<close>

theorem dialogs_exchange:
  assumes "ddx_ok ddx txt"
  shows "OnBnClickedOk_student ddx (w, sd) = (w, \<lparr>stu_m_strStuId = txt w IDC_EDIT_STU_ID,
           stu_m_strStuName = txt w IDC_EDIT_STU_NAME, stu_m_strClassId = txt w IDC_EDIT_CLASS_ID\<rparr>)
     \<and> OnBnClickedOk_course ddx (w, cd) = (w, \<lparr>crs_m_strCourseId = txt w IDC_EDIT_COURSE_ID,
           crs_m_strCourseName = txt w IDC_EDIT_COURSE_NAME\<rparr>)
     \<and> OnBnClickedOk_class ddx (w, kd) = (w, \<lparr>cls_m_strClassId = txt w IDC_EDIT_CLASS_ID,
           cls_m_strClassName = txt w IDC_EDIT_CLASS_NAME\<rparr>)
     \<and> OnBnClickedOk_select ddx (w, ed) = (w, \<lparr>sel_m_strCourseId = txt w IDC_EDIT_COURSE_ID,
           sel_m_strStuId = txt w IDC_EDIT_STU_ID, sel_m_strScore = txt w IDC_EDIT_SCORE\<rparr>)
     \<and> snd (OnBnClickedOk_student ddx (OnInitDialog_student ddx (w, sd))) = sd
     \<and> snd (OnBnClickedOk_class ddx (OnInitDialog_class ddx (w, kd))) = kd"
proof -
  note save = ddx_save [OF assms]
  obtain w1 w2 w3 where s: "ddx False IDC_EDIT_STU_NAME w (stu_m_strStuName sd) = (w1, stu_m_strStuName sd)"
      "txt w1 = (txt w)(IDC_EDIT_STU_NAME := stu_m_strStuName sd)"
      "ddx False IDC_EDIT_CLASS_ID w1 (stu_m_strClassId sd) = (w2, stu_m_strClassId sd)"
      "txt w2 = (txt w1)(IDC_EDIT_CLASS_ID := stu_m_strClassId sd)"
      "ddx False IDC_EDIT_STU_ID w2 (stu_m_strStuId sd) = (w3, stu_m_strStuId sd)"
      "txt w3 = (txt w2)(IDC_EDIT_STU_ID := stu_m_strStuId sd)"
    using ddx_load [OF assms] by metis
  obtain u1 u2 where k: "ddx False IDC_EDIT_CLASS_ID w (cls_m_strClassId kd) = (u1, cls_m_strClassId kd)"
      "txt u1 = (txt w)(IDC_EDIT_CLASS_ID := cls_m_strClassId kd)"
      "ddx False IDC_EDIT_CLASS_NAME u1 (cls_m_strClassName kd) = (u2, cls_m_strClassName kd)"
      "txt u2 = (txt u1)(IDC_EDIT_CLASS_NAME := cls_m_strClassName kd)"
    using ddx_load [OF assms] by metis
  show ?thesis
    by (simp add: OnBnClickedOk_student_def OnBnClickedOk_course_def OnBnClickedOk_class_def
        OnBnClickedOk_select_def OnInitDialog_student_def OnInitDialog_class_def
        DoDataExchange_student_def DoDataExchange_course_def DoDataExchange_class_def
        DoDataExchange_select_def save s k) (simp add: control_ids)
qed

text \<open>A window as the texts of its controls.\<close>

definition ddx_example :: "(int \<Rightarrow> string) ddx_text" where
  "ddx_example save i w v = (if save then (w, w i) else (w(i := v), v))"

theorem dialogs_exchange_witness:
  "snd (OnBnClickedOk_class ddx_example (OnInitDialog_class ddx_example
      (\<lambda>_. [], \<lparr>cls_m_strClassId = ''1'', cls_m_strClassName = ''A''\<rparr>)))
     = \<lparr>cls_m_strClassId = ''1'', cls_m_strClassName = ''A''\<rparr>"
proof -
  have "ddx_ok ddx_example (\<lambda>w. w)" by (simp add: ddx_ok_def ddx_example_def)
  from dialogs_exchange [OF this] show ?thesis by blast
qed

end
