(* ===== verification/SchoolDlg.thy ===== *)
theory SchoolDlg
  imports ShowList Dialogs
begin

text \<open>
  The message handlers of the main window, \<open>SchoolSystem/SchoolSystemDlg.cpp\<close>: every handler with
  the SQL text it builds, the answer it waits for and the calls of the controls it makes. What
  the user does and what the controls report (the modal dialogs, the selected row, the text of a
  cell, the selected tab, the number of columns) is the record \<open>ui_env\<close>.
\<close>

section \<open>The environment of a handler\<close>

text \<open>
  \<open>modal_student\<close> and its siblings give the fields of the dialog after \<open>DoModal\<close>, and whether it
  returned \<open>IDOK\<close>; \<open>n_columns\<close> is how often \<open>DeleteColumn(0)\<close> succeeds.
\<close>

record ui_env =
  modal_student :: "CStudentDlg \<Rightarrow> bool \<times> CStudentDlg"
  modal_course :: "CCourseDlg \<Rightarrow> bool \<times> CCourseDlg"
  modal_class :: "CClassDlg \<Rightarrow> bool \<times> CClassDlg"
  modal_select :: "CSelectDlg \<Rightarrow> bool \<times> CSelectDlg"
  GetSelectionMark :: int
  GetItemText :: "int \<Rightarrow> int \<Rightarrow> string"
  GetCurSel :: int
  n_columns :: nat

text \<open>\<open>CString::Format\<close> for formats whose only directive is \<open>%s\<close>, one argument for each.\<close>

fun Format :: "string \<Rightarrow> string list \<Rightarrow> string" where
  "Format [] args = []"
| "Format [c] args = [c]"
| "Format (c # d # fs) args =
     (if c = CHR ''%'' \<and> d = CHR ''s''
      then (case args of [] \<Rightarrow> [] | a # as \<Rightarrow> a @ Format fs as)
      else c # Format (d # fs) args)"

section \<open>SQL texts\<close>

definition fmt_insert_student :: string where
  "fmt_insert_student =
     ''INSERT INTO t_student (stu_id, stu_name, class_id) VALUES ('%s', '%s', '%s')''"

definition fmt_insert_course :: string where
  "fmt_insert_course = ''INSERT INTO t_course (course_id, course_name) VALUES ('%s', '%s')''"

definition fmt_insert_class :: string where
  "fmt_insert_class = ''INSERT INTO t_class (class_id, class_name) VALUES ('%s', '%s')''"

definition fmt_insert_select :: string where
  "fmt_insert_select = ''INSERT INTO t_select (stu_id, course_id, score) VALUES ('%s', '%s', '%s')''"

definition fmt_delete_student :: string where
  "fmt_delete_student = ''DELETE FROM t_student WHERE stu_id = '%s'' @ [CHR 0x27]"

definition fmt_delete_course :: string where
  "fmt_delete_course = ''DELETE FROM t_course WHERE course_id = '%s'' @ [CHR 0x27]"

definition fmt_delete_class :: string where
  "fmt_delete_class = ''DELETE FROM t_class WHERE class_id = '%s'' @ [CHR 0x27]"

definition fmt_delete_select :: string where
  "fmt_delete_select = ''DELETE FROM t_select WHERE stu_id = '%s' AND course_id = '%s'' @ [CHR 0x27]"

definition fmt_update_student :: string where
  "fmt_update_student =
     ''UPDATE t_student SET stu_id = '%s', stu_name = '%s', class_id = '%s' WHERE (stu_id = '%s');''"

definition fmt_update_course :: string where
  "fmt_update_course =
     ''UPDATE t_course SET course_id = '%s', course_name = '%s' WHERE (course_id = '%s');''"

definition fmt_update_class :: string where
  "fmt_update_class =
     ''UPDATE t_class SET class_id = '%s', class_name = '%s' WHERE (class_id = '%s');''"

definition fmt_update_select :: string where
  "fmt_update_select =
     ''UPDATE t_select SET score = '%s' WHERE (stu_id = '%s') and (course_id = '%s');''"

text \<open>The condition a filled-in field adds to a \<open>SELECT\<close>.\<close>

definition and_field :: "string \<Rightarrow> string \<Rightarrow> string" where
  "and_field field v =
     (if v = [] then [] else '' AND '' @ field @ '' = '' @ [CHR 0x27] @ v @ [CHR 0x27])"

definition sql_union_select :: string where
  "sql_union_select =
     ''select A.*, B.course_id, B.course_name, B.score from (select t_student.*, t_class.class_name from t_student left join t_class on t_student.class_id = t_class.class_id) as A ''
     @ ''inner join(select t_select.stu_id, t_select.course_id, t_course.course_name, t_select.score from t_select left join t_course on t_select.course_id = t_course.course_id) as B ''
     @ ''on A.stu_id = B.stu_id;''"

section \<open>Messages, in the GBK bytes of the source\<close>

definition msg_connect_failed :: string where
  "msg_connect_failed = [CHR 0xC1, CHR 0xAC, CHR 0xBD, CHR 0xD3, CHR 0xB7, CHR 0xFE, CHR 0xCE,
     CHR 0xF1, CHR 0xC6, CHR 0xF7, CHR 0xCA, CHR 0xA7, CHR 0xB0, CHR 0xDC]"

definition msg_insert_failed :: string where
  "msg_insert_failed = [CHR 0xCC, CHR 0xED, CHR 0xBC, CHR 0xD3, CHR 0xCA, CHR 0xA7, CHR 0xB0, CHR 0xDC]"

definition msg_choose_delete :: string where
  "msg_choose_delete = [CHR 0xC7, CHR 0xEB, CHR 0xD1, CHR 0xA1, CHR 0xD4, CHR 0xF1, CHR 0xD2,
     CHR 0xBB, CHR 0xD0, CHR 0xD0, CHR 0xBD, CHR 0xF8, CHR 0xD0, CHR 0xD0, CHR 0xC9, CHR 0xBE, CHR 0xB3, CHR 0xFD]"

definition msg_delete_failed :: string where
  "msg_delete_failed = [CHR 0xC9, CHR 0xBE, CHR 0xB3, CHR 0xFD, CHR 0xCA, CHR 0xA7, CHR 0xB0, CHR 0xDC]"

definition msg_choose_update :: string where
  "msg_choose_update = [CHR 0xC7, CHR 0xEB, CHR 0xD1, CHR 0xA1, CHR 0xD4, CHR 0xF1, CHR 0xD2,
     CHR 0xBB, CHR 0xD0, CHR 0xD0, CHR 0xBD, CHR 0xF8, CHR 0xD0, CHR 0xD0, CHR 0xD0, CHR 0xDE, CHR 0xB8, CHR 0xC4]"

definition msg_update_failed :: string where
  "msg_update_failed = [CHR 0xD0, CHR 0xDE, CHR 0xB8, CHR 0xC4, CHR 0xCA, CHR 0xA7, CHR 0xB0, CHR 0xDC]"

section \<open>Shared steps\<close>

text \<open>
  \<open>SendSql\<close>, \<open>Recv\<close> of \<open>nSuccess\<close>, and the calls for \<open>-1 != nSuccess\<close> or the message box: the part
  the inserting, deleting and updating handlers have in common.
\<close>

definition exec_sql ::
    "(nat \<Rightarrow> CTcpClient \<Rightarrow> CTcpClient) \<Rightarrow> string \<Rightarrow> ui list \<Rightarrow> string \<Rightarrow> CSchoolSystemDlg
     \<Rightarrow> (CSchoolSystemDlg \<times> ui list) run" where
  "exec_sql ev sql success msg d =
     run_bind (Some (SendSql sql d)) (\<lambda>d1.
     run_bind (await_Recv (ev 0) (le32 0) 4 (m_tcpClient d1)) (\<lambda>(c, nSuccess).
       Some (Inr (d1\<lparr>m_tcpClient := c\<rparr>, if - 1 \<noteq> un_le32 nSuccess then success else [AfxMessageBox msg]))))"

text \<open>\<open>SendSql(sql); ShowList();\<close>\<close>

definition query_sql ::
    "ui_env \<Rightarrow> (nat \<Rightarrow> CTcpClient \<Rightarrow> CTcpClient) \<Rightarrow> string \<Rightarrow> CSchoolSystemDlg
     \<Rightarrow> (CSchoolSystemDlg \<times> ui list) run" where
  "query_sql env ev sql d = run_bind (Some (SendSql sql d)) (\<lambda>d1. ShowList (n_columns env) ev d1)"

section \<open>Handlers\<close>

definition new_CSchoolSystemDlg :: "CTcpClient \<Rightarrow> int \<Rightarrow> CSchoolSystemDlg" where
  "new_CSchoolSystemDlg client tab = \<lparr>m_nCurTabSel = tab, m_tcpClient = client, m_fieldMap = fieldMap_init\<rparr>"

definition OnInitDialog ::
    "ui_env \<Rightarrow> connect_env \<Rightarrow> (nat \<Rightarrow> CTcpClient \<Rightarrow> CTcpClient) \<Rightarrow> CSchoolSystemDlg
     \<Rightarrow> (CSchoolSystemDlg \<times> ui list) run" where
  "OnInitDialog env cenv ev d0 =
     (let d1 = d0\<lparr>m_nCurTabSel := 0\<rparr>;
          calls = [SetIcon True, SetIcon False,
            TabInsertItem 0 [CHR 0xD1, CHR 0xA7, CHR 0xC9, CHR 0xFA],
            TabInsertItem 1 [CHR 0xBF, CHR 0xCE, CHR 0xB3, CHR 0xCC],
            TabInsertItem 2 [CHR 0xB0, CHR 0xE0, CHR 0xBC, CHR 0xB6],
            TabInsertItem 3 [CHR 0xD1, CHR 0xA1, CHR 0xBF, CHR 0xCE], SetExtendedStyle];
          (ok, c, _) = Connect cenv (m_tcpClient d1);
          calls' = calls @ (if ok then [] else [AfxMessageBox msg_connect_failed, EndDialog 0])
      in run_bind (query_sql env ev ''SELECT * FROM t_student'' (d1\<lparr>m_tcpClient := c\<rparr>)) (\<lambda>(d2, us).
           Some (Inr (d2, calls' @ us))))"

text \<open>\<open>OnPaint\<close> of a minimised window: where the icon of \<open>cx\<close> by \<open>cy\<close> pixels is drawn.\<close>

definition OnPaint :: "bool \<Rightarrow> int \<Rightarrow> int \<Rightarrow> int \<Rightarrow> int \<Rightarrow> (int \<times> int) option" where
  "OnPaint iconic width height cxIcon cyIcon =
     (if iconic then Some ((width - cxIcon + 1) sdiv 2, (height - cyIcon + 1) sdiv 2) else None)"

definition OnTcnSelchangeTab ::
    "ui_env \<Rightarrow> (nat \<Rightarrow> CTcpClient \<Rightarrow> CTcpClient) \<Rightarrow> CSchoolSystemDlg \<Rightarrow> (CSchoolSystemDlg \<times> ui list) run" where
  "OnTcnSelchangeTab env ev d0 =
     (let d = d0\<lparr>m_nCurTabSel := GetCurSel env\<rparr>;
          sql = (if m_nCurTabSel d = 0 then ''SELECT * FROM t_student''
                 else if m_nCurTabSel d = 1 then ''SELECT * FROM t_course''
                 else if m_nCurTabSel d = 2 then ''SELECT * FROM t_class''
                 else if m_nCurTabSel d = 3 then ''SELECT * FROM t_select''
                 else [])
      in query_sql env ev sql d)"

text \<open>
  Inserting: the dialog of the current tab; when it is confirmed, the SQL text to execute and the
  calls that show the new row.
\<close>

definition insert_cmd :: "ui_env \<Rightarrow> int \<Rightarrow> (string \<times> ui list) option" where
  "insert_cmd env tab =
     (if tab = 0 then
        (case modal_student env new_CStudentDlg of (ok, s) \<Rightarrow>
          if ok then Some (Format fmt_insert_student [stu_m_strStuId s, stu_m_strStuName s, stu_m_strClassId s],
              [InsertItem 0, SetItemText 0 0 (stu_m_strStuId s), SetItemText 0 1 (stu_m_strStuName s),
               SetItemText 0 2 (stu_m_strClassId s)])
          else None)
      else if tab = 1 then
        (case modal_course env new_CCourseDlg of (ok, s) \<Rightarrow>
          if ok then Some (Format fmt_insert_course [crs_m_strCourseId s, crs_m_strCourseName s],
              [InsertItem 0, SetItemText 0 0 (crs_m_strCourseId s), SetItemText 0 1 (crs_m_strCourseName s)])
          else None)
      else if tab = 2 then
        (case modal_class env new_CClassDlg of (ok, s) \<Rightarrow>
          if ok then Some (Format fmt_insert_class [cls_m_strClassId s, cls_m_strClassName s],
              [InsertItem 0, SetItemText 0 0 (cls_m_strClassId s), SetItemText 0 1 (cls_m_strClassName s)])
          else None)
      else if tab = 3 then
        (case modal_select env new_CSelectDlg of (ok, s) \<Rightarrow>
          if ok then Some (Format fmt_insert_select [sel_m_strStuId s, sel_m_strCourseId s, sel_m_strScore s],
              [InsertItem 0, SetItemText 0 0 (sel_m_strStuId s), SetItemText 0 1 (sel_m_strCourseId s),
               SetItemText 0 2 (sel_m_strScore s)])
          else None)
      else None)"

definition OnBnClickedButtonInsert ::
    "ui_env \<Rightarrow> (nat \<Rightarrow> CTcpClient \<Rightarrow> CTcpClient) \<Rightarrow> CSchoolSystemDlg \<Rightarrow> (CSchoolSystemDlg \<times> ui list) run" where
  "OnBnClickedButtonInsert env ev d =
     (case insert_cmd env (m_nCurTabSel d) of
        None \<Rightarrow> Some (Inr (d, []))
      | Some (sql, calls) \<Rightarrow> exec_sql ev sql calls msg_insert_failed d)"

text \<open>Deleting the selected row; an unknown tab sends an empty text.\<close>

definition delete_sql :: "ui_env \<Rightarrow> int \<Rightarrow> int \<Rightarrow> string" where
  "delete_sql env row tab =
     (let strId = GetItemText env row 0
      in if tab = 0 then Format fmt_delete_student [strId]
         else if tab = 1 then Format fmt_delete_course [strId]
         else if tab = 2 then Format fmt_delete_class [strId]
         else if tab = 3 then Format fmt_delete_select [strId, GetItemText env row 1]
         else [])"

definition OnBnClickedButtonDelete ::
    "ui_env \<Rightarrow> (nat \<Rightarrow> CTcpClient \<Rightarrow> CTcpClient) \<Rightarrow> CSchoolSystemDlg \<Rightarrow> (CSchoolSystemDlg \<times> ui list) run" where
  "OnBnClickedButtonDelete env ev d =
     (let nCurSelRow = GetSelectionMark env
      in if - 1 = nCurSelRow then Some (Inr (d, [AfxMessageBox msg_choose_delete]))
         else exec_sql ev (delete_sql env nCurSelRow (m_nCurTabSel d)) [DeleteItem nCurSelRow] msg_delete_failed d)"

text \<open>
  Updating the selected row: the dialog of the tab is opened on the row's texts; \<open>strId\<close> is the
  key before the change.
\<close>

definition update_cmd :: "ui_env \<Rightarrow> int \<Rightarrow> int \<Rightarrow> (string \<times> ui list) option" where
  "update_cmd env row tab =
     (let strId = GetItemText env row 0
      in if tab = 0 then
           (case modal_student env \<lparr>stu_m_strStuId = GetItemText env row 0,
                   stu_m_strStuName = GetItemText env row 1, stu_m_strClassId = GetItemText env row 2\<rparr> of
             (ok, s) \<Rightarrow>
               if ok then Some (Format fmt_update_student
                     [stu_m_strStuId s, stu_m_strStuName s, stu_m_strClassId s, strId],
                   [SetItemText row 0 (stu_m_strStuId s), SetItemText row 1 (stu_m_strStuName s),
                    SetItemText row 2 (stu_m_strClassId s)])
               else None)
         else if tab = 1 then
           (case modal_course env \<lparr>crs_m_strCourseId = GetItemText env row 0,
                   crs_m_strCourseName = GetItemText env row 1\<rparr> of
             (ok, s) \<Rightarrow>
               if ok then Some (Format fmt_update_course [crs_m_strCourseId s, crs_m_strCourseName s, strId],
                   [SetItemText row 0 (crs_m_strCourseId s), SetItemText row 1 (crs_m_strCourseName s)])
               else None)
         else if tab = 2 then
           (case modal_class env \<lparr>cls_m_strClassId = GetItemText env row 0,
                   cls_m_strClassName = GetItemText env row 1\<rparr> of
             (ok, s) \<Rightarrow>
               if ok then Some (Format fmt_update_class [cls_m_strClassId s, cls_m_strClassName s, strId],
                   [SetItemText row 0 (cls_m_strClassId s), SetItemText row 1 (cls_m_strClassName s)])
               else None)
         else if tab = 3 then
           (case modal_select env \<lparr>sel_m_strCourseId = GetItemText env row 1,
                   sel_m_strStuId = GetItemText env row 0, sel_m_strScore = GetItemText env row 2\<rparr> of
             (ok, s) \<Rightarrow>
               if ok then Some (Format fmt_update_select [sel_m_strScore s, sel_m_strStuId s, sel_m_strCourseId s],
                   [SetItemText row 2 (sel_m_strScore s)])
               else None)
         else None)"

definition OnBnClickedButtonUpdate ::
    "ui_env \<Rightarrow> (nat \<Rightarrow> CTcpClient \<Rightarrow> CTcpClient) \<Rightarrow> CSchoolSystemDlg \<Rightarrow> (CSchoolSystemDlg \<times> ui list) run" where
  "OnBnClickedButtonUpdate env ev d =
     (let nCurSelRow = GetSelectionMark env
      in if - 1 = nCurSelRow then Some (Inr (d, [AfxMessageBox msg_choose_update]))
         else (case update_cmd env nCurSelRow (m_nCurTabSel d) of
                 None \<Rightarrow> Some (Inr (d, []))
               | Some (sql, calls) \<Rightarrow> exec_sql ev sql calls msg_update_failed d))"

text \<open>Searching: a condition for each field the user filled in.\<close>

definition select_sql :: "ui_env \<Rightarrow> int \<Rightarrow> string option" where
  "select_sql env tab =
     (if tab = 0 then
        (case modal_student env new_CStudentDlg of (ok, s) \<Rightarrow>
          if ok then Some (''SELECT * FROM t_student WHERE true''
              @ and_field ''stu_id'' (stu_m_strStuId s) @ and_field ''stu_name'' (stu_m_strStuName s)
              @ and_field ''class_id'' (stu_m_strClassId s))
          else None)
      else if tab = 1 then
        (case modal_course env new_CCourseDlg of (ok, s) \<Rightarrow>
          if ok then Some (''SELECT * FROM t_course WHERE true''
              @ and_field ''course_id'' (crs_m_strCourseId s) @ and_field ''course_name'' (crs_m_strCourseName s))
          else None)
      else if tab = 2 then
        (case modal_class env new_CClassDlg of (ok, s) \<Rightarrow>
          if ok then Some (''SELECT * FROM t_class WHERE true''
              @ and_field ''class_id'' (cls_m_strClassId s) @ and_field ''class_name'' (cls_m_strClassName s))
          else None)
      else if tab = 3 then
        (case modal_select env new_CSelectDlg of (ok, s) \<Rightarrow>
          if ok then Some (''SELECT * FROM t_select WHERE true''
              @ and_field ''stu_id'' (sel_m_strStuId s) @ and_field ''course_id'' (sel_m_strCourseId s)
              @ and_field ''score'' (sel_m_strScore s))
          else None)
      else None)"

definition OnBnClickedButtonSelect ::
    "ui_env \<Rightarrow> (nat \<Rightarrow> CTcpClient \<Rightarrow> CTcpClient) \<Rightarrow> CSchoolSystemDlg \<Rightarrow> (CSchoolSystemDlg \<times> ui list) run" where
  "OnBnClickedButtonSelect env ev d =
     (case select_sql env (m_nCurTabSel d) of
        None \<Rightarrow> Some (Inr (d, []))
      | Some sql \<Rightarrow> query_sql env ev sql d)"

definition OnBnClickedButtonUnionSelect ::
    "ui_env \<Rightarrow> (nat \<Rightarrow> CTcpClient \<Rightarrow> CTcpClient) \<Rightarrow> CSchoolSystemDlg \<Rightarrow> (CSchoolSystemDlg \<times> ui list) run" where
  "OnBnClickedButtonUnionSelect env ev d = query_sql env ev sql_union_select d"

text \<open>\<open>OnOK\<close> is overridden with an empty body, so that Enter does not close the window.\<close>

definition OnOK :: "CSchoolSystemDlg \<Rightarrow> CSchoolSystemDlg" where
  "OnOK d = d"

section \<open>Quoting\<close>

text \<open>Every directive of a format is followed by a quote.\<close>

fun quoted_format :: "string \<Rightarrow> nat \<Rightarrow> bool" where
  "quoted_format [] n = (n = 0)"
| "quoted_format [c] n = (n = 0)"
| "quoted_format (c # d # fs) n =
     (if c = CHR ''%'' \<and> d = CHR ''s''
      then 0 < n \<and> fs \<noteq> [] \<and> hd fs = CHR 0x27 \<and> quoted_format fs (n - 1)
      else quoted_format (d # fs) n)"

definition quote_free :: "string list \<Rightarrow> bool" where
  "quote_free ss \<longleftrightarrow> (\<forall>s \<in> set ss. CHR 0x27 \<notin> set s)"

lemma quote_free_Cons [simp]: "quote_free (s # ss) \<longleftrightarrow> CHR 0x27 \<notin> set s \<and> quote_free ss"
  by (auto simp: quote_free_def)

lemma split_at_quote:
  "a @ CHR 0x27 # r = b @ CHR 0x27 # r' \<Longrightarrow> CHR 0x27 \<notin> set a \<Longrightarrow> CHR 0x27 \<notin> set b \<Longrightarrow> a = b \<and> r = r'"
  by (induction a arbitrary: b) (auto simp: Cons_eq_append_conv append_eq_Cons_conv)

lemma Format_quote: "Format (CHR 0x27 # fs) args = CHR 0x27 # Format fs args"
  by (cases fs) simp_all

lemma Format_inj:
  assumes "quoted_format fmt n" and "length as = n" "length bs = n" and "quote_free as" "quote_free bs"
    and "Format fmt as = Format fmt bs"
  shows "as = bs"
  using assms
proof (induction fmt n arbitrary: as bs rule: quoted_format.induct)
  case (3 c d fs n)
  show ?case
  proof (cases "c = CHR ''%'' \<and> d = CHR ''s''")
    case True
    with "3.prems" obtain gs a as' b bs' where
      eq: "fs = CHR 0x27 # gs" "as = a # as'" "bs = b # bs'"
      by (cases fs; cases as; cases bs) auto
    with True "3.prems" have "a @ CHR 0x27 # Format gs as' = b @ CHR 0x27 # Format gs bs'"
      by (simp add: Format_quote)
    moreover have "CHR 0x27 \<notin> set a" "CHR 0x27 \<notin> set b" using "3.prems"(4,5) eq(2,3) by simp_all
    ultimately have "a = b" "Format gs as' = Format gs bs'" by (blast dest: split_at_quote)+
    moreover from this(2) have "Format fs as' = Format fs bs'" by (simp add: eq Format_quote)
    moreover have "quoted_format fs (n - 1)" "length as' = n - 1" "length bs' = n - 1"
      "quote_free as'" "quote_free bs'"
      using True "3.prems"(1-5) eq(2,3) by simp_all
    ultimately show ?thesis using "3.IH"(1) [OF True] eq(2,3) by blast
  next
    case False
    then have "Format (d # fs) as = Format (d # fs) bs" "quoted_format (d # fs) n"
      using "3.prems"(1,6) by auto
    with "3.IH"(2) [OF False] "3.prems" show ?thesis by blast
  qed
qed simp_all

definition formats :: "(string \<times> nat) list" where
  "formats = [(fmt_insert_student, 3), (fmt_insert_course, 2), (fmt_insert_class, 2), (fmt_insert_select, 3),
     (fmt_delete_student, 1), (fmt_delete_course, 1), (fmt_delete_class, 1), (fmt_delete_select, 2),
     (fmt_update_student, 4), (fmt_update_course, 3), (fmt_update_class, 3), (fmt_update_select, 3)]"

lemmas format_defs = fmt_insert_student_def fmt_insert_course_def fmt_insert_class_def fmt_insert_select_def
  fmt_delete_student_def fmt_delete_course_def fmt_delete_class_def fmt_delete_select_def
  fmt_update_student_def fmt_update_course_def fmt_update_class_def fmt_update_select_def

lemma formats_quoted: "(fmt, n) \<in> set formats \<Longrightarrow> quoted_format fmt n"
  by (auto simp: formats_def format_defs)

section \<open>Outcomes of the shared steps\<close>

lemma exec_sql_outcome:
  assumes "client_room (1 + packets (length sql + 1)) (m_tcpClient d)" and "length sql < 2 ^ 31 - 1"
    and "length (client_in (m_tcpClient d)) < 2 ^ 31"
    and "client_brings 0 (client_in (m_tcpClient d)) (le32 n @ rest) (ev 0)" and "int32_range n"
  shows "\<exists>c1 c2. SendSql sql d = Inr (d\<lparr>m_tcpClient := c1\<rparr>)
     \<and> client_out c1 = client_out (m_tcpClient d) @ frame (sql @ [NUL])
     \<and> exec_sql ev sql success msg d
         = Some (Inr (d\<lparr>m_tcpClient := c2\<rparr>, if n \<noteq> - 1 then success else [AfxMessageBox msg]))
     \<and> client_in c2 = rest"
proof -
  obtain c1 where c1: "SendSql sql d = Inr (d\<lparr>m_tcpClient := c1\<rparr>)"
      "client_out c1 = client_out (m_tcpClient d) @ frame (sql @ [NUL])"
      "client_holds 0 (client_in (m_tcpClient d)) c1"
    using SendSql_frame [OF assms(1,2)] assms(3) by (auto simp: client_holds_def)
  obtain c2 where "await_Recv (ev 0) (le32 0) 4 c1 = Some (Inr (c2, le32 n))" "client_holds 0 rest c2"
    using await_int [OF c1(3) assms(4), of "le32 0"] by auto
  with c1 assms(5) show ?thesis
    by (auto simp: exec_sql_def codec_simps client_holds_def)
qed

lemma query_sql_table:
  assumes "client_room (1 + packets (length sql + 1)) (m_tcpClient d)" and "length sql < 2 ^ 31 - 1"
    and "length (client_in (m_tcpClient d)) < 2 ^ 31" and "answerable res" and "tabular res"
    and "timely 0 ev (client_in (m_tcpClient d)) (flat (res_fields res)) (flat (map the (concat (res_rows res)))) rest"
  shows "\<exists>c'. query_sql env ev sql d
       = Some (Inr (d\<lparr>m_tcpClient := c', m_fieldMap := field_refs (res_fields res) (m_fieldMap d)\<rparr>,
                    clear_calls (n_columns env) @ table_calls (m_fieldMap d) res))
     \<and> client_in c' = rest"
proof -
  obtain c1 where c1: "SendSql sql d = Inr (d\<lparr>m_tcpClient := c1\<rparr>)" "client_holds 0 (client_in (m_tcpClient d)) c1"
    using SendSql_frame [OF assms(1,2)] assms(3) by (auto simp: client_holds_def)
  with ShowList_table [OF assms(4,5), of 0 _ "d\<lparr>m_tcpClient := c1\<rparr>" ev rest "n_columns env"] assms(6)
  show ?thesis by (auto simp: query_sql_def client_holds_def)
qed

text \<open>A user who confirms every dialog unchanged or with given fields, for the examples.\<close>

definition env_ui :: "CStudentDlg \<Rightarrow> ui_env" where
  "env_ui s = \<lparr>modal_student = \<lambda>_. (True, s), modal_course = \<lambda>c. (False, c), modal_class = \<lambda>c. (False, c),
     modal_select = \<lambda>c. (False, c), GetSelectionMark = 0, GetItemText = \<lambda>_ _. ''7'', GetCurSel = 0, n_columns = 0\<rparr>"

section \<open>Properties\<close>

text \<open>
  The SQL text of an insertion, deletion or update identifies the values typed in, as long as none
  of them contains a quote: no two different lists of values give the same statement.
\<close>

lemma formats_injective:
  assumes "(fmt, n) \<in> set formats" and "length as = n" "length bs = n" and "quote_free as" "quote_free bs"
  shows "Format fmt as = Format fmt bs \<longleftrightarrow> as = bs"
  using Format_inj [OF formats_quoted [OF assms(1)] assms(2-5)] by blast

text \<open>
  Values are not escaped: a value with a quote in it changes the structure of the statement. For
  every values, two different rows are inserted by one and the same text.
\<close>

theorem insert_sql_ambiguous:
  "Format fmt_insert_student [x, y @ [CHR 0x27] @ '', '' @ [CHR 0x27] @ z, w]
     = Format fmt_insert_student [x @ [CHR 0x27] @ '', '' @ [CHR 0x27] @ y, z, w]
   \<and> [x, y @ [CHR 0x27] @ '', '' @ [CHR 0x27] @ z, w] \<noteq> [x @ [CHR 0x27] @ '', '' @ [CHR 0x27] @ y, z, w]"
  by (simp add: fmt_insert_student_def)

text \<open>
  C37. The three editing handlers report what the server answered: they send the statement as one request, and
  on any answer but \<open>-1\<close> make the calls that show the change, on \<open>-1\<close> only a message box. In
  particular an answer of 0 affected rows counts as success.
\<close>

theorem edits_reported:
  assumes "client_room (1 + packets (length sql + 1)) (m_tcpClient d)" and "length sql < 2 ^ 31 - 1"
    and "length (client_in (m_tcpClient d)) < 2 ^ 31"
    and "client_brings 0 (client_in (m_tcpClient d)) (le32 n @ rest) (ev 0)" and "int32_range n"
    and "edit = (OnBnClickedButtonInsert, msg_insert_failed) \<and> insert_cmd env (m_nCurTabSel d) = Some (sql, calls)
       \<or> GetSelectionMark env \<noteq> - 1
         \<and> (edit = (OnBnClickedButtonUpdate, msg_update_failed)
              \<and> update_cmd env (GetSelectionMark env) (m_nCurTabSel d) = Some (sql, calls)
            \<or> edit = (OnBnClickedButtonDelete, msg_delete_failed)
              \<and> (sql, calls) = (delete_sql env (GetSelectionMark env) (m_nCurTabSel d), [DeleteItem (GetSelectionMark env)]))"
  shows "\<exists>c1 c2. SendSql sql d = Inr (d\<lparr>m_tcpClient := c1\<rparr>)
     \<and> client_out c1 = client_out (m_tcpClient d) @ frame (sql @ [NUL])
     \<and> fst edit env ev d = Some (Inr (d\<lparr>m_tcpClient := c2\<rparr>, if n \<noteq> - 1 then calls else [AfxMessageBox (snd edit)]))
     \<and> client_in c2 = rest"
proof -
  have "fst edit env ev d = exec_sql ev sql calls (snd edit) d"
    using assms(6) by (auto simp: OnBnClickedButtonInsert_def OnBnClickedButtonUpdate_def OnBnClickedButtonDelete_def Let_def)
  then show ?thesis
    using exec_sql_outcome [of sql d n rest ev calls "snd edit", OF assms(1-5)] by (simp only:)
qed

theorem edits_reported_witness:
  "\<exists>c2. OnBnClickedButtonDelete (env_ui new_CStudentDlg) (\<lambda>_ c. c) (dlg_with (le32 0))
     = Some (Inr ((dlg_with (le32 0))\<lparr>m_tcpClient := c2\<rparr>, [DeleteItem 0]))"
proof -
  let ?d = "dlg_with (le32 0)" and ?env = "env_ui new_CStudentDlg"
  let ?sql = "delete_sql ?env 0 0"
  have len: "length ?sql = 40"
    by (simp add: delete_sql_def env_ui_def fmt_delete_student_def)
  have "client_room (1 + packets (length ?sql + 1)) (m_tcpClient ?d)"
    using dlg_with_holds [of "le32 0" "1 + packets (length ?sql + 1)"] len by (simp add: packets_def client_holds_def)
  moreover have "client_in (m_tcpClient ?d) = le32 0 @ []"
    using dlg_with_holds [of "le32 0" 0] by (simp add: client_holds_def)
  ultimately show ?thesis
    using edits_reported [of ?sql ?d 0 "[]" "\<lambda>_ c. c" "(OnBnClickedButtonDelete, msg_delete_failed)" ?env "[DeleteItem 0]"] len
    by (auto simp: client_brings_id int32_range_def env_ui_def dlg_with_def)
qed

text \<open>
  What is shown is what was sent: on every tab the calls after a successful insertion show a new
  first row with exactly the values of the statement, in the order of its columns.
\<close>

lemma insert_row_matches:
  assumes "insert_cmd env tab = Some (sql, calls)"
  shows "\<exists>fmt args. (fmt, length args) \<in> set formats \<and> sql = Format fmt args
     \<and> calls = InsertItem 0 # cell_calls 0 0 args"
proof -
  have row: ?thesis
    if "(sql, calls) = (Format fmt args, InsertItem 0 # cell_calls 0 0 args)" "(fmt, length args) \<in> set formats"
    for fmt args using that by blast
  consider "tab = 0" | "tab = 1" | "tab = 2" | "tab = 3" using assms by (auto simp: insert_cmd_def split: if_splits)
  then show ?thesis
  proof cases
    case 1
    obtain ok s where s: "modal_student env new_CStudentDlg = (ok, s)" by fastforce
    with 1 assms show ?thesis
      by (intro row [of fmt_insert_student "[stu_m_strStuId s, stu_m_strStuName s, stu_m_strClassId s]"])
        (simp_all add: insert_cmd_def formats_def split: if_splits)
  next
    case 2
    obtain ok s where s: "modal_course env new_CCourseDlg = (ok, s)" by fastforce
    with 2 assms show ?thesis
      by (intro row [of fmt_insert_course "[crs_m_strCourseId s, crs_m_strCourseName s]"])
        (simp_all add: insert_cmd_def formats_def split: if_splits)
  next
    case 3
    obtain ok s where s: "modal_class env new_CClassDlg = (ok, s)" by fastforce
    with 3 assms show ?thesis
      by (intro row [of fmt_insert_class "[cls_m_strClassId s, cls_m_strClassName s]"])
        (simp_all add: insert_cmd_def formats_def split: if_splits)
  next
    case 4
    obtain ok s where s: "modal_select env new_CSelectDlg = (ok, s)" by fastforce
    with 4 assms show ?thesis
      by (intro row [of fmt_insert_select "[sel_m_strStuId s, sel_m_strCourseId s, sel_m_strScore s]"])
        (simp_all add: insert_cmd_def formats_def split: if_splits)
  qed
qed

text \<open>
  The key of an updated record: on the first three tabs the statement selects the record by the key
  of the selected row; on the fourth it selects by the keys typed into the dialog, so that after a
  change of keys the score of another record is written while the selected row is shown as changed.
\<close>

theorem update_key:
  assumes "update_cmd env row tab = Some (sql, calls)"
  shows "(tab \<in> {0, 1, 2} \<longrightarrow> (\<exists>fmt args. (fmt, length args) \<in> set formats \<and> sql = Format fmt args
            \<and> last args = GetItemText env row 0
            \<and> calls = map (\<lambda>(i, v). SetItemText row (int i) v) (enumerate 0 (butlast args))))
     \<and> (tab = 3 \<longrightarrow> (\<forall>s. modal_select env \<lparr>sel_m_strCourseId = GetItemText env row 1,
            sel_m_strStuId = GetItemText env row 0, sel_m_strScore = GetItemText env row 2\<rparr> = (True, s)
          \<longrightarrow> sql = Format fmt_update_select [sel_m_strScore s, sel_m_strStuId s, sel_m_strCourseId s]
            \<and> calls = [SetItemText row 2 (sel_m_strScore s)]))"
proof -
  let ?t = "GetItemText env row"
  let ?ok = "\<exists>fmt args. (fmt, length args) \<in> set formats \<and> sql = Format fmt args
            \<and> last args = ?t 0 \<and> calls = map (\<lambda>(i, v). SetItemText row (int i) v) (enumerate 0 (butlast args))"
  have ok: ?ok
    if "(sql, calls) = (Format fmt args, map (\<lambda>(i, v). SetItemText row (int i) v) (enumerate 0 (butlast args)))"
      "(fmt, length args) \<in> set formats" "last args = ?t 0" for fmt args using that by blast
  have 0: ?ok if "tab = 0"
  proof -
    obtain b s where "modal_student env \<lparr>stu_m_strStuId = ?t 0, stu_m_strStuName = ?t 1, stu_m_strClassId = ?t 2\<rparr> = (b, s)"
      by fastforce
    with that assms show ?thesis
      by (intro ok [of fmt_update_student "[stu_m_strStuId s, stu_m_strStuName s, stu_m_strClassId s, ?t 0]"])
        (simp_all add: update_cmd_def formats_def Let_def split: if_splits)
  qed
  have 1: ?ok if "tab = 1"
  proof -
    obtain b s where "modal_course env \<lparr>crs_m_strCourseId = ?t 0, crs_m_strCourseName = ?t 1\<rparr> = (b, s)" by fastforce
    with that assms show ?thesis
      by (intro ok [of fmt_update_course "[crs_m_strCourseId s, crs_m_strCourseName s, ?t 0]"])
        (simp_all add: update_cmd_def formats_def Let_def split: if_splits)
  qed
  have 2: ?ok if "tab = 2"
  proof -
    obtain b s where "modal_class env \<lparr>cls_m_strClassId = ?t 0, cls_m_strClassName = ?t 1\<rparr> = (b, s)" by fastforce
    with that assms show ?thesis
      by (intro ok [of fmt_update_class "[cls_m_strClassId s, cls_m_strClassName s, ?t 0]"])
        (simp_all add: update_cmd_def formats_def Let_def split: if_splits)
  qed
  have "\<forall>s. modal_select env \<lparr>sel_m_strCourseId = ?t 1, sel_m_strStuId = ?t 0, sel_m_strScore = ?t 2\<rparr> = (True, s)
      \<longrightarrow> sql = Format fmt_update_select [sel_m_strScore s, sel_m_strStuId s, sel_m_strCourseId s]
        \<and> calls = [SetItemText row 2 (sel_m_strScore s)]" if "tab = 3"
    using that assms by (simp add: update_cmd_def Let_def split: if_splits prod.splits)
  with 0 1 2 show ?thesis by blast
qed

theorem update_key_witness:
  "\<exists>fmt args. (fmt, length args) \<in> set formats \<and> last args = ''7''
     \<and> fst (the (update_cmd (env_ui new_CStudentDlg) 0 0)) = Format fmt args"
proof -
  obtain sql calls where cmd: "update_cmd (env_ui new_CStudentDlg) 0 0 = Some (sql, calls)"
    by (simp add: update_cmd_def env_ui_def)
  from update_key [OF this] cmd show ?thesis by (auto simp: env_ui_def)
qed

text \<open>
  A failed connection does not end the start-up: when the socket cannot be opened the window asks
  to be closed, but the handler goes on to send its first query and, since no receiving thread runs
  and nothing can arrive, never returns.
\<close>

theorem OnInitDialog_unconnected:
  assumes "\<not> sock_ok cenv" and "table_ok (base_socket (m_tcpClient d))"
    and "client_in c0 = []" and "c0 = fst (snd (Connect cenv (m_tcpClient d)))" and "\<And>c. ev 0 c = c"
  shows "OnInitDialog env cenv ev d = None
     \<and> (\<exists>c'. SendSql ''SELECT * FROM t_student'' (d\<lparr>m_nCurTabSel := 0, m_tcpClient := c0\<rparr>)
          = Inr (d\<lparr>m_nCurTabSel := 0, m_tcpClient := c'\<rparr>))"
proof -
  let ?sa = "server_addr cenv" and ?sql = "''SELECT * FROM t_student''"
  let ?d = "d\<lparr>m_nCurTabSel := 0, m_tcpClient := c0\<rparr>"
  have "m_serverAddr c0 = ?sa" "table_ok (base_socket c0)" "m_nNextSendSeq (conn_of ?sa (base_socket c0)) = 0"
    and failed: "fst (Connect cenv (m_tcpClient d)) = False"
    using assms(1,2,4) by (simp_all add: Connect_def Let_def)
  then have "client_room (1 + packets (length ?sql + 1)) (m_tcpClient ?d)"
    by (simp add: client_room_def room_def packets_def)
  then obtain c1 where c1: "SendSql ?sql ?d = Inr (?d\<lparr>m_tcpClient := c1\<rparr>)" "client_in c1 = []" "client_room 0 c1"
    using SendSql_frame [of ?sql ?d] assms(3) by auto
  have "await_Recv (ev 0) (le32 0) 4 c1 = None"
    using client_port.recv_empty [OF c1(3,2), of "le32 0" 4] assms(5) by (auto simp: await_Recv_def)
  with c1(1) have "query_sql env ev ?sql ?d = None"
    by (simp add: query_sql_def ShowList_def)
  with c1(1) failed assms(4) show ?thesis
    by (cases "Connect cenv (m_tcpClient d)") (simp add: OnInitDialog_def, metis CSchoolSystemDlg.update_convs(2))
qed

theorem OnInitDialog_unconnected_witness:
  "OnInitDialog (env_ui new_CStudentDlg) (env_example\<lparr>sock_ok := False\<rparr>) (\<lambda>_ c. c) (dlg_with []) = None"
  using OnInitDialog_unconnected [of "env_example\<lparr>sock_ok := False\<rparr>" "dlg_with []" _ "\<lambda>_ c. c"]
  by (simp add: dlg_with_def Connect_def Let_def env_example_def client_views incoming_def conn_of_sock_with)

end
