(* ===== verification/ByteOrder.thy ===== *)
theory ByteOrder
  imports Prelude
begin

text \<open>
  \<open>MySQL Server 5.7/include/my_byteorder.h\<close> and the headers it includes: the functions that read
  and store integers in the byte order of the client/server protocol. Memory is a function from
  addresses to bytes; a pointer is an address. An unsigned C type is the word of its width, a signed one the
  word whose value is read with \<open>sint\<close>. Both variants of the headers are here: the portable
  one and the one for x86 with loads and stores of whole words.
\<close>

unbundle bit_operations_syntax

type_synonym uchar = "8 word"

type_synonym memory = "nat \<Rightarrow> uchar"

section \<open>Whole words in memory\<close>

text \<open>A load or store of \<open>n\<close> bytes at an address on a little-endian machine, \<open>*((uint32*) A)\<close>.\<close>

fun load_le :: "nat \<Rightarrow> memory \<Rightarrow> nat \<Rightarrow> 'a::len word" where
  "load_le 0 M A = 0"
| "load_le (Suc n) M A = ucast (M A) + push_bit 8 (load_le n M (A + 1))"

fun store_le :: "nat \<Rightarrow> memory \<Rightarrow> nat \<Rightarrow> 'a::len word \<Rightarrow> memory" where
  "store_le 0 M T a = M"
| "store_le (Suc n) M T a = (store_le n M (T + 1) (drop_bit 8 a))(T := ucast a)"

section \<open>The functions for x86\<close>

definition sint2korr_x86 :: "memory \<Rightarrow> nat \<Rightarrow> 16 word" where
  "sint2korr_x86 M A = load_le 2 M A"

definition sint4korr_x86 :: "memory \<Rightarrow> nat \<Rightarrow> 32 word" where
  "sint4korr_x86 M A = load_le 4 M A"

definition uint2korr_x86 :: "memory \<Rightarrow> nat \<Rightarrow> 16 word" where
  "uint2korr_x86 M A = load_le 2 M A"

definition uint4korr_x86 :: "memory \<Rightarrow> nat \<Rightarrow> 32 word" where
  "uint4korr_x86 M A = load_le 4 M A"

definition uint8korr_x86 :: "memory \<Rightarrow> nat \<Rightarrow> 64 word" where
  "uint8korr_x86 M A = load_le 8 M A"

definition sint8korr_x86 :: "memory \<Rightarrow> nat \<Rightarrow> 64 word" where
  "sint8korr_x86 M A = load_le 8 M A"

definition int2store_x86 :: "memory \<Rightarrow> nat \<Rightarrow> 16 word \<Rightarrow> memory" where
  "int2store_x86 M T a = store_le 2 M T a"

definition int4store_x86 :: "memory \<Rightarrow> nat \<Rightarrow> 32 word \<Rightarrow> memory" where
  "int4store_x86 M T a = store_le 4 M T a"

definition int8store_x86 :: "memory \<Rightarrow> nat \<Rightarrow> 64 word \<Rightarrow> memory" where
  "int8store_x86 M T a = store_le 8 M T a"

section \<open>The portable functions\<close>

text \<open>Sums of shifted bytes; the operands of \<open>+\<close> and \<open><<\<close> are promoted to \<open>int\<close> (32 bits).\<close>

definition sint2korr :: "memory \<Rightarrow> nat \<Rightarrow> 16 word" where
  "sint2korr M A = ucast ((ucast (M A) :: 32 word) + push_bit 8 (ucast (M (A + 1))))"

definition sint4korr :: "memory \<Rightarrow> nat \<Rightarrow> 32 word" where
  "sint4korr M A = ucast (M A) + push_bit 8 (ucast (M (A + 1))) + push_bit 16 (ucast (M (A + 2)))
     + push_bit 24 (ucast (M (A + 3)))"

definition uint2korr :: "memory \<Rightarrow> nat \<Rightarrow> 16 word" where
  "uint2korr M A = ucast ((ucast (M A) :: 32 word) + push_bit 8 (ucast (M (A + 1))))"

definition uint4korr :: "memory \<Rightarrow> nat \<Rightarrow> 32 word" where
  "uint4korr M A = ucast (M A) + push_bit 8 (ucast (M (A + 1))) + push_bit 16 (ucast (M (A + 2)))
     + push_bit 24 (ucast (M (A + 3)))"

definition uint8korr :: "memory \<Rightarrow> nat \<Rightarrow> 64 word" where
  "uint8korr M A =
     ucast ((ucast (M A) :: 32 word) + push_bit 8 (ucast (M (A + 1))) + push_bit 16 (ucast (M (A + 2)))
       + push_bit 24 (ucast (M (A + 3))))
     + push_bit 32 (ucast ((ucast (M (A + 4)) :: 32 word) + push_bit 8 (ucast (M (A + 5)))
       + push_bit 16 (ucast (M (A + 6))) + push_bit 24 (ucast (M (A + 7)))))"

definition sint8korr :: "memory \<Rightarrow> nat \<Rightarrow> 64 word" where
  "sint8korr M A = uint8korr M A"

definition int2store :: "memory \<Rightarrow> nat \<Rightarrow> 16 word \<Rightarrow> memory" where
  "int2store M T a = (let def_temp = ucast a :: 32 word
     in M(T := ucast def_temp, T + 1 := ucast (drop_bit 8 def_temp)))"

definition int4store :: "memory \<Rightarrow> nat \<Rightarrow> 32 word \<Rightarrow> memory" where
  "int4store M T a = M(T := ucast a, T + 1 := ucast (drop_bit 8 a), T + 2 := ucast (drop_bit 16 a),
     T + 3 := ucast (drop_bit 24 a))"

definition int8store :: "memory \<Rightarrow> nat \<Rightarrow> 64 word \<Rightarrow> memory" where
  "int8store M T a = (let def_temp = ucast a :: 32 word; def_temp2 = ucast (drop_bit 32 a) :: 32 word
     in int4store (int4store M T def_temp) (T + 4) def_temp2)"

section \<open>The functions without a machine type of their width\<close>

definition sint3korr :: "memory \<Rightarrow> nat \<Rightarrow> 32 word" where
  "sint3korr M A =
     (if M (A + 2) AND 128 \<noteq> 0
      then push_bit 24 255 OR push_bit 16 (ucast (M (A + 2))) OR push_bit 8 (ucast (M (A + 1))) OR ucast (M A)
      else push_bit 16 (ucast (M (A + 2))) OR push_bit 8 (ucast (M (A + 1))) OR ucast (M A))"

definition uint3korr :: "memory \<Rightarrow> nat \<Rightarrow> 32 word" where
  "uint3korr M A = ucast (M A) + push_bit 8 (ucast (M (A + 1))) + push_bit 16 (ucast (M (A + 2)))"

definition uint5korr :: "memory \<Rightarrow> nat \<Rightarrow> 64 word" where
  "uint5korr M A =
     ucast ((ucast (M A) :: 32 word) + push_bit 8 (ucast (M (A + 1))) + push_bit 16 (ucast (M (A + 2)))
       + push_bit 24 (ucast (M (A + 3))))
     + push_bit 32 (ucast (M (A + 4)))"

definition uint6korr :: "memory \<Rightarrow> nat \<Rightarrow> 64 word" where
  "uint6korr M A =
     ucast ((ucast (M A) :: 32 word) + push_bit 8 (ucast (M (A + 1))) + push_bit 16 (ucast (M (A + 2)))
       + push_bit 24 (ucast (M (A + 3))))
     + push_bit 32 (ucast (M (A + 4))) + push_bit 40 (ucast (M (A + 5)))"

definition int3store :: "memory \<Rightarrow> nat \<Rightarrow> 32 word \<Rightarrow> memory" where
  "int3store M T a = M(T := ucast a, T + 1 := ucast (drop_bit 8 a), T + 2 := ucast (drop_bit 16 a))"

definition int5store :: "memory \<Rightarrow> nat \<Rightarrow> 64 word \<Rightarrow> memory" where
  "int5store M T a = M(T := ucast a, T + 1 := ucast (drop_bit 8 a), T + 2 := ucast (drop_bit 16 a),
     T + 3 := ucast (drop_bit 24 a), T + 4 := ucast (drop_bit 32 a))"

definition int6store :: "memory \<Rightarrow> nat \<Rightarrow> 64 word \<Rightarrow> memory" where
  "int6store M T a = M(T := ucast a, T + 1 := ucast (drop_bit 8 a), T + 2 := ucast (drop_bit 16 a),
     T + 3 := ucast (drop_bit 24 a), T + 4 := ucast (drop_bit 32 a), T + 5 := ucast (drop_bit 40 a))"

section \<open>Machine format\<close>

text \<open>
  \<open>little_endian.h\<close> and \<open>big_endian.h\<close>: variables in the order of the machine. A \<open>float\<close> or \<open>double\<close>
  is the list of its bytes in memory. The names of the big-endian variants end in \<open>_be\<close>.
\<close>

definition copy_out :: "nat \<Rightarrow> memory \<Rightarrow> nat \<Rightarrow> uchar list" where
  "copy_out n M A = map (\<lambda>i. M (A + i)) [0..<n]"

fun copy_in :: "memory \<Rightarrow> nat \<Rightarrow> uchar list \<Rightarrow> memory" where
  "copy_in M T [] = M"
| "copy_in M T (b # bs) = (copy_in M (T + 1) bs)(T := b)"

definition float4get :: "memory \<Rightarrow> nat \<Rightarrow> uchar list" where
  "float4get M A = copy_out 4 M A"

definition float4store :: "memory \<Rightarrow> nat \<Rightarrow> uchar list \<Rightarrow> memory" where
  "float4store M T v = copy_in M T (take 4 v)"

definition float8get :: "memory \<Rightarrow> nat \<Rightarrow> uchar list" where
  "float8get M A = copy_out 8 M A"

definition float8store :: "memory \<Rightarrow> nat \<Rightarrow> uchar list \<Rightarrow> memory" where
  "float8store M T v = copy_in M T (take 8 v)"

text \<open>The \<open>double\<close> of bi-endian hardware: the two halves change places.\<close>

definition doublestore_mixed :: "memory \<Rightarrow> nat \<Rightarrow> uchar list \<Rightarrow> memory" where
  "doublestore_mixed M T v = M(T := v ! 4, T + 1 := v ! 5, T + 2 := v ! 6, T + 3 := v ! 7,
     T + 4 := v ! 0, T + 5 := v ! 1, T + 6 := v ! 2, T + 7 := v ! 3)"

definition doubleget_mixed :: "memory \<Rightarrow> nat \<Rightarrow> uchar list" where
  "doubleget_mixed M A = [M (A + 4), M (A + 5), M (A + 6), M (A + 7), M A, M (A + 1), M (A + 2), M (A + 3)]"

definition shortget :: "memory \<Rightarrow> nat \<Rightarrow> 16 word" where
  "shortget M A = sint2korr M A"

definition longget :: "memory \<Rightarrow> nat \<Rightarrow> 32 word" where
  "longget M A = sint4korr M A"

definition shortstore :: "memory \<Rightarrow> nat \<Rightarrow> 16 word \<Rightarrow> memory" where
  "shortstore M T v = int2store M T v"

definition longstore :: "memory \<Rightarrow> nat \<Rightarrow> 32 word \<Rightarrow> memory" where
  "longstore M T v = int4store M T v"

definition longlongget :: "memory \<Rightarrow> nat \<Rightarrow> 64 word" where
  "longlongget M A = load_le 8 M A"

definition longlongstore :: "memory \<Rightarrow> nat \<Rightarrow> 64 word \<Rightarrow> memory" where
  "longlongstore M T v = store_le 8 M T v"

definition float4store_be :: "memory \<Rightarrow> nat \<Rightarrow> uchar list \<Rightarrow> memory" where
  "float4store_be M T v = M(T := v ! 3, T + 1 := v ! 2, T + 2 := v ! 1, T + 3 := v ! 0)"

definition float4get_be :: "memory \<Rightarrow> nat \<Rightarrow> uchar list" where
  "float4get_be M A = [M (A + 3), M (A + 2), M (A + 1), M A]"

definition float8store_be :: "memory \<Rightarrow> nat \<Rightarrow> uchar list \<Rightarrow> memory" where
  "float8store_be M T v = M(T := v ! 7, T + 1 := v ! 6, T + 2 := v ! 5, T + 3 := v ! 4,
     T + 4 := v ! 3, T + 5 := v ! 2, T + 6 := v ! 1, T + 7 := v ! 0)"

definition float8get_be :: "memory \<Rightarrow> nat \<Rightarrow> uchar list" where
  "float8get_be M A = [M (A + 7), M (A + 6), M (A + 5), M (A + 4), M (A + 3), M (A + 2), M (A + 1), M A]"

definition shortget_be :: "memory \<Rightarrow> nat \<Rightarrow> 16 word" where
  "shortget_be M A = ucast ((ucast (M (A + 1)) :: 32 word) + push_bit 8 (ucast (M A)))"

text \<open>A load of four bytes on a big-endian machine.\<close>

definition longget_be :: "memory \<Rightarrow> nat \<Rightarrow> 32 word" where
  "longget_be M A = load_le 4 (\<lambda>i. M (A + 3 - i)) 0"

definition shortstore_be :: "memory \<Rightarrow> nat \<Rightarrow> 16 word \<Rightarrow> memory" where
  "shortstore_be M T a = (let def_temp = scast a :: 32 word
     in M(T + 1 := ucast def_temp, T := ucast (drop_bit 8 def_temp)))"

definition longstore_be :: "memory \<Rightarrow> nat \<Rightarrow> 32 word \<Rightarrow> memory" where
  "longstore_be M T a = M(T + 3 := ucast a, T + 2 := ucast (signed_drop_bit 8 a),
     T + 1 := ucast (signed_drop_bit 16 a), T := ucast (signed_drop_bit 24 a))"

text \<open>Variables of other types, which the headers read and write like these.\<close>

definition ushortget :: "memory \<Rightarrow> nat \<Rightarrow> 16 word" where
  "ushortget M A = uint2korr M A"

definition ulongget :: "memory \<Rightarrow> nat \<Rightarrow> 32 word" where
  "ulongget M A = uint4korr M A"

definition floatget :: "memory \<Rightarrow> nat \<Rightarrow> uchar list" where
  "floatget M A = float4get M A"

definition floatstore :: "memory \<Rightarrow> nat \<Rightarrow> uchar list \<Rightarrow> memory" where
  "floatstore M T v = float4store M T v"

definition doubleget :: "memory \<Rightarrow> nat \<Rightarrow> uchar list" where
  "doubleget M A = copy_out 8 M A"

definition doublestore :: "memory \<Rightarrow> nat \<Rightarrow> uchar list \<Rightarrow> memory" where
  "doublestore M T v = copy_in M T (take 8 v)"

definition ushortget_be :: "memory \<Rightarrow> nat \<Rightarrow> 16 word" where
  "ushortget_be M A = ucast ((ucast (M (A + 1)) :: 32 word) + push_bit 8 (ucast (M A)))"

definition ulongget_be :: "memory \<Rightarrow> nat \<Rightarrow> 32 word" where
  "ulongget_be M A = load_le 4 (\<lambda>i. M (A + 3 - i)) 0"

definition floatget_be :: "memory \<Rightarrow> nat \<Rightarrow> uchar list" where
  "floatget_be M A = copy_out 4 M A"

definition floatstore_be :: "memory \<Rightarrow> nat \<Rightarrow> uchar list \<Rightarrow> memory" where
  "floatstore_be M T v = copy_in M T (take 4 v)"

definition doubleget_be :: "memory \<Rightarrow> nat \<Rightarrow> uchar list" where
  "doubleget_be M A = copy_out 8 M A"

definition doublestore_be :: "memory \<Rightarrow> nat \<Rightarrow> uchar list \<Rightarrow> memory" where
  "doublestore_be M T v = copy_in M T (take 8 v)"

text \<open>A load and a store of eight bytes on a big-endian machine.\<close>

definition longlongget_be :: "memory \<Rightarrow> nat \<Rightarrow> 64 word" where
  "longlongget_be M A = load_le 8 (\<lambda>i. M (A + 7 - i)) 0"

definition longlongstore_be :: "memory \<Rightarrow> nat \<Rightarrow> 64 word \<Rightarrow> memory" where
  "longlongstore_be M T v = copy_in M T (map (\<lambda>i. ucast (drop_bit (8 * (7 - i)) v)) [0..<8])"

section \<open>Bits of loads and stores\<close>

lemma add_push_byte: "ucast (x :: uchar) + push_bit 8 y = ucast x OR push_bit 8 y" for y :: "'a::len word"
  by (rule disjunctive_add) (auto simp: bit_simps dest: bit_imp_le_length)

lemma bit_load_le:
  "bit (load_le n M A :: 'a::len word) m \<longleftrightarrow> m < LENGTH('a) \<and> m < 8 * n \<and> bit (M (A + m div 8)) (m mod 8)"
proof (induction n arbitrary: A m)
  case (Suc n)
  show ?case
  proof (cases "m < 8")
    case True
    then show ?thesis by (simp add: add_push_byte bit_simps)
  next
    case False
    then have "m div 8 = Suc ((m - 8) div 8)" "(m - 8) mod 8 = m mod 8"
      by (simp_all add: le_div_geq le_mod_geq)
    then show ?thesis
      using False Suc.IH [of "A + 1" "m - 8"] bit_imp_le_length [of "M A" m]
      by (auto simp: add_push_byte bit_simps)
  qed
qed simp

lemma store_le_at:
  "store_le n M T a x = (if T \<le> x \<and> x < T + n then ucast (drop_bit (8 * (x - T)) a) else M x)"
proof (induction n arbitrary: T a)
  case (Suc n)
  have "8 * (x - T) = 8 + 8 * (x - (T + 1))" if "T < x" using that by simp
  with Suc show ?case by (cases "x = T") (auto simp: drop_bit_drop_bit add.commute)
qed auto

lemma load_store_le:
  "8 * n \<le> LENGTH('a) \<Longrightarrow> load_le n (store_le n M T a) T = (take_bit (8 * n) a :: 'a::len word)"
  by (rule bit_word_eqI) (auto simp: bit_load_le store_le_at bit_simps less_mult_imp_div_less)

lemma ucast_load_le:
  "8 * n \<le> LENGTH('a) \<Longrightarrow> ucast (load_le n M A :: 'a::len word) = (load_le n M A :: 'b::len word)"
  by (rule bit_word_eqI) (auto simp: bit_load_le bit_simps)

lemma load_le_append:
  "load_le (m + n) M A = load_le m M A + push_bit (8 * m) (load_le n M (A + m))"
proof (induction m arbitrary: A)
  case (Suc m)
  then show ?case by (simp add: push_bit_add add.commute add.left_commute)
qed simp

lemma ucast_load_narrow:
  "LENGTH('b) \<le> LENGTH('a) \<Longrightarrow> ucast (load_le n M A :: 'a::len word) = (load_le n M A :: 'b::len word)"
  by (rule bit_word_eqI) (auto simp: bit_load_le bit_simps)

lemma load_le_sums:
  "load_le 2 M A = ucast (M A) + push_bit 8 (ucast (M (A + 1)))"
  "load_le 3 M A = ucast (M A) + push_bit 8 (ucast (M (A + 1))) + push_bit 16 (ucast (M (A + 2)))"
  "load_le 4 M A = ucast (M A) + push_bit 8 (ucast (M (A + 1))) + push_bit 16 (ucast (M (A + 2)))
     + push_bit 24 (ucast (M (A + 3)))"
  by (simp_all add: eval_nat_numeral push_bit_add add.assoc push_bit_push_bit)

text \<open>Every portable reader is a load of its number of bytes.\<close>

lemma korr_loads:
  "sint2korr M A = load_le 2 M A" "uint2korr M A = load_le 2 M A"
  "sint4korr M A = load_le 4 M A" "uint4korr M A = load_le 4 M A"
  "uint8korr M A = load_le 8 M A" "sint8korr M A = load_le 8 M A"
  "uint3korr M A = load_le 3 M A" "uint5korr M A = load_le 5 M A" "uint6korr M A = load_le 6 M A"
proof -
  show "sint2korr M A = load_le 2 M A" "uint2korr M A = load_le 2 M A"
    unfolding sint2korr_def uint2korr_def load_le_sums(1) [where 'a = 32, symmetric]
    by (rule ucast_load_narrow, simp)+
  show "sint4korr M A = load_le 4 M A" "uint4korr M A = load_le 4 M A" "uint3korr M A = load_le 3 M A"
    by (simp_all only: sint4korr_def uint4korr_def uint3korr_def load_le_sums)
  have low: "ucast ((ucast (M A) :: 32 word) + push_bit 8 (ucast (M (A + 1))) + push_bit 16 (ucast (M (A + 2)))
      + push_bit 24 (ucast (M (A + 3)))) = (load_le 4 M A :: 64 word)" for A
    unfolding load_le_sums(3) [symmetric] by (rule ucast_load_le) simp
  have A4: "A + 4 + 1 = A + 5" "A + 4 + 2 = A + 6" "A + 4 + 3 = A + 7" by simp_all
  show eight: "uint8korr M A = load_le 8 M A"
    unfolding uint8korr_def low [of A] low [of "A + 4", unfolded A4]
    using load_le_append [of 4 4 M A, where 'a = 64] by simp
  then show "sint8korr M A = load_le 8 M A" by (simp add: sint8korr_def)
  show "uint5korr M A = load_le 5 M A"
    using low [of A] load_le_append [of 4 1 M A, where 'a = 64] by (simp add: uint5korr_def)
  show "uint6korr M A = load_le 6 M A"
    using low [of A] load_le_append [of 4 2 M A, where 'a = 64]
    by (simp add: uint6korr_def load_le_sums push_bit_add add.assoc push_bit_push_bit add.commute [of 5])
qed

lemma store_le_sums:
  "store_le 2 M T a = M(T := ucast a, T + 1 := ucast (drop_bit 8 a))"
  "store_le 3 M T a = M(T := ucast a, T + 1 := ucast (drop_bit 8 a), T + 2 := ucast (drop_bit 16 a))"
  "store_le 4 M T a = M(T := ucast a, T + 1 := ucast (drop_bit 8 a), T + 2 := ucast (drop_bit 16 a),
     T + 3 := ucast (drop_bit 24 a))"
  "store_le 5 M T a = M(T := ucast a, T + 1 := ucast (drop_bit 8 a), T + 2 := ucast (drop_bit 16 a),
     T + 3 := ucast (drop_bit 24 a), T + 4 := ucast (drop_bit 32 a))"
  "store_le 6 M T a = M(T := ucast a, T + 1 := ucast (drop_bit 8 a), T + 2 := ucast (drop_bit 16 a),
     T + 3 := ucast (drop_bit 24 a), T + 4 := ucast (drop_bit 32 a), T + 5 := ucast (drop_bit 40 a))"
  by (auto simp: eval_nat_numeral fun_eq_iff drop_bit_drop_bit)

lemma int8store_eq: "int8store M T a = store_le 8 M T a"
proof
  fix x
  have lo: "ucast (drop_bit k (ucast a :: 32 word)) = (ucast (drop_bit k a) :: uchar)" if "k \<le> 24" for k
    using that by (intro bit_word_eqI) (auto simp: bit_simps)
  have hi: "ucast (drop_bit k (ucast (drop_bit 32 a) :: 32 word)) = (ucast (drop_bit (32 + k) a) :: uchar)"
    if "k \<le> 24" for k
    using that by (intro bit_word_eqI) (auto simp: bit_simps ac_simps)
  have "8 * (x - T) = 32 + 8 * (x - (T + 4))" if "T + 4 \<le> x" using that by simp
  then show "int8store M T a x = store_le 8 M T a x"
    using lo [of "8 * (x - T)"] hi [of "8 * (x - (T + 4))"]
    by (auto simp: int8store_def int4store_def Let_def store_le_at simp flip: store_le_sums(3))
qed

lemma stores:
  "int2store M T b = store_le 2 M T b" "int3store M T c = store_le 3 M T c" "int4store M T c = store_le 4 M T c"
  "int5store M T a = store_le 5 M T a" "int6store M T a = store_le 6 M T a" "int8store M T a = store_le 8 M T a"
proof -
  have "ucast (ucast b :: 32 word) = (ucast b :: uchar)"
    "ucast (drop_bit 8 (ucast b :: 32 word)) = (ucast (drop_bit 8 b) :: uchar)"
    by (rule bit_word_eqI; auto simp: bit_simps)+
  then show "int2store M T b = store_le 2 M T b" by (simp add: int2store_def store_le_sums)
qed (simp_all add: int3store_def int4store_def int5store_def int6store_def int8store_eq store_le_sums)

lemma copy_in_at: "copy_in M T v x = (if T \<le> x \<and> x < T + length v then v ! (x - T) else M x)"
proof (induction v arbitrary: T)
  case (Cons b v)
  have "(b # v) ! (x - T) = v ! (x - (T + 1))" if "T < x"
    using that by (simp add: nth_Cons')
  with Cons show ?case by (cases "x = T") auto
qed auto

lemma copy_out_in: "copy_out (length v) (copy_in M T v) T = v"
  by (rule nth_equalityI) (simp_all add: copy_out_def copy_in_at)

lemma load_le_cong: "(\<And>i. i < n \<Longrightarrow> M (A + i) = N (B + i)) \<Longrightarrow> load_le n M A = load_le n N B"
proof (induction n arbitrary: A B)
  case (Suc n)
  have "M A = N B" using Suc.prems [of 0] by simp
  moreover have "load_le n M (A + 1) = (load_le n N (B + 1) :: 'a word)"
    using Suc.prems [of "Suc _"] by (intro Suc.IH) simp
  ultimately show ?case by simp
qed simp

lemma longget_longstore_be: "longget_be (longstore_be M T c) T = c"
proof -
  have byte: "ucast (signed_drop_bit k c) = (ucast (drop_bit k c) :: uchar)" if "k \<le> 24" for k
    using that by (intro bit_word_eqI) (auto simp: bit_simps)
  have "longstore_be M T c (T + 3 - i) = store_le 4 M 0 c i" if "i < 4" for i
  proof -
    consider "i = 0" | "i = 1" | "i = 2" | "i = 3" using \<open>i < 4\<close> by linarith
    then show ?thesis by cases (simp_all add: longstore_be_def store_le_at byte)
  qed
  then have "longget_be (longstore_be M T c) T = load_le 4 (store_le 4 M 0 c) 0"
    unfolding longget_be_def by (intro load_le_cong) simp
  then show ?thesis by (simp add: load_store_le take_bit_word_eq_self)
qed

lemma longlongget_longlongstore_be: "longlongget_be (longlongstore_be M T a) T = a"
proof -
  have "longlongstore_be M T a (T + 7 - i) = store_le 8 M 0 a i" if "i < 8" for i
  proof -
    have "[0..<8] ! (7 - i) = 7 - i" using that by (subst nth_upt) simp_all
    then show ?thesis using that by (auto simp: longlongstore_be_def copy_in_at store_le_at)
  qed
  then have "longlongget_be (longlongstore_be M T a) T = load_le 8 (store_le 8 M 0 a) 0"
    unfolding longlongget_be_def by (intro load_le_cong) simp
  then show ?thesis by (simp add: load_store_le take_bit_word_eq_self)
qed

lemma length_4: "length v = 4 \<Longrightarrow> v = [v ! 0, v ! Suc 0, v ! 2, v ! 3]"
  by (rule nth_equalityI) (auto simp: less_Suc_eq numeral_eq_Suc)

lemma length_8: "length v = 8 \<Longrightarrow> v = [v ! 0, v ! Suc 0, v ! 2, v ! 3, v ! 4, v ! 5, v ! 6, v ! 7]"
  by (rule nth_equalityI) (auto simp: less_Suc_eq numeral_eq_Suc)

section \<open>Properties\<close>

text \<open>
  C34. The optimised functions are the portable ones: on the little-endian machine every load and store
  of a whole word in the x86 header gives what the byte-wise function of the portable header gives.
\<close>

theorem x86_is_portable:
  "sint2korr_x86 = sint2korr \<and> uint2korr_x86 = uint2korr \<and> sint4korr_x86 = sint4korr
   \<and> uint4korr_x86 = uint4korr \<and> uint8korr_x86 = uint8korr \<and> sint8korr_x86 = sint8korr
   \<and> int2store_x86 = int2store \<and> int4store_x86 = int4store \<and> int8store_x86 = int8store"
  by (simp add: fun_eq_iff korr_loads stores sint2korr_x86_def uint2korr_x86_def sint4korr_x86_def
      uint4korr_x86_def uint8korr_x86_def sint8korr_x86_def int2store_x86_def int4store_x86_def int8store_x86_def)

text \<open>
  C35. Store and read back: every integer of 2, 3, 4, 5, 6 or 8 bytes is read back as it was stored, the
  widths without a machine type modulo their width, and a store changes no byte outside its own.
\<close>

theorem store_korr:
  "uint2korr (int2store M T b) T = b \<and> sint2korr (int2store M T b) T = b
   \<and> uint3korr (int3store M T c) T = take_bit 24 c
   \<and> uint4korr (int4store M T c) T = c \<and> sint4korr (int4store M T c) T = c
   \<and> uint5korr (int5store M T a) T = take_bit 40 a \<and> uint6korr (int6store M T a) T = take_bit 48 a
   \<and> uint8korr (int8store M T a) T = a \<and> sint8korr (int8store M T a) T = a
   \<and> (x \<notin> {T..<T + 2} \<longrightarrow> int2store M T b x = M x) \<and> (x \<notin> {T..<T + 3} \<longrightarrow> int3store M T c x = M x)
   \<and> (x \<notin> {T..<T + 4} \<longrightarrow> int4store M T c x = M x) \<and> (x \<notin> {T..<T + 5} \<longrightarrow> int5store M T a x = M x)
   \<and> (x \<notin> {T..<T + 6} \<longrightarrow> int6store M T a x = M x) \<and> (x \<notin> {T..<T + 8} \<longrightarrow> int8store M T a x = M x)"
  by (auto simp: korr_loads stores load_store_le store_le_at take_bit_word_eq_self)

theorem store_korr_witness:
  "uint3korr (int3store (\<lambda>_. 0) 5 0x01020304) 5 = 0x020304 \<and> int3store (\<lambda>_. 0) 5 0x01020304 4 = 0"
  using store_korr [of "\<lambda>_. 0" 5 0 "0x01020304" 0 4] by (simp add: take_bit_eq_mod)

text \<open>
  The 3-byte signed reader extends the sign: \<open>sint3korr\<close> is the value of the 24-bit two's
  complement number that \<open>uint3korr\<close> reads unsigned.
\<close>

theorem sint3korr_sign:
  "sint (sint3korr M A) = signed_take_bit 23 (uint (uint3korr M A))"
proof -
  let ?L = "load_le 3 M A :: 32 word"
  have or3: "push_bit 16 (ucast (M (A + 2))) OR push_bit 8 (ucast (M (A + 1))) OR ucast (M A) = ?L"
  proof -
    have "?L = ucast (M A) OR push_bit 8 (ucast (M (A + 1)) OR push_bit 8 (ucast (M (A + 1 + 1)) OR push_bit 8 0))"
      by (simp only: numeral_3_eq_3 load_le.simps add_push_byte)
    then show ?thesis by (simp add: push_bit_push_bit or.commute or.left_commute)
  qed
  have sign: "M (A + 2) AND 128 \<noteq> 0 \<longleftrightarrow> bit (M (A + 2)) 7"
    using and_exp_eq_0_iff_not_bit [of "M (A + 2)" 7] by simp
  have ones: "(push_bit 24 255 :: 32 word) = push_bit 24 (mask 8)"
    by (simp add: mask_eq_exp_minus_1)
  have bits: "bit (sint3korr M A) n \<longleftrightarrow> bit ?L n \<or> 24 \<le> n \<and> n < 32 \<and> bit (M (A + 2)) 7" for n
    unfolding sint3korr_def sign or3 ones by (auto simp: bit_simps)
  have "bit (sint (sint3korr M A)) n \<longleftrightarrow> bit (signed_take_bit 23 (uint ?L)) n" for n
    by (cases "n = 23") (auto simp: bit_sint_iff bits bit_simps bit_load_le min_def)
  then show ?thesis by (simp add: korr_loads bit_eq_iff)
qed

text \<open>
  Machine format: on a little-endian and on a big-endian machine, and for the \<open>double\<close> of bi-endian
  hardware, every \<open>get\<close> reads back what the \<open>store\<close> of its type wrote.
\<close>

theorem machine_format:
  "shortget (shortstore M T b) T = b \<and> longget (longstore M T c) T = c
   \<and> longlongget (longlongstore M T a) T = a
   \<and> shortget_be (shortstore_be M T b) T = b \<and> longget_be (longstore_be M T c) T = c
   \<and> longlongget_be (longlongstore_be M T a) T = a
   \<and> (length v = 4 \<longrightarrow> float4get (float4store M T v) T = v \<and> float4get_be (float4store_be M T v) T = v)
   \<and> (length u = 8 \<longrightarrow> float8get (float8store M T u) T = u \<and> float8get_be (float8store_be M T u) T = u
        \<and> doubleget_mixed (doublestore_mixed M T u) T = u)"
proof (intro conjI impI)
  show "shortget (shortstore M T b) T = b" "longget (longstore M T c) T = c"
    "longlongget (longlongstore M T a) T = a"
    by (simp_all add: shortget_def shortstore_def longget_def longstore_def longlongget_def longlongstore_def
        korr_loads stores load_store_le take_bit_word_eq_self)
  show "shortget_be (shortstore_be M T b) T = b"
    by (rule bit_word_eqI)
      (auto simp: shortget_be_def shortstore_be_def Let_def add_push_byte bit_simps)
  show "longget_be (longstore_be M T c) T = c"
    by (rule longget_longstore_be)
  show "longlongget_be (longlongstore_be M T a) T = a"
    by (rule longlongget_longlongstore_be)
next
  assume "length v = 4"
  then show "float4get (float4store M T v) T = v"
    using copy_out_in [of v M T] by (simp add: float4get_def float4store_def)
  show "float4get_be (float4store_be M T v) T = v"
    by (simp add: float4get_be_def float4store_be_def length_4 [OF \<open>length v = 4\<close>, symmetric])
next
  assume u: "length u = 8"
  then show "float8get (float8store M T u) T = u"
    using copy_out_in [of u M T] by (simp add: float8get_def float8store_def)
  show "float8get_be (float8store_be M T u) T = u"
    by (simp add: float8get_be_def float8store_be_def length_8 [OF u, symmetric])
  show "doubleget_mixed (doublestore_mixed M T u) T = u"
    by (simp add: doubleget_mixed_def doublestore_mixed_def length_8 [OF u, symmetric])
qed

theorem machine_format_witness:
  "float4get_be (float4store_be (\<lambda>_. 0) 3 [1, 2, 3, 4]) 3 = [1, 2, 3, 4]"
  using machine_format [of "\<lambda>_. 0" 3 0 0 0 "[1, 2, 3, 4]" "[]"] by simp

end
