(* ===== verification/Portability.thy ===== *)
theory Portability
  imports ByteOrder "HOL-Library.Signed_Division"
begin

text \<open>
  Inline functions of \<open>m_string.h\<close>, \<open>my_sys.h\<close>, \<open>my_global.h\<close> and \<open>my_thread_local.h\<close>: the search for the last
  character that is no space in both its forms, strings with a length, sleeping, and thread-local keys.
  Memory is a function from addresses to bytes, as in ByteOrder; a system call is an argument, by the value
  it returns or as a function.
\<close>

section \<open>Trailing spaces\<close>

text \<open>\<open>while (end > ptr && end[-1] == 0x20) end--\<close>\<close>

function skip_bytes :: "memory \<Rightarrow> nat \<Rightarrow> nat \<Rightarrow> nat" where
  "skip_bytes M ptr e = (if ptr < e \<and> M (e - 1) = 0x20 then skip_bytes M ptr (e - 1) else e)"
  by pat_completeness auto
termination by (relation "measure (\<lambda>(M, ptr, e). e)") auto

text \<open>Eight bytes at a time, with \<open>uint8korr\<close>.\<close>

function skip_words :: "memory \<Rightarrow> nat \<Rightarrow> nat \<Rightarrow> nat" where
  "skip_words M ptr e =
     (if 8 \<le> e - ptr then if uint8korr M (e - 8) \<noteq> 0x2020202020202020 then e else skip_words M ptr (e - 8) else e)"
  by pat_completeness auto
termination by (relation "measure (\<lambda>(M, ptr, e). e)") auto

definition skip_trailing_space :: "memory \<Rightarrow> nat \<Rightarrow> nat \<Rightarrow> nat" where
  "skip_trailing_space M ptr len = skip_bytes M ptr (skip_words M ptr (ptr + len))"

text \<open>
  The form for sparc, a big-endian machine with aligned words of 4 bytes: first down to a word boundary,
  then whole words, then the rest.
\<close>

function skip_ints :: "memory \<Rightarrow> nat \<Rightarrow> nat \<Rightarrow> nat" where
  "skip_ints M start e =
     (if start < e \<and> ulongget_be M (e - 4) = 0x20202020 then skip_ints M start (e - 4) else e)"
  by pat_completeness auto
termination by (relation "measure (\<lambda>(M, ptr, e). e)") auto

definition skip_trailing_space_sparc :: "memory \<Rightarrow> nat \<Rightarrow> nat \<Rightarrow> nat" where
  "skip_trailing_space_sparc M ptr len =
     (let e = ptr + len
      in skip_bytes M ptr
        (if 20 < len
         then let end_words = e div 4 * 4; start_words = (ptr + 3) div 4 * 4; e1 = skip_bytes M end_words e
              in if M (e1 - 1) = 0x20 \<and> start_words < end_words then skip_ints M start_words e1 else e1
         else e))"

declare skip_bytes.simps [simp del] skip_words.simps [simp del] skip_ints.simps [simp del]

text \<open>The reference: the address after the last byte that is no space.\<close>

definition after_last :: "memory \<Rightarrow> nat \<Rightarrow> nat \<Rightarrow> nat" where
  "after_last M ptr len = ptr + length (dropWhile (\<lambda>b. b = 0x20) (rev (map M [ptr..<ptr + len])))"

text \<open>Only spaces lie between two addresses.\<close>

definition spaces :: "memory \<Rightarrow> nat \<Rightarrow> nat \<Rightarrow> bool" where
  "spaces M a b \<longleftrightarrow> a \<le> b \<and> (\<forall>i. a \<le> i \<longrightarrow> i < b \<longrightarrow> M i = 0x20)"

lemma spaces_refl [simp]: "spaces M a a"
  by (simp add: spaces_def)

lemma spaces_trans: "spaces M a b \<Longrightarrow> spaces M b c \<Longrightarrow> spaces M a c"
  unfolding spaces_def by (meson le_trans not_le)

lemma skip_bytes_spaces: "ptr \<le> e \<Longrightarrow> ptr \<le> skip_bytes M ptr e \<and> spaces M (skip_bytes M ptr e) e"
proof (induction M ptr e rule: skip_bytes.induct)
  case (1 M ptr e)
  show ?case
  proof (cases "ptr < e \<and> M (e - 1) = 0x20")
    case True
    have "spaces M (e - 1) e"
      unfolding spaces_def
    proof (intro conjI allI impI)
      fix i assume "e - 1 \<le> i" "i < e"
      then have "i = e - 1" by linarith
      then show "M i = 0x20" using True by simp
    qed simp
    moreover have "skip_bytes M ptr e = skip_bytes M ptr (e - 1)" using True by (subst skip_bytes.simps) simp
    moreover have "ptr \<le> e - 1" using True by linarith
    then have "ptr \<le> skip_bytes M ptr (e - 1) \<and> spaces M (skip_bytes M ptr (e - 1)) (e - 1)"
      by (rule 1(1) [OF True])
    ultimately show ?thesis by (metis spaces_trans)
  next
    case False
    with 1 show ?thesis by (subst (1 2) skip_bytes.simps) auto
  qed
qed

lemma skip_bytes_stop: "M (skip_bytes M w e - 1) = 0x20 \<Longrightarrow> w \<le> e \<Longrightarrow> skip_bytes M w e = w"
proof (induction M w e rule: skip_bytes.induct)
  case (1 M w e)
  have step: "skip_bytes M w e = (if w < e \<and> M (e - 1) = 0x20 then skip_bytes M w (e - 1) else e)"
    by (rule skip_bytes.simps)
  show ?case using 1 unfolding step by (simp split: if_splits)
qed

lemma skip_bytes_over: "ptr \<le> m \<Longrightarrow> spaces M m e \<Longrightarrow> skip_bytes M ptr e = skip_bytes M ptr m"
proof (induction "e - m" arbitrary: e)
  case 0
  then show ?case by (simp add: spaces_def)
next
  case (Suc d)
  then have "m < e" "M (e - 1) = 0x20" "spaces M m (e - 1)" by (auto simp: spaces_def)
  with Suc show ?case by (subst skip_bytes.simps) simp
qed

lemma skip_bytes_reference: "skip_bytes M ptr (ptr + len) = after_last M ptr len"
proof (induction len)
  case 0
  then show ?case by (subst skip_bytes.simps) (simp add: after_last_def)
next
  case (Suc len)
  then show ?case by (subst skip_bytes.simps) (simp add: after_last_def)
qed

text \<open>A word of spaces is a space in each byte.\<close>

lemma load_le_bytes:
  assumes "(load_le n M A :: 'a::len word) = load_le n N B" and "8 * n \<le> LENGTH('a)" and "i < n"
  shows "M (A + i) = N (B + i)"
proof (rule bit_word_eqI)
  fix m assume m: "m < LENGTH(8)"
  then have "8 * i + m < LENGTH('a)" "8 * i + m < 8 * n" "(8 * i + m) div 8 = i" "(8 * i + m) mod 8 = m"
    using assms(2,3) by auto
  then show "bit (M (A + i)) m = bit (N (B + i)) m"
    using arg_cong [OF assms(1), of "\<lambda>w. bit w (8 * i + m)"] by (simp add: bit_load_le)
qed

lemma load_le_spaces:
  "(load_le 8 (\<lambda>_. 0x20) 0 :: 64 word) = 0x2020202020202020"
  "(load_le 4 (\<lambda>_. 0x20) 0 :: 32 word) = 0x20202020"
  by code_simp+

lemma uint8korr_spaces:
  assumes "uint8korr M A = 0x2020202020202020"
  shows "spaces M A (A + 8)"
proof -
  have "(load_le 8 M A :: 64 word) = load_le 8 (\<lambda>_. 0x20) 0"
    using assms by (simp add: korr_loads load_le_spaces(1))
  from load_le_bytes [OF this] have b: "M (A + i) = 0x20" if "i < 8" for i using that by simp
  have "M j = 0x20" if "A \<le> j" "j < A + 8" for j
    using b [of "j - A"] that by simp
  then show ?thesis by (simp add: spaces_def)
qed

lemma ulongget_spaces:
  assumes "ulongget_be M A = 0x20202020"
  shows "spaces M A (A + 4)"
proof -
  have "(load_le 4 (\<lambda>i. M (A + 3 - i)) 0 :: 32 word) = load_le 4 (\<lambda>_. 0x20) 0"
    using assms by (simp add: ulongget_be_def load_le_spaces(2))
  from load_le_bytes [OF this] have b: "M (A + 3 - i) = 0x20" if "i < 4" for i using that by simp
  have "M j = 0x20" if "A \<le> j" "j < A + 4" for j
    using b [of "A + 3 - j"] that by simp
  then show ?thesis by (simp add: spaces_def)
qed

lemma skip_words_spaces: "ptr \<le> e \<Longrightarrow> ptr \<le> skip_words M ptr e \<and> spaces M (skip_words M ptr e) e"
proof (induction M ptr e rule: skip_words.induct)
  case (1 M ptr e)
  show ?case
  proof (cases "8 \<le> e - ptr \<and> uint8korr M (e - 8) = 0x2020202020202020")
    case True
    then have "e - 8 + 8 = e" "uint8korr M (e - 8) = 0x2020202020202020" by linarith+
    then have "spaces M (e - 8) e" using uint8korr_spaces [of M "e - 8"] by simp
    moreover have "skip_words M ptr e = skip_words M ptr (e - 8)" using True by (subst skip_words.simps) simp
    moreover have "ptr \<le> skip_words M ptr (e - 8) \<and> spaces M (skip_words M ptr (e - 8)) (e - 8)"
      using 1 True by (simp add: le_diff_conv2)
    ultimately show ?thesis by (metis spaces_trans)
  next
    case False
    with 1(2) show ?thesis by (subst (1 2) skip_words.simps) auto
  qed
qed

lemma skip_ints_spaces:
  "start \<le> e \<Longrightarrow> 4 dvd start \<Longrightarrow> 4 dvd e \<Longrightarrow>
   start \<le> skip_ints M start e \<and> spaces M (skip_ints M start e) e"
proof (induction M start e rule: skip_ints.induct)
  case (1 M start e)
  show ?case
  proof (cases "start < e \<and> ulongget_be M (e - 4) = 0x20202020")
    case True
    then have "4 dvd e - start" "0 < e - start" using 1 by auto
    then have "4 \<le> e - start" by (rule dvd_imp_le)
    then have "spaces M (e - 4) e" "start \<le> e - 4" using ulongget_spaces [of M "e - 4"] True by simp_all
    moreover have "skip_ints M start e = skip_ints M start (e - 4)" using True by (subst skip_ints.simps) simp
    ultimately show ?thesis using 1 True by (metis spaces_trans dvd_diff_nat dvd_refl)
  next
    case False
    with 1 show ?thesis by (subst (1 2) skip_ints.simps) auto
  qed
qed

section \<open>Strings with a length\<close>

record lex_string =
  lex_str :: nat
  lex_length :: nat

text \<open>The \<open>strlen\<close> of the C library: it looks for the terminating zero, and may not find one.\<close>

partial_function (option) strlen :: "memory \<Rightarrow> nat \<Rightarrow> nat option" where
  "strlen M p = (if M p = 0 then Some 0 else Option.bind (strlen M (p + 1)) (\<lambda>n. Some (Suc n)))"


definition lex_string_set :: "memory \<Rightarrow> nat \<Rightarrow> lex_string option" where
  "lex_string_set M cstr = map_option (\<lambda>n. \<lparr>lex_str = cstr, lex_length = n\<rparr>) (strlen M cstr)"

definition lex_cstring_set :: "memory \<Rightarrow> nat \<Rightarrow> lex_string option" where
  "lex_cstring_set M cstr = map_option (\<lambda>n. \<lparr>lex_str = cstr, lex_length = n\<rparr>) (strlen M cstr)"

text \<open>With the first zero byte at \<open>p + n\<close> the length is \<open>n\<close>.\<close>

lemma strlen_first_zero: "M (p + n) = 0 \<Longrightarrow> (\<And>i. i < n \<Longrightarrow> M (p + i) \<noteq> 0) \<Longrightarrow> strlen M p = Some n"
proof (induction n arbitrary: p)
  case 0
  then show ?case by (subst strlen.simps) simp
next
  case (Suc n)
  have "strlen M (p + 1) = Some n"
  proof (rule Suc.IH)
    show "M (p + 1 + n) = 0" using Suc.prems(1) by simp
    show "M (p + 1 + i) \<noteq> 0" if "i < n" for i using Suc.prems(2) [of "Suc i"] that by simp
  qed
  moreover have "M p \<noteq> 0" using Suc.prems(2) [of 0] by simp
  ultimately show ?case by (subst strlen.simps) simp
qed

lemma lex_string_set_length:
  "M (p + n) = 0 \<Longrightarrow> (\<And>i. i < n \<Longrightarrow> M (p + i) \<noteq> 0) \<Longrightarrow>
   lex_string_set M p = Some \<lparr>lex_str = p, lex_length = n\<rparr> \<and> lex_cstring_set M p = lex_string_set M p"
  by (simp add: lex_string_set_def lex_cstring_set_def strlen_first_zero)

text \<open>\<open>safe_strdup_root\<close> copies what there is to copy; \<open>None\<close> is the null pointer and \<open>strdup_root\<close> the allocator.\<close>

definition safe_strdup_root :: "(nat \<Rightarrow> 's \<Rightarrow> nat option \<times> 's) \<Rightarrow> nat option \<Rightarrow> 's \<Rightarrow> nat option \<times> 's" where
  "safe_strdup_root strdup_root str s = (case str of Some a \<Rightarrow> strdup_root a s | None \<Rightarrow> (None, s))"

text \<open>The separators \<open>FN_LIBCHAR\<close> and, on Windows, \<open>FN_LIBCHAR2\<close>.\<close>

definition is_directory_separator :: "bool \<Rightarrow> char \<Rightarrow> bool" where
  "is_directory_separator win c = (if win then c = CHR 0x5C \<or> c = CHR ''/'' else c = CHR ''/'')"

section \<open>Dynamic arrays\<close>

record dynamic_array =
  da_buffer :: nat
  elements :: "32 word"
  max_element :: "32 word"
  alloc_increment :: "32 word"
  size_of_element :: "32 word"
  m_psi_key :: "32 word"

definition reset_dynamic :: "dynamic_array \<Rightarrow> dynamic_array" where
  "reset_dynamic a = a\<lparr>elements := 0\<rparr>"

section \<open>Sleeping\<close>

text \<open>
  On Windows both functions hand a 32-bit number of milliseconds to \<open>Sleep\<close>: the product wraps around, and
  \<open>my_sleep\<close> narrows its 64-bit microseconds before it divides. Elsewhere \<open>my_sleep\<close> hands seconds and microseconds to
  \<open>select\<close>.
\<close>

definition sleep_Windows :: "32 word \<Rightarrow> 32 word" where
  "sleep_Windows seconds = seconds * 1000"

definition my_sleep_Windows :: "64 word \<Rightarrow> 32 word" where
  "my_sleep_Windows m_seconds = ucast m_seconds div 1000 + 1"

definition my_sleep_select :: "int \<Rightarrow> int \<times> int" where
  "my_sleep_select m_seconds = (m_seconds sdiv 1000000, m_seconds smod 1000000)"

lemma unat_sleep: "unat (sleep_Windows s) = unat s * 1000 mod 2 ^ 32"
  by (simp add: sleep_Windows_def unat_word_ariths)

lemma unat_my_sleep: "unat (my_sleep_Windows m) = unat m mod 2 ^ 32 div 1000 + 1"
proof -
  have "unat m mod 2 ^ 32 < (2 ^ 32 :: nat)" by simp
  then have "unat m mod 2 ^ 32 div 1000 + 1 < (2 ^ 32 :: nat)" by simp
  moreover have "unat (ucast m :: 32 word) = unat m mod 2 ^ 32"
    by (simp add: unsigned_ucast_eq take_bit_eq_mod)
  ultimately show ?thesis
    by (simp add: my_sleep_Windows_def unat_word_ariths(1) unat_div_distrib)
qed

text \<open>
  Below \<open>2 ^ 32\<close> microseconds, a little over 71 minutes, \<open>my_sleep\<close> sleeps at least as long as asked and at most a
  millisecond longer; at \<open>2 ^ 32\<close> it sleeps one millisecond.
\<close>

lemma my_sleep_range:
  "unat m < 2 ^ 32 \<Longrightarrow>
   unat m < unat (my_sleep_Windows m) * 1000 \<and> unat (my_sleep_Windows m) * 1000 \<le> unat m + 1000"
  unfolding unat_my_sleep by simp

lemma my_sleep_narrowed: "my_sleep_Windows 4294967296 = 1"
  by code_simp

lemma sleep_wraps: "sleep_Windows 4294968 = 704"
  by code_simp

lemma my_sleep_select_exact:
  "0 \<le> m \<Longrightarrow> (case my_sleep_select m of (sec, usec) \<Rightarrow> sec * 1000000 + usec = m \<and> 0 \<le> usec \<and> usec < 1000000)"
  by (simp add: my_sleep_select_def signed_divide_int_def signed_modulo_int_def sgn_if)

section \<open>Thread-local keys\<close>

text \<open>
  On Windows the functions turn the answers of the \<open>Tls\<close> calls round, so that 0 is success as it is elsewhere.
\<close>

abbreviation TLS_OUT_OF_INDEXES :: "32 word" where
  "TLS_OUT_OF_INDEXES \<equiv> 0xFFFFFFFF"

text \<open>The calls of the system, for Windows and for threads of POSIX, with their results.\<close>

record 's tls_system =
  TlsAlloc :: "'s \<Rightarrow> 32 word \<times> 's"
  TlsFree :: "32 word \<Rightarrow> 's \<Rightarrow> int \<times> 's"
  TlsGetValue :: "32 word \<Rightarrow> 's \<Rightarrow> nat"
  TlsSetValue :: "32 word \<Rightarrow> nat \<Rightarrow> 's \<Rightarrow> int \<times> 's"
  pthread_key_create :: "nat \<Rightarrow> 's \<Rightarrow> int \<times> 32 word \<times> 's"
  pthread_key_delete :: "32 word \<Rightarrow> 's \<Rightarrow> int \<times> 's"
  pthread_getspecific :: "32 word \<Rightarrow> 's \<Rightarrow> nat"
  pthread_setspecific :: "32 word \<Rightarrow> nat \<Rightarrow> 's \<Rightarrow> int \<times> 's"

definition my_create_thread_local_key :: "bool \<Rightarrow> 's tls_system \<Rightarrow> nat \<Rightarrow> 's \<Rightarrow> int \<times> 32 word \<times> 's" where
  "my_create_thread_local_key win S destructor s =
     (if win then case TlsAlloc S s of (key, s') \<Rightarrow> (of_bool (key = TLS_OUT_OF_INDEXES), key, s')
      else pthread_key_create S destructor s)"

definition my_delete_thread_local_key :: "bool \<Rightarrow> 's tls_system \<Rightarrow> 32 word \<Rightarrow> 's \<Rightarrow> int \<times> 's" where
  "my_delete_thread_local_key win S key s =
     (if win then case TlsFree S key s of (r, s') \<Rightarrow> (of_bool (r = 0), s') else pthread_key_delete S key s)"

definition my_get_thread_local :: "bool \<Rightarrow> 's tls_system \<Rightarrow> 32 word \<Rightarrow> 's \<Rightarrow> nat" where
  "my_get_thread_local win S key s = (if win then TlsGetValue S key s else pthread_getspecific S key s)"

definition my_set_thread_local :: "bool \<Rightarrow> 's tls_system \<Rightarrow> 32 word \<Rightarrow> nat \<Rightarrow> 's \<Rightarrow> int \<times> 's" where
  "my_set_thread_local win S key v s =
     (if win then case TlsSetValue S key v s of (r, s') \<Rightarrow> (of_bool (r = 0), s') else pthread_setspecific S key v s)"

section \<open>Properties\<close>

text \<open>
  C36. The fast searches for the last character that is no space find what a search byte by byte finds: the one
  that reads eight bytes at a time without regard to alignment, and the one for sparc that reads
  aligned words, for every string, long or short, wherever it lies in memory.
\<close>

theorem skip_trailing_space_reference:
  "skip_trailing_space M ptr len = after_last M ptr len
   \<and> skip_trailing_space_sparc M ptr len = after_last M ptr len"
proof
  show "skip_trailing_space M ptr len = after_last M ptr len"
    using skip_words_spaces [of ptr "ptr + len" M] skip_bytes_over [of ptr "skip_words M ptr (ptr + len)" M "ptr + len"]
    by (simp add: skip_trailing_space_def skip_bytes_reference [symmetric])
  let ?e = "ptr + len"
  let ?w = "?e div 4 * 4" and ?s = "(ptr + 3) div 4 * 4"
  let ?e1 = "skip_bytes M ?w ?e"
  have e1: "?w \<le> ?e1" "spaces M ?e1 ?e" using skip_bytes_spaces [of ?w ?e M] by simp_all
  have stop: "?e1 = ?w" if "M (?e1 - 1) = 0x20" using skip_bytes_stop [of M ?w ?e] that by simp
  show "skip_trailing_space_sparc M ptr len = after_last M ptr len"
  proof (cases "20 < len")
    case True
    then have le: "ptr \<le> ?w" "ptr \<le> ?s" by presburger+
    let ?e2 = "if M (?e1 - 1) = 0x20 \<and> ?s < ?w then skip_ints M ?s ?e1 else ?e1"
    have "ptr \<le> ?e2 \<and> spaces M ?e2 ?e"
    proof (cases "M (?e1 - 1) = 0x20 \<and> ?s < ?w")
      case True
      then have w: "?e1 = ?w" using stop by blast
      from True have "?s \<le> skip_ints M ?s ?w \<and> spaces M (skip_ints M ?s ?w) ?w"
        by (intro skip_ints_spaces) simp_all
      moreover have "spaces M ?w ?e" using e1(2) unfolding w .
      ultimately have "ptr \<le> skip_ints M ?s ?w \<and> spaces M (skip_ints M ?s ?w) ?e"
        using le(2) spaces_trans le_trans by blast
      then show ?thesis using True unfolding w by simp
    next
      case False
      then show ?thesis using e1 le(1) by (simp only: if_False le_trans simp_thms)
    qed
    then have "skip_bytes M ptr ?e = skip_bytes M ptr ?e2" using skip_bytes_over by blast
    then show ?thesis
      using True by (simp add: skip_trailing_space_sparc_def Let_def skip_bytes_reference [symmetric])
  next
    case False
    then show ?thesis by (simp add: skip_trailing_space_sparc_def skip_bytes_reference)
  qed
qed

end
