(* ===== verification/Timespec.thy ===== *)
theory Timespec
  imports Prelude
begin

text \<open>
  The absolute times of \<open>MySQL Server 5.7/include/my_global.h\<close> and \<open>get_milliseconds\<close> of
  \<open>thr_cond.h\<close>, which turns one into the timeout of a wait on Windows. The headers have two
  versions of every function, for compilers with and without \<open>struct timespec\<close>; both are here, the
  second with the suffix \<open>_ft\<close>. \<open>ulonglong\<close> is a 64-bit word; the signed fields are integers that the
  conversions of the code keep in their range. The clock's value is an argument.
\<close>

section \<open>With \<open>struct timespec\<close>\<close>

record timespec =
  tv_sec :: int
  tv_nsec :: int

definition INT_MAX32 :: "64 word" where
  "INT_MAX32 = 0x7FFFFFFF"

text \<open>\<open>small_time_t\<close> is \<open>SIZEOF_TIME_T < SIZEOF_LONG_LONG\<close>; the clock counts units of 100 ns.\<close>

definition set_timespec_nsec :: "bool \<Rightarrow> 64 word \<Rightarrow> 64 word \<Rightarrow> timespec" where
  "set_timespec_nsec small_time_t systime nsec =
     (let now = systime + nsec div 100;
          tv_sec0 = now div 10000000;
          tv_sec1 = if small_time_t then min tv_sec0 INT_MAX32 else tv_sec0
      in \<lparr>tv_sec = (if small_time_t then sint (ucast tv_sec1 :: 32 word) else sint tv_sec1),
          tv_nsec = uint ((now mod 10000000) * 100 + nsec mod 100)\<rparr>)"

definition set_timespec :: "bool \<Rightarrow> 64 word \<Rightarrow> 64 word \<Rightarrow> timespec" where
  "set_timespec small_time_t systime sec = set_timespec_nsec small_time_t systime (sec * 1000000000)"

definition cmp_timespec :: "timespec \<Rightarrow> timespec \<Rightarrow> int" where
  "cmp_timespec ts1 ts2 =
     (if tv_sec ts1 > tv_sec ts2 \<or> tv_sec ts1 = tv_sec ts2 \<and> tv_nsec ts1 > tv_nsec ts2 then 1
      else if tv_sec ts1 < tv_sec ts2 \<or> tv_sec ts1 = tv_sec ts2 \<and> tv_nsec ts1 < tv_nsec ts2 then -1
      else 0)"

definition diff_timespec :: "timespec \<Rightarrow> timespec \<Rightarrow> 64 word" where
  "diff_timespec ts1 ts2 =
     word_of_int (tv_sec ts1 - tv_sec ts2) * 1000000000 + word_of_int (tv_nsec ts1) - word_of_int (tv_nsec ts2)"

definition get_milliseconds :: "timespec \<Rightarrow> 64 word \<Rightarrow> 32 word" where
  "get_milliseconds abstime systime =
     (let future = word_of_int (tv_sec abstime * 1000 + tv_nsec abstime sdiv 1000000) :: 64 word;
          now = systime div 10000
      in if future < now then 0 else ucast (future - now))"

section \<open>With a file time and a maximum\<close>

record timespec_ft =
  i64 :: int
  max_timeout_msec :: int

text \<open>\<open>small_long\<close> is \<open>SIZEOF_LONG < SIZEOF_LONG_LONG\<close>.\<close>

definition set_timespec_nsec_ft :: "bool \<Rightarrow> int \<Rightarrow> 64 word \<Rightarrow> timespec_ft" where
  "set_timespec_nsec_ft small_long filetime nsec =
     (let max0 = nsec div 1000000;
          max1 = if small_long then min max0 INT_MAX32 else max0
      in \<lparr>i64 = sint (word_of_int (filetime + sint (nsec div 100)) :: 64 word),
          max_timeout_msec = (if small_long then sint (ucast max1 :: 32 word) else sint max1)\<rparr>)"

definition cmp_timespec_ft :: "timespec_ft \<Rightarrow> timespec_ft \<Rightarrow> int" where
  "cmp_timespec_ft ts1 ts2 =
     (if i64 ts1 > i64 ts2 then 1 else if i64 ts1 < i64 ts2 then -1 else 0)"

definition diff_timespec_ft :: "timespec_ft \<Rightarrow> timespec_ft \<Rightarrow> 64 word" where
  "diff_timespec_ft ts1 ts2 = word_of_int ((i64 ts1 - i64 ts2) * 100)"

definition INFINITE :: "32 word" where
  "INFINITE = 0xFFFFFFFF"

definition UINT_MAX :: int where
  "UINT_MAX = 0xFFFFFFFF"

definition get_milliseconds_ft :: "timespec_ft option \<Rightarrow> int \<Rightarrow> 32 word" where
  "get_milliseconds_ft abstime now = (case abstime of
       None \<Rightarrow> INFINITE
     | Some t \<Rightarrow>
         let millis = (i64 t - now) sdiv 10000
         in if millis < 0 then 0
            else let millis1 = if millis > max_timeout_msec t then max_timeout_msec t else millis;
                     millis2 = if millis1 > UINT_MAX then UINT_MAX else millis1
                 in word_of_int millis2)"

section \<open>The deadline is exact\<close>

text \<open>The nanoseconds a time stands for, and the times \<open>set_timespec_nsec\<close> makes.\<close>

definition nanoseconds :: "timespec \<Rightarrow> int" where
  "nanoseconds ts = tv_sec ts * 1000000000 + tv_nsec ts"

definition normalised :: "timespec \<Rightarrow> bool" where
  "normalised ts \<longleftrightarrow> 0 \<le> tv_nsec ts \<and> tv_nsec ts < 1000000000"

lemma uint_nsec_field:
  "uint (((now :: 64 word) mod 10000000) * 100 + nsec mod 100) = (uint now mod 10000000) * 100 + uint nsec mod 100"
proof -
  have m: "0 \<le> uint now mod 10000000" "uint now mod 10000000 < 10000000" by simp_all
  have n: "0 \<le> uint nsec mod 100" "uint nsec mod 100 < 100" by simp_all
  have a: "uint ((now mod 10000000) * 100) = (uint now mod 10000000) * 100"
    using m by (simp add: uint_word_ariths uint_mod)
  show ?thesis
    using m n by (simp add: uint_word_ariths a uint_mod mod_pos_pos_trivial)
qed

lemma set_timespec_nsec_normalised: "normalised (set_timespec_nsec b s n)"
proof -
  have "0 \<le> uint (s + n div 100) mod 10000000" "uint (s + n div 100) mod 10000000 < 10000000"
    "0 \<le> uint n mod 100" "uint n mod 100 < 100" by simp_all
  then show ?thesis
    by (simp add: normalised_def set_timespec_nsec_def Let_def uint_nsec_field)
qed

lemma uint_now:
  assumes "uint s + uint n div 100 < 2 ^ 64"
  shows "uint ((s :: 64 word) + n div 100) = uint s + uint n div 100"
proof -
  have "0 \<le> uint s + uint n div 100" by (simp add: pos_imp_zdiv_nonneg_iff)
  then show ?thesis using assms by (simp add: uint_word_ariths uint_div)
qed

lemma sint_small:
  assumes "uint (x :: 'a::len word) < 2 ^ (LENGTH('a) - 1)"
  shows "sint x = uint x"
proof -
  have "- (2 ^ (LENGTH('a) - 1)) \<le> (0 :: int)" by simp
  then have "- (2 ^ (LENGTH('a) - 1)) \<le> uint x" using uint_nonnegative order_trans by blast
  then show ?thesis using assms by (simp add: sint_uint signed_take_bit_int_eq_self_iff)
qed

lemma tv_sec_wide: "tv_sec (set_timespec_nsec False s n) = uint (s + n div 100) div 10000000"
proof -
  have "uint (s + n div 100) < 2 ^ 64" using uint_bounded [of "s + n div 100"] by simp
  then have "uint ((s + n div 100) div 10000000) < 2 ^ 63" by (simp add: uint_div)
  then show ?thesis
    using sint_small [of "(s + n div 100) div 10000000"]
    by (simp add: set_timespec_nsec_def Let_def uint_div)
qed

lemma set_timespec_nsec_exact:
  assumes "uint s + uint n div 100 < 2 ^ 64"
  shows "nanoseconds (set_timespec_nsec False s n) = uint s * 100 + uint n"
proof -
  have "tv_nsec (set_timespec_nsec False s n) = (uint s + uint n div 100) mod 10000000 * 100 + uint n mod 100"
    using uint_now [OF assms] by (simp add: set_timespec_nsec_def Let_def uint_nsec_field)
  then show ?thesis
    unfolding nanoseconds_def tv_sec_wide uint_now [OF assms] by simp presburger
qed

lemma set_timespec_exact:
  assumes "uint sec * 1000000000 < 2 ^ 64" "uint s + uint sec * 10000000 < 2 ^ 64"
  shows "nanoseconds (set_timespec False s sec) = uint s * 100 + uint sec * 1000000000"
proof -
  have "uint (sec * 1000000000) = uint sec * 1000000000"
    using assms(1) by (simp add: uint_word_ariths)
  with set_timespec_nsec_exact [of s "sec * 1000000000"] assms(2) show ?thesis
    by (simp add: set_timespec_def)
qed

section \<open>Comparison and difference agree\<close>

lemma cmp_timespec_nanoseconds:
  assumes "normalised a" "normalised b"
  shows "cmp_timespec a b = sgn (nanoseconds a - nanoseconds b)"
  using assms by (auto simp: cmp_timespec_def nanoseconds_def normalised_def sgn_if)

lemma diff_timespec_nanoseconds:
  "diff_timespec a b = word_of_int (nanoseconds a - nanoseconds b)"
  by (simp add: diff_timespec_def nanoseconds_def algebra_simps)

theorem cmp_diff_timespec:
  assumes "normalised a" "normalised b" "\<bar>nanoseconds a - nanoseconds b\<bar> < 2 ^ 64" "cmp_timespec a b \<ge> 0"
  shows "uint (diff_timespec a b) = nanoseconds a - nanoseconds b"
proof -
  have "0 \<le> nanoseconds a - nanoseconds b"
    using assms(4) by (simp add: cmp_timespec_nanoseconds [OF assms(1,2)] sgn_if split: if_splits)
  with assms(3) show ?thesis unfolding diff_timespec_nanoseconds uint_word_of_int by simp
qed

section \<open>Timeouts\<close>

text \<open>The milliseconds left are exact up to the width of the result.\<close>

lemma sdiv_nonneg: "0 \<le> x \<Longrightarrow> 0 < y \<Longrightarrow> x sdiv y = x div (y :: int)"
  by (simp add: signed_divide_int_def sgn_if)

lemma get_milliseconds_left:
  assumes "0 \<le> tv_sec t" "normalised t" "tv_sec t < 2 ^ 53"
  shows "uint (get_milliseconds t s) =
    (let left = nanoseconds t div 1000000 - uint s div 10000 in if left < 0 then 0 else left mod 2 ^ 32)"
proof -
  have f: "tv_sec t * 1000 + tv_nsec t sdiv 1000000 = nanoseconds t div 1000000"
    using assms(2) by (simp add: nanoseconds_def normalised_def sdiv_nonneg)
  have b: "0 \<le> nanoseconds t div 1000000" "nanoseconds t div 1000000 < 2 ^ 64"
    using assms unfolding nanoseconds_def normalised_def by (auto simp: pos_imp_zdiv_nonneg_iff)
  let ?f = "word_of_int (nanoseconds t div 1000000) :: 64 word"
  have u: "uint ?f = nanoseconds t div 1000000"
    using b by (simp add: uint_word_of_int)
  show ?thesis
  proof (cases "uint ?f < uint s div 10000")
    case True
    then show ?thesis using u by (simp add: get_milliseconds_def Let_def f word_less_def uint_div)
  next
    case False
    then have "s div 10000 \<le> ?f" by (simp add: word_le_def uint_div)
    then have "uint (?f - s div 10000) = uint ?f - uint s div 10000"
      by (simp add: uint_minus_simple_alt uint_div)
    then show ?thesis using False u
      by (simp add: get_milliseconds_def Let_def f word_less_def uint_div unsigned_ucast_eq take_bit_eq_mod)
  qed
qed

text \<open>
  The clock may move between the two calls; \<open>later\<close> is what it reads in \<open>get_milliseconds\<close>. A wait
  asked for a time that fits the result gets the milliseconds that are left, rounded by at most one, and
  none once the deadline has passed.
\<close>

lemma set_get_milliseconds:
  assumes "uint s + uint n div 100 < 2 ^ 64" "uint n < (2 ^ 32 - 1) * 1000000" "uint s \<le> uint later"
  shows "uint (get_milliseconds (set_timespec_nsec False s n) later) =
    max 0 ((uint s * 100 + uint n) div 1000000 - uint later div 10000)"
proof -
  have sec: "0 \<le> tv_sec (set_timespec_nsec False s n)" "tv_sec (set_timespec_nsec False s n) < 2 ^ 53"
    using uint_bounded [of "s + n div 100"] by (simp_all add: tv_sec_wide pos_imp_zdiv_nonneg_iff)
  have "(uint s * 100 + uint n) div 1000000 - uint later div 10000 < 2 ^ 32"
    using assms(2,3) by simp
  then show ?thesis
    unfolding get_milliseconds_left [OF sec(1) set_timespec_nsec_normalised sec(2)]
      set_timespec_nsec_exact [OF assms(1)] by (simp add: Let_def max_def)
qed


text \<open>
  The other version: the wait is never longer than the time asked for, even when the clock has been set
  back, and never the infinite one.
\<close>

lemma max_timeout_small:
  "max_timeout_msec (set_timespec_nsec_ft True f n) = min (uint n div 1000000) 0x7FFFFFFF"
proof -
  let ?m = "min (n div 1000000) INT_MAX32"
  have m: "uint ?m = min (uint n div 1000000) 0x7FFFFFFF"
    by (simp add: INT_MAX32_def min_def word_le_def uint_div)
  have u: "uint (ucast ?m :: 32 word) = uint ?m"
    using m by (simp add: unsigned_ucast_eq take_bit_eq_mod mod_pos_pos_trivial pos_imp_zdiv_nonneg_iff)
  have "sint (ucast ?m :: 32 word) = uint (ucast ?m :: 32 word)"
    by (rule sint_small) (simp add: u m)
  then show ?thesis
    by (simp add: set_timespec_nsec_ft_def Let_def u m)
qed

lemma i64_exact:
  assumes "0 \<le> f" "f + uint n div 100 < 2 ^ 63"
  shows "i64 (set_timespec_nsec_ft b f n) = f + uint n div 100"
proof -
  have n: "sint (n div 100) = uint n div 100"
    using sint_small [of "n div 100"] assms by (simp add: uint_div)
  have "0 \<le> uint n div 100" by (simp add: pos_imp_zdiv_nonneg_iff)
  then have "sint (word_of_int (f + uint n div 100) :: 64 word) = f + uint n div 100"
    using assms unfolding sint_uint uint_word_of_int by (simp add: signed_take_bit_int_eq_self_iff)
  with n show ?thesis by (simp add: set_timespec_nsec_ft_def Let_def)
qed

lemma set_get_milliseconds_ft:
  assumes "0 \<le> f" "f + uint n div 100 < 2 ^ 63"
  shows "uint (get_milliseconds_ft (Some (set_timespec_nsec_ft True f n)) later) =
    max 0 (min ((f + uint n div 100 - later) sdiv 10000) (min (uint n div 1000000) 0x7FFFFFFF))"
proof -
  have "0 \<le> uint n div 1000000" by (simp add: pos_imp_zdiv_nonneg_iff)
  then show ?thesis
    by (auto simp: get_milliseconds_ft_def Let_def max_timeout_small i64_exact [OF assms] UINT_MAX_def
        uint_word_of_int min_def max_def)
qed



text \<open>
  With \<open>struct timespec\<close> the result is cut to 32 bits: a wait of \<open>2 ^ 32\<close> milliseconds does not wait.
\<close>

lemma long_wait_wraps:
  "uint (get_milliseconds (set_timespec_nsec False s (2 ^ 32 * 1000000)) s) = 0"
  if "uint s < 2 ^ 63"
proof -
  have n: "uint (2 ^ 32 * 1000000 :: 64 word) = 2 ^ 32 * 1000000" by simp
  have sec: "0 \<le> tv_sec (set_timespec_nsec False s (2 ^ 32 * 1000000))"
    "tv_sec (set_timespec_nsec False s (2 ^ 32 * 1000000)) < 2 ^ 53"
    using uint_bounded [of "s + 2 ^ 32 * 1000000 div 100"] by (simp_all add: tv_sec_wide pos_imp_zdiv_nonneg_iff)
  have ns: "nanoseconds (set_timespec_nsec False s (2 ^ 32 * 1000000)) = uint s * 100 + 2 ^ 32 * 1000000"
    using set_timespec_nsec_exact [of s "2 ^ 32 * 1000000"] \<open>uint s < 2 ^ 63\<close> unfolding n by simp
  have "(uint s * 100 + 2 ^ 32 * 1000000) div 1000000 - uint s div 10000 = 2 ^ 32" by simp
  then show ?thesis
    unfolding get_milliseconds_left [OF sec(1) set_timespec_nsec_normalised sec(2)] ns by simp
qed

end
