(* ===== verification/Psi.thy ===== *)
theory Psi
  imports Prelude "HOL-Library.State_Monad"
begin

text \<open>
  \<open>MySQL Server 5.7/include/mysql/psi/psi.h\<close>: the performance schema interface the wrappers of
  \<open>mysql_thread.h\<close> and \<open>mysql_socket.h\<close> call. The wrappers are programs of the
  state monad over a world that keeps the state of the operating system (with the memory it reads and
  writes) apart from the state of the instrumentation, and the few variables the headers keep. What a call into the
  operating system or the instrumentation returns is a parameter: a function from the call and the state it finds.
  The theory holds the relation between a wrapper and the plain operation it stands for, and the
  discipline of the wait events.
\<close>

named_theorems transparent \<open>rules for \<open>sim\<close>\<close>
named_theorems accounted \<open>rules for \<open>balanced\<close>\<close>

abbreviation (input) ret :: "'a \<Rightarrow> ('s, 'a) state" where
  "ret \<equiv> State_Monad.return"

section \<open>The operations and calls of the interface\<close>

datatype PSI_mutex_operation = PSI_MUTEX_LOCK | PSI_MUTEX_TRYLOCK

datatype PSI_rwlock_operation = PSI_RWLOCK_READLOCK | PSI_RWLOCK_WRITELOCK | PSI_RWLOCK_TRYREADLOCK
  | PSI_RWLOCK_TRYWRITELOCK | PSI_RWLOCK_SHAREDLOCK | PSI_RWLOCK_SHAREDEXCLUSIVELOCK
  | PSI_RWLOCK_EXCLUSIVELOCK | PSI_RWLOCK_TRYSHAREDLOCK | PSI_RWLOCK_TRYSHAREDEXCLUSIVELOCK
  | PSI_RWLOCK_TRYEXCLUSIVELOCK

datatype PSI_cond_operation = PSI_COND_WAIT | PSI_COND_TIMEDWAIT

datatype PSI_socket_state = PSI_SOCKET_STATE_IDLE | PSI_SOCKET_STATE_ACTIVE

datatype PSI_socket_operation = PSI_SOCKET_CREATE | PSI_SOCKET_CONNECT | PSI_SOCKET_BIND | PSI_SOCKET_CLOSE
  | PSI_SOCKET_SEND | PSI_SOCKET_RECV | PSI_SOCKET_SENDTO | PSI_SOCKET_RECVFROM | PSI_SOCKET_SENDMSG
  | PSI_SOCKET_RECVMSG | PSI_SOCKET_SEEK | PSI_SOCKET_OPT | PSI_SOCKET_STAT | PSI_SOCKET_SHUTDOWN
  | PSI_SOCKET_SELECT

datatype PSI_file_operation = PSI_FILE_CREATE | PSI_FILE_CREATE_TMP | PSI_FILE_OPEN | PSI_FILE_STREAM_OPEN
  | PSI_FILE_CLOSE | PSI_FILE_STREAM_CLOSE | PSI_FILE_READ | PSI_FILE_WRITE | PSI_FILE_SEEK | PSI_FILE_TELL
  | PSI_FILE_FLUSH | PSI_FILE_STAT | PSI_FILE_FSTAT | PSI_FILE_CHSIZE | PSI_FILE_DELETE | PSI_FILE_RENAME
  | PSI_FILE_SYNC

text \<open>
  The calls through the table \<open>struct PSI_v1\<close> that the wrappers make, with the arguments they pass.
  Pointers are addresses; a pointer that may be \<open>NULL\<close> is an option. An instrument and a locker are
  arguments without the option where the wrappers pass them only after a test.
\<close>

datatype (plugins only: code size) psi_call =
    register_mutex string nat int | register_rwlock string nat int | register_cond string nat int
  | register_thread string nat int | register_socket string nat int
  | init_mutex nat nat | destroy_mutex nat | init_rwlock nat nat | destroy_rwlock nat
  | init_cond nat nat | destroy_cond nat | init_socket nat int "nat option" int | destroy_socket nat
  | get_thread | set_thread_id "nat option" nat | set_thread_THD "nat option" nat
  | unlock_mutex nat | unlock_rwlock nat | signal_cond nat | broadcast_cond nat
  | start_mutex_wait nat PSI_mutex_operation string nat | end_mutex_wait nat int
  | start_rwlock_rdwait nat PSI_rwlock_operation string nat | end_rwlock_rdwait nat int
  | start_rwlock_wrwait nat PSI_rwlock_operation string nat | end_rwlock_wrwait nat int
  | start_cond_wait nat "nat option" PSI_cond_operation string nat | end_cond_wait nat int
  | start_socket_wait nat PSI_socket_operation nat string nat | end_socket_wait nat nat
  | set_socket_state nat PSI_socket_state | set_socket_info nat "int option" "nat option" int
  | set_socket_thread_owner nat
  | register_file string nat int
  | get_thread_file_stream_locker "nat option" PSI_file_operation
  | get_thread_file_descriptor_locker int PSI_file_operation
  | get_thread_file_name_locker nat PSI_file_operation "nat option" nat
  | start_file_open_wait nat string nat | end_file_open_wait nat int
  | end_file_open_wait_and_bind_to_descriptor nat int
  | end_temp_file_open_wait_and_bind_to_descriptor nat int nat
  | start_file_wait nat nat string nat | end_file_wait nat nat | end_file_rename_wait nat nat nat int
  | start_file_close_wait nat string nat | end_file_close_wait nat int

section \<open>The world of the wrappers\<close>

text \<open>
  \<open>m_psi\<close> is the field of that name of the structure at an address; the structure's first field, the real
  object, has the same address. \<open>have_exclusive_srwlock\<close> is the field of \<open>native_rw_lock_t\<close> on
  Windows, \<open>DisconnectEx_ptr\<close> the static variable of \<open>inline_mysql_socket_shutdown\<close>,
  \<open>m_file\<close> the field of \<open>st_mysql_file\<close>.
\<close>

record ('o, 'p) world =
  os_state :: 'o
  psi_state :: 'p
  m_psi :: "nat \<Rightarrow> nat option"
  have_exclusive_srwlock :: "nat \<Rightarrow> bool"
  DisconnectEx_ptr :: "nat option"
  m_file :: "nat \<Rightarrow> int"

type_synonym ('o, 'p, 'a) prog = "(('o, 'p) world, 'a) state"

type_synonym 'p psi_env = "psi_call \<Rightarrow> 'p \<Rightarrow> nat option \<times> 'p"

definition PSI_CALL :: "'p psi_env \<Rightarrow> psi_call \<Rightarrow> ('o, 'p, nat option) prog" where
  "PSI_CALL psi c = State (\<lambda>w. case psi c (psi_state w) of (r, p) \<Rightarrow> (r, w\<lparr>psi_state := p\<rparr>))"

definition psi_do :: "'p psi_env \<Rightarrow> psi_call \<Rightarrow> ('o, 'p, unit) prog" where
  "psi_do psi c = do { _ \<leftarrow> PSI_CALL psi c; ret () }"

definition os_do :: "('o \<Rightarrow> 'a \<times> 'o) \<Rightarrow> ('o, 'p, 'a) prog" where
  "os_do f = State (\<lambda>w. case f (os_state w) of (r, o') \<Rightarrow> (r, w\<lparr>os_state := o'\<rparr>))"

definition get_m_psi :: "nat \<Rightarrow> ('o, 'p, nat option) prog" where
  "get_m_psi a = State (\<lambda>w. (m_psi w a, w))"

definition set_m_psi :: "nat \<Rightarrow> nat option \<Rightarrow> ('o, 'p, unit) prog" where
  "set_m_psi a p = State (\<lambda>w. ((), w\<lparr>m_psi := (m_psi w)(a := p)\<rparr>))"

definition get_exclusive :: "nat \<Rightarrow> ('o, 'p, bool) prog" where
  "get_exclusive a = State (\<lambda>w. (have_exclusive_srwlock w a, w))"

definition set_exclusive :: "nat \<Rightarrow> bool \<Rightarrow> ('o, 'p, unit) prog" where
  "set_exclusive a b = State (\<lambda>w. ((), w\<lparr>have_exclusive_srwlock := (have_exclusive_srwlock w)(a := b)\<rparr>))"

definition get_DisconnectEx :: "('o, 'p, nat option) prog" where
  "get_DisconnectEx = State (\<lambda>w. (DisconnectEx_ptr w, w))"

definition set_DisconnectEx :: "nat option \<Rightarrow> ('o, 'p, unit) prog" where
  "set_DisconnectEx f = State (\<lambda>w. ((), w\<lparr>DisconnectEx_ptr := f\<rparr>))"

definition get_m_file :: "nat \<Rightarrow> ('o, 'p, int) prog" where
  "get_m_file a = State (\<lambda>w. (m_file w a, w))"

definition set_m_file :: "nat \<Rightarrow> int \<Rightarrow> ('o, 'p, unit) prog" where
  "set_m_file a f = State (\<lambda>w. ((), w\<lparr>m_file := (m_file w)(a := f)\<rparr>))"

text \<open>A look at the system's state that does not change it.\<close>

definition os_get :: "('o \<Rightarrow> 'a) \<Rightarrow> ('o, 'p, 'a) prog" where
  "os_get f = State (\<lambda>w. (f (os_state w), w))"

text \<open>
  The shape of every instrumented wait: where the instrument is present, the start of the
  wait, the real operation, the end of the wait unless the start gave no locker; else the operation alone.
\<close>

definition instrumented ::
  "nat option \<Rightarrow> (nat \<Rightarrow> ('o, 'p, nat option) prog) \<Rightarrow> ('o, 'p, 'a) prog \<Rightarrow> (nat \<Rightarrow> 'a \<Rightarrow> ('o, 'p, unit) prog)
    \<Rightarrow> ('o, 'p, 'a) prog" where
  "instrumented hook start op fin = (case hook of
       None \<Rightarrow> op
     | Some p \<Rightarrow> do {
         locker \<leftarrow> start p;
         result \<leftarrow> op;
         _ \<leftarrow> (case locker of None \<Rightarrow> ret () | Some l \<Rightarrow> fin l result);
         ret result
       })"

text \<open>The test \<open>that->m_psi != NULL\<close>, compiled only with the interface.\<close>

definition hook_of :: "bool \<Rightarrow> nat \<Rightarrow> ('o, 'p, nat option) prog" where
  "hook_of have a = (if have then get_m_psi a else ret None)"

definition if_hook :: "nat option \<Rightarrow> (nat \<Rightarrow> ('o, 'p, unit) prog) \<Rightarrow> ('o, 'p, unit) prog" where
  "if_hook hook f = (case hook of None \<Rightarrow> ret () | Some p \<Rightarrow> f p)"

section \<open>Transparency\<close>

text \<open>What the program would see without the instrumentation, and programs that agree on it.\<close>

definition plain :: "('o, 'p) world \<Rightarrow> 'o \<times> (nat \<Rightarrow> bool) \<times> nat option \<times> (nat \<Rightarrow> int)" where
  "plain w = (os_state w, have_exclusive_srwlock w, DisconnectEx_ptr w, m_file w)"

definition sim :: "('o, 'p, 'a) prog \<Rightarrow> ('o, 'q, 'a) prog \<Rightarrow> bool" where
  "sim f g \<longleftrightarrow> (\<forall>w v. plain w = plain v \<longrightarrow>
     fst (run_state f w) = fst (run_state g v) \<and> plain (snd (run_state f w)) = plain (snd (run_state g v)))"

lemma simI:
  assumes "\<And>w v. plain w = plain v \<Longrightarrow>
    fst (run_state f w) = fst (run_state g v) \<and> plain (snd (run_state f w)) = plain (snd (run_state g v))"
  shows "sim f g"
  using assms by (simp add: sim_def)

lemma simD:
  assumes "sim f g" "plain w = plain v"
  shows "fst (run_state f w) = fst (run_state g v)" "plain (snd (run_state f w)) = plain (snd (run_state g v))"
  using assms by (simp_all add: sim_def)

definition silent :: "('o, 'p, 'a) prog \<Rightarrow> bool" where
  "silent m \<longleftrightarrow> (\<forall>w. plain (snd (run_state m w)) = plain w)"

lemma silentD: "silent m \<Longrightarrow> plain (snd (run_state m w)) = plain w"
  by (simp add: silent_def)

lemma sim_ret [transparent]: "sim (ret x) (ret x)"
  by (rule simI) simp

lemma sim_bind [transparent]:
  assumes "sim m n" "\<And>x. sim (f x) (g x)"
  shows "sim (do { x \<leftarrow> m; f x }) (do { x \<leftarrow> n; g x })"
  using simD [OF assms(1)] simD [OF assms(2)] by (intro simI) (auto simp: split_beta)

lemma sim_skip:
  assumes "silent m" "\<And>x. sim (f x) g"
  shows "sim (do { x \<leftarrow> m; f x }) g"
  using silentD [OF assms(1)] simD [OF assms(2)] by (intro simI) (auto simp: split_beta)

lemma sim_if [transparent]:
  assumes "b \<Longrightarrow> sim f f'" "\<not> b \<Longrightarrow> sim g g'"
  shows "sim (if b then f else g) (if b then f' else g')"
  using assms by simp

lemma sim_option [transparent]:
  assumes "x = None \<Longrightarrow> sim f f'" "\<And>y. x = Some y \<Longrightarrow> sim (g y) (g' y)"
  shows "sim (case x of None \<Rightarrow> f | Some y \<Rightarrow> g y) (case x of None \<Rightarrow> f' | Some y \<Rightarrow> g' y)"
  using assms by (simp split: option.split)

lemma sim_os_do [transparent]: "sim (os_do f) (os_do f)"
  by (rule simI) (auto simp: os_do_def plain_def split_beta)

lemma sim_exclusive [transparent]:
  "sim (get_exclusive a) (get_exclusive a)" "sim (set_exclusive a b) (set_exclusive a b)"
  by (auto intro!: simI simp: get_exclusive_def set_exclusive_def plain_def)

lemma sim_DisconnectEx [transparent]:
  "sim get_DisconnectEx get_DisconnectEx" "sim (set_DisconnectEx x) (set_DisconnectEx x)"
  by (auto intro!: simI simp: get_DisconnectEx_def set_DisconnectEx_def plain_def)

lemma sim_m_file [transparent]:
  "sim (get_m_file a) (get_m_file a)" "sim (set_m_file a f) (set_m_file a f)" "sim (os_get g) (os_get g)"
  by (auto intro!: simI simp: get_m_file_def set_m_file_def os_get_def plain_def)

lemma silent_ret [transparent]: "silent (ret x)"
  by (simp add: silent_def)

lemma silent_bind [transparent]:
  "silent m \<Longrightarrow> (\<And>x. silent (f x)) \<Longrightarrow> silent (do { x \<leftarrow> m; f x })"
  by (simp add: silent_def split_beta)

lemma silent_option [transparent]:
  "silent f \<Longrightarrow> (\<And>y. silent (g y)) \<Longrightarrow> silent (case x of None \<Rightarrow> f | Some y \<Rightarrow> g y)"
  by (simp split: option.split)

lemma silent_if [transparent]: "silent f \<Longrightarrow> silent g \<Longrightarrow> silent (if b then f else g)"
  by simp

lemma silent_psi [transparent]:
  "silent (PSI_CALL psi c)" "silent (psi_do psi c)" "silent (get_m_psi a)" "silent (set_m_psi a p)"
  "silent (hook_of have a)" "silent (os_get g)" "silent (get_m_file a)"
  by (auto simp: silent_def PSI_CALL_def psi_do_def get_m_psi_def set_m_psi_def hook_of_def os_get_def get_m_file_def
      plain_def split_beta)

lemma silent_if_hook [transparent]: "(\<And>p. silent (f p)) \<Longrightarrow> silent (if_hook hook f)"
  by (simp add: if_hook_def silent_option silent_ret)

lemma instrumented_sim [transparent]:
  assumes "\<And>p. silent (start p)" "sim op plain_op" "\<And>l r. silent (fin l r)"
  shows "sim (instrumented hook start op fin) plain_op"
proof (cases hook)
  case (Some p)
  have end_silent: "silent (case k of None \<Rightarrow> ret () | Some l \<Rightarrow> fin l r)" for k r
    using assms(3) by (intro silent_option silent_ret)
  show ?thesis
    using silentD [OF assms(1)] silentD [OF end_silent] simD [OF assms(2)]
    by (intro simI) (auto simp: instrumented_def Some split_beta)
qed (use assms(2) in \<open>simp add: instrumented_def\<close>)

section \<open>The wait events\<close>

text \<open>
  An instrumentation that keeps the calls it got with what it answered. A wait event is opened by a start that
  returns a locker, for files by a start that is given one, and closed by the end for its kind of object with
  the same locker; no other wait is opened in between and none is left open.
\<close>

type_synonym psi_log = "(psi_call \<times> nat option) list"

definition logged :: "'q psi_env \<Rightarrow> (psi_log \<times> 'q) psi_env" where
  "logged psi c = (\<lambda>(t, q). case psi c q of (r, q') \<Rightarrow> (r, t @ [(c, r)], q'))"

datatype wait_kind = Mutex_wait | Rd_wait | Wr_wait | Cond_wait | Socket_wait
  | File_wait | File_open_wait | File_close_wait

fun starts :: "psi_call \<Rightarrow> wait_kind option" where
  "starts (start_mutex_wait _ _ _ _) = Some Mutex_wait"
| "starts (start_rwlock_rdwait _ _ _ _) = Some Rd_wait"
| "starts (start_rwlock_wrwait _ _ _ _) = Some Wr_wait"
| "starts (start_cond_wait _ _ _ _ _) = Some Cond_wait"
| "starts (start_socket_wait _ _ _ _ _) = Some Socket_wait"
| "starts _ = None"

fun opens :: "psi_call \<Rightarrow> (wait_kind \<times> nat) option" where
  "opens (start_file_wait l _ _ _) = Some (File_wait, l)"
| "opens (start_file_open_wait l _ _) = Some (File_open_wait, l)"
| "opens (start_file_close_wait l _ _) = Some (File_close_wait, l)"
| "opens _ = None"

fun ends :: "psi_call \<Rightarrow> (wait_kind \<times> nat) option" where
  "ends (end_mutex_wait l _) = Some (Mutex_wait, l)"
| "ends (end_rwlock_rdwait l _) = Some (Rd_wait, l)"
| "ends (end_rwlock_wrwait l _) = Some (Wr_wait, l)"
| "ends (end_cond_wait l _) = Some (Cond_wait, l)"
| "ends (end_socket_wait l _) = Some (Socket_wait, l)"
| "ends (end_file_wait l _) = Some (File_wait, l)"
| "ends (end_file_rename_wait l _ _ _) = Some (File_wait, l)"
| "ends (end_file_open_wait l _) = Some (File_open_wait, l)"
| "ends (end_file_open_wait_and_bind_to_descriptor l _) = Some (File_open_wait, l)"
| "ends (end_temp_file_open_wait_and_bind_to_descriptor l _ _) = Some (File_open_wait, l)"
| "ends (end_file_close_wait l _) = Some (File_close_wait, l)"
| "ends _ = None"

fun waits :: "(wait_kind \<times> nat) option \<Rightarrow> psi_log \<Rightarrow> (wait_kind \<times> nat) option option" where
  "waits pending [] = Some pending"
| "waits pending ((c, r) # t) =
     (case starts c of
        Some k \<Rightarrow> if pending = None then waits (map_option (Pair k) r) t else None
      | None \<Rightarrow> (case opens c of
          Some e \<Rightarrow> if pending = None then waits (Some e) t else None
        | None \<Rightarrow> (case ends c of
            Some e \<Rightarrow> if pending = Some e then waits None t else None
          | None \<Rightarrow> waits pending t)))"

definition closed :: "psi_log \<Rightarrow> bool" where
  "closed t \<longleftrightarrow> waits None t = Some None"

lemma waits_append: "waits p (s @ t) = Option.bind (waits p s) (\<lambda>p'. waits p' t)"
  by (induction p s rule: waits.induct) (auto split: option.splits)

lemma closed_Nil [simp]: "closed []"
  by (simp add: closed_def)

lemma closed_append: "closed s \<Longrightarrow> closed t \<Longrightarrow> closed (s @ t)"
  by (simp add: closed_def waits_append)

abbreviation psi_trace :: "('o, psi_log \<times> 'q) world \<Rightarrow> psi_log" where
  "psi_trace w \<equiv> fst (psi_state w)"

definition balanced :: "('o, psi_log \<times> 'q, 'a) prog \<Rightarrow> bool" where
  "balanced m \<longleftrightarrow> (\<forall>w. \<exists>t. psi_trace (snd (run_state m w)) = psi_trace w @ t \<and> closed t)"

definition quiet :: "('o, 'p, 'a) prog \<Rightarrow> bool" where
  "quiet m \<longleftrightarrow> (\<forall>w. psi_state (snd (run_state m w)) = psi_state w)"

lemma quietD: "quiet m \<Longrightarrow> psi_state (snd (run_state m w)) = psi_state w"
  by (simp add: quiet_def)

lemma quiet_basic [accounted]:
  "quiet (ret x)" "quiet (os_do f)" "quiet (get_m_psi a)" "quiet (set_m_psi a p)" "quiet (get_exclusive a)"
  "quiet (set_exclusive a b)" "quiet get_DisconnectEx" "quiet (set_DisconnectEx d)" "quiet (hook_of have a)"
  "quiet (get_m_file a)" "quiet (set_m_file a f')" "quiet (os_get g)"
  by (auto simp: quiet_def os_do_def get_m_psi_def set_m_psi_def get_exclusive_def set_exclusive_def
      get_DisconnectEx_def set_DisconnectEx_def hook_of_def get_m_file_def set_m_file_def os_get_def split_beta)

lemma quiet_bind [accounted]: "quiet m \<Longrightarrow> (\<And>x. quiet (f x)) \<Longrightarrow> quiet (do { x \<leftarrow> m; f x })"
  by (simp add: quiet_def split_beta)

lemma quiet_if [accounted]: "quiet f \<Longrightarrow> quiet g \<Longrightarrow> quiet (if b then f else g)"
  by simp

lemma quiet_option [accounted]:
  "quiet f \<Longrightarrow> (\<And>y. quiet (g y)) \<Longrightarrow> quiet (case x of None \<Rightarrow> f | Some y \<Rightarrow> g y)"
  by (simp split: option.split)

lemma quiet_balanced: "quiet m \<Longrightarrow> balanced m"
  by (auto simp: quiet_def balanced_def intro: exI [of _ "[]"])

lemma balanced_bind:
  assumes "balanced m" "\<And>x. balanced (f x)"
  shows "balanced (do { x \<leftarrow> m; f x })"
  unfolding balanced_def
proof
  fix w
  obtain x w1 where 1: "run_state m w = (x, w1)" by fastforce
  obtain s where s: "psi_trace w1 = psi_trace w @ s" "closed s"
    using assms(1) 1 unfolding balanced_def by (metis snd_conv)
  obtain t where t: "psi_trace (snd (run_state (f x) w1)) = psi_trace w1 @ t" "closed t"
    using assms(2) unfolding balanced_def by blast
  show "\<exists>t. psi_trace (snd (run_state (do { x \<leftarrow> m; f x }) w)) = psi_trace w @ t \<and> closed t"
    using 1 s t closed_append by (intro exI [of _ "s @ t"]) simp
qed

lemma balanced_option:
  "balanced f \<Longrightarrow> (\<And>y. balanced (g y)) \<Longrightarrow> balanced (case x of None \<Rightarrow> f | Some y \<Rightarrow> g y)"
  by (simp split: option.split)

lemma balanced_if: "balanced f \<Longrightarrow> balanced g \<Longrightarrow> balanced (if b then f else g)"
  by simp

lemma balanced_call:
  assumes "starts c = None" "opens c = None" "ends c = None"
  shows "balanced (PSI_CALL (logged psi) c)"
  using assms by (auto simp: balanced_def PSI_CALL_def logged_def closed_def split_beta
      intro: exI [of _ "[(c, fst (psi c (snd (psi_state w))))]" for w])

lemma balanced_do:
  assumes "starts c = None" "opens c = None" "ends c = None"
  shows "balanced (psi_do (logged psi) c)"
  unfolding psi_do_def by (intro balanced_bind balanced_call [OF assms] quiet_balanced quiet_basic)

lemma instrumented_balanced:
  fixes op :: "('o, psi_log \<times> 'q, 'a) prog"
  assumes start: "\<And>p. start p = PSI_CALL (logged psi) (s p)" "\<And>p. starts (s p) = Some k"
    and op: "quiet op"
    and fin: "\<And>l r. fin l r = psi_do (logged psi) (e l r)" "\<And>l r. ends (e l r) = Some (k, l)"
      "\<And>l r. starts (e l r) = None" "\<And>l r. opens (e l r) = None"
  shows "balanced (instrumented hook start op fin)"
proof (cases hook)
  case (Some p)
  show ?thesis
    unfolding balanced_def
  proof
    fix w :: "('o, psi_log \<times> 'q) world"
    obtain lk q1 where 1: "psi (s p) (snd (psi_state w)) = (lk, q1)" by fastforce
    let ?w1 = "w\<lparr>psi_state := (psi_trace w @ [(s p, lk)], q1)\<rparr>"
    have r1: "run_state (start p) w = (lk, ?w1)"
      using 1 by (simp add: start PSI_CALL_def logged_def split_beta)
    obtain r w2 where 2: "run_state op ?w1 = (r, w2)" by fastforce
    have w2: "psi_state w2 = psi_state ?w1"
      using quietD [OF op, of ?w1] 2 by simp
    have "psi_trace (snd (run_state (instrumented hook start op fin) w)) = psi_trace w @ [(s p, lk)] @
        (case lk of None \<Rightarrow> [] | Some l \<Rightarrow> [(e l r, fst (psi (e l r) q1))])"
      using r1 2 w2 by (cases lk)
        (auto simp: instrumented_def Some fin psi_do_def PSI_CALL_def logged_def split_beta)
    moreover have "closed ([(s p, lk)] @ (case lk of None \<Rightarrow> [] | Some l \<Rightarrow> [(e l r, x l)]))" for x
      using start(2) fin(2-4) by (cases lk) (simp_all add: closed_def)
    ultimately show "\<exists>t. psi_trace (snd (run_state (instrumented hook start op fin) w)) = psi_trace w @ t \<and> closed t"
      by (intro exI conjI)
  qed
qed (use op in \<open>simp add: instrumented_def quiet_balanced\<close>)

lemmas balanced_rules = balanced_bind balanced_option balanced_if balanced_call balanced_do quiet_balanced

section \<open>Sequences of calls\<close>

primrec run_calls :: "('c \<Rightarrow> ('s, 'r) state) \<Rightarrow> 'c list \<Rightarrow> ('s, 'r list) state" where
  "run_calls api [] = ret []"
| "run_calls api (c # cs) = do { r \<leftarrow> api c; rs \<leftarrow> run_calls api cs; ret (r # rs) }"

text \<open>
  An interface whose calls can be exchanged for plain ones: every sequence of calls gives the same results and
  leaves the same plain state.
\<close>

locale drop_in =
  fixes api :: "'c \<Rightarrow> ('o, 'p, 'r) prog" and plain_api :: "'c \<Rightarrow> ('o, 'q, 'r) prog"
  assumes call_sim: "sim (api c) (plain_api c)"
begin

lemma calls_sim: "sim (run_calls api cs) (run_calls plain_api cs)"
  by (induction cs) (auto intro!: transparent call_sim)

lemma calls_same:
  assumes "plain w = plain v"
  shows "fst (run_state (run_calls api cs) w) = fst (run_state (run_calls plain_api cs) v)
    \<and> plain (snd (run_state (run_calls api cs) w)) = plain (snd (run_state (run_calls plain_api cs) v))"
  using simD [OF calls_sim assms] by simp

end

text \<open>An interface each of whose calls closes the waits it opens.\<close>

locale accounted_api =
  fixes api :: "'c \<Rightarrow> ('o, psi_log \<times> 'q, 'r) prog"
  assumes call_balanced: "balanced (api c)"
begin

lemma calls_balanced: "balanced (run_calls api cs)"
  by (induction cs) (auto intro!: balanced_bind quiet_balanced [OF quiet_basic(1)] call_balanced)

lemma calls_closed:
  assumes "closed (psi_trace w)"
  shows "closed (psi_trace (snd (run_state (run_calls api cs) w)))"
  using calls_balanced assms closed_append unfolding balanced_def by metis

end

end
