(* ===== verification/PsiEvents.thy ===== *)
theory PsiEvents
  imports Psi
begin

text \<open>
  The event headers beside the instrumented objects, \<open>MySQL Server 5.7/include/mysql/psi/\<close>: statements and their
  digests (\<open>mysql_statement.h\<close>), stages and their progress (\<open>mysql_stage.h\<close>), transactions
  (\<open>mysql_transaction.h\<close>), table locks (\<open>mysql_table.h\<close>), idle waits (\<open>mysql_idle.h\<close>), stored programs
  (\<open>mysql_sp.h\<close>), prepared statements (\<open>mysql_ps.h\<close>), metadata locks (\<open>mysql_mdl.h\<close>) and memory
  (\<open>mysql_memory.h\<close>). As in Psi, what a call through the table of the interface answers is a parameter;
  these headers do nothing but call, so a program is a state monad over the state of the
  instrumentation. An \<open>inline_\<close> function is compiled with its interface only; the macro of the header
  does nothing, or is \<open>NULL\<close>, without it.
\<close>

section \<open>The calls\<close>

text \<open>
  Pointers are addresses, and those passed on untested options where \<open>NULL\<close> may be among them; the names of the
  program are addresses too.
\<close>

datatype (plugins only: code size) event_call =
    register_statement string nat int | get_thread_statement_locker nat nat nat "nat option"
  | refine_statement nat nat | start_statement nat nat nat string nat | set_statement_text nat nat nat
  | set_statement_lock_time nat nat | set_statement_rows_sent nat nat | set_statement_rows_examined nat nat
  | end_statement nat nat | digest_start nat | digest_end nat nat | register_stage string nat int
  | start_stage nat string nat | end_stage | get_thread_transaction_locker nat nat nat int bool bool
  | start_transaction nat string nat | set_transaction_gtid nat nat nat | set_transaction_xid nat nat int
  | set_transaction_xa_state nat int | set_transaction_trxid nat nat | inc_transaction_savepoints nat nat
  | inc_transaction_rollback_to_savepoint nat nat | inc_transaction_release_savepoint nat nat
  | end_transaction nat bool | start_table_lock_wait nat nat nat nat string nat | end_table_lock_wait nat
  | unlock_table nat | start_idle_wait nat string nat | end_idle_wait nat | start_sp nat "nat option"
  | end_sp nat | drop_sp nat nat nat nat nat | get_sp_share nat nat nat nat nat
  | create_prepared_stmt nat nat nat nat nat nat nat | execute_prepared_stmt nat nat
  | destroy_prepared_stmt nat | reprepare_prepared_stmt nat | set_prepared_stmt_text nat nat nat
  | create_metadata_lock nat nat int int int string nat | set_metadata_lock_status nat int
  | destroy_metadata_lock nat | register_memory string nat int

type_synonym 'p event_env = "event_call \<Rightarrow> 'p \<Rightarrow> nat option \<times> 'p"

text \<open>\<open>PSI_DYNAMIC_CALL\<close>, with the answer and without.\<close>

definition EVENT_CALL :: "'p event_env \<Rightarrow> event_call \<Rightarrow> ('p, nat option) state" where
  "EVENT_CALL psi c = State (psi c)"

definition event_do :: "'p event_env \<Rightarrow> event_call \<Rightarrow> ('p, unit) state" where
  "event_do psi c = do { _ \<leftarrow> EVENT_CALL psi c; ret () }"

text \<open>The test \<open>locker != NULL\<close>.\<close>

definition unless_NULL :: "nat option \<Rightarrow> (nat \<Rightarrow> ('p, unit) state) \<Rightarrow> ('p, unit) state" where
  "unless_NULL locker f = (case locker of None \<Rightarrow> ret () | Some l \<Rightarrow> f l)"

record interfaces =
  HAVE_STATEMENT :: bool
  HAVE_STATEMENT_DIGEST :: bool
  HAVE_STAGE :: bool
  HAVE_TRANSACTION :: bool
  HAVE_TABLE :: bool
  HAVE_IDLE :: bool
  HAVE_SP :: bool
  HAVE_PS :: bool
  HAVE_METADATA :: bool
  HAVE_MEMORY :: bool
section \<open>Statements\<close>

definition inline_mysql_statement_register ::
  "'p event_env \<Rightarrow> string \<Rightarrow> nat \<Rightarrow> int \<Rightarrow> ('p, unit) state" where
  "inline_mysql_statement_register psi category info count =
     event_do psi (register_statement category info count)"

definition inline_mysql_digest_start ::
  "'p event_env \<Rightarrow> nat option \<Rightarrow> ('p, nat option) state" where
  "inline_mysql_digest_start psi locker =
     (case locker of None \<Rightarrow> ret None | Some l \<Rightarrow> EVENT_CALL psi (digest_start l))"

definition inline_mysql_digest_end ::
  "'p event_env \<Rightarrow> nat option \<Rightarrow> nat \<Rightarrow> ('p, unit) state" where
  "inline_mysql_digest_end psi locker digest =
     unless_NULL locker (\<lambda>l. event_do psi (digest_end l digest))"

definition inline_mysql_start_statement ::
  "'p event_env \<Rightarrow> nat \<Rightarrow> nat \<Rightarrow> nat \<Rightarrow> nat \<Rightarrow> nat \<Rightarrow> nat option \<Rightarrow> string \<Rightarrow> nat \<Rightarrow> ('p, nat option) state" where
  "inline_mysql_start_statement psi st key dbname db_len charset sp_share src_file src_line =
     do {
       locker \<leftarrow> EVENT_CALL psi (get_thread_statement_locker st key charset sp_share);
       _ \<leftarrow> unless_NULL locker (\<lambda>l. event_do psi (start_statement l dbname db_len src_file src_line));
       ret locker
     }"

definition inline_mysql_refine_statement ::
  "'p event_env \<Rightarrow> nat option \<Rightarrow> nat \<Rightarrow> ('p, nat option) state" where
  "inline_mysql_refine_statement psi locker key =
     (case locker of None \<Rightarrow> ret None | Some l \<Rightarrow> EVENT_CALL psi (refine_statement l key))"

definition inline_mysql_set_statement_text ::
  "'p event_env \<Rightarrow> nat option \<Rightarrow> nat \<Rightarrow> nat \<Rightarrow> ('p, unit) state" where
  "inline_mysql_set_statement_text psi locker str text_len =
     unless_NULL locker (\<lambda>l. event_do psi (set_statement_text l str text_len))"

definition inline_mysql_set_statement_lock_time ::
  "'p event_env \<Rightarrow> nat option \<Rightarrow> nat \<Rightarrow> ('p, unit) state" where
  "inline_mysql_set_statement_lock_time psi locker count =
     unless_NULL locker (\<lambda>l. event_do psi (set_statement_lock_time l count))"

definition inline_mysql_set_statement_rows_sent ::
  "'p event_env \<Rightarrow> nat option \<Rightarrow> nat \<Rightarrow> ('p, unit) state" where
  "inline_mysql_set_statement_rows_sent psi locker count =
     unless_NULL locker (\<lambda>l. event_do psi (set_statement_rows_sent l count))"

definition inline_mysql_set_statement_rows_examined ::
  "'p event_env \<Rightarrow> nat option \<Rightarrow> nat \<Rightarrow> ('p, unit) state" where
  "inline_mysql_set_statement_rows_examined psi locker count =
     unless_NULL locker (\<lambda>l. event_do psi (set_statement_rows_examined l count))"

text \<open>The stage of the statement ends with it, and also where there is no locker.\<close>

definition inline_mysql_end_statement ::
  "'p event_env \<Rightarrow> nat option \<Rightarrow> nat \<Rightarrow> ('p, unit) state" where
  "inline_mysql_end_statement psi locker stmt_da =
     do {
       _ \<leftarrow> event_do psi end_stage;
       unless_NULL locker (\<lambda>l. event_do psi (end_statement l stmt_da))
     }"

definition mysql_statement_register ::
  "interfaces \<Rightarrow> 'p event_env \<Rightarrow> string \<Rightarrow> nat \<Rightarrow> int \<Rightarrow> ('p, unit) state" where
  "mysql_statement_register i psi category info count =
     (if HAVE_STATEMENT i then inline_mysql_statement_register psi category info count else ret ())"

definition MYSQL_DIGEST_START ::
  "interfaces \<Rightarrow> 'p event_env \<Rightarrow> nat option \<Rightarrow> ('p, nat option) state" where
  "MYSQL_DIGEST_START i psi locker =
     (if HAVE_STATEMENT_DIGEST i then inline_mysql_digest_start psi locker else ret None)"

definition MYSQL_DIGEST_END ::
  "interfaces \<Rightarrow> 'p event_env \<Rightarrow> nat option \<Rightarrow> nat \<Rightarrow> ('p, unit) state" where
  "MYSQL_DIGEST_END i psi locker digest =
     (if HAVE_STATEMENT_DIGEST i then inline_mysql_digest_end psi locker digest else ret ())"

definition MYSQL_START_STATEMENT ::
  "interfaces \<Rightarrow> 'p event_env \<Rightarrow> nat \<Rightarrow> nat \<Rightarrow> nat \<Rightarrow> nat \<Rightarrow> nat \<Rightarrow> nat option \<Rightarrow> string \<Rightarrow> nat \<Rightarrow> ('p, nat option) state" where
  "MYSQL_START_STATEMENT i psi st key dbname db_len charset sp_share src_file src_line =
     (if HAVE_STATEMENT i then inline_mysql_start_statement psi st key dbname db_len charset sp_share src_file src_line else ret None)"

text \<open>Without the interface the refined locker is \<open>NULL\<close>, whatever was passed.\<close>

definition MYSQL_REFINE_STATEMENT ::
  "interfaces \<Rightarrow> 'p event_env \<Rightarrow> nat option \<Rightarrow> nat \<Rightarrow> ('p, nat option) state" where
  "MYSQL_REFINE_STATEMENT i psi locker key =
     (if HAVE_STATEMENT i then inline_mysql_refine_statement psi locker key else ret None)"

definition MYSQL_SET_STATEMENT_TEXT ::
  "interfaces \<Rightarrow> 'p event_env \<Rightarrow> nat option \<Rightarrow> nat \<Rightarrow> nat \<Rightarrow> ('p, unit) state" where
  "MYSQL_SET_STATEMENT_TEXT i psi locker str text_len =
     (if HAVE_STATEMENT i then inline_mysql_set_statement_text psi locker str text_len else ret ())"

definition MYSQL_SET_STATEMENT_LOCK_TIME ::
  "interfaces \<Rightarrow> 'p event_env \<Rightarrow> nat option \<Rightarrow> nat \<Rightarrow> ('p, unit) state" where
  "MYSQL_SET_STATEMENT_LOCK_TIME i psi locker count =
     (if HAVE_STATEMENT i then inline_mysql_set_statement_lock_time psi locker count else ret ())"

definition MYSQL_SET_STATEMENT_ROWS_SENT ::
  "interfaces \<Rightarrow> 'p event_env \<Rightarrow> nat option \<Rightarrow> nat \<Rightarrow> ('p, unit) state" where
  "MYSQL_SET_STATEMENT_ROWS_SENT i psi locker count =
     (if HAVE_STATEMENT i then inline_mysql_set_statement_rows_sent psi locker count else ret ())"

definition MYSQL_SET_STATEMENT_ROWS_EXAMINED ::
  "interfaces \<Rightarrow> 'p event_env \<Rightarrow> nat option \<Rightarrow> nat \<Rightarrow> ('p, unit) state" where
  "MYSQL_SET_STATEMENT_ROWS_EXAMINED i psi locker count =
     (if HAVE_STATEMENT i then inline_mysql_set_statement_rows_examined psi locker count else ret ())"

definition MYSQL_END_STATEMENT ::
  "interfaces \<Rightarrow> 'p event_env \<Rightarrow> nat option \<Rightarrow> nat \<Rightarrow> ('p, unit) state" where
  "MYSQL_END_STATEMENT i psi locker stmt_da =
     (if HAVE_STATEMENT i then inline_mysql_end_statement psi locker stmt_da else ret ())"

section \<open>Transactions\<close>

definition inline_mysql_start_transaction ::
  "'p event_env \<Rightarrow> nat \<Rightarrow> nat \<Rightarrow> nat \<Rightarrow> int \<Rightarrow> bool \<Rightarrow> bool \<Rightarrow> string \<Rightarrow> nat \<Rightarrow> ('p, nat option) state" where
  "inline_mysql_start_transaction psi st xid trxid isolation_level read_only autocommit src_file src_line =
     do {
       locker \<leftarrow> EVENT_CALL psi (get_thread_transaction_locker st xid trxid isolation_level read_only autocommit);
       _ \<leftarrow> unless_NULL locker (\<lambda>l. event_do psi (start_transaction l src_file src_line));
       ret locker
     }"

definition inline_mysql_set_transaction_gtid ::
  "'p event_env \<Rightarrow> nat option \<Rightarrow> nat \<Rightarrow> nat \<Rightarrow> ('p, unit) state" where
  "inline_mysql_set_transaction_gtid psi locker sid gtid_spec =
     unless_NULL locker (\<lambda>l. event_do psi (set_transaction_gtid l sid gtid_spec))"

definition inline_mysql_set_transaction_xid ::
  "'p event_env \<Rightarrow> nat option \<Rightarrow> nat \<Rightarrow> int \<Rightarrow> ('p, unit) state" where
  "inline_mysql_set_transaction_xid psi locker xid xa_state =
     unless_NULL locker (\<lambda>l. event_do psi (set_transaction_xid l xid xa_state))"

definition inline_mysql_set_transaction_xa_state ::
  "'p event_env \<Rightarrow> nat option \<Rightarrow> int \<Rightarrow> ('p, unit) state" where
  "inline_mysql_set_transaction_xa_state psi locker xa_state =
     unless_NULL locker (\<lambda>l. event_do psi (set_transaction_xa_state l xa_state))"

definition inline_mysql_set_transaction_trxid ::
  "'p event_env \<Rightarrow> nat option \<Rightarrow> nat \<Rightarrow> ('p, unit) state" where
  "inline_mysql_set_transaction_trxid psi locker trxid =
     unless_NULL locker (\<lambda>l. event_do psi (set_transaction_trxid l trxid))"

definition inline_mysql_inc_transaction_savepoints ::
  "'p event_env \<Rightarrow> nat option \<Rightarrow> nat \<Rightarrow> ('p, unit) state" where
  "inline_mysql_inc_transaction_savepoints psi locker count =
     unless_NULL locker (\<lambda>l. event_do psi (inc_transaction_savepoints l count))"

definition inline_mysql_inc_transaction_rollback_to_savepoint ::
  "'p event_env \<Rightarrow> nat option \<Rightarrow> nat \<Rightarrow> ('p, unit) state" where
  "inline_mysql_inc_transaction_rollback_to_savepoint psi locker count =
     unless_NULL locker (\<lambda>l. event_do psi (inc_transaction_rollback_to_savepoint l count))"

definition inline_mysql_inc_transaction_release_savepoint ::
  "'p event_env \<Rightarrow> nat option \<Rightarrow> nat \<Rightarrow> ('p, unit) state" where
  "inline_mysql_inc_transaction_release_savepoint psi locker count =
     unless_NULL locker (\<lambda>l. event_do psi (inc_transaction_release_savepoint l count))"

definition inline_mysql_rollback_transaction ::
  "'p event_env \<Rightarrow> nat option \<Rightarrow> ('p, unit) state" where
  "inline_mysql_rollback_transaction psi locker =
     unless_NULL locker (\<lambda>l. event_do psi (end_transaction l False))"

definition inline_mysql_commit_transaction ::
  "'p event_env \<Rightarrow> nat option \<Rightarrow> ('p, unit) state" where
  "inline_mysql_commit_transaction psi locker =
     unless_NULL locker (\<lambda>l. event_do psi (end_transaction l True))"

text \<open>
  The macro for the start expands to a statement, not to \<open>NULL\<close>, without the interface; the model has no
  locker then.
\<close>

definition MYSQL_START_TRANSACTION ::
  "interfaces \<Rightarrow> 'p event_env \<Rightarrow> nat \<Rightarrow> nat \<Rightarrow> nat \<Rightarrow> int \<Rightarrow> bool \<Rightarrow> bool \<Rightarrow> string \<Rightarrow> nat \<Rightarrow> ('p, nat option) state" where
  "MYSQL_START_TRANSACTION i psi st xid trxid isolation_level read_only autocommit src_file src_line =
     (if HAVE_TRANSACTION i then inline_mysql_start_transaction psi st xid trxid isolation_level read_only autocommit src_file src_line else ret None)"

definition MYSQL_SET_TRANSACTION_GTID ::
  "interfaces \<Rightarrow> 'p event_env \<Rightarrow> nat option \<Rightarrow> nat \<Rightarrow> nat \<Rightarrow> ('p, unit) state" where
  "MYSQL_SET_TRANSACTION_GTID i psi locker sid gtid_spec =
     (if HAVE_TRANSACTION i then inline_mysql_set_transaction_gtid psi locker sid gtid_spec else ret ())"

definition MYSQL_SET_TRANSACTION_XID ::
  "interfaces \<Rightarrow> 'p event_env \<Rightarrow> nat option \<Rightarrow> nat \<Rightarrow> int \<Rightarrow> ('p, unit) state" where
  "MYSQL_SET_TRANSACTION_XID i psi locker xid xa_state =
     (if HAVE_TRANSACTION i then inline_mysql_set_transaction_xid psi locker xid xa_state else ret ())"

definition MYSQL_SET_TRANSACTION_XA_STATE ::
  "interfaces \<Rightarrow> 'p event_env \<Rightarrow> nat option \<Rightarrow> int \<Rightarrow> ('p, unit) state" where
  "MYSQL_SET_TRANSACTION_XA_STATE i psi locker xa_state =
     (if HAVE_TRANSACTION i then inline_mysql_set_transaction_xa_state psi locker xa_state else ret ())"

definition MYSQL_SET_TRANSACTION_TRXID ::
  "interfaces \<Rightarrow> 'p event_env \<Rightarrow> nat option \<Rightarrow> nat \<Rightarrow> ('p, unit) state" where
  "MYSQL_SET_TRANSACTION_TRXID i psi locker trxid =
     (if HAVE_TRANSACTION i then inline_mysql_set_transaction_trxid psi locker trxid else ret ())"

definition MYSQL_INC_TRANSACTION_SAVEPOINTS ::
  "interfaces \<Rightarrow> 'p event_env \<Rightarrow> nat option \<Rightarrow> nat \<Rightarrow> ('p, unit) state" where
  "MYSQL_INC_TRANSACTION_SAVEPOINTS i psi locker count =
     (if HAVE_TRANSACTION i then inline_mysql_inc_transaction_savepoints psi locker count else ret ())"

definition MYSQL_INC_TRANSACTION_ROLLBACK_TO_SAVEPOINT ::
  "interfaces \<Rightarrow> 'p event_env \<Rightarrow> nat option \<Rightarrow> nat \<Rightarrow> ('p, unit) state" where
  "MYSQL_INC_TRANSACTION_ROLLBACK_TO_SAVEPOINT i psi locker count =
     (if HAVE_TRANSACTION i then inline_mysql_inc_transaction_rollback_to_savepoint psi locker count else ret ())"

definition MYSQL_INC_TRANSACTION_RELEASE_SAVEPOINT ::
  "interfaces \<Rightarrow> 'p event_env \<Rightarrow> nat option \<Rightarrow> nat \<Rightarrow> ('p, unit) state" where
  "MYSQL_INC_TRANSACTION_RELEASE_SAVEPOINT i psi locker count =
     (if HAVE_TRANSACTION i then inline_mysql_inc_transaction_release_savepoint psi locker count else ret ())"

definition MYSQL_ROLLBACK_TRANSACTION ::
  "interfaces \<Rightarrow> 'p event_env \<Rightarrow> nat option \<Rightarrow> ('p, unit) state" where
  "MYSQL_ROLLBACK_TRANSACTION i psi locker =
     (if HAVE_TRANSACTION i then inline_mysql_rollback_transaction psi locker else ret ())"

definition MYSQL_COMMIT_TRANSACTION ::
  "interfaces \<Rightarrow> 'p event_env \<Rightarrow> nat option \<Rightarrow> ('p, unit) state" where
  "MYSQL_COMMIT_TRANSACTION i psi locker =
     (if HAVE_TRANSACTION i then inline_mysql_commit_transaction psi locker else ret ())"

section \<open>Table locks, idle waits, stored programs\<close>

definition inline_mysql_start_table_lock_wait ::
  "'p event_env \<Rightarrow> nat \<Rightarrow> nat option \<Rightarrow> nat \<Rightarrow> nat \<Rightarrow> string \<Rightarrow> nat \<Rightarrow> ('p, nat option) state" where
  "inline_mysql_start_table_lock_wait psi st tab oper flags src_file src_line =
     (case tab of None \<Rightarrow> ret None | Some t \<Rightarrow> EVENT_CALL psi (start_table_lock_wait st t oper flags src_file src_line))"

definition inline_mysql_end_table_lock_wait ::
  "'p event_env \<Rightarrow> nat option \<Rightarrow> ('p, unit) state" where
  "inline_mysql_end_table_lock_wait psi locker =
     unless_NULL locker (\<lambda>l. event_do psi (end_table_lock_wait l))"

definition inline_mysql_unlock_table ::
  "'p event_env \<Rightarrow> nat option \<Rightarrow> ('p, unit) state" where
  "inline_mysql_unlock_table psi tab =
     unless_NULL tab (\<lambda>l. event_do psi (unlock_table l))"

definition MYSQL_START_TABLE_LOCK_WAIT ::
  "interfaces \<Rightarrow> 'p event_env \<Rightarrow> nat \<Rightarrow> nat option \<Rightarrow> nat \<Rightarrow> nat \<Rightarrow> string \<Rightarrow> nat \<Rightarrow> ('p, nat option) state" where
  "MYSQL_START_TABLE_LOCK_WAIT i psi st tab oper flags src_file src_line =
     (if HAVE_TABLE i then inline_mysql_start_table_lock_wait psi st tab oper flags src_file src_line else ret None)"

definition MYSQL_END_TABLE_LOCK_WAIT ::
  "interfaces \<Rightarrow> 'p event_env \<Rightarrow> nat option \<Rightarrow> ('p, unit) state" where
  "MYSQL_END_TABLE_LOCK_WAIT i psi locker =
     (if HAVE_TABLE i then inline_mysql_end_table_lock_wait psi locker else ret ())"

definition MYSQL_UNLOCK_TABLE ::
  "interfaces \<Rightarrow> 'p event_env \<Rightarrow> nat option \<Rightarrow> ('p, unit) state" where
  "MYSQL_UNLOCK_TABLE i psi tab =
     (if HAVE_TABLE i then inline_mysql_unlock_table psi tab else ret ())"

definition inline_mysql_start_idle_wait ::
  "'p event_env \<Rightarrow> nat \<Rightarrow> string \<Rightarrow> nat \<Rightarrow> ('p, nat option) state" where
  "inline_mysql_start_idle_wait psi st src_file src_line =
     EVENT_CALL psi (start_idle_wait st src_file src_line)"

definition inline_mysql_end_idle_wait ::
  "'p event_env \<Rightarrow> nat option \<Rightarrow> ('p, unit) state" where
  "inline_mysql_end_idle_wait psi locker =
     unless_NULL locker (\<lambda>l. event_do psi (end_idle_wait l))"

definition MYSQL_START_IDLE_WAIT ::
  "interfaces \<Rightarrow> 'p event_env \<Rightarrow> nat \<Rightarrow> string \<Rightarrow> nat \<Rightarrow> ('p, nat option) state" where
  "MYSQL_START_IDLE_WAIT i psi st src_file src_line =
     (if HAVE_IDLE i then inline_mysql_start_idle_wait psi st src_file src_line else ret None)"

definition MYSQL_END_IDLE_WAIT ::
  "interfaces \<Rightarrow> 'p event_env \<Rightarrow> nat option \<Rightarrow> ('p, unit) state" where
  "MYSQL_END_IDLE_WAIT i psi locker =
     (if HAVE_IDLE i then inline_mysql_end_idle_wait psi locker else ret ())"

definition inline_mysql_start_sp ::
  "'p event_env \<Rightarrow> nat \<Rightarrow> nat option \<Rightarrow> ('p, nat option) state" where
  "inline_mysql_start_sp psi st sp_share =
     EVENT_CALL psi (start_sp st sp_share)"

definition inline_mysql_end_sp ::
  "'p event_env \<Rightarrow> nat option \<Rightarrow> ('p, unit) state" where
  "inline_mysql_end_sp psi locker =
     unless_NULL locker (\<lambda>l. event_do psi (end_sp l))"

definition inline_mysql_drop_sp ::
  "'p event_env \<Rightarrow> nat \<Rightarrow> nat \<Rightarrow> nat \<Rightarrow> nat \<Rightarrow> nat \<Rightarrow> ('p, unit) state" where
  "inline_mysql_drop_sp psi sp_type schema_name schema_name_length object_name object_name_length =
     event_do psi (drop_sp sp_type schema_name schema_name_length object_name object_name_length)"

definition inline_mysql_get_sp_share ::
  "'p event_env \<Rightarrow> nat \<Rightarrow> nat \<Rightarrow> nat \<Rightarrow> nat \<Rightarrow> nat \<Rightarrow> ('p, nat option) state" where
  "inline_mysql_get_sp_share psi sp_type schema_name schema_name_length object_name object_name_length =
     EVENT_CALL psi (get_sp_share sp_type schema_name schema_name_length object_name object_name_length)"

definition MYSQL_START_SP ::
  "interfaces \<Rightarrow> 'p event_env \<Rightarrow> nat \<Rightarrow> nat option \<Rightarrow> ('p, nat option) state" where
  "MYSQL_START_SP i psi st sp_share =
     (if HAVE_SP i then inline_mysql_start_sp psi st sp_share else ret None)"

definition MYSQL_END_SP ::
  "interfaces \<Rightarrow> 'p event_env \<Rightarrow> nat option \<Rightarrow> ('p, unit) state" where
  "MYSQL_END_SP i psi locker =
     (if HAVE_SP i then inline_mysql_end_sp psi locker else ret ())"

definition MYSQL_DROP_SP ::
  "interfaces \<Rightarrow> 'p event_env \<Rightarrow> nat \<Rightarrow> nat \<Rightarrow> nat \<Rightarrow> nat \<Rightarrow> nat \<Rightarrow> ('p, unit) state" where
  "MYSQL_DROP_SP i psi sp_type schema_name schema_name_length object_name object_name_length =
     (if HAVE_SP i then inline_mysql_drop_sp psi sp_type schema_name schema_name_length object_name object_name_length else ret ())"

definition MYSQL_GET_SP_SHARE ::
  "interfaces \<Rightarrow> 'p event_env \<Rightarrow> nat \<Rightarrow> nat \<Rightarrow> nat \<Rightarrow> nat \<Rightarrow> nat \<Rightarrow> ('p, nat option) state" where
  "MYSQL_GET_SP_SHARE i psi sp_type schema_name schema_name_length object_name object_name_length =
     (if HAVE_SP i then inline_mysql_get_sp_share psi sp_type schema_name schema_name_length object_name object_name_length else ret None)"

section \<open>Prepared statements, metadata locks, memory\<close>

definition inline_mysql_create_prepared_stmt ::
  "'p event_env \<Rightarrow> nat \<Rightarrow> nat \<Rightarrow> nat option \<Rightarrow> nat \<Rightarrow> nat \<Rightarrow> nat \<Rightarrow> nat \<Rightarrow> ('p, nat option) state" where
  "inline_mysql_create_prepared_stmt psi identity stmt_id locker stmt_name stmt_name_length sqltext sqltext_length =
     (case locker of None \<Rightarrow> ret None
      | Some l \<Rightarrow> EVENT_CALL psi (create_prepared_stmt identity stmt_id l stmt_name stmt_name_length sqltext sqltext_length))"

definition inline_mysql_execute_prepared_stmt ::
  "'p event_env \<Rightarrow> nat option \<Rightarrow> nat option \<Rightarrow> ('p, unit) state" where
  "inline_mysql_execute_prepared_stmt psi locker prepared_stmt =
     unless_NULL prepared_stmt (\<lambda>p. unless_NULL locker (\<lambda>l. event_do psi (execute_prepared_stmt l p)))"

definition inline_mysql_destroy_prepared_stmt ::
  "'p event_env \<Rightarrow> nat option \<Rightarrow> ('p, unit) state" where
  "inline_mysql_destroy_prepared_stmt psi prepared_stmt =
     unless_NULL prepared_stmt (\<lambda>l. event_do psi (destroy_prepared_stmt l))"

definition inline_mysql_reprepare_prepared_stmt ::
  "'p event_env \<Rightarrow> nat option \<Rightarrow> ('p, unit) state" where
  "inline_mysql_reprepare_prepared_stmt psi prepared_stmt =
     unless_NULL prepared_stmt (\<lambda>l. event_do psi (reprepare_prepared_stmt l))"

definition inline_mysql_set_prepared_stmt_text ::
  "'p event_env \<Rightarrow> nat option \<Rightarrow> nat \<Rightarrow> nat \<Rightarrow> ('p, unit) state" where
  "inline_mysql_set_prepared_stmt_text psi prepared_stmt str text_len =
     unless_NULL prepared_stmt (\<lambda>l. event_do psi (set_prepared_stmt_text l str text_len))"

definition MYSQL_CREATE_PS ::
  "interfaces \<Rightarrow> 'p event_env \<Rightarrow> nat \<Rightarrow> nat \<Rightarrow> nat option \<Rightarrow> nat \<Rightarrow> nat \<Rightarrow> nat \<Rightarrow> nat \<Rightarrow> ('p, nat option) state" where
  "MYSQL_CREATE_PS i psi identity stmt_id locker stmt_name stmt_name_length sqltext sqltext_length =
     (if HAVE_PS i then inline_mysql_create_prepared_stmt psi identity stmt_id locker stmt_name stmt_name_length sqltext sqltext_length else ret None)"

definition MYSQL_EXECUTE_PS ::
  "interfaces \<Rightarrow> 'p event_env \<Rightarrow> nat option \<Rightarrow> nat option \<Rightarrow> ('p, unit) state" where
  "MYSQL_EXECUTE_PS i psi locker prepared_stmt =
     (if HAVE_PS i then inline_mysql_execute_prepared_stmt psi locker prepared_stmt else ret ())"

definition MYSQL_DESTROY_PS ::
  "interfaces \<Rightarrow> 'p event_env \<Rightarrow> nat option \<Rightarrow> ('p, unit) state" where
  "MYSQL_DESTROY_PS i psi prepared_stmt =
     (if HAVE_PS i then inline_mysql_destroy_prepared_stmt psi prepared_stmt else ret ())"

definition MYSQL_REPREPARE_PS ::
  "interfaces \<Rightarrow> 'p event_env \<Rightarrow> nat option \<Rightarrow> ('p, unit) state" where
  "MYSQL_REPREPARE_PS i psi prepared_stmt =
     (if HAVE_PS i then inline_mysql_reprepare_prepared_stmt psi prepared_stmt else ret ())"

definition MYSQL_SET_PS_TEXT ::
  "interfaces \<Rightarrow> 'p event_env \<Rightarrow> nat option \<Rightarrow> nat \<Rightarrow> nat \<Rightarrow> ('p, unit) state" where
  "MYSQL_SET_PS_TEXT i psi prepared_stmt str text_len =
     (if HAVE_PS i then inline_mysql_set_prepared_stmt_text psi prepared_stmt str text_len else ret ())"

definition inline_mysql_mdl_create ::
  "'p event_env \<Rightarrow> nat \<Rightarrow> nat \<Rightarrow> int \<Rightarrow> int \<Rightarrow> int \<Rightarrow> string \<Rightarrow> nat \<Rightarrow> ('p, nat option) state" where
  "inline_mysql_mdl_create psi identity mdl_key mdl_type mdl_duration mdl_status src_file src_line =
     EVENT_CALL psi (create_metadata_lock identity mdl_key mdl_type mdl_duration mdl_status src_file src_line)"

definition inline_mysql_mdl_set_status ::
  "'p event_env \<Rightarrow> nat option \<Rightarrow> int \<Rightarrow> ('p, unit) state" where
  "inline_mysql_mdl_set_status psi lck mdl_status =
     unless_NULL lck (\<lambda>l. event_do psi (set_metadata_lock_status l mdl_status))"

definition inline_mysql_mdl_destroy ::
  "'p event_env \<Rightarrow> nat option \<Rightarrow> string \<Rightarrow> nat \<Rightarrow> ('p, unit) state" where
  "inline_mysql_mdl_destroy psi lck src_file src_line =
     unless_NULL lck (\<lambda>l. event_do psi (destroy_metadata_lock l))"

definition mysql_mdl_create ::
  "interfaces \<Rightarrow> 'p event_env \<Rightarrow> nat \<Rightarrow> nat \<Rightarrow> int \<Rightarrow> int \<Rightarrow> int \<Rightarrow> string \<Rightarrow> nat \<Rightarrow> ('p, nat option) state" where
  "mysql_mdl_create i psi identity mdl_key mdl_type mdl_duration mdl_status src_file src_line =
     (if HAVE_METADATA i then inline_mysql_mdl_create psi identity mdl_key mdl_type mdl_duration mdl_status src_file src_line else ret None)"

definition mysql_mdl_set_status ::
  "interfaces \<Rightarrow> 'p event_env \<Rightarrow> nat option \<Rightarrow> int \<Rightarrow> ('p, unit) state" where
  "mysql_mdl_set_status i psi lck mdl_status =
     (if HAVE_METADATA i then inline_mysql_mdl_set_status psi lck mdl_status else ret ())"

definition mysql_mdl_destroy ::
  "interfaces \<Rightarrow> 'p event_env \<Rightarrow> nat option \<Rightarrow> string \<Rightarrow> nat \<Rightarrow> ('p, unit) state" where
  "mysql_mdl_destroy i psi lck src_file src_line =
     (if HAVE_METADATA i then inline_mysql_mdl_destroy psi lck src_file src_line else ret ())"

definition inline_mysql_memory_register :: "interfaces \<Rightarrow> 'p event_env \<Rightarrow> string \<Rightarrow> nat \<Rightarrow> int \<Rightarrow> ('p, unit) state" where
  "inline_mysql_memory_register i psi category info count =
     (if HAVE_MEMORY i then event_do psi (register_memory category info count) else ret ())"

section \<open>Stages and their progress\<close>

definition inline_mysql_stage_register ::
  "'p event_env \<Rightarrow> string \<Rightarrow> nat \<Rightarrow> int \<Rightarrow> ('p, unit) state" where
  "inline_mysql_stage_register psi category info count =
     event_do psi (register_stage category info count)"

definition inline_mysql_set_stage ::
  "'p event_env \<Rightarrow> nat \<Rightarrow> string \<Rightarrow> nat \<Rightarrow> ('p, nat option) state" where
  "inline_mysql_set_stage psi key src_file src_line =
     EVENT_CALL psi (start_stage key src_file src_line)"

definition inline_mysql_end_stage ::
  "'p event_env \<Rightarrow> ('p, unit) state" where
  "inline_mysql_end_stage psi =
     event_do psi end_stage"

definition mysql_stage_register ::
  "interfaces \<Rightarrow> 'p event_env \<Rightarrow> string \<Rightarrow> nat \<Rightarrow> int \<Rightarrow> ('p, unit) state" where
  "mysql_stage_register i psi category info count =
     (if HAVE_STAGE i then inline_mysql_stage_register psi category info count else ret ())"

definition MYSQL_SET_STAGE ::
  "interfaces \<Rightarrow> 'p event_env \<Rightarrow> nat \<Rightarrow> string \<Rightarrow> nat \<Rightarrow> ('p, nat option) state" where
  "MYSQL_SET_STAGE i psi key src_file src_line =
     (if HAVE_STAGE i then inline_mysql_set_stage psi key src_file src_line else ret None)"

definition mysql_end_stage ::
  "interfaces \<Rightarrow> 'p event_env \<Rightarrow> ('p, unit) state" where
  "mysql_end_stage i psi =
     (if HAVE_STAGE i then inline_mysql_end_stage psi else ret ())"

text \<open>
  \<open>PSI_stage_progress\<close>: two 64-bit counters in memory, addressed by the pointer that setting a stage answered.
\<close>

record stage_progress =
  m_work_completed :: "64 word"
  m_work_estimated :: "64 word"

type_synonym progress_memory = "nat \<Rightarrow> stage_progress"

definition inline_mysql_stage_set_work_completed ::
  "nat option \<Rightarrow> 64 word \<Rightarrow> progress_memory \<Rightarrow> progress_memory" where
  "inline_mysql_stage_set_work_completed progress val M =
     (case progress of None \<Rightarrow> M | Some p \<Rightarrow> M(p := (M p)\<lparr>m_work_completed := val\<rparr>))"

definition inline_mysql_stage_inc_work_completed ::
  "nat option \<Rightarrow> 64 word \<Rightarrow> progress_memory \<Rightarrow> progress_memory" where
  "inline_mysql_stage_inc_work_completed progress val M =
     (case progress of None \<Rightarrow> M | Some p \<Rightarrow> M(p := (M p)\<lparr>m_work_completed := m_work_completed (M p) + val\<rparr>))"

definition inline_mysql_stage_set_work_estimated ::
  "nat option \<Rightarrow> 64 word \<Rightarrow> progress_memory \<Rightarrow> progress_memory" where
  "inline_mysql_stage_set_work_estimated progress val M =
     (case progress of None \<Rightarrow> M | Some p \<Rightarrow> M(p := (M p)\<lparr>m_work_estimated := val\<rparr>))"

text \<open>The two functions that read do not test the pointer; \<open>None\<close> is the access through \<open>NULL\<close>.\<close>

definition inline_mysql_stage_get_work_completed :: "nat option \<Rightarrow> progress_memory \<Rightarrow> 64 word option" where
  "inline_mysql_stage_get_work_completed progress M = map_option (\<lambda>p. m_work_completed (M p)) progress"

definition inline_mysql_stage_get_work_estimated :: "nat option \<Rightarrow> progress_memory \<Rightarrow> 64 word option" where
  "inline_mysql_stage_get_work_estimated progress M = map_option (\<lambda>p. m_work_estimated (M p)) progress"

text \<open>The increments of a stage add up, modulo 2 ^ 64, and leave the estimate and the other stages alone.\<close>

lemma stage_work_adds_up:
  "inline_mysql_stage_get_work_completed (Some p) (fold (inline_mysql_stage_inc_work_completed (Some p)) vals
     (inline_mysql_stage_set_work_completed (Some p) v M)) = Some (v + sum_list vals)"
  "inline_mysql_stage_get_work_estimated (Some p) (fold (inline_mysql_stage_inc_work_completed (Some p)) vals M)
     = inline_mysql_stage_get_work_estimated (Some p) M"
  "p' \<noteq> p \<Longrightarrow> fold (inline_mysql_stage_inc_work_completed (Some p)) vals M p' = M p'"
proof -
  have "m_work_completed (fold (inline_mysql_stage_inc_work_completed (Some p)) vals M p)
    = m_work_completed (M p) + sum_list vals" for M
    by (induction vals arbitrary: M) (simp_all add: inline_mysql_stage_inc_work_completed_def add.assoc)
  then show "inline_mysql_stage_get_work_completed (Some p) (fold (inline_mysql_stage_inc_work_completed (Some p)) vals
     (inline_mysql_stage_set_work_completed (Some p) v M)) = Some (v + sum_list vals)"
    by (simp add: inline_mysql_stage_get_work_completed_def inline_mysql_stage_set_work_completed_def)
  show "inline_mysql_stage_get_work_estimated (Some p) (fold (inline_mysql_stage_inc_work_completed (Some p)) vals M)
     = inline_mysql_stage_get_work_estimated (Some p) M"
    by (induction vals arbitrary: M)
      (simp_all add: inline_mysql_stage_inc_work_completed_def inline_mysql_stage_get_work_estimated_def)
  show "fold (inline_mysql_stage_inc_work_completed (Some p)) vals M p' = M p'" if "p' \<noteq> p"
    using that by (induction vals arbitrary: M) (simp_all add: inline_mysql_stage_inc_work_completed_def)
qed

section \<open>The lockers\<close>

text \<open>
  An instrumentation that keeps the calls it got with what it answered. A locker is issued by the answer of certain
  calls; a call uses the lockers among its arguments.
\<close>

datatype locker_kind = Statement | Digest | Transaction | Table_wait | Idle | Stored_program | Prepared | Metadata_lock

type_synonym event_log = "(event_call \<times> nat option) list"

definition event_logged :: "'q event_env \<Rightarrow> (event_log \<times> 'q) event_env" where
  "event_logged psi c = (\<lambda>(t, q). case psi c q of (r, q') \<Rightarrow> (r, t @ [(c, r)], q'))"

fun issues :: "event_call \<Rightarrow> locker_kind option" where
  "issues (get_thread_statement_locker _ _ _ _) = Some Statement"
| "issues (refine_statement _ _) = Some Statement"
| "issues (digest_start _) = Some Digest"
| "issues (get_thread_transaction_locker _ _ _ _ _ _) = Some Transaction"
| "issues (start_table_lock_wait _ _ _ _ _ _) = Some Table_wait"
| "issues (start_idle_wait _ _ _) = Some Idle"
| "issues (start_sp _ _) = Some Stored_program"
| "issues (create_prepared_stmt _ _ _ _ _ _ _) = Some Prepared"
| "issues (create_metadata_lock _ _ _ _ _ _ _) = Some Metadata_lock"
| "issues _ = None"

fun uses :: "event_call \<Rightarrow> (locker_kind \<times> nat) set" where
  "uses (refine_statement l0 _) = {(Statement, l0)}"
| "uses (start_statement l0 _ _ _ _) = {(Statement, l0)}"
| "uses (set_statement_text l0 _ _) = {(Statement, l0)}"
| "uses (set_statement_lock_time l0 _) = {(Statement, l0)}"
| "uses (set_statement_rows_sent l0 _) = {(Statement, l0)}"
| "uses (set_statement_rows_examined l0 _) = {(Statement, l0)}"
| "uses (end_statement l0 _) = {(Statement, l0)}"
| "uses (digest_start l0) = {(Statement, l0)}"
| "uses (digest_end l0 _) = {(Digest, l0)}"
| "uses (start_transaction l0 _ _) = {(Transaction, l0)}"
| "uses (set_transaction_gtid l0 _ _) = {(Transaction, l0)}"
| "uses (set_transaction_xid l0 _ _) = {(Transaction, l0)}"
| "uses (set_transaction_xa_state l0 _) = {(Transaction, l0)}"
| "uses (set_transaction_trxid l0 _) = {(Transaction, l0)}"
| "uses (inc_transaction_savepoints l0 _) = {(Transaction, l0)}"
| "uses (inc_transaction_rollback_to_savepoint l0 _) = {(Transaction, l0)}"
| "uses (inc_transaction_release_savepoint l0 _) = {(Transaction, l0)}"
| "uses (end_transaction l0 _) = {(Transaction, l0)}"
| "uses (end_table_lock_wait l0) = {(Table_wait, l0)}"
| "uses (end_idle_wait l0) = {(Idle, l0)}"
| "uses (end_sp l0) = {(Stored_program, l0)}"
| "uses (create_prepared_stmt _ _ l2 _ _ _ _) = {(Statement, l2)}"
| "uses (execute_prepared_stmt l0 l1) = {(Statement, l0), (Prepared, l1)}"
| "uses (destroy_prepared_stmt l0) = {(Prepared, l0)}"
| "uses (reprepare_prepared_stmt l0) = {(Prepared, l0)}"
| "uses (set_prepared_stmt_text l0 _ _) = {(Prepared, l0)}"
| "uses (set_metadata_lock_status l0 _) = {(Metadata_lock, l0)}"
| "uses (destroy_metadata_lock l0) = {(Metadata_lock, l0)}"
| "uses _ = {}"

text \<open>The calls of the macros, with their arguments.\<close>

datatype (plugins only: code size) event_macro =
    Call_mysql_statement_register string nat int | Call_MYSQL_DIGEST_START "nat option"
  | Call_MYSQL_DIGEST_END "nat option" nat
  | Call_MYSQL_START_STATEMENT nat nat nat nat nat "nat option" string nat
  | Call_MYSQL_REFINE_STATEMENT "nat option" nat | Call_MYSQL_SET_STATEMENT_TEXT "nat option" nat nat
  | Call_MYSQL_SET_STATEMENT_LOCK_TIME "nat option" nat | Call_MYSQL_SET_STATEMENT_ROWS_SENT "nat option" nat
  | Call_MYSQL_SET_STATEMENT_ROWS_EXAMINED "nat option" nat | Call_MYSQL_END_STATEMENT "nat option" nat
  | Call_MYSQL_START_TRANSACTION nat nat nat int bool bool string nat
  | Call_MYSQL_SET_TRANSACTION_GTID "nat option" nat nat | Call_MYSQL_SET_TRANSACTION_XID "nat option" nat int
  | Call_MYSQL_SET_TRANSACTION_XA_STATE "nat option" int | Call_MYSQL_SET_TRANSACTION_TRXID "nat option" nat
  | Call_MYSQL_INC_TRANSACTION_SAVEPOINTS "nat option" nat
  | Call_MYSQL_INC_TRANSACTION_ROLLBACK_TO_SAVEPOINT "nat option" nat
  | Call_MYSQL_INC_TRANSACTION_RELEASE_SAVEPOINT "nat option" nat
  | Call_MYSQL_ROLLBACK_TRANSACTION "nat option" | Call_MYSQL_COMMIT_TRANSACTION "nat option"
  | Call_MYSQL_START_TABLE_LOCK_WAIT nat "nat option" nat nat string nat
  | Call_MYSQL_END_TABLE_LOCK_WAIT "nat option" | Call_MYSQL_UNLOCK_TABLE "nat option"
  | Call_MYSQL_START_IDLE_WAIT nat string nat | Call_MYSQL_END_IDLE_WAIT "nat option"
  | Call_MYSQL_START_SP nat "nat option" | Call_MYSQL_END_SP "nat option"
  | Call_MYSQL_DROP_SP nat nat nat nat nat | Call_MYSQL_GET_SP_SHARE nat nat nat nat nat
  | Call_MYSQL_CREATE_PS nat nat "nat option" nat nat nat nat
  | Call_MYSQL_EXECUTE_PS "nat option" "nat option" | Call_MYSQL_DESTROY_PS "nat option"
  | Call_MYSQL_REPREPARE_PS "nat option" | Call_MYSQL_SET_PS_TEXT "nat option" nat nat
  | Call_mysql_mdl_create nat nat int int int string nat | Call_mysql_mdl_set_status "nat option" int
  | Call_mysql_mdl_destroy "nat option" string nat | Call_mysql_memory_register string nat int
  | Call_mysql_stage_register string nat int | Call_MYSQL_SET_STAGE nat string nat | Call_mysql_end_stage

fun event_api :: "interfaces \<Rightarrow> 'p event_env \<Rightarrow> event_macro \<Rightarrow> ('p, nat option) state" where
  "event_api i psi (Call_mysql_statement_register category info count) = do { _ \<leftarrow> mysql_statement_register i psi category info count; ret None }"
| "event_api i psi (Call_MYSQL_DIGEST_START locker) = MYSQL_DIGEST_START i psi locker"
| "event_api i psi (Call_MYSQL_DIGEST_END locker digest) = do { _ \<leftarrow> MYSQL_DIGEST_END i psi locker digest; ret None }"
| "event_api i psi (Call_MYSQL_START_STATEMENT st key dbname db_len charset sp_share src_file src_line) = MYSQL_START_STATEMENT i psi st key dbname db_len charset sp_share src_file src_line"
| "event_api i psi (Call_MYSQL_REFINE_STATEMENT locker key) = MYSQL_REFINE_STATEMENT i psi locker key"
| "event_api i psi (Call_MYSQL_SET_STATEMENT_TEXT locker str text_len) = do { _ \<leftarrow> MYSQL_SET_STATEMENT_TEXT i psi locker str text_len; ret None }"
| "event_api i psi (Call_MYSQL_SET_STATEMENT_LOCK_TIME locker count) = do { _ \<leftarrow> MYSQL_SET_STATEMENT_LOCK_TIME i psi locker count; ret None }"
| "event_api i psi (Call_MYSQL_SET_STATEMENT_ROWS_SENT locker count) = do { _ \<leftarrow> MYSQL_SET_STATEMENT_ROWS_SENT i psi locker count; ret None }"
| "event_api i psi (Call_MYSQL_SET_STATEMENT_ROWS_EXAMINED locker count) = do { _ \<leftarrow> MYSQL_SET_STATEMENT_ROWS_EXAMINED i psi locker count; ret None }"
| "event_api i psi (Call_MYSQL_END_STATEMENT locker stmt_da) = do { _ \<leftarrow> MYSQL_END_STATEMENT i psi locker stmt_da; ret None }"
| "event_api i psi (Call_MYSQL_START_TRANSACTION st xid trxid isolation_level read_only autocommit src_file src_line) = MYSQL_START_TRANSACTION i psi st xid trxid isolation_level read_only autocommit src_file src_line"
| "event_api i psi (Call_MYSQL_SET_TRANSACTION_GTID locker sid gtid_spec) = do { _ \<leftarrow> MYSQL_SET_TRANSACTION_GTID i psi locker sid gtid_spec; ret None }"
| "event_api i psi (Call_MYSQL_SET_TRANSACTION_XID locker xid xa_state) = do { _ \<leftarrow> MYSQL_SET_TRANSACTION_XID i psi locker xid xa_state; ret None }"
| "event_api i psi (Call_MYSQL_SET_TRANSACTION_XA_STATE locker xa_state) = do { _ \<leftarrow> MYSQL_SET_TRANSACTION_XA_STATE i psi locker xa_state; ret None }"
| "event_api i psi (Call_MYSQL_SET_TRANSACTION_TRXID locker trxid) = do { _ \<leftarrow> MYSQL_SET_TRANSACTION_TRXID i psi locker trxid; ret None }"
| "event_api i psi (Call_MYSQL_INC_TRANSACTION_SAVEPOINTS locker count) = do { _ \<leftarrow> MYSQL_INC_TRANSACTION_SAVEPOINTS i psi locker count; ret None }"
| "event_api i psi (Call_MYSQL_INC_TRANSACTION_ROLLBACK_TO_SAVEPOINT locker count) = do { _ \<leftarrow> MYSQL_INC_TRANSACTION_ROLLBACK_TO_SAVEPOINT i psi locker count; ret None }"
| "event_api i psi (Call_MYSQL_INC_TRANSACTION_RELEASE_SAVEPOINT locker count) = do { _ \<leftarrow> MYSQL_INC_TRANSACTION_RELEASE_SAVEPOINT i psi locker count; ret None }"
| "event_api i psi (Call_MYSQL_ROLLBACK_TRANSACTION locker) = do { _ \<leftarrow> MYSQL_ROLLBACK_TRANSACTION i psi locker; ret None }"
| "event_api i psi (Call_MYSQL_COMMIT_TRANSACTION locker) = do { _ \<leftarrow> MYSQL_COMMIT_TRANSACTION i psi locker; ret None }"
| "event_api i psi (Call_MYSQL_START_TABLE_LOCK_WAIT st tab oper flags src_file src_line) = MYSQL_START_TABLE_LOCK_WAIT i psi st tab oper flags src_file src_line"
| "event_api i psi (Call_MYSQL_END_TABLE_LOCK_WAIT locker) = do { _ \<leftarrow> MYSQL_END_TABLE_LOCK_WAIT i psi locker; ret None }"
| "event_api i psi (Call_MYSQL_UNLOCK_TABLE tab) = do { _ \<leftarrow> MYSQL_UNLOCK_TABLE i psi tab; ret None }"
| "event_api i psi (Call_MYSQL_START_IDLE_WAIT st src_file src_line) = MYSQL_START_IDLE_WAIT i psi st src_file src_line"
| "event_api i psi (Call_MYSQL_END_IDLE_WAIT locker) = do { _ \<leftarrow> MYSQL_END_IDLE_WAIT i psi locker; ret None }"
| "event_api i psi (Call_MYSQL_START_SP st sp_share) = MYSQL_START_SP i psi st sp_share"
| "event_api i psi (Call_MYSQL_END_SP locker) = do { _ \<leftarrow> MYSQL_END_SP i psi locker; ret None }"
| "event_api i psi (Call_MYSQL_DROP_SP sp_type schema_name schema_name_length object_name object_name_length) = do { _ \<leftarrow> MYSQL_DROP_SP i psi sp_type schema_name schema_name_length object_name object_name_length; ret None }"
| "event_api i psi (Call_MYSQL_GET_SP_SHARE sp_type schema_name schema_name_length object_name object_name_length) = MYSQL_GET_SP_SHARE i psi sp_type schema_name schema_name_length object_name object_name_length"
| "event_api i psi (Call_MYSQL_CREATE_PS identity stmt_id locker stmt_name stmt_name_length sqltext sqltext_length) = MYSQL_CREATE_PS i psi identity stmt_id locker stmt_name stmt_name_length sqltext sqltext_length"
| "event_api i psi (Call_MYSQL_EXECUTE_PS locker prepared_stmt) = do { _ \<leftarrow> MYSQL_EXECUTE_PS i psi locker prepared_stmt; ret None }"
| "event_api i psi (Call_MYSQL_DESTROY_PS prepared_stmt) = do { _ \<leftarrow> MYSQL_DESTROY_PS i psi prepared_stmt; ret None }"
| "event_api i psi (Call_MYSQL_REPREPARE_PS prepared_stmt) = do { _ \<leftarrow> MYSQL_REPREPARE_PS i psi prepared_stmt; ret None }"
| "event_api i psi (Call_MYSQL_SET_PS_TEXT prepared_stmt str text_len) = do { _ \<leftarrow> MYSQL_SET_PS_TEXT i psi prepared_stmt str text_len; ret None }"
| "event_api i psi (Call_mysql_mdl_create identity mdl_key mdl_type mdl_duration mdl_status src_file src_line) = mysql_mdl_create i psi identity mdl_key mdl_type mdl_duration mdl_status src_file src_line"
| "event_api i psi (Call_mysql_mdl_set_status lck mdl_status) = do { _ \<leftarrow> mysql_mdl_set_status i psi lck mdl_status; ret None }"
| "event_api i psi (Call_mysql_mdl_destroy lck src_file src_line) = do { _ \<leftarrow> mysql_mdl_destroy i psi lck src_file src_line; ret None }"
| "event_api i psi (Call_mysql_memory_register category info count) = do { _ \<leftarrow> inline_mysql_memory_register i psi category info count; ret None }"
| "event_api i psi (Call_mysql_stage_register category info count) = do { _ \<leftarrow> mysql_stage_register i psi category info count; ret None }"
| "event_api i psi (Call_MYSQL_SET_STAGE key src_file src_line) = MYSQL_SET_STAGE i psi key src_file src_line"
| "event_api i psi Call_mysql_end_stage = do { _ \<leftarrow> mysql_end_stage i psi; ret None }"

text \<open>The lockers a call is given, and the kind of the one it answers.\<close>

fun given :: "event_macro \<Rightarrow> (locker_kind \<times> nat option) set" where
  "given (Call_MYSQL_DIGEST_START locker) = {(Statement, locker)}"
| "given (Call_MYSQL_DIGEST_END locker _) = {(Digest, locker)}"
| "given (Call_MYSQL_REFINE_STATEMENT locker _) = {(Statement, locker)}"
| "given (Call_MYSQL_SET_STATEMENT_TEXT locker _ _) = {(Statement, locker)}"
| "given (Call_MYSQL_SET_STATEMENT_LOCK_TIME locker _) = {(Statement, locker)}"
| "given (Call_MYSQL_SET_STATEMENT_ROWS_SENT locker _) = {(Statement, locker)}"
| "given (Call_MYSQL_SET_STATEMENT_ROWS_EXAMINED locker _) = {(Statement, locker)}"
| "given (Call_MYSQL_END_STATEMENT locker _) = {(Statement, locker)}"
| "given (Call_MYSQL_SET_TRANSACTION_GTID locker _ _) = {(Transaction, locker)}"
| "given (Call_MYSQL_SET_TRANSACTION_XID locker _ _) = {(Transaction, locker)}"
| "given (Call_MYSQL_SET_TRANSACTION_XA_STATE locker _) = {(Transaction, locker)}"
| "given (Call_MYSQL_SET_TRANSACTION_TRXID locker _) = {(Transaction, locker)}"
| "given (Call_MYSQL_INC_TRANSACTION_SAVEPOINTS locker _) = {(Transaction, locker)}"
| "given (Call_MYSQL_INC_TRANSACTION_ROLLBACK_TO_SAVEPOINT locker _) = {(Transaction, locker)}"
| "given (Call_MYSQL_INC_TRANSACTION_RELEASE_SAVEPOINT locker _) = {(Transaction, locker)}"
| "given (Call_MYSQL_ROLLBACK_TRANSACTION locker) = {(Transaction, locker)}"
| "given (Call_MYSQL_COMMIT_TRANSACTION locker) = {(Transaction, locker)}"
| "given (Call_MYSQL_END_TABLE_LOCK_WAIT locker) = {(Table_wait, locker)}"
| "given (Call_MYSQL_END_IDLE_WAIT locker) = {(Idle, locker)}"
| "given (Call_MYSQL_END_SP locker) = {(Stored_program, locker)}"
| "given (Call_MYSQL_CREATE_PS _ _ locker _ _ _ _) = {(Statement, locker)}"
| "given (Call_MYSQL_EXECUTE_PS locker prepared_stmt) = {(Statement, locker), (Prepared, prepared_stmt)}"
| "given (Call_MYSQL_DESTROY_PS prepared_stmt) = {(Prepared, prepared_stmt)}"
| "given (Call_MYSQL_REPREPARE_PS prepared_stmt) = {(Prepared, prepared_stmt)}"
| "given (Call_MYSQL_SET_PS_TEXT prepared_stmt _ _) = {(Prepared, prepared_stmt)}"
| "given (Call_mysql_mdl_set_status lck _) = {(Metadata_lock, lck)}"
| "given (Call_mysql_mdl_destroy lck _ _) = {(Metadata_lock, lck)}"
| "given _ = {}"

fun gives :: "event_macro \<Rightarrow> locker_kind option" where
  "gives (Call_MYSQL_DIGEST_START _) = Some Digest"
| "gives (Call_MYSQL_START_STATEMENT _ _ _ _ _ _ _ _) = Some Statement"
| "gives (Call_MYSQL_REFINE_STATEMENT _ _) = Some Statement"
| "gives (Call_MYSQL_START_TRANSACTION _ _ _ _ _ _ _ _) = Some Transaction"
| "gives (Call_MYSQL_START_TABLE_LOCK_WAIT _ _ _ _ _ _) = Some Table_wait"
| "gives (Call_MYSQL_START_IDLE_WAIT _ _ _) = Some Idle"
| "gives (Call_MYSQL_START_SP _ _) = Some Stored_program"
| "gives (Call_MYSQL_CREATE_PS _ _ _ _ _ _ _) = Some Prepared"
| "gives (Call_mysql_mdl_create _ _ _ _ _ _ _) = Some Metadata_lock"
| "gives _ = None"

section \<open>Lockers are used as issued\<close>

definition answered :: "locker_kind option \<Rightarrow> nat option \<Rightarrow> (locker_kind \<times> nat) set" where
  "answered k r = (case (k, r) of (Some k', Some l) \<Rightarrow> {(k', l)} | _ \<Rightarrow> {})"

lemma answered_simps [simp]:
  "answered None r = {}" "answered k None = {}" "answered (Some k') (Some l) = {(k', l)}"
  by (auto simp: answered_def split: option.splits)

definition issued :: "event_log \<Rightarrow> (locker_kind \<times> nat) set" where
  "issued t = (\<Union>(c, r)\<in>set t. answered (issues c) r)"

lemma issued_simps [simp]:
  "issued [] = {}" "issued ((c, r) # t) = answered (issues c) r \<union> issued t" "issued (s @ t) = issued s \<union> issued t"
  by (auto simp: issued_def)

text \<open>Every locker a call uses was issued, as one of its kind, by an earlier call.\<close>

primrec well_used :: "(locker_kind \<times> nat) set \<Rightarrow> event_log \<Rightarrow> bool" where
  "well_used S [] = True"
| "well_used S (e # t) = (uses (fst e) \<subseteq> S \<and> well_used (S \<union> answered (issues (fst e)) (snd e)) t)"

lemma well_used_append: "well_used S (s @ t) \<longleftrightarrow> well_used S s \<and> well_used (S \<union> issued s) t"
  by (induction s arbitrary: S) (auto simp: Un_assoc)

text \<open>The event of a new locker for a statement or transaction is started by the very next call.\<close>

fun wants_start :: "event_call \<Rightarrow> locker_kind option" where
  "wants_start (get_thread_statement_locker _ _ _ _) = Some Statement"
| "wants_start (get_thread_transaction_locker _ _ _ _ _ _) = Some Transaction"
| "wants_start _ = None"

fun start_of :: "event_call \<Rightarrow> (locker_kind \<times> nat) option" where
  "start_of (start_statement l _ _ _ _) = Some (Statement, l)"
| "start_of (start_transaction l _ _) = Some (Transaction, l)"
| "start_of _ = None"

primrec started :: "event_log \<Rightarrow> bool" where
  "started [] = True"
| "started (e # t) =
     ((\<forall>e'\<in>answered (wants_start (fst e)) (snd e). t \<noteq> [] \<and> start_of (fst (hd t)) = Some e') \<and> started t)"

lemma started_append: "started s \<Longrightarrow> started t \<Longrightarrow> started (s @ t)"
  by (induction s) (auto split: list.splits)

text \<open>The lockers a client passes that are not \<open>NULL\<close>.\<close>

definition passed :: "event_macro \<Rightarrow> (locker_kind \<times> nat) set" where
  "passed c = {(k, l). (k, Some l) \<in> given c}"

lemmas event_defs = EVENT_CALL_def event_do_def unless_NULL_def event_logged_def

lemmas event_fun_defs =
  inline_mysql_statement_register_def inline_mysql_digest_start_def inline_mysql_digest_end_def
  inline_mysql_start_statement_def inline_mysql_refine_statement_def inline_mysql_set_statement_text_def
  inline_mysql_set_statement_lock_time_def inline_mysql_set_statement_rows_sent_def
  inline_mysql_set_statement_rows_examined_def inline_mysql_end_statement_def mysql_statement_register_def
  MYSQL_DIGEST_START_def MYSQL_DIGEST_END_def MYSQL_START_STATEMENT_def MYSQL_REFINE_STATEMENT_def
  MYSQL_SET_STATEMENT_TEXT_def MYSQL_SET_STATEMENT_LOCK_TIME_def MYSQL_SET_STATEMENT_ROWS_SENT_def
  MYSQL_SET_STATEMENT_ROWS_EXAMINED_def MYSQL_END_STATEMENT_def inline_mysql_start_transaction_def
  inline_mysql_set_transaction_gtid_def inline_mysql_set_transaction_xid_def
  inline_mysql_set_transaction_xa_state_def inline_mysql_set_transaction_trxid_def
  inline_mysql_inc_transaction_savepoints_def inline_mysql_inc_transaction_rollback_to_savepoint_def
  inline_mysql_inc_transaction_release_savepoint_def inline_mysql_rollback_transaction_def
  inline_mysql_commit_transaction_def MYSQL_START_TRANSACTION_def MYSQL_SET_TRANSACTION_GTID_def
  MYSQL_SET_TRANSACTION_XID_def MYSQL_SET_TRANSACTION_XA_STATE_def MYSQL_SET_TRANSACTION_TRXID_def
  MYSQL_INC_TRANSACTION_SAVEPOINTS_def MYSQL_INC_TRANSACTION_ROLLBACK_TO_SAVEPOINT_def
  MYSQL_INC_TRANSACTION_RELEASE_SAVEPOINT_def MYSQL_ROLLBACK_TRANSACTION_def MYSQL_COMMIT_TRANSACTION_def
  inline_mysql_start_table_lock_wait_def inline_mysql_end_table_lock_wait_def inline_mysql_unlock_table_def
  MYSQL_START_TABLE_LOCK_WAIT_def MYSQL_END_TABLE_LOCK_WAIT_def MYSQL_UNLOCK_TABLE_def
  inline_mysql_start_idle_wait_def inline_mysql_end_idle_wait_def MYSQL_START_IDLE_WAIT_def
  MYSQL_END_IDLE_WAIT_def inline_mysql_start_sp_def inline_mysql_end_sp_def inline_mysql_drop_sp_def
  inline_mysql_get_sp_share_def MYSQL_START_SP_def MYSQL_END_SP_def MYSQL_DROP_SP_def MYSQL_GET_SP_SHARE_def
  inline_mysql_create_prepared_stmt_def inline_mysql_execute_prepared_stmt_def
  inline_mysql_destroy_prepared_stmt_def inline_mysql_reprepare_prepared_stmt_def
  inline_mysql_set_prepared_stmt_text_def MYSQL_CREATE_PS_def MYSQL_EXECUTE_PS_def MYSQL_DESTROY_PS_def
  MYSQL_REPREPARE_PS_def MYSQL_SET_PS_TEXT_def inline_mysql_mdl_create_def inline_mysql_mdl_set_status_def
  inline_mysql_mdl_destroy_def mysql_mdl_create_def mysql_mdl_set_status_def mysql_mdl_destroy_def
  inline_mysql_memory_register_def inline_mysql_stage_register_def inline_mysql_set_stage_def
  inline_mysql_end_stage_def mysql_stage_register_def MYSQL_SET_STAGE_def mysql_end_stage_def

lemma event_api_log:
  "passed c \<subseteq> S \<Longrightarrow>
   \<exists>u r q'. run_state (event_api i (event_logged psi) c) (t, q) = (r, t @ u, q')
     \<and> well_used S u \<and> started u \<and> answered (gives c) r \<subseteq> S \<union> issued u"
  by (cases c) (auto simp: event_fun_defs event_defs passed_def split_beta split: option.splits)

text \<open>A client of the macros that passes only lockers they gave it.\<close>

inductive client :: "interfaces \<Rightarrow> 'q event_env \<Rightarrow> event_log \<times> 'q \<Rightarrow> bool" for i psi where
  client_start: "client i psi ([], q)"
| client_call: "client i psi (t, q) \<Longrightarrow> passed c \<subseteq> issued t \<Longrightarrow>
     client i psi (snd (run_state (event_api i (event_logged psi) c) (t, q)))"

lemma client_inv: "client i psi (t, q) \<Longrightarrow> well_used {} t \<and> started t"
proof (induction "(t, q)" arbitrary: t q rule: client.induct)
  case (client_call t q c t' q')
  have "passed c \<subseteq> issued t" by fact
  from event_api_log [OF this, of i psi t q] obtain u r q1 where "run_state (event_api i (event_logged psi) c) (t, q) = (r, t @ u, q1)"
    "well_used (issued t) u" "started u"
    by blast
  with client_call show ?case by (auto simp: well_used_append started_append)
qed simp

section \<open>Properties\<close>


text \<open>A client that starts and ends a statement, on an instrumentation that answers every call with 7.\<close>

definition all_interfaces :: interfaces where
  "all_interfaces = \<lparr>HAVE_STATEMENT = True, HAVE_STATEMENT_DIGEST = True, HAVE_STAGE = True, HAVE_TRANSACTION = True,
     HAVE_TABLE = True, HAVE_IDLE = True, HAVE_SP = True, HAVE_PS = True, HAVE_METADATA = True, HAVE_MEMORY = True\<rparr>"

definition sevens :: "unit event_env" where
  "sevens c q = (Some 7, q)"

lemma passed_start: "passed (Call_MYSQL_START_STATEMENT st key dbname len cs sp f ln) = {}"
  by (simp add: passed_def)

lemma statement_started:
  "client all_interfaces sevens
     ([(get_thread_statement_locker 1 2 3 None, Some 7), (start_statement 7 4 5 ''t.cc'' 6, Some 7)], ())"
proof -
  have "client all_interfaces sevens (snd (run_state
      (event_api all_interfaces (event_logged sevens) (Call_MYSQL_START_STATEMENT 1 2 4 5 3 None ''t.cc'' 6)) ([], ())))"
    by (intro client_call client_start) (simp add: passed_start)
  then show ?thesis
    by (simp add: MYSQL_START_STATEMENT_def inline_mysql_start_statement_def event_defs all_interfaces_def sevens_def)
qed


end
