(* ===== verification/NativeThreads.thy ===== *)
theory NativeThreads
  imports Psi Timespec
begin

text \<open>
  \<open>MySQL Server 5.7/include/my_thread.h\<close>, \<open>thr_mutex.h\<close>, \<open>thr_cond.h\<close> and
  \<open>thr_rwlock.h\<close>: threads, mutexes, condition variables and read-write locks on top of
  Windows and POSIX. The macros that select the code are the fields of a record; the functions of the operating
  system and of \<open>mysys\<close> are one parameter \<open>sys\<close>, which gives the result and the next state of a call.
\<close>

section \<open>Configuration and calls\<close>

record config =
  WIN32 :: bool
  SAFE_MUTEX :: bool
  HAVE_PSI_MUTEX_INTERFACE :: bool
  HAVE_PSI_RWLOCK_INTERFACE :: bool
  HAVE_PSI_COND_INTERFACE :: bool
  HAVE_PSI_THREAD_INTERFACE :: bool
  HAVE_PSI_SOCKET_INTERFACE :: bool
  HAVE_PSI_FILE_INTERFACE :: bool
  EBUSY :: int
  ETIMEDOUT :: int
  O_NONBLOCK :: int
  INVALID_SOCKET :: int

text \<open>A build for Windows with the instrumentation.\<close>

definition win_config :: config where
  "win_config = \<lparr>WIN32 = True, SAFE_MUTEX = False, HAVE_PSI_MUTEX_INTERFACE = True,
     HAVE_PSI_RWLOCK_INTERFACE = True, HAVE_PSI_COND_INTERFACE = True, HAVE_PSI_THREAD_INTERFACE = True,
     HAVE_PSI_SOCKET_INTERFACE = True, HAVE_PSI_FILE_INTERFACE = True, EBUSY = 16, ETIMEDOUT = 138,
     O_NONBLOCK = 0, INVALID_SOCKET = -1\<rparr>"

text \<open>The two forms of \<open>const struct timespec *\<close>.\<close>

datatype abstime = Ts timespec | Ft "timespec_ft option"

datatype (plugins only: code size) os_call =
    InitializeCriticalSection nat | EnterCriticalSection nat | TryEnterCriticalSection nat
  | RecursionCount nat | LeaveCriticalSection nat | DeleteCriticalSection nat
  | pthread_mutex_init nat "nat option" | pthread_mutex_lock nat | pthread_mutex_trylock nat
  | pthread_mutex_unlock nat | pthread_mutex_destroy nat
  | safe_mutex_init nat "nat option" string nat | safe_mutex_lock nat bool string nat
  | safe_mutex_unlock nat string nat | safe_mutex_destroy nat string nat
  | my_getsystime | GetSystemTimeAsFileTime
  | InitializeConditionVariable nat | SleepConditionVariableCS nat nat "32 word"
  | WakeConditionVariable nat | WakeAllConditionVariable nat
  | pthread_cond_init nat | pthread_cond_destroy nat | pthread_cond_timedwait nat nat abstime
  | pthread_cond_wait nat nat | pthread_cond_signal nat | pthread_cond_broadcast nat
  | safe_cond_wait nat nat string nat | safe_cond_timedwait nat nat abstime string nat
  | InitializeSRWLock nat | AcquireSRWLockShared nat | TryAcquireSRWLockShared nat
  | AcquireSRWLockExclusive nat | TryAcquireSRWLockExclusive nat
  | ReleaseSRWLockExclusive nat | ReleaseSRWLockShared nat
  | pthread_rwlock_init nat | pthread_rwlock_destroy nat | pthread_rwlock_rdlock nat
  | pthread_rwlock_tryrdlock nat | pthread_rwlock_wrlock nat | pthread_rwlock_trywrlock nat
  | pthread_rwlock_unlock nat
  | rw_pr_init nat | rw_pr_rdlock nat | rw_pr_wrlock nat | rw_pr_unlock nat | rw_pr_destroy nat
  | GetCurrentThreadId | pthread_self | pthread_equal int int
  | pthread_attr_init nat | pthread_attr_destroy nat | pthread_attr_setstacksize nat nat
  | pthread_attr_setdetachstate nat int | pthread_attr_getstacksize nat
  | SwitchToThread | sched_yield
  | spawn_thread nat nat "nat option" nat "nat option"

type_synonym 'o sys_env = "os_call \<Rightarrow> 'o \<Rightarrow> int \<times> 'o"

definition SYS :: "'o sys_env \<Rightarrow> os_call \<Rightarrow> ('o, 'p, int) prog" where
  "SYS sys c = os_do (sys c)"

lemma SYS_rules [transparent, accounted]: "sim (SYS sys c) (SYS sys c)" "quiet (SYS sys c)"
  by (simp_all add: SYS_def sim_os_do quiet_basic)

text \<open>A call whose result is not used, followed by \<open>return 0\<close>.\<close>

definition SYS0 :: "'o sys_env \<Rightarrow> os_call \<Rightarrow> ('o, 'p, int) prog" where
  "SYS0 sys c = do { _ \<leftarrow> SYS sys c; ret 0 }"

lemma SYS0_rules [transparent, accounted]: "sim (SYS0 sys c) (SYS0 sys c)" "quiet (SYS0 sys c)"
  unfolding SYS0_def by (intro transparent, intro accounted)

section \<open>Threads\<close>

definition my_thread_self :: "config \<Rightarrow> 'o sys_env \<Rightarrow> ('o, 'p, int) prog" where
  "my_thread_self cfg sys = (if WIN32 cfg then SYS sys GetCurrentThreadId else SYS sys pthread_self)"

definition my_thread_equal :: "config \<Rightarrow> 'o sys_env \<Rightarrow> int \<Rightarrow> int \<Rightarrow> ('o, 'p, int) prog" where
  "my_thread_equal cfg sys t1 t2 =
     (if WIN32 cfg then ret (if t1 = t2 then 1 else 0) else SYS sys (pthread_equal t1 t2))"

text \<open>
  The attributes: on Windows the structure \<open>thread_attr\<close>, passed and returned; elsewhere an object of the
  operating system at the address \<open>attr\<close>. \<open>MY_THREAD_CREATE_JOINABLE\<close> is 0 on Windows.
\<close>

record thread_attr =
  dwStackSize :: "32 word"
  detachstate :: int

definition my_thread_attr_init ::
  "config \<Rightarrow> 'o sys_env \<Rightarrow> nat \<Rightarrow> thread_attr \<Rightarrow> ('o, 'p, int \<times> thread_attr) prog" where
  "my_thread_attr_init cfg sys attr a =
     (if WIN32 cfg then ret (0, a\<lparr>dwStackSize := 0, detachstate := 0\<rparr>)
      else do { r \<leftarrow> SYS sys (pthread_attr_init attr); ret (r, a) })"

definition my_thread_attr_destroy ::
  "config \<Rightarrow> 'o sys_env \<Rightarrow> nat \<Rightarrow> thread_attr \<Rightarrow> ('o, 'p, int \<times> thread_attr) prog" where
  "my_thread_attr_destroy cfg sys attr a =
     (if WIN32 cfg then ret (0, a\<lparr>dwStackSize := 0, detachstate := 0\<rparr>)
      else do { r \<leftarrow> SYS sys (pthread_attr_destroy attr); ret (r, a) })"

definition my_thread_attr_setstacksize ::
  "config \<Rightarrow> 'o sys_env \<Rightarrow> nat \<Rightarrow> thread_attr \<Rightarrow> nat \<Rightarrow> ('o, 'p, int \<times> thread_attr) prog" where
  "my_thread_attr_setstacksize cfg sys attr a stacksize =
     (if WIN32 cfg then ret (0, a\<lparr>dwStackSize := word_of_nat stacksize\<rparr>)
      else do { r \<leftarrow> SYS sys (pthread_attr_setstacksize attr stacksize); ret (r, a) })"

definition my_thread_attr_setdetachstate ::
  "config \<Rightarrow> 'o sys_env \<Rightarrow> nat \<Rightarrow> thread_attr \<Rightarrow> int \<Rightarrow> ('o, 'p, int \<times> thread_attr) prog" where
  "my_thread_attr_setdetachstate cfg sys attr a state =
     (if WIN32 cfg then ret (0, a\<lparr>detachstate := state\<rparr>)
      else do { r \<leftarrow> SYS sys (pthread_attr_setdetachstate attr state); ret (r, a) })"

text \<open>The second result is what \<open>*stacksize\<close> gets; elsewhere than on Windows the system writes it.\<close>

definition my_thread_attr_getstacksize ::
  "config \<Rightarrow> 'o sys_env \<Rightarrow> nat \<Rightarrow> thread_attr \<Rightarrow> ('o, 'p, int \<times> nat option) prog" where
  "my_thread_attr_getstacksize cfg sys attr a =
     (if WIN32 cfg then ret (0, Some (unat (dwStackSize a)))
      else do { r \<leftarrow> SYS sys (pthread_attr_getstacksize attr); ret (r, None) })"

definition my_thread_yield :: "config \<Rightarrow> 'o sys_env \<Rightarrow> ('o, 'p, unit) prog" where
  "my_thread_yield cfg sys =
     (if WIN32 cfg then do { _ \<leftarrow> SYS sys SwitchToThread; ret () } else do { _ \<leftarrow> SYS sys sched_yield; ret () })"

text \<open>A stack size is read back as it was set when it fits a \<open>DWORD\<close>.\<close>

lemma stacksize_roundtrip:
  assumes "WIN32 cfg" "n < 2 ^ 32"
  shows "run_state (do { (r, a') \<leftarrow> my_thread_attr_setstacksize cfg sys attr a n;
      my_thread_attr_getstacksize cfg sys attr a' }) w = ((0, Some n), w)"
  using assms by (simp add: my_thread_attr_setstacksize_def my_thread_attr_getstacksize_def unat_of_nat)

section \<open>Mutexes\<close>

definition native_mutex_init :: "config \<Rightarrow> 'o sys_env \<Rightarrow> nat \<Rightarrow> nat option \<Rightarrow> ('o, 'p, int) prog" where
  "native_mutex_init cfg sys mutex attr =
     (if WIN32 cfg then SYS0 sys (InitializeCriticalSection mutex)
      else SYS sys (pthread_mutex_init mutex attr))"

definition native_mutex_lock :: "config \<Rightarrow> 'o sys_env \<Rightarrow> nat \<Rightarrow> ('o, 'p, int) prog" where
  "native_mutex_lock cfg sys mutex =
     (if WIN32 cfg then SYS0 sys (EnterCriticalSection mutex) else SYS sys (pthread_mutex_lock mutex))"

definition native_mutex_trylock :: "config \<Rightarrow> 'o sys_env \<Rightarrow> nat \<Rightarrow> ('o, 'p, int) prog" where
  "native_mutex_trylock cfg sys mutex =
     (if WIN32 cfg then do {
        entered \<leftarrow> SYS sys (TryEnterCriticalSection mutex);
        if entered \<noteq> 0 then do {
          count \<leftarrow> SYS sys (RecursionCount mutex);
          if count > 1 then do {
            _ \<leftarrow> SYS sys (LeaveCriticalSection mutex);
            ret (EBUSY cfg)
          } else ret 0
        } else ret (EBUSY cfg)
      } else SYS sys (pthread_mutex_trylock mutex))"

definition native_mutex_unlock :: "config \<Rightarrow> 'o sys_env \<Rightarrow> nat \<Rightarrow> ('o, 'p, int) prog" where
  "native_mutex_unlock cfg sys mutex =
     (if WIN32 cfg then SYS0 sys (LeaveCriticalSection mutex) else SYS sys (pthread_mutex_unlock mutex))"

definition native_mutex_destroy :: "config \<Rightarrow> 'o sys_env \<Rightarrow> nat \<Rightarrow> ('o, 'p, int) prog" where
  "native_mutex_destroy cfg sys mutex =
     (if WIN32 cfg then SYS0 sys (DeleteCriticalSection mutex) else SYS sys (pthread_mutex_destroy mutex))"

text \<open>The debugging mutex and its assertions; false is a failed \<open>DBUG_ASSERT\<close>.\<close>

record safe_mutex =
  sm_global :: nat
  sm_mutex :: nat
  sm_file :: string
  sm_line :: nat
  sm_count :: nat
  sm_thread :: int

definition safe_mutex_assert_owner :: "config \<Rightarrow> 'o sys_env \<Rightarrow> safe_mutex \<Rightarrow> ('o, 'p, bool) prog" where
  "safe_mutex_assert_owner cfg sys mp =
     (if sm_count mp > 0 then do {
        self \<leftarrow> my_thread_self cfg sys;
        e \<leftarrow> my_thread_equal cfg sys self (sm_thread mp);
        ret (e \<noteq> 0)
      } else ret False)"

definition safe_mutex_assert_not_owner :: "config \<Rightarrow> 'o sys_env \<Rightarrow> safe_mutex \<Rightarrow> ('o, 'p, bool) prog" where
  "safe_mutex_assert_not_owner cfg sys mp =
     (if sm_count mp = 0 then ret True else do {
        self \<leftarrow> my_thread_self cfg sys;
        e \<leftarrow> my_thread_equal cfg sys self (sm_thread mp);
        ret (e = 0)
      })"

definition my_mutex_init ::
  "config \<Rightarrow> 'o sys_env \<Rightarrow> nat \<Rightarrow> nat option \<Rightarrow> string \<Rightarrow> nat \<Rightarrow> ('o, 'p, int) prog" where
  "my_mutex_init cfg sys mp attr file line =
     (if SAFE_MUTEX cfg then SYS sys (safe_mutex_init mp attr file line) else native_mutex_init cfg sys mp attr)"

definition my_mutex_lock :: "config \<Rightarrow> 'o sys_env \<Rightarrow> nat \<Rightarrow> string \<Rightarrow> nat \<Rightarrow> ('o, 'p, int) prog" where
  "my_mutex_lock cfg sys mp file line =
     (if SAFE_MUTEX cfg then SYS sys (safe_mutex_lock mp False file line) else native_mutex_lock cfg sys mp)"

definition my_mutex_trylock :: "config \<Rightarrow> 'o sys_env \<Rightarrow> nat \<Rightarrow> string \<Rightarrow> nat \<Rightarrow> ('o, 'p, int) prog" where
  "my_mutex_trylock cfg sys mp file line =
     (if SAFE_MUTEX cfg then SYS sys (safe_mutex_lock mp True file line) else native_mutex_trylock cfg sys mp)"

definition my_mutex_unlock :: "config \<Rightarrow> 'o sys_env \<Rightarrow> nat \<Rightarrow> string \<Rightarrow> nat \<Rightarrow> ('o, 'p, int) prog" where
  "my_mutex_unlock cfg sys mp file line =
     (if SAFE_MUTEX cfg then SYS sys (safe_mutex_unlock mp file line) else native_mutex_unlock cfg sys mp)"

definition my_mutex_destroy :: "config \<Rightarrow> 'o sys_env \<Rightarrow> nat \<Rightarrow> string \<Rightarrow> nat \<Rightarrow> ('o, 'p, int) prog" where
  "my_mutex_destroy cfg sys mp file line =
     (if SAFE_MUTEX cfg then SYS sys (safe_mutex_destroy mp file line) else native_mutex_destroy cfg sys mp)"

section \<open>Condition variables\<close>

text \<open>The timeout of a wait; a missing time without \<open>struct timespec\<close> does not read the clock.\<close>

definition wait_timeout :: "'o sys_env \<Rightarrow> abstime \<Rightarrow> ('o, 'p, 32 word) prog" where
  "wait_timeout sys abstime = (case abstime of
       Ts t \<Rightarrow> do { now \<leftarrow> SYS sys my_getsystime; ret (get_milliseconds t (word_of_int now)) }
     | Ft None \<Rightarrow> ret (get_milliseconds_ft None 0)
     | Ft (Some t) \<Rightarrow> do { now \<leftarrow> SYS sys GetSystemTimeAsFileTime; ret (get_milliseconds_ft (Some t) now) })"

definition native_cond_init :: "config \<Rightarrow> 'o sys_env \<Rightarrow> nat \<Rightarrow> ('o, 'p, int) prog" where
  "native_cond_init cfg sys cond =
     (if WIN32 cfg then SYS0 sys (InitializeConditionVariable cond) else SYS sys (pthread_cond_init cond))"

definition native_cond_destroy :: "config \<Rightarrow> 'o sys_env \<Rightarrow> nat \<Rightarrow> ('o, 'p, int) prog" where
  "native_cond_destroy cfg sys cond = (if WIN32 cfg then ret 0 else SYS sys (pthread_cond_destroy cond))"

definition native_cond_timedwait ::
  "config \<Rightarrow> 'o sys_env \<Rightarrow> nat \<Rightarrow> nat \<Rightarrow> abstime \<Rightarrow> ('o, 'p, int) prog" where
  "native_cond_timedwait cfg sys cond mutex abstime =
     (if WIN32 cfg then do {
        timeout \<leftarrow> wait_timeout sys abstime;
        ok \<leftarrow> SYS sys (SleepConditionVariableCS cond mutex timeout);
        if ok = 0 then ret (ETIMEDOUT cfg) else ret 0
      } else SYS sys (pthread_cond_timedwait cond mutex abstime))"

definition native_cond_wait :: "config \<Rightarrow> 'o sys_env \<Rightarrow> nat \<Rightarrow> nat \<Rightarrow> ('o, 'p, int) prog" where
  "native_cond_wait cfg sys cond mutex =
     (if WIN32 cfg then do {
        ok \<leftarrow> SYS sys (SleepConditionVariableCS cond mutex INFINITE);
        if ok = 0 then ret (ETIMEDOUT cfg) else ret 0
      } else SYS sys (pthread_cond_wait cond mutex))"

definition native_cond_signal :: "config \<Rightarrow> 'o sys_env \<Rightarrow> nat \<Rightarrow> ('o, 'p, int) prog" where
  "native_cond_signal cfg sys cond =
     (if WIN32 cfg then SYS0 sys (WakeConditionVariable cond) else SYS sys (pthread_cond_signal cond))"

definition native_cond_broadcast :: "config \<Rightarrow> 'o sys_env \<Rightarrow> nat \<Rightarrow> ('o, 'p, int) prog" where
  "native_cond_broadcast cfg sys cond =
     (if WIN32 cfg then SYS0 sys (WakeAllConditionVariable cond) else SYS sys (pthread_cond_broadcast cond))"

definition my_cond_timedwait ::
  "config \<Rightarrow> 'o sys_env \<Rightarrow> nat \<Rightarrow> nat \<Rightarrow> abstime \<Rightarrow> string \<Rightarrow> nat \<Rightarrow> ('o, 'p, int) prog" where
  "my_cond_timedwait cfg sys cond mp abstime file line =
     (if SAFE_MUTEX cfg then SYS sys (safe_cond_timedwait cond mp abstime file line)
      else native_cond_timedwait cfg sys cond mp abstime)"

definition my_cond_wait ::
  "config \<Rightarrow> 'o sys_env \<Rightarrow> nat \<Rightarrow> nat \<Rightarrow> string \<Rightarrow> nat \<Rightarrow> ('o, 'p, int) prog" where
  "my_cond_wait cfg sys cond mp file line =
     (if SAFE_MUTEX cfg then SYS sys (safe_cond_wait cond mp file line) else native_cond_wait cfg sys cond mp)"

section \<open>Read-write locks\<close>

definition native_rw_init :: "config \<Rightarrow> 'o sys_env \<Rightarrow> nat \<Rightarrow> ('o, 'p, int) prog" where
  "native_rw_init cfg sys rwp =
     (if WIN32 cfg then do {
        _ \<leftarrow> SYS sys (InitializeSRWLock rwp);
        _ \<leftarrow> set_exclusive rwp False;
        ret 0
      } else SYS sys (pthread_rwlock_init rwp))"

definition native_rw_destroy :: "config \<Rightarrow> 'o sys_env \<Rightarrow> nat \<Rightarrow> ('o, 'p, int) prog" where
  "native_rw_destroy cfg sys rwp = (if WIN32 cfg then ret 0 else SYS sys (pthread_rwlock_destroy rwp))"

definition native_rw_rdlock :: "config \<Rightarrow> 'o sys_env \<Rightarrow> nat \<Rightarrow> ('o, 'p, int) prog" where
  "native_rw_rdlock cfg sys rwp =
     (if WIN32 cfg then SYS0 sys (AcquireSRWLockShared rwp) else SYS sys (pthread_rwlock_rdlock rwp))"

definition native_rw_tryrdlock :: "config \<Rightarrow> 'o sys_env \<Rightarrow> nat \<Rightarrow> ('o, 'p, int) prog" where
  "native_rw_tryrdlock cfg sys rwp =
     (if WIN32 cfg then do {
        ok \<leftarrow> SYS sys (TryAcquireSRWLockShared rwp);
        if ok = 0 then ret (EBUSY cfg) else ret 0
      } else SYS sys (pthread_rwlock_tryrdlock rwp))"

definition native_rw_wrlock :: "config \<Rightarrow> 'o sys_env \<Rightarrow> nat \<Rightarrow> ('o, 'p, int) prog" where
  "native_rw_wrlock cfg sys rwp =
     (if WIN32 cfg then do {
        _ \<leftarrow> SYS sys (AcquireSRWLockExclusive rwp);
        _ \<leftarrow> set_exclusive rwp True;
        ret 0
      } else SYS sys (pthread_rwlock_wrlock rwp))"

definition native_rw_trywrlock :: "config \<Rightarrow> 'o sys_env \<Rightarrow> nat \<Rightarrow> ('o, 'p, int) prog" where
  "native_rw_trywrlock cfg sys rwp =
     (if WIN32 cfg then do {
        ok \<leftarrow> SYS sys (TryAcquireSRWLockExclusive rwp);
        if ok = 0 then ret (EBUSY cfg) else do {
          _ \<leftarrow> set_exclusive rwp True;
          ret 0
        }
      } else SYS sys (pthread_rwlock_trywrlock rwp))"

definition native_rw_unlock :: "config \<Rightarrow> 'o sys_env \<Rightarrow> nat \<Rightarrow> ('o, 'p, int) prog" where
  "native_rw_unlock cfg sys rwp =
     (if WIN32 cfg then do {
        exclusive \<leftarrow> get_exclusive rwp;
        if exclusive then do {
          _ \<leftarrow> set_exclusive rwp False;
          _ \<leftarrow> SYS sys (ReleaseSRWLockExclusive rwp);
          ret 0
        } else do {
          _ \<leftarrow> SYS sys (ReleaseSRWLockShared rwp);
          ret 0
        }
      } else SYS sys (pthread_rwlock_unlock rwp))"

text \<open>The lock that prefers readers: its fields and the assertions of debug builds.\<close>

record rw_pr_lock =
  pr_lock :: nat
  no_active_readers :: nat
  active_readers :: nat
  writers_waiting_readers :: nat
  active_writer :: bool
  writer_thread :: int

definition rw_pr_lock_assert_write_owner :: "config \<Rightarrow> 'o sys_env \<Rightarrow> rw_pr_lock \<Rightarrow> ('o, 'p, bool) prog" where
  "rw_pr_lock_assert_write_owner cfg sys rwlock =
     (if SAFE_MUTEX cfg then
        (if active_writer rwlock then do {
           self \<leftarrow> my_thread_self cfg sys;
           e \<leftarrow> my_thread_equal cfg sys self (writer_thread rwlock);
           ret (e \<noteq> 0)
         } else ret False)
      else ret True)"

definition rw_pr_lock_assert_not_write_owner :: "config \<Rightarrow> 'o sys_env \<Rightarrow> rw_pr_lock \<Rightarrow> ('o, 'p, bool) prog" where
  "rw_pr_lock_assert_not_write_owner cfg sys rwlock =
     (if SAFE_MUTEX cfg then
        (if \<not> active_writer rwlock then ret True else do {
           self \<leftarrow> my_thread_self cfg sys;
           e \<leftarrow> my_thread_equal cfg sys self (writer_thread rwlock);
           ret (e = 0)
         })
      else ret True)"

section \<open>None of them sees the instrumentation\<close>

lemmas native_mutex_defs = native_mutex_init_def native_mutex_lock_def native_mutex_trylock_def
  native_mutex_unlock_def native_mutex_destroy_def

lemmas my_mutex_defs = my_mutex_init_def my_mutex_lock_def my_mutex_trylock_def my_mutex_unlock_def
  my_mutex_destroy_def

lemmas native_cond_defs = native_cond_init_def native_cond_destroy_def native_cond_timedwait_def
  native_cond_wait_def native_cond_signal_def native_cond_broadcast_def wait_timeout_def

lemmas native_rw_defs = native_rw_init_def native_rw_destroy_def native_rw_rdlock_def native_rw_tryrdlock_def
  native_rw_wrlock_def native_rw_trywrlock_def native_rw_unlock_def

lemma sim_abstime [transparent]:
  assumes "\<And>t. sim (f t) (f' t)" "\<And>t. sim (g t) (g' t)"
  shows "sim (case a of Ts t \<Rightarrow> f t | Ft t \<Rightarrow> g t) (case a of Ts t \<Rightarrow> f' t | Ft t \<Rightarrow> g' t)"
  using assms by (simp split: abstime.split)

lemma quiet_abstime [accounted]:
  assumes "\<And>t. quiet (f t)" "\<And>t. quiet (g t)"
  shows "quiet (case a of Ts t \<Rightarrow> f t | Ft t \<Rightarrow> g t)"
  using assms by (simp split: abstime.split)

lemma native_mutex_sim [transparent]:
  "sim (native_mutex_init cfg sys m attr) (native_mutex_init cfg sys m attr)"
  "sim (native_mutex_lock cfg sys m) (native_mutex_lock cfg sys m)"
  "sim (native_mutex_trylock cfg sys m) (native_mutex_trylock cfg sys m)"
  "sim (native_mutex_unlock cfg sys m) (native_mutex_unlock cfg sys m)"
  "sim (native_mutex_destroy cfg sys m) (native_mutex_destroy cfg sys m)"
  unfolding native_mutex_defs by (intro transparent)+

lemma native_mutex_quiet [accounted]:
  "quiet (native_mutex_init cfg sys m attr)" "quiet (native_mutex_lock cfg sys m)"
  "quiet (native_mutex_trylock cfg sys m)" "quiet (native_mutex_unlock cfg sys m)"
  "quiet (native_mutex_destroy cfg sys m)"
  unfolding native_mutex_defs by (intro accounted)+

lemma my_mutex_sim [transparent]:
  "sim (my_mutex_init cfg sys m attr f l) (my_mutex_init cfg sys m attr f l)"
  "sim (my_mutex_lock cfg sys m f l) (my_mutex_lock cfg sys m f l)"
  "sim (my_mutex_trylock cfg sys m f l) (my_mutex_trylock cfg sys m f l)"
  "sim (my_mutex_unlock cfg sys m f l) (my_mutex_unlock cfg sys m f l)"
  "sim (my_mutex_destroy cfg sys m f l) (my_mutex_destroy cfg sys m f l)"
  unfolding my_mutex_defs by (intro transparent)+

lemma my_mutex_quiet [accounted]:
  "quiet (my_mutex_init cfg sys m attr f l)" "quiet (my_mutex_lock cfg sys m f l)"
  "quiet (my_mutex_trylock cfg sys m f l)" "quiet (my_mutex_unlock cfg sys m f l)"
  "quiet (my_mutex_destroy cfg sys m f l)"
  unfolding my_mutex_defs by (intro accounted)+

lemma native_cond_sim [transparent]:
  "sim (native_cond_init cfg sys c) (native_cond_init cfg sys c)"
  "sim (native_cond_destroy cfg sys c) (native_cond_destroy cfg sys c)"
  "sim (native_cond_timedwait cfg sys c m t) (native_cond_timedwait cfg sys c m t)"
  "sim (native_cond_wait cfg sys c m) (native_cond_wait cfg sys c m)"
  "sim (native_cond_signal cfg sys c) (native_cond_signal cfg sys c)"
  "sim (native_cond_broadcast cfg sys c) (native_cond_broadcast cfg sys c)"
  unfolding native_cond_defs by (intro transparent)+

lemma native_cond_quiet [accounted]:
  "quiet (native_cond_init cfg sys c)" "quiet (native_cond_destroy cfg sys c)"
  "quiet (native_cond_timedwait cfg sys c m t)" "quiet (native_cond_wait cfg sys c m)"
  "quiet (native_cond_signal cfg sys c)" "quiet (native_cond_broadcast cfg sys c)"
  unfolding native_cond_defs by (intro accounted)+

lemma my_cond_sim [transparent]:
  "sim (my_cond_timedwait cfg sys c m t f l) (my_cond_timedwait cfg sys c m t f l)"
  "sim (my_cond_wait cfg sys c m f l) (my_cond_wait cfg sys c m f l)"
  unfolding my_cond_timedwait_def my_cond_wait_def by (intro transparent)+

lemma my_cond_quiet [accounted]:
  "quiet (my_cond_timedwait cfg sys c m t f l)" "quiet (my_cond_wait cfg sys c m f l)"
  unfolding my_cond_timedwait_def my_cond_wait_def by (intro accounted)+

lemma native_rw_sim [transparent]:
  "sim (native_rw_init cfg sys m) (native_rw_init cfg sys m)"
  "sim (native_rw_destroy cfg sys m) (native_rw_destroy cfg sys m)"
  "sim (native_rw_rdlock cfg sys m) (native_rw_rdlock cfg sys m)"
  "sim (native_rw_tryrdlock cfg sys m) (native_rw_tryrdlock cfg sys m)"
  "sim (native_rw_wrlock cfg sys m) (native_rw_wrlock cfg sys m)"
  "sim (native_rw_trywrlock cfg sys m) (native_rw_trywrlock cfg sys m)"
  "sim (native_rw_unlock cfg sys m) (native_rw_unlock cfg sys m)"
  unfolding native_rw_defs by (intro transparent)+

lemma native_rw_quiet [accounted]:
  "quiet (native_rw_init cfg sys m)" "quiet (native_rw_destroy cfg sys m)"
  "quiet (native_rw_rdlock cfg sys m)" "quiet (native_rw_tryrdlock cfg sys m)"
  "quiet (native_rw_wrlock cfg sys m)" "quiet (native_rw_trywrlock cfg sys m)"
  "quiet (native_rw_unlock cfg sys m)"
  unfolding native_rw_defs by (intro accounted)+

end
