(* ===== verification/RwLock.thy ===== *)
theory RwLock
  imports NativeThreads
begin

text \<open>
  The read-write lock of \<open>thr_rwlock.h\<close> on Windows under concurrent threads. The lock of the
  system must be released in the mode in which it was acquired; the header remembers the mode in
  \<open>have_exclusive_srwlock\<close>, which it writes after the acquisition and before the release. The
  threads interleave between the two: the actions of the step relation are the calls and the accesses to the
  flag, in the order of the functions in \<open>NativeThreads\<close>.
\<close>

section \<open>The lock of the system\<close>

datatype srw_mode = Free | Shared nat | Exclusive

fun share :: "srw_mode \<Rightarrow> srw_mode" where
  "share Free = Shared 1"
| "share (Shared n) = Shared (n + 1)"
| "share Exclusive = Exclusive"

fun unshare :: "srw_mode \<Rightarrow> srw_mode" where
  "unshare (Shared n) = (if n \<le> 1 then Free else Shared (n - 1))"
| "unshare m = m"

fun shares :: "srw_mode \<Rightarrow> nat" where
  "shares (Shared n) = n"
| "shares m = 0"

text \<open>
  What is documented of an \<open>SRWLOCK\<close>, for the lock at an address \<open>l\<close> whose mode is observed by
  \<open>mode\<close>: an acquisition that returns had a compatible mode, the calls that try say whether they did, and a
  release is specified only for the mode that is held.
\<close>

definition srw_lock :: "'o sys_env \<Rightarrow> ('o \<Rightarrow> srw_mode) \<Rightarrow> nat \<Rightarrow> bool" where
  "srw_lock sys mode l \<longleftrightarrow>
     (\<forall>s. (mode s \<noteq> Exclusive \<longrightarrow> mode (snd (sys (AcquireSRWLockShared l) s)) = share (mode s))
      \<and> (mode s = Free \<longrightarrow> mode (snd (sys (AcquireSRWLockExclusive l) s)) = Exclusive)
      \<and> (case sys (TryAcquireSRWLockShared l) s of (r, s') \<Rightarrow>
           if mode s = Exclusive then r = 0 \<and> mode s' = mode s else r \<noteq> 0 \<and> mode s' = share (mode s))
      \<and> (case sys (TryAcquireSRWLockExclusive l) s of (r, s') \<Rightarrow>
           if mode s = Free then r \<noteq> 0 \<and> mode s' = Exclusive else r = 0 \<and> mode s' = mode s)
      \<and> (shares (mode s) > 0 \<longrightarrow> mode (snd (sys (ReleaseSRWLockShared l) s)) = unshare (mode s))
      \<and> (mode s = Exclusive \<longrightarrow> mode (snd (sys (ReleaseSRWLockExclusive l) s)) = Free))"

section \<open>Threads and their actions\<close>

text \<open>
  Where a thread is: not in the lock, reading, between the acquisition and the write of the flag, writing, and
  between clearing the flag and the release.
\<close>

datatype place = Outside | Reader | Acquired | Writer | Releasing

type_synonym ('o, 'p) threads = "('o, 'p) world \<times> (nat \<Rightarrow> place)"

abbreviation after :: "('o, 'p, 'a) prog \<Rightarrow> ('o, 'p) world \<Rightarrow> ('o, 'p) world" where
  "after m w \<equiv> snd (run_state m w)"

inductive rw_step :: "config \<Rightarrow> 'o sys_env \<Rightarrow> ('o \<Rightarrow> srw_mode) \<Rightarrow> nat \<Rightarrow> ('o, 'p) threads \<Rightarrow> ('o, 'p) threads \<Rightarrow> bool"
  for cfg sys mode l where
  rdlock: "pcs t = Outside \<Longrightarrow> mode (os_state w) \<noteq> Exclusive
    \<Longrightarrow> rw_step cfg sys mode l (w, pcs) (after (native_rw_rdlock cfg sys l) w, pcs(t := Reader))"
| tryrdlock: "pcs t = Outside \<Longrightarrow> run_state (native_rw_tryrdlock cfg sys l) w = (r, w')
    \<Longrightarrow> rw_step cfg sys mode l (w, pcs) (w', pcs(t := if r = 0 then Reader else Outside))"
| wrlock: "pcs t = Outside \<Longrightarrow> mode (os_state w) = Free
    \<Longrightarrow> rw_step cfg sys mode l (w, pcs) (after (SYS sys (AcquireSRWLockExclusive l)) w, pcs(t := Acquired))"
| trywrlock: "pcs t = Outside \<Longrightarrow> run_state (SYS sys (TryAcquireSRWLockExclusive l)) w = (r, w')
    \<Longrightarrow> rw_step cfg sys mode l (w, pcs) (w', pcs(t := if r \<noteq> 0 then Acquired else Outside))"
| set_flag: "pcs t = Acquired
    \<Longrightarrow> rw_step cfg sys mode l (w, pcs) (after (set_exclusive l True) w, pcs(t := Writer))"
| unlock_exclusive: "pcs t \<in> {Reader, Writer} \<Longrightarrow> fst (run_state (get_exclusive l) w)
    \<Longrightarrow> rw_step cfg sys mode l (w, pcs) (after (set_exclusive l False) w, pcs(t := Releasing))"
| unlock_shared: "pcs t \<in> {Reader, Writer} \<Longrightarrow> \<not> fst (run_state (get_exclusive l) w)
    \<Longrightarrow> rw_step cfg sys mode l (w, pcs) (after (SYS sys (ReleaseSRWLockShared l)) w, pcs(t := Outside))"
| release: "pcs t = Releasing
    \<Longrightarrow> rw_step cfg sys mode l (w, pcs) (after (SYS sys (ReleaseSRWLockExclusive l)) w, pcs(t := Outside))"

inductive_cases rw_stepE: "rw_step cfg sys mode l a b"

text \<open>The actions are those of the functions.\<close>

lemma native_rw_wrlock_actions:
  "WIN32 cfg \<Longrightarrow> after (native_rw_wrlock cfg sys l) w
    = after (set_exclusive l True) (after (SYS sys (AcquireSRWLockExclusive l)) w)"
  by (simp add: native_rw_wrlock_def split_beta)

lemma native_rw_trywrlock_actions:
  "WIN32 cfg \<Longrightarrow> run_state (SYS sys (TryAcquireSRWLockExclusive l)) w = (r, w')
    \<Longrightarrow> run_state (native_rw_trywrlock cfg sys l) w
      = (if r = 0 then (EBUSY cfg, w') else (0, after (set_exclusive l True) w'))"
  by (simp add: native_rw_trywrlock_def set_exclusive_def)

lemma native_rw_unlock_actions:
  "WIN32 cfg \<Longrightarrow> after (native_rw_unlock cfg sys l) w =
    (if fst (run_state (get_exclusive l) w)
     then after (SYS sys (ReleaseSRWLockExclusive l)) (after (set_exclusive l False) w)
     else after (SYS sys (ReleaseSRWLockShared l)) w)"
  by (simp add: native_rw_unlock_def get_exclusive_def split_beta)

section \<open>The invariant\<close>

definition owners :: "(nat \<Rightarrow> place) \<Rightarrow> nat set" where
  "owners pcs = {t. pcs t \<in> {Acquired, Writer, Releasing}}"

definition readers :: "(nat \<Rightarrow> place) \<Rightarrow> nat set" where
  "readers pcs = {t. pcs t = Reader}"

definition writers :: "(nat \<Rightarrow> place) \<Rightarrow> nat set" where
  "writers pcs = {t. pcs t = Writer}"

definition rw_inv :: "('o \<Rightarrow> srw_mode) \<Rightarrow> nat \<Rightarrow> ('o, 'p) threads \<Rightarrow> bool" where
  "rw_inv mode l = (\<lambda>(w, pcs).
     finite (readers pcs) \<and> card (readers pcs) = shares (mode (os_state w))
     \<and> (mode (os_state w) = Exclusive \<longleftrightarrow> owners pcs \<noteq> {})
     \<and> (mode (os_state w) \<noteq> Shared 0)
     \<and> (\<forall>t \<in> owners pcs. \<forall>u \<in> owners pcs. t = u)
     \<and> (have_exclusive_srwlock w l \<longleftrightarrow> writers pcs \<noteq> {}))"

definition rw_start :: "('o \<Rightarrow> srw_mode) \<Rightarrow> nat \<Rightarrow> ('o, 'p) threads \<Rightarrow> bool" where
  "rw_start mode l = (\<lambda>(w, pcs). mode (os_state w) = Free \<and> \<not> have_exclusive_srwlock w l \<and> pcs = (\<lambda>_. Outside))"

lemma rw_start_inv: "rw_start mode l c \<Longrightarrow> rw_inv mode l c"
  by (auto simp: rw_start_def rw_inv_def readers_def owners_def writers_def)

lemma owners_upd: "owners (pcs(t := p)) = (if p \<in> {Acquired, Writer, Releasing} then insert t (owners pcs) else owners pcs - {t})"
  by (auto simp: owners_def)

lemma readers_upd: "readers (pcs(t := p)) = (if p = Reader then insert t (readers pcs) else readers pcs - {t})"
  by (auto simp: readers_def)

lemma writers_upd: "writers (pcs(t := p)) = (if p = Writer then insert t (writers pcs) else writers pcs - {t})"
  by (auto simp: writers_def)

lemma writers_owners: "writers pcs \<subseteq> owners pcs"
  by (auto simp: writers_def owners_def)

lemma place_sets:
  "t \<in> owners pcs \<longleftrightarrow> pcs t \<in> {Acquired, Writer, Releasing}" "t \<in> readers pcs \<longleftrightarrow> pcs t = Reader"
  "t \<in> writers pcs \<longleftrightarrow> pcs t = Writer"
  by (auto simp: owners_def readers_def writers_def)


lemma run_SYS: "run_state (SYS sys c) w = (fst (sys c (os_state w)), w\<lparr>os_state := snd (sys c (os_state w))\<rparr>)"
  by (simp add: SYS_def os_do_def split_beta)

lemma share_facts:
  "m \<noteq> Exclusive \<Longrightarrow> shares (share m) = shares m + 1" "share m = Exclusive \<longleftrightarrow> m = Exclusive" "share m \<noteq> Shared 0"
  by (cases m; simp)+

lemma unshare_facts:
  "0 < shares m \<Longrightarrow> shares (unshare m) = shares m - 1" "0 < shares m \<Longrightarrow> unshare m \<noteq> Exclusive"
  "0 < shares m \<Longrightarrow> unshare m \<noteq> Shared 0" "0 < shares m \<Longrightarrow> m \<noteq> Exclusive"
  by (cases m; simp)+

lemma inv_outside:
  assumes "rw_inv mode l (w, pcs)" "pcs t = Outside" "mode (os_state w') = mode (os_state w)"
    "have_exclusive_srwlock w' l = have_exclusive_srwlock w l"
  shows "rw_inv mode l (w', pcs(t := Outside))"
proof -
  have "pcs(t := Outside) = pcs" using assms(2) by auto
  then show ?thesis using assms by (simp add: rw_inv_def)
qed

lemma inv_enter_reader:
  assumes inv: "rw_inv mode l (w, pcs)" and t: "pcs t = Outside" and free: "mode (os_state w) \<noteq> Exclusive"
    and w': "mode (os_state w') = share (mode (os_state w))"
      "have_exclusive_srwlock w' l = have_exclusive_srwlock w l"
  shows "rw_inv mode l (w', pcs(t := Reader))"
proof -
  have "t \<notin> readers pcs" using t by (simp add: place_sets)
  moreover have "owners pcs = {}" using inv free by (simp add: rw_inv_def)
  moreover then have "writers pcs = {}" using writers_owners [of pcs] by simp
  ultimately show ?thesis
    using inv free by (simp add: rw_inv_def w' owners_upd readers_upd writers_upd share_facts)
qed

lemma inv_acquire:
  assumes inv: "rw_inv mode l (w, pcs)" and t: "pcs t = Outside" and free: "mode (os_state w) = Free"
    and w': "mode (os_state w') = Exclusive" "have_exclusive_srwlock w' l = have_exclusive_srwlock w l"
  shows "rw_inv mode l (w', pcs(t := Acquired))"
proof -
  have "readers pcs = {}" "owners pcs = {}" using inv free by (auto simp: rw_inv_def)
  moreover then have "writers pcs = {}" using writers_owners [of pcs] by simp
  ultimately show ?thesis
    using inv by (simp add: rw_inv_def w' owners_upd readers_upd writers_upd)
qed

lemma rw_invD:
  assumes "rw_inv mode l (w, pcs)"
  shows "finite (readers pcs)" "card (readers pcs) = shares (mode (os_state w))"
    "mode (os_state w) = Exclusive \<longleftrightarrow> owners pcs \<noteq> {}"
    "t \<in> owners pcs \<Longrightarrow> u \<in> owners pcs \<Longrightarrow> t = u"
    "have_exclusive_srwlock w l \<longleftrightarrow> writers pcs \<noteq> {}"
  using assms unfolding rw_inv_def prod.case by blast+

lemma inv_owner:
  assumes "rw_inv mode l (w, pcs)" "t \<in> owners pcs"
  shows "owners pcs = {t}" "writers pcs - {t} = {}" "mode (os_state w) = Exclusive" "readers pcs = {}"
proof -
  show only: "owners pcs = {t}" using rw_invD(4) [OF assms(1) assms(2)] assms(2) by blast
  show "writers pcs - {t} = {}" using only writers_owners [of pcs] by blast
  show excl: "mode (os_state w) = Exclusive" using rw_invD(3) [OF assms(1)] assms(2) by blast
  show "readers pcs = {}" using rw_invD(1,2) [OF assms(1)] excl by simp
qed

lemma inv_move_owner:
  assumes inv: "rw_inv mode l (w, pcs)" and t: "t \<in> owners pcs" and p: "p \<in> {Writer, Releasing}"
    and w': "os_state w' = os_state w" "have_exclusive_srwlock w' l \<longleftrightarrow> p = Writer"
  shows "rw_inv mode l (w', pcs(t := p))"
  using p inv_owner [OF inv t] by (auto simp: rw_inv_def w' owners_upd readers_upd writers_upd)

lemma inv_release:
  assumes inv: "rw_inv mode l (w, pcs)" and t: "pcs t = Releasing"
    and w': "mode (os_state w') = Free" "have_exclusive_srwlock w' l = have_exclusive_srwlock w l"
  shows "rw_inv mode l (w', pcs(t := Outside))"
proof -
  have own: "t \<in> owners pcs" and "t \<notin> writers pcs" using t by (simp_all add: place_sets)
  with inv_owner(2) [OF inv own] have "writers pcs = {}" by blast
  then show ?thesis
    using inv inv_owner [OF inv own] by (simp add: rw_inv_def w' owners_upd readers_upd writers_upd)
qed

lemma reader_shares:
  assumes "rw_inv mode l (w, pcs)" "pcs t = Reader"
  shows "0 < shares (mode (os_state w))"
proof -
  have "t \<in> readers pcs" using assms(2) by (simp add: place_sets)
  then show ?thesis using rw_invD(1,2) [OF assms(1)] by (metis card_gt_0_iff empty_iff)
qed

lemma reader_no_flag:
  assumes "rw_inv mode l (w, pcs)" "pcs t = Reader"
  shows "\<not> have_exclusive_srwlock w l" "owners pcs = {}"
proof -
  show "owners pcs = {}"
    using assms(1) unshare_facts(4) [OF reader_shares [OF assms]] by (simp add: rw_inv_def)
  then show "\<not> have_exclusive_srwlock w l"
    using assms(1) writers_owners [of pcs] by (simp add: rw_inv_def)
qed

lemma inv_leave_reader:
  assumes inv: "rw_inv mode l (w, pcs)" and t: "pcs t = Reader"
    and w': "mode (os_state w') = unshare (mode (os_state w))"
      "have_exclusive_srwlock w' l = have_exclusive_srwlock w l"
  shows "rw_inv mode l (w', pcs(t := Outside))"
proof -
  have r: "t \<in> readers pcs" and no: "owners pcs = {}" "writers pcs = {}"
    using t reader_no_flag(2) [OF inv t] writers_owners [of pcs] by (simp_all add: place_sets)
  show ?thesis
    using inv r unshare_facts [OF reader_shares [OF inv t]]
    by (simp add: rw_inv_def w' no owners_upd readers_upd writers_upd)
qed

lemma srw_lockD:
  assumes "srw_lock sys mode l"
  shows "mode s \<noteq> Exclusive \<Longrightarrow> mode (snd (sys (AcquireSRWLockShared l) s)) = share (mode s)"
    "mode s = Free \<Longrightarrow> mode (snd (sys (AcquireSRWLockExclusive l) s)) = Exclusive"
    "fst (sys (TryAcquireSRWLockShared l) s) = 0 \<Longrightarrow> mode (snd (sys (TryAcquireSRWLockShared l) s)) = mode s"
    "fst (sys (TryAcquireSRWLockShared l) s) \<noteq> 0
      \<Longrightarrow> mode s \<noteq> Exclusive \<and> mode (snd (sys (TryAcquireSRWLockShared l) s)) = share (mode s)"
    "fst (sys (TryAcquireSRWLockExclusive l) s) = 0 \<Longrightarrow> mode (snd (sys (TryAcquireSRWLockExclusive l) s)) = mode s"
    "fst (sys (TryAcquireSRWLockExclusive l) s) \<noteq> 0
      \<Longrightarrow> mode s = Free \<and> mode (snd (sys (TryAcquireSRWLockExclusive l) s)) = Exclusive"
    "0 < shares (mode s) \<Longrightarrow> mode (snd (sys (ReleaseSRWLockShared l) s)) = unshare (mode s)"
    "mode s = Exclusive \<Longrightarrow> mode (snd (sys (ReleaseSRWLockExclusive l) s)) = Free"
  using assms [unfolded srw_lock_def, rule_format, of s] by (simp_all add: case_prod_beta split: if_splits)

lemma try_read_inv:
  assumes lock: "srw_lock sys mode l" and win: "WIN32 cfg" "EBUSY cfg \<noteq> 0" and inv: "rw_inv mode l (w, pcs)"
    and t: "pcs t = Outside" and got: "run_state (native_rw_tryrdlock cfg sys l) w = (r, w')"
  shows "rw_inv mode l (w', pcs(t := if r = 0 then Reader else Outside))"
proof -
  let ?c = "sys (TryAcquireSRWLockShared l) (os_state w)"
  have r: "w' = w\<lparr>os_state := snd ?c\<rparr>" "r = (if fst ?c = 0 then EBUSY cfg else 0)"
    using got win by (auto simp: native_rw_tryrdlock_def run_SYS split: if_splits)
  show ?thesis
  proof (cases "fst ?c = 0")
    case True
    with r(2) win have "r \<noteq> 0" by simp
    then show ?thesis using srw_lockD(3) [OF lock True] by (simp add: inv_outside [OF inv t] r(1))
  next
    case False
    with r(2) have "r = 0" by simp
    then show ?thesis using srw_lockD(4) [OF lock False] by (simp add: inv_enter_reader [OF inv t] r(1))
  qed
qed

lemma try_write_inv:
  assumes lock: "srw_lock sys mode l" and inv: "rw_inv mode l (w, pcs)" and t: "pcs t = Outside"
    and got: "run_state (SYS sys (TryAcquireSRWLockExclusive l)) w = (r, w')"
  shows "rw_inv mode l (w', pcs(t := if r \<noteq> 0 then Acquired else Outside))"
proof -
  have r: "w' = w\<lparr>os_state := snd (sys (TryAcquireSRWLockExclusive l) (os_state w))\<rparr>"
      "r = fst (sys (TryAcquireSRWLockExclusive l) (os_state w))"
    using got by (auto simp: run_SYS)
  show ?thesis
  proof (cases "r = 0")
    case True
    then show ?thesis
      using srw_lockD(5) [OF lock, of "os_state w"] by (simp add: inv_outside [OF inv t] r)
  next
    case False
    then show ?thesis
      using srw_lockD(6) [OF lock, of "os_state w"] by (simp add: inv_acquire [OF inv t] r)
  qed
qed

lemma unlock_shared_inv:
  assumes lock: "srw_lock sys mode l" and inv: "rw_inv mode l (w, pcs)" and t: "pcs t \<in> {Reader, Writer}"
    and flag: "\<not> fst (run_state (get_exclusive l) w)"
  shows "rw_inv mode l (after (SYS sys (ReleaseSRWLockShared l)) w, pcs(t := Outside))"
proof -
  have "t \<notin> writers pcs" using inv flag by (auto simp: get_exclusive_def rw_inv_def)
  then have r: "pcs t = Reader" using t by (simp add: place_sets)
  show ?thesis
    using srw_lockD(7) [OF lock reader_shares [OF inv r]] by (simp add: inv_leave_reader [OF inv r] run_SYS)
qed

lemma rw_step_inv:
  assumes lock: "srw_lock sys mode l" and win: "WIN32 cfg" "EBUSY cfg \<noteq> 0"
    and step: "rw_step cfg sys mode l c c'" and inv: "rw_inv mode l c"
  shows "rw_inv mode l c'"
  using step
proof cases
  case (rdlock pcs t w)
  show ?thesis
    unfolding rdlock(2) using win
    by (intro inv_enter_reader [OF inv [unfolded rdlock(1)] rdlock(3,4)])
      (simp_all add: native_rw_rdlock_def SYS0_def run_SYS srw_lockD(1) [OF lock rdlock(4)])
next
  case (tryrdlock pcs t w r w')
  show ?thesis
    unfolding tryrdlock(2) by (rule try_read_inv [OF lock win inv [unfolded tryrdlock(1)] tryrdlock(3,4)])
next
  case (wrlock pcs t w)
  show ?thesis
    unfolding wrlock(2) using srw_lockD(2) [OF lock wrlock(4)]
    by (simp add: inv_acquire [OF inv [unfolded wrlock(1)] wrlock(3,4)] run_SYS)
next
  case (trywrlock pcs t w r w')
  show ?thesis
    unfolding trywrlock(2) by (rule try_write_inv [OF lock inv [unfolded trywrlock(1)] trywrlock(3,4)])
next
  case (set_flag pcs t w)
  then have own: "t \<in> owners pcs" by (simp add: place_sets)
  show ?thesis
    unfolding set_flag(2) by (rule inv_move_owner [OF inv [unfolded set_flag(1)] own]) (simp_all add: set_exclusive_def)
next
  case (unlock_exclusive pcs t w)
  then have "pcs t = Writer"
    using reader_no_flag(1) [OF inv [unfolded unlock_exclusive(1)], of t] by (auto simp: get_exclusive_def)
  then have own: "t \<in> owners pcs" by (simp add: place_sets)
  show ?thesis
    unfolding unlock_exclusive(2)
    by (rule inv_move_owner [OF inv [unfolded unlock_exclusive(1)] own]) (simp_all add: set_exclusive_def)
next
  case (unlock_shared pcs t w)
  show ?thesis
    unfolding unlock_shared(2) by (rule unlock_shared_inv [OF lock inv [unfolded unlock_shared(1)] unlock_shared(3,4)])
next
  case (release pcs t w)
  then have own: "t \<in> owners pcs" by (simp add: place_sets)
  show ?thesis
    unfolding release(2) using srw_lockD(8) [OF lock inv_owner(3) [OF inv [unfolded release(1)] own]]
    by (simp add: inv_release [OF inv [unfolded release(1)] release(3)] run_SYS)
qed

lemma rw_reachable_inv:
  assumes lock: "srw_lock sys mode l" "WIN32 cfg" "EBUSY cfg \<noteq> 0" and start: "rw_start mode l c0"
    and reach: "(rw_step cfg sys mode l)\<^sup>*\<^sup>* c0 c"
  shows "rw_inv mode l c"
  using reach by induction (auto intro: rw_start_inv [OF start] rw_step_inv [OF lock])

text \<open>
  C21. However the threads interleave, the lock is released in the mode in which it is held. In every
  state that can be reached, a thread that reads finds the flag clear and the lock shared, a thread that writes
  finds the flag set and the lock exclusive, no two threads are in the lock while one writes, and
  a thread on its way to the exclusive release still holds the lock exclusively.
\<close>

theorem rw_unlock_mode:
  assumes "srw_lock sys mode l" "WIN32 cfg" "EBUSY cfg \<noteq> 0" "rw_start mode l c0"
    "(rw_step cfg sys mode l)\<^sup>*\<^sup>* c0 (w, pcs)"
  shows "(pcs t = Reader \<longrightarrow> \<not> have_exclusive_srwlock w l \<and> 0 < shares (mode (os_state w)))
    \<and> (pcs t = Writer \<longrightarrow> have_exclusive_srwlock w l)
    \<and> (pcs t \<in> {Acquired, Writer, Releasing} \<longrightarrow> mode (os_state w) = Exclusive \<and> (\<forall>u. u \<noteq> t \<longrightarrow> pcs u = Outside))"
proof -
  have inv: "rw_inv mode l (w, pcs)" using assms by (rule rw_reachable_inv)
  have "pcs u = Outside" if "t \<in> owners pcs" "u \<noteq> t" for u
  proof -
    have "u \<notin> owners pcs" "u \<notin> readers pcs" using inv_owner(1,4) [OF inv that(1)] that(2) by simp_all
    then show ?thesis by (cases "pcs u") (simp_all add: place_sets)
  qed
  then have own: "mode (os_state w) = Exclusive \<and> (\<forall>u. u \<noteq> t \<longrightarrow> pcs u = Outside)"
    if "t \<in> owners pcs"
    using that inv_owner(3) [OF inv that] by blast
  have flag: "pcs t = Writer \<Longrightarrow> have_exclusive_srwlock w l"
    using rw_invD(5) [OF inv] by (auto simp: writers_def)
  have in_owners: "pcs t \<in> {Acquired, Writer, Releasing} \<Longrightarrow> t \<in> owners pcs"
    by (simp only: place_sets(1))
  show ?thesis
    by (intro conjI impI allI)
      (use reader_no_flag(1) [OF inv] reader_shares [OF inv] flag own in_owners in blast)+
qed

text \<open>A lock of the system: its state is the mode.\<close>

fun srw_sys :: "os_call \<Rightarrow> srw_mode \<Rightarrow> int \<times> srw_mode" where
  "srw_sys (AcquireSRWLockShared _) m = (0, share m)"
| "srw_sys (TryAcquireSRWLockShared _) m = (if m = Exclusive then (0, m) else (1, share m))"
| "srw_sys (AcquireSRWLockExclusive _) m = (0, Exclusive)"
| "srw_sys (TryAcquireSRWLockExclusive _) m = (if m = Free then (1, Exclusive) else (0, m))"
| "srw_sys (ReleaseSRWLockShared _) m = (0, unshare m)"
| "srw_sys (ReleaseSRWLockExclusive _) m = (0, Free)"
| "srw_sys _ m = (0, m)"

lemma srw_sys_lock: "srw_lock srw_sys (\<lambda>m. m) l"
  by (simp add: srw_lock_def)

definition free_world :: "(srw_mode, unit) world" where
  "free_world = \<lparr>os_state = Free, psi_state = (), m_psi = (\<lambda>_. None), have_exclusive_srwlock = (\<lambda>_. False),
     DisconnectEx_ptr = None, m_file = (\<lambda>_. 0)\<rparr>"

theorem rw_unlock_mode_witness:
  "have_exclusive_srwlock (free_world\<lparr>os_state := Exclusive, have_exclusive_srwlock := (\<lambda>_. False)(0 := True)\<rparr>) 0"
proof -
  let ?w1 = "free_world\<lparr>os_state := Exclusive\<rparr>"
  let ?w2 = "?w1\<lparr>have_exclusive_srwlock := (\<lambda>_. False)(0 := True)\<rparr>"
  have start: "rw_start (\<lambda>m. m) 0 (free_world, \<lambda>_. Outside)" by (simp add: rw_start_def free_world_def)
  have 1: "rw_step win_config srw_sys (\<lambda>m. m) 0 (free_world, \<lambda>_. Outside) (?w1, (\<lambda>_. Outside)(7 := Acquired))"
    using rw_step.wrlock [of "\<lambda>_. Outside" 7 "\<lambda>m. m" free_world win_config srw_sys 0]
    by (simp add: run_SYS free_world_def)
  have 2: "rw_step win_config srw_sys (\<lambda>m. m) 0 (?w1, (\<lambda>_. Outside)(7 := Acquired)) (?w2, (\<lambda>_. Outside)(7 := Writer))"
    using rw_step.set_flag [of "(\<lambda>_. Outside)(7 := Acquired)" 7 win_config srw_sys "\<lambda>m. m" 0 ?w1]
    by (simp add: set_exclusive_def free_world_def)
  have "(rw_step win_config srw_sys (\<lambda>m. m) 0)\<^sup>*\<^sup>* (free_world, \<lambda>_. Outside) (?w2, (\<lambda>_. Outside)(7 := Writer))"
    using 1 2 by (meson converse_rtranclp_into_rtranclp rtranclp.rtrancl_refl)
  from rw_unlock_mode [OF srw_sys_lock _ _ start this, of 7] show ?thesis by (simp add: win_config_def)
qed

end
