(* ===== verification/PsiThread.thy ===== *)
theory PsiThread
  imports NativeThreads
begin

text \<open>
  \<open>MySQL Server 5.7/include/mysql/psi/mysql_thread.h\<close>: the instrumented mutexes, read-write
  locks, condition variables and threads. A structure \<open>mysql_mutex_t\<close> and its like is its address \<open>a\<close>: the
  real object has the same address, and the hook \<open>m_psi\<close> is kept in the world. The file and line the
  macros pass are arguments.
\<close>

section \<open>Mutexes\<close>

definition inline_mysql_mutex_register ::
  "config \<Rightarrow> 'o sys_env \<Rightarrow> 'p psi_env \<Rightarrow> string \<Rightarrow> nat \<Rightarrow> int \<Rightarrow> ('o, 'p, unit) prog" where
  "inline_mysql_mutex_register cfg sys psi category info count =
     (if HAVE_PSI_MUTEX_INTERFACE cfg then psi_do psi (register_mutex category info count) else ret ())"

definition inline_mysql_mutex_init ::
  "config \<Rightarrow> 'o sys_env \<Rightarrow> 'p psi_env \<Rightarrow> nat \<Rightarrow> nat \<Rightarrow> nat option \<Rightarrow> string \<Rightarrow> nat \<Rightarrow> ('o, 'p, int) prog" where
  "inline_mysql_mutex_init cfg sys psi key a attr src_file src_line =
     do {
       p \<leftarrow> (if HAVE_PSI_MUTEX_INTERFACE cfg then PSI_CALL psi (init_mutex key a) else ret None);
       _ \<leftarrow> set_m_psi a p;
       my_mutex_init cfg sys a attr src_file src_line
     }"

definition inline_mysql_mutex_destroy ::
  "config \<Rightarrow> 'o sys_env \<Rightarrow> 'p psi_env \<Rightarrow> nat \<Rightarrow> string \<Rightarrow> nat \<Rightarrow> ('o, 'p, int) prog" where
  "inline_mysql_mutex_destroy cfg sys psi a src_file src_line =
     do {
       hook \<leftarrow> hook_of (HAVE_PSI_MUTEX_INTERFACE cfg) a;
       _ \<leftarrow> if_hook hook (\<lambda>p. do { _ \<leftarrow> psi_do psi (destroy_mutex p); set_m_psi a None });
       my_mutex_destroy cfg sys a src_file src_line
     }"

definition inline_mysql_mutex_lock ::
  "config \<Rightarrow> 'o sys_env \<Rightarrow> 'p psi_env \<Rightarrow> nat \<Rightarrow> string \<Rightarrow> nat \<Rightarrow> ('o, 'p, int) prog" where
  "inline_mysql_mutex_lock cfg sys psi a src_file src_line =
     do {
       hook \<leftarrow> hook_of (HAVE_PSI_MUTEX_INTERFACE cfg) a;
       instrumented hook
         (\<lambda>p. PSI_CALL psi (start_mutex_wait p PSI_MUTEX_LOCK src_file src_line))
         (my_mutex_lock cfg sys a src_file src_line)
         (\<lambda>locker result. psi_do psi (end_mutex_wait locker result))
     }"

definition inline_mysql_mutex_trylock ::
  "config \<Rightarrow> 'o sys_env \<Rightarrow> 'p psi_env \<Rightarrow> nat \<Rightarrow> string \<Rightarrow> nat \<Rightarrow> ('o, 'p, int) prog" where
  "inline_mysql_mutex_trylock cfg sys psi a src_file src_line =
     do {
       hook \<leftarrow> hook_of (HAVE_PSI_MUTEX_INTERFACE cfg) a;
       instrumented hook
         (\<lambda>p. PSI_CALL psi (start_mutex_wait p PSI_MUTEX_TRYLOCK src_file src_line))
         (my_mutex_trylock cfg sys a src_file src_line)
         (\<lambda>locker result. psi_do psi (end_mutex_wait locker result))
     }"

definition inline_mysql_mutex_unlock ::
  "config \<Rightarrow> 'o sys_env \<Rightarrow> 'p psi_env \<Rightarrow> nat \<Rightarrow> string \<Rightarrow> nat \<Rightarrow> ('o, 'p, int) prog" where
  "inline_mysql_mutex_unlock cfg sys psi a src_file src_line =
     do {
       hook \<leftarrow> hook_of (HAVE_PSI_MUTEX_INTERFACE cfg) a;
       _ \<leftarrow> if_hook hook (\<lambda>p. psi_do psi (unlock_mutex p));
       my_mutex_unlock cfg sys a src_file src_line
     }"

section \<open>Read-write locks\<close>

definition inline_mysql_rwlock_register ::
  "config \<Rightarrow> 'o sys_env \<Rightarrow> 'p psi_env \<Rightarrow> string \<Rightarrow> nat \<Rightarrow> int \<Rightarrow> ('o, 'p, unit) prog" where
  "inline_mysql_rwlock_register cfg sys psi category info count =
     (if HAVE_PSI_RWLOCK_INTERFACE cfg then psi_do psi (register_rwlock category info count) else ret ())"

definition inline_mysql_rwlock_init ::
  "config \<Rightarrow> 'o sys_env \<Rightarrow> 'p psi_env \<Rightarrow> nat \<Rightarrow> nat \<Rightarrow> ('o, 'p, int) prog" where
  "inline_mysql_rwlock_init cfg sys psi key a =
     do {
       p \<leftarrow> (if HAVE_PSI_RWLOCK_INTERFACE cfg then PSI_CALL psi (init_rwlock key a) else ret None);
       _ \<leftarrow> set_m_psi a p;
       native_rw_init cfg sys a
     }"

definition inline_mysql_prlock_init ::
  "config \<Rightarrow> 'o sys_env \<Rightarrow> 'p psi_env \<Rightarrow> nat \<Rightarrow> nat \<Rightarrow> ('o, 'p, int) prog" where
  "inline_mysql_prlock_init cfg sys psi key a =
     do {
       p \<leftarrow> (if HAVE_PSI_RWLOCK_INTERFACE cfg then PSI_CALL psi (init_rwlock key a) else ret None);
       _ \<leftarrow> set_m_psi a p;
       SYS sys (rw_pr_init a)
     }"

definition inline_mysql_rwlock_destroy ::
  "config \<Rightarrow> 'o sys_env \<Rightarrow> 'p psi_env \<Rightarrow> nat \<Rightarrow> ('o, 'p, int) prog" where
  "inline_mysql_rwlock_destroy cfg sys psi a =
     do {
       hook \<leftarrow> hook_of (HAVE_PSI_RWLOCK_INTERFACE cfg) a;
       _ \<leftarrow> if_hook hook (\<lambda>p. do { _ \<leftarrow> psi_do psi (destroy_rwlock p); set_m_psi a None });
       native_rw_destroy cfg sys a
     }"

definition inline_mysql_prlock_destroy ::
  "config \<Rightarrow> 'o sys_env \<Rightarrow> 'p psi_env \<Rightarrow> nat \<Rightarrow> ('o, 'p, int) prog" where
  "inline_mysql_prlock_destroy cfg sys psi a =
     do {
       hook \<leftarrow> hook_of (HAVE_PSI_RWLOCK_INTERFACE cfg) a;
       _ \<leftarrow> if_hook hook (\<lambda>p. do { _ \<leftarrow> psi_do psi (destroy_rwlock p); set_m_psi a None });
       SYS sys (rw_pr_destroy a)
     }"

definition inline_mysql_rwlock_rdlock ::
  "config \<Rightarrow> 'o sys_env \<Rightarrow> 'p psi_env \<Rightarrow> nat \<Rightarrow> string \<Rightarrow> nat \<Rightarrow> ('o, 'p, int) prog" where
  "inline_mysql_rwlock_rdlock cfg sys psi a src_file src_line =
     do {
       hook \<leftarrow> hook_of (HAVE_PSI_RWLOCK_INTERFACE cfg) a;
       instrumented hook
         (\<lambda>p. PSI_CALL psi (start_rwlock_rdwait p PSI_RWLOCK_READLOCK src_file src_line))
         (native_rw_rdlock cfg sys a)
         (\<lambda>locker result. psi_do psi (end_rwlock_rdwait locker result))
     }"

definition inline_mysql_prlock_rdlock ::
  "config \<Rightarrow> 'o sys_env \<Rightarrow> 'p psi_env \<Rightarrow> nat \<Rightarrow> string \<Rightarrow> nat \<Rightarrow> ('o, 'p, int) prog" where
  "inline_mysql_prlock_rdlock cfg sys psi a src_file src_line =
     do {
       hook \<leftarrow> hook_of (HAVE_PSI_RWLOCK_INTERFACE cfg) a;
       instrumented hook
         (\<lambda>p. PSI_CALL psi (start_rwlock_rdwait p PSI_RWLOCK_READLOCK src_file src_line))
         (SYS sys (rw_pr_rdlock a))
         (\<lambda>locker result. psi_do psi (end_rwlock_rdwait locker result))
     }"

definition inline_mysql_rwlock_wrlock ::
  "config \<Rightarrow> 'o sys_env \<Rightarrow> 'p psi_env \<Rightarrow> nat \<Rightarrow> string \<Rightarrow> nat \<Rightarrow> ('o, 'p, int) prog" where
  "inline_mysql_rwlock_wrlock cfg sys psi a src_file src_line =
     do {
       hook \<leftarrow> hook_of (HAVE_PSI_RWLOCK_INTERFACE cfg) a;
       instrumented hook
         (\<lambda>p. PSI_CALL psi (start_rwlock_wrwait p PSI_RWLOCK_WRITELOCK src_file src_line))
         (native_rw_wrlock cfg sys a)
         (\<lambda>locker result. psi_do psi (end_rwlock_wrwait locker result))
     }"

definition inline_mysql_prlock_wrlock ::
  "config \<Rightarrow> 'o sys_env \<Rightarrow> 'p psi_env \<Rightarrow> nat \<Rightarrow> string \<Rightarrow> nat \<Rightarrow> ('o, 'p, int) prog" where
  "inline_mysql_prlock_wrlock cfg sys psi a src_file src_line =
     do {
       hook \<leftarrow> hook_of (HAVE_PSI_RWLOCK_INTERFACE cfg) a;
       instrumented hook
         (\<lambda>p. PSI_CALL psi (start_rwlock_wrwait p PSI_RWLOCK_WRITELOCK src_file src_line))
         (SYS sys (rw_pr_wrlock a))
         (\<lambda>locker result. psi_do psi (end_rwlock_wrwait locker result))
     }"

definition inline_mysql_rwlock_tryrdlock ::
  "config \<Rightarrow> 'o sys_env \<Rightarrow> 'p psi_env \<Rightarrow> nat \<Rightarrow> string \<Rightarrow> nat \<Rightarrow> ('o, 'p, int) prog" where
  "inline_mysql_rwlock_tryrdlock cfg sys psi a src_file src_line =
     do {
       hook \<leftarrow> hook_of (HAVE_PSI_RWLOCK_INTERFACE cfg) a;
       instrumented hook
         (\<lambda>p. PSI_CALL psi (start_rwlock_rdwait p PSI_RWLOCK_TRYREADLOCK src_file src_line))
         (native_rw_tryrdlock cfg sys a)
         (\<lambda>locker result. psi_do psi (end_rwlock_rdwait locker result))
     }"

definition inline_mysql_rwlock_trywrlock ::
  "config \<Rightarrow> 'o sys_env \<Rightarrow> 'p psi_env \<Rightarrow> nat \<Rightarrow> string \<Rightarrow> nat \<Rightarrow> ('o, 'p, int) prog" where
  "inline_mysql_rwlock_trywrlock cfg sys psi a src_file src_line =
     do {
       hook \<leftarrow> hook_of (HAVE_PSI_RWLOCK_INTERFACE cfg) a;
       instrumented hook
         (\<lambda>p. PSI_CALL psi (start_rwlock_wrwait p PSI_RWLOCK_TRYWRITELOCK src_file src_line))
         (native_rw_trywrlock cfg sys a)
         (\<lambda>locker result. psi_do psi (end_rwlock_wrwait locker result))
     }"

definition inline_mysql_rwlock_unlock ::
  "config \<Rightarrow> 'o sys_env \<Rightarrow> 'p psi_env \<Rightarrow> nat \<Rightarrow> ('o, 'p, int) prog" where
  "inline_mysql_rwlock_unlock cfg sys psi a =
     do {
       hook \<leftarrow> hook_of (HAVE_PSI_RWLOCK_INTERFACE cfg) a;
       _ \<leftarrow> if_hook hook (\<lambda>p. psi_do psi (unlock_rwlock p));
       native_rw_unlock cfg sys a
     }"

definition inline_mysql_prlock_unlock ::
  "config \<Rightarrow> 'o sys_env \<Rightarrow> 'p psi_env \<Rightarrow> nat \<Rightarrow> ('o, 'p, int) prog" where
  "inline_mysql_prlock_unlock cfg sys psi a =
     do {
       hook \<leftarrow> hook_of (HAVE_PSI_RWLOCK_INTERFACE cfg) a;
       _ \<leftarrow> if_hook hook (\<lambda>p. psi_do psi (unlock_rwlock p));
       SYS sys (rw_pr_unlock a)
     }"

section \<open>Condition variables\<close>

definition inline_mysql_cond_register ::
  "config \<Rightarrow> 'o sys_env \<Rightarrow> 'p psi_env \<Rightarrow> string \<Rightarrow> nat \<Rightarrow> int \<Rightarrow> ('o, 'p, unit) prog" where
  "inline_mysql_cond_register cfg sys psi category info count =
     (if HAVE_PSI_COND_INTERFACE cfg then psi_do psi (register_cond category info count) else ret ())"

definition inline_mysql_cond_init ::
  "config \<Rightarrow> 'o sys_env \<Rightarrow> 'p psi_env \<Rightarrow> nat \<Rightarrow> nat \<Rightarrow> ('o, 'p, int) prog" where
  "inline_mysql_cond_init cfg sys psi key a =
     do {
       p \<leftarrow> (if HAVE_PSI_COND_INTERFACE cfg then PSI_CALL psi (init_cond key a) else ret None);
       _ \<leftarrow> set_m_psi a p;
       native_cond_init cfg sys a
     }"

definition inline_mysql_cond_destroy ::
  "config \<Rightarrow> 'o sys_env \<Rightarrow> 'p psi_env \<Rightarrow> nat \<Rightarrow> ('o, 'p, int) prog" where
  "inline_mysql_cond_destroy cfg sys psi a =
     do {
       hook \<leftarrow> hook_of (HAVE_PSI_COND_INTERFACE cfg) a;
       _ \<leftarrow> if_hook hook (\<lambda>p. do { _ \<leftarrow> psi_do psi (destroy_cond p); set_m_psi a None });
       native_cond_destroy cfg sys a
     }"

text \<open>The wait passes the hook of the mutex, which may be \<open>NULL\<close>.\<close>

definition inline_mysql_cond_wait ::
  "config \<Rightarrow> 'o sys_env \<Rightarrow> 'p psi_env \<Rightarrow> nat \<Rightarrow> nat \<Rightarrow> string \<Rightarrow> nat \<Rightarrow> ('o, 'p, int) prog" where
  "inline_mysql_cond_wait cfg sys psi a mutex src_file src_line =
     do {
       hook \<leftarrow> hook_of (HAVE_PSI_COND_INTERFACE cfg) a;
       mutex_psi \<leftarrow> get_m_psi mutex;
       instrumented hook
         (\<lambda>p. PSI_CALL psi (start_cond_wait p mutex_psi PSI_COND_WAIT src_file src_line))
         (my_cond_wait cfg sys a mutex src_file src_line)
         (\<lambda>locker result. psi_do psi (end_cond_wait locker result))
     }"

definition inline_mysql_cond_timedwait ::
  "config \<Rightarrow> 'o sys_env \<Rightarrow> 'p psi_env \<Rightarrow> nat \<Rightarrow> nat \<Rightarrow> abstime \<Rightarrow> string \<Rightarrow> nat \<Rightarrow> ('o, 'p, int) prog" where
  "inline_mysql_cond_timedwait cfg sys psi a mutex abstime src_file src_line =
     do {
       hook \<leftarrow> hook_of (HAVE_PSI_COND_INTERFACE cfg) a;
       mutex_psi \<leftarrow> get_m_psi mutex;
       instrumented hook
         (\<lambda>p. PSI_CALL psi (start_cond_wait p mutex_psi PSI_COND_TIMEDWAIT src_file src_line))
         (my_cond_timedwait cfg sys a mutex abstime src_file src_line)
         (\<lambda>locker result. psi_do psi (end_cond_wait locker result))
     }"

definition inline_mysql_cond_signal ::
  "config \<Rightarrow> 'o sys_env \<Rightarrow> 'p psi_env \<Rightarrow> nat \<Rightarrow> ('o, 'p, int) prog" where
  "inline_mysql_cond_signal cfg sys psi a =
     do {
       hook \<leftarrow> hook_of (HAVE_PSI_COND_INTERFACE cfg) a;
       _ \<leftarrow> if_hook hook (\<lambda>p. psi_do psi (signal_cond p));
       native_cond_signal cfg sys a
     }"

definition inline_mysql_cond_broadcast ::
  "config \<Rightarrow> 'o sys_env \<Rightarrow> 'p psi_env \<Rightarrow> nat \<Rightarrow> ('o, 'p, int) prog" where
  "inline_mysql_cond_broadcast cfg sys psi a =
     do {
       hook \<leftarrow> hook_of (HAVE_PSI_COND_INTERFACE cfg) a;
       _ \<leftarrow> if_hook hook (\<lambda>p. psi_do psi (broadcast_cond p));
       native_cond_broadcast cfg sys a
     }"

section \<open>Threads\<close>

definition inline_mysql_thread_register ::
  "config \<Rightarrow> 'o sys_env \<Rightarrow> 'p psi_env \<Rightarrow> string \<Rightarrow> nat \<Rightarrow> int \<Rightarrow> ('o, 'p, unit) prog" where
  "inline_mysql_thread_register cfg sys psi category info count =
     (if HAVE_PSI_THREAD_INTERFACE cfg then psi_do psi (register_thread category info count) else ret ())"

text \<open>
  \<open>spawn_thread\<close> of the instrumentation makes the thread itself, so it is a call into the
  system; the two others are compiled only with the interface.
\<close>

definition inline_mysql_thread_create ::
  "'o sys_env \<Rightarrow> nat \<Rightarrow> nat \<Rightarrow> nat option \<Rightarrow> nat \<Rightarrow> nat option \<Rightarrow> ('o, 'p, int) prog" where
  "inline_mysql_thread_create sys key thread attr start_routine arg =
     SYS sys (spawn_thread key thread attr start_routine arg)"

definition inline_mysql_thread_set_psi_id :: "'p psi_env \<Rightarrow> nat \<Rightarrow> ('o, 'p, unit) prog" where
  "inline_mysql_thread_set_psi_id psi id1 =
     do { t \<leftarrow> PSI_CALL psi get_thread; psi_do psi (set_thread_id t id1) }"

definition inline_mysql_thread_set_psi_THD :: "'p psi_env \<Rightarrow> nat \<Rightarrow> ('o, 'p, unit) prog" where
  "inline_mysql_thread_set_psi_THD psi thd =
     do { t \<leftarrow> PSI_CALL psi get_thread; psi_do psi (set_thread_THD t thd) }"

section \<open>A drop-in replacement\<close>

text \<open>
  The calls of a program on its synchronisation objects, made with the instrumented functions and with the
  functions they are documented to replace.
\<close>

datatype (plugins only: code size) sync_call =
    Op_Mutex_init nat nat "nat option" string nat
  | Op_Mutex_destroy nat string nat
  | Op_Mutex_lock nat string nat
  | Op_Mutex_trylock nat string nat
  | Op_Mutex_unlock nat string nat
  | Op_Rwlock_init nat nat
  | Op_Rwlock_destroy nat
  | Op_Rwlock_rdlock nat string nat
  | Op_Rwlock_wrlock nat string nat
  | Op_Rwlock_tryrdlock nat string nat
  | Op_Rwlock_trywrlock nat string nat
  | Op_Rwlock_unlock nat
  | Op_Prlock_init nat nat
  | Op_Prlock_destroy nat
  | Op_Prlock_rdlock nat string nat
  | Op_Prlock_wrlock nat string nat
  | Op_Prlock_unlock nat
  | Op_Cond_init nat nat
  | Op_Cond_destroy nat
  | Op_Cond_wait nat nat string nat
  | Op_Cond_timedwait nat nat abstime string nat
  | Op_Cond_signal nat
  | Op_Cond_broadcast nat

fun mysql_sync :: "config \<Rightarrow> 'o sys_env \<Rightarrow> 'p psi_env \<Rightarrow> sync_call \<Rightarrow> ('o, 'p, int) prog" where
  "mysql_sync cfg sys psi (Op_Mutex_init key a attr f l) = inline_mysql_mutex_init cfg sys psi key a attr f l"
| "mysql_sync cfg sys psi (Op_Mutex_destroy a f l) = inline_mysql_mutex_destroy cfg sys psi a f l"
| "mysql_sync cfg sys psi (Op_Mutex_lock a f l) = inline_mysql_mutex_lock cfg sys psi a f l"
| "mysql_sync cfg sys psi (Op_Mutex_trylock a f l) = inline_mysql_mutex_trylock cfg sys psi a f l"
| "mysql_sync cfg sys psi (Op_Mutex_unlock a f l) = inline_mysql_mutex_unlock cfg sys psi a f l"
| "mysql_sync cfg sys psi (Op_Rwlock_init key a) = inline_mysql_rwlock_init cfg sys psi key a"
| "mysql_sync cfg sys psi (Op_Rwlock_destroy a) = inline_mysql_rwlock_destroy cfg sys psi a"
| "mysql_sync cfg sys psi (Op_Rwlock_rdlock a f l) = inline_mysql_rwlock_rdlock cfg sys psi a f l"
| "mysql_sync cfg sys psi (Op_Rwlock_wrlock a f l) = inline_mysql_rwlock_wrlock cfg sys psi a f l"
| "mysql_sync cfg sys psi (Op_Rwlock_tryrdlock a f l) = inline_mysql_rwlock_tryrdlock cfg sys psi a f l"
| "mysql_sync cfg sys psi (Op_Rwlock_trywrlock a f l) = inline_mysql_rwlock_trywrlock cfg sys psi a f l"
| "mysql_sync cfg sys psi (Op_Rwlock_unlock a) = inline_mysql_rwlock_unlock cfg sys psi a"
| "mysql_sync cfg sys psi (Op_Prlock_init key a) = inline_mysql_prlock_init cfg sys psi key a"
| "mysql_sync cfg sys psi (Op_Prlock_destroy a) = inline_mysql_prlock_destroy cfg sys psi a"
| "mysql_sync cfg sys psi (Op_Prlock_rdlock a f l) = inline_mysql_prlock_rdlock cfg sys psi a f l"
| "mysql_sync cfg sys psi (Op_Prlock_wrlock a f l) = inline_mysql_prlock_wrlock cfg sys psi a f l"
| "mysql_sync cfg sys psi (Op_Prlock_unlock a) = inline_mysql_prlock_unlock cfg sys psi a"
| "mysql_sync cfg sys psi (Op_Cond_init key a) = inline_mysql_cond_init cfg sys psi key a"
| "mysql_sync cfg sys psi (Op_Cond_destroy a) = inline_mysql_cond_destroy cfg sys psi a"
| "mysql_sync cfg sys psi (Op_Cond_wait a m f l) = inline_mysql_cond_wait cfg sys psi a m f l"
| "mysql_sync cfg sys psi (Op_Cond_timedwait a m t f l) = inline_mysql_cond_timedwait cfg sys psi a m t f l"
| "mysql_sync cfg sys psi (Op_Cond_signal a) = inline_mysql_cond_signal cfg sys psi a"
| "mysql_sync cfg sys psi (Op_Cond_broadcast a) = inline_mysql_cond_broadcast cfg sys psi a"

fun plain_sync :: "config \<Rightarrow> 'o sys_env \<Rightarrow> sync_call \<Rightarrow> ('o, 'p, int) prog" where
  "plain_sync cfg sys (Op_Mutex_init key a attr f l) = my_mutex_init cfg sys a attr f l"
| "plain_sync cfg sys (Op_Mutex_destroy a f l) = my_mutex_destroy cfg sys a f l"
| "plain_sync cfg sys (Op_Mutex_lock a f l) = my_mutex_lock cfg sys a f l"
| "plain_sync cfg sys (Op_Mutex_trylock a f l) = my_mutex_trylock cfg sys a f l"
| "plain_sync cfg sys (Op_Mutex_unlock a f l) = my_mutex_unlock cfg sys a f l"
| "plain_sync cfg sys (Op_Rwlock_init key a) = native_rw_init cfg sys a"
| "plain_sync cfg sys (Op_Rwlock_destroy a) = native_rw_destroy cfg sys a"
| "plain_sync cfg sys (Op_Rwlock_rdlock a f l) = native_rw_rdlock cfg sys a"
| "plain_sync cfg sys (Op_Rwlock_wrlock a f l) = native_rw_wrlock cfg sys a"
| "plain_sync cfg sys (Op_Rwlock_tryrdlock a f l) = native_rw_tryrdlock cfg sys a"
| "plain_sync cfg sys (Op_Rwlock_trywrlock a f l) = native_rw_trywrlock cfg sys a"
| "plain_sync cfg sys (Op_Rwlock_unlock a) = native_rw_unlock cfg sys a"
| "plain_sync cfg sys (Op_Prlock_init key a) = SYS sys (rw_pr_init a)"
| "plain_sync cfg sys (Op_Prlock_destroy a) = SYS sys (rw_pr_destroy a)"
| "plain_sync cfg sys (Op_Prlock_rdlock a f l) = SYS sys (rw_pr_rdlock a)"
| "plain_sync cfg sys (Op_Prlock_wrlock a f l) = SYS sys (rw_pr_wrlock a)"
| "plain_sync cfg sys (Op_Prlock_unlock a) = SYS sys (rw_pr_unlock a)"
| "plain_sync cfg sys (Op_Cond_init key a) = native_cond_init cfg sys a"
| "plain_sync cfg sys (Op_Cond_destroy a) = native_cond_destroy cfg sys a"
| "plain_sync cfg sys (Op_Cond_wait a m f l) = my_cond_wait cfg sys a m f l"
| "plain_sync cfg sys (Op_Cond_timedwait a m t f l) = my_cond_timedwait cfg sys a m t f l"
| "plain_sync cfg sys (Op_Cond_signal a) = native_cond_signal cfg sys a"
| "plain_sync cfg sys (Op_Cond_broadcast a) = native_cond_broadcast cfg sys a"

lemmas mysql_sync_defs = inline_mysql_mutex_init_def
  inline_mysql_mutex_destroy_def
  inline_mysql_mutex_lock_def
  inline_mysql_mutex_trylock_def
  inline_mysql_mutex_unlock_def
  inline_mysql_rwlock_init_def
  inline_mysql_rwlock_destroy_def
  inline_mysql_rwlock_rdlock_def
  inline_mysql_rwlock_wrlock_def
  inline_mysql_rwlock_tryrdlock_def
  inline_mysql_rwlock_trywrlock_def
  inline_mysql_rwlock_unlock_def
  inline_mysql_prlock_init_def
  inline_mysql_prlock_destroy_def
  inline_mysql_prlock_rdlock_def
  inline_mysql_prlock_wrlock_def
  inline_mysql_prlock_unlock_def
  inline_mysql_cond_init_def
  inline_mysql_cond_destroy_def
  inline_mysql_cond_wait_def
  inline_mysql_cond_timedwait_def
  inline_mysql_cond_signal_def
  inline_mysql_cond_broadcast_def

lemma mysql_sync_sim: "sim (mysql_sync cfg sys psi c) (plain_sync cfg sys c)"
  by (cases c)
    (simp_all only: mysql_sync.simps plain_sync.simps mysql_sync_defs,
      (intro transparent sim_skip)+)

interpretation sync: drop_in "mysql_sync cfg sys psi" "plain_sync cfg sys" for cfg sys psi
  by unfold_locales (rule mysql_sync_sim)

lemma mysql_sync_balanced: "balanced (mysql_sync cfg sys (logged psi) c)"
  by (cases c)
    (simp_all only: mysql_sync.simps mysql_sync_defs if_hook_def,
      (rule instrumented_balanced balanced_rules refl starts.simps opens.simps ends.simps | intro accounted)+)

interpretation sync_waits: accounted_api "mysql_sync cfg sys (logged psi)" for cfg sys psi
  by unfold_locales (rule mysql_sync_balanced)

end
