(* ===== verification/PsiSocket.thy ===== *)
theory PsiSocket
  imports NativeThreads
begin

text \<open>
  \<open>MySQL Server 5.7/include/mysql/psi/mysql_socket.h\<close>: the instrumented sockets. A
  \<open>MYSQL_SOCKET\<close> is passed by value, so its hook is a field here. The socket functions of the
  system are parameters; buffers and addresses are pointers into the memory the system's state holds.
\<close>

unbundle bit_operations_syntax

section \<open>Sockets and the calls of the system\<close>

record MYSQL_SOCKET =
  fd :: int
  sock_psi :: "nat option"

datatype (plugins only: code size) sock_call =
    Socket int int int | Bind int nat int | Getsockname int nat nat | Connect int nat int
  | Getpeername int nat nat | Send int nat int int | Recv int nat int int
  | Sendto int nat int int nat int | Recvfrom int nat int int nat nat
  | Getsockopt int int int nat nat | Setsockopt int int int nat int
  | Ioctlsocket_FIONBIO int int | Fcntl_GETFL int | Fcntl_SETFL int int | Errno
  | Listen int int | Closesocket int | Shutdown int int | DisconnectEx nat int

text \<open>
  \<open>accept\<close> gets the address of a local variable with the length and leaves the new length there;
  \<open>WSAIoctl\<close> writes the static pointer.
\<close>

record 'o sock_env =
  sock_sys :: "sock_call \<Rightarrow> 'o \<Rightarrow> int \<times> 'o"
  accept_sys :: "int \<Rightarrow> nat option \<Rightarrow> int \<Rightarrow> 'o \<Rightarrow> (int \<times> int) \<times> 'o"
  WSAIoctl_sys :: "int \<Rightarrow> nat option \<Rightarrow> 'o \<Rightarrow> nat option \<times> 'o"

definition SOCK :: "'o sock_env \<Rightarrow> sock_call \<Rightarrow> ('o, 'p, int) prog" where
  "SOCK net c = os_do (sock_sys net c)"

lemma SOCK_rules [transparent, accounted]: "sim (SOCK net c) (SOCK net c)" "quiet (SOCK net c)"
  by (simp_all add: SOCK_def sim_os_do quiet_basic)

text \<open>The cast \<open>IF_WIN((int),) n\<close> of a length.\<close>

definition win_int :: "config \<Rightarrow> nat \<Rightarrow> int" where
  "win_int cfg n = (if WIN32 cfg then sint (word_of_nat n :: 32 word) else int n)"

definition byte_count :: "int \<Rightarrow> nat" where
  "byte_count result = (if result > -1 then nat result else 0)"

section \<open>Sockets without a system call\<close>

definition mysql_socket_invalid :: "config \<Rightarrow> MYSQL_SOCKET" where
  "mysql_socket_invalid cfg = \<lparr>fd = INVALID_SOCKET cfg, sock_psi = None\<rparr>"

definition sock_hook :: "config \<Rightarrow> MYSQL_SOCKET \<Rightarrow> nat option" where
  "sock_hook cfg s = (if HAVE_PSI_SOCKET_INTERFACE cfg then sock_psi s else None)"

definition mysql_socket_set_address ::
  "config \<Rightarrow> 'p psi_env \<Rightarrow> MYSQL_SOCKET \<Rightarrow> nat option \<Rightarrow> int \<Rightarrow> ('o, 'p, unit) prog" where
  "mysql_socket_set_address cfg psi socket addr addr_len =
     if_hook (sock_hook cfg socket) (\<lambda>p. psi_do psi (set_socket_info p None addr addr_len))"

definition mysql_socket_set_thread_owner ::
  "config \<Rightarrow> 'p psi_env \<Rightarrow> MYSQL_SOCKET \<Rightarrow> ('o, 'p, unit) prog" where
  "mysql_socket_set_thread_owner cfg psi socket =
     if_hook (sock_hook cfg socket) (\<lambda>p. psi_do psi (set_socket_thread_owner p))"

definition mysql_socket_getfd :: "MYSQL_SOCKET \<Rightarrow> int" where
  "mysql_socket_getfd mysql_socket = fd mysql_socket"

text \<open>The pointer may be \<open>NULL\<close>; the result is what it points to afterwards.\<close>

definition mysql_socket_setfd :: "MYSQL_SOCKET option \<Rightarrow> int \<Rightarrow> MYSQL_SOCKET option" where
  "mysql_socket_setfd mysql_socket fd1 = (case mysql_socket of None \<Rightarrow> None | Some s \<Rightarrow> Some (s\<lparr>fd := fd1\<rparr>))"

definition inline_mysql_start_socket_wait ::
  "'p psi_env \<Rightarrow> MYSQL_SOCKET \<Rightarrow> PSI_socket_operation \<Rightarrow> nat \<Rightarrow> string \<Rightarrow> nat \<Rightarrow> ('o, 'p, nat option) prog" where
  "inline_mysql_start_socket_wait psi mysql_socket op count src_file src_line =
     (case sock_psi mysql_socket of
        Some p \<Rightarrow> PSI_CALL psi (start_socket_wait p op count src_file src_line)
      | None \<Rightarrow> ret None)"

definition inline_mysql_end_socket_wait :: "'p psi_env \<Rightarrow> nat option \<Rightarrow> nat \<Rightarrow> ('o, 'p, unit) prog" where
  "inline_mysql_end_socket_wait psi locker count =
     (case locker of Some l \<Rightarrow> psi_do psi (end_socket_wait l count) | None \<Rightarrow> ret ())"

definition inline_mysql_socket_set_state ::
  "'p psi_env \<Rightarrow> MYSQL_SOCKET \<Rightarrow> PSI_socket_state \<Rightarrow> ('o, 'p, unit) prog" where
  "inline_mysql_socket_set_state psi socket state =
     (case sock_psi socket of Some p \<Rightarrow> psi_do psi (set_socket_state p state) | None \<Rightarrow> ret ())"

definition inline_mysql_socket_register :: "'p psi_env \<Rightarrow> string \<Rightarrow> nat \<Rightarrow> int \<Rightarrow> ('o, 'p, unit) prog" where
  "inline_mysql_socket_register psi category info count = psi_do psi (register_socket category info count)"

section \<open>The instrumented calls\<close>

definition inline_mysql_socket_socket ::
  "config \<Rightarrow> 'o sock_env \<Rightarrow> 'p psi_env \<Rightarrow> nat \<Rightarrow> int \<Rightarrow> int \<Rightarrow> int \<Rightarrow> ('o, 'p, MYSQL_SOCKET) prog" where
  "inline_mysql_socket_socket cfg net psi key domain type protocol =
     do {
       f \<leftarrow> SOCK net (Socket domain type protocol);
       let s = (mysql_socket_invalid cfg)\<lparr>fd := f\<rparr>;
       if HAVE_PSI_SOCKET_INTERFACE cfg \<and> fd s \<noteq> INVALID_SOCKET cfg then do {
         p \<leftarrow> PSI_CALL psi (init_socket key (fd s) None 0);
         ret (s\<lparr>sock_psi := p\<rparr>)
       } else ret s
     }"

definition inline_mysql_socket_bind ::
  "config \<Rightarrow> 'o sock_env \<Rightarrow> 'p psi_env \<Rightarrow> string \<Rightarrow> nat \<Rightarrow> MYSQL_SOCKET \<Rightarrow> nat \<Rightarrow> int \<Rightarrow> ('o, 'p, int) prog" where
  "inline_mysql_socket_bind cfg net psi src_file src_line s addr len =
     (case sock_hook cfg s of
        Some p \<Rightarrow> do {
          locker \<leftarrow> PSI_CALL psi (start_socket_wait p PSI_SOCKET_BIND 0 src_file src_line);
          result \<leftarrow> SOCK net (Bind (fd s) addr len);
          _ \<leftarrow> (if result = 0 then psi_do psi (set_socket_info p None (Some addr) len) else ret ());
          _ \<leftarrow> (case locker of None \<Rightarrow> ret () | Some l \<Rightarrow> psi_do psi (end_socket_wait l 0));
          ret result
        }
      | None \<Rightarrow> SOCK net (Bind (fd s) addr len))"

definition inline_mysql_socket_getsockname ::
  "config \<Rightarrow> 'o sock_env \<Rightarrow> 'p psi_env \<Rightarrow> string \<Rightarrow> nat \<Rightarrow> MYSQL_SOCKET \<Rightarrow> nat \<Rightarrow> nat \<Rightarrow> ('o, 'p, int) prog" where
  "inline_mysql_socket_getsockname cfg net psi src_file src_line s addr len =
     instrumented (sock_hook cfg s)
       (\<lambda>p. PSI_CALL psi (start_socket_wait p PSI_SOCKET_BIND 0 src_file src_line))
       (SOCK net (Getsockname (fd s) addr len))
       (\<lambda>locker result. psi_do psi (end_socket_wait locker 0))"

definition inline_mysql_socket_connect ::
  "config \<Rightarrow> 'o sock_env \<Rightarrow> 'p psi_env \<Rightarrow> string \<Rightarrow> nat \<Rightarrow> MYSQL_SOCKET \<Rightarrow> nat \<Rightarrow> int \<Rightarrow> ('o, 'p, int) prog" where
  "inline_mysql_socket_connect cfg net psi src_file src_line s addr len =
     instrumented (sock_hook cfg s)
       (\<lambda>p. PSI_CALL psi (start_socket_wait p PSI_SOCKET_CONNECT 0 src_file src_line))
       (SOCK net (Connect (fd s) addr len))
       (\<lambda>locker result. psi_do psi (end_socket_wait locker 0))"

definition inline_mysql_socket_getpeername ::
  "config \<Rightarrow> 'o sock_env \<Rightarrow> 'p psi_env \<Rightarrow> string \<Rightarrow> nat \<Rightarrow> MYSQL_SOCKET \<Rightarrow> nat \<Rightarrow> nat \<Rightarrow> ('o, 'p, int) prog" where
  "inline_mysql_socket_getpeername cfg net psi src_file src_line s addr len =
     instrumented (sock_hook cfg s)
       (\<lambda>p. PSI_CALL psi (start_socket_wait p PSI_SOCKET_BIND 0 src_file src_line))
       (SOCK net (Getpeername (fd s) addr len))
       (\<lambda>locker result. psi_do psi (end_socket_wait locker 0))"

definition inline_mysql_socket_send ::
  "config \<Rightarrow> 'o sock_env \<Rightarrow> 'p psi_env \<Rightarrow> string \<Rightarrow> nat \<Rightarrow> MYSQL_SOCKET \<Rightarrow> nat \<Rightarrow> nat \<Rightarrow> int \<Rightarrow> ('o, 'p, int) prog" where
  "inline_mysql_socket_send cfg net psi src_file src_line s buf n flags =
     instrumented (sock_hook cfg s)
       (\<lambda>p. PSI_CALL psi (start_socket_wait p PSI_SOCKET_SEND n src_file src_line))
       (SOCK net (Send (fd s) buf (win_int cfg n) flags))
       (\<lambda>locker result. psi_do psi (end_socket_wait locker (byte_count result)))"

definition inline_mysql_socket_recv ::
  "config \<Rightarrow> 'o sock_env \<Rightarrow> 'p psi_env \<Rightarrow> string \<Rightarrow> nat \<Rightarrow> MYSQL_SOCKET \<Rightarrow> nat \<Rightarrow> nat \<Rightarrow> int \<Rightarrow> ('o, 'p, int) prog" where
  "inline_mysql_socket_recv cfg net psi src_file src_line s buf n flags =
     instrumented (sock_hook cfg s)
       (\<lambda>p. PSI_CALL psi (start_socket_wait p PSI_SOCKET_RECV 0 src_file src_line))
       (SOCK net (Recv (fd s) buf (win_int cfg n) flags))
       (\<lambda>locker result. psi_do psi (end_socket_wait locker (byte_count result)))"

definition inline_mysql_socket_sendto ::
  "config \<Rightarrow> 'o sock_env \<Rightarrow> 'p psi_env \<Rightarrow> string \<Rightarrow> nat \<Rightarrow> MYSQL_SOCKET \<Rightarrow> nat \<Rightarrow> nat \<Rightarrow> int \<Rightarrow> nat \<Rightarrow> int \<Rightarrow> ('o, 'p, int) prog" where
  "inline_mysql_socket_sendto cfg net psi src_file src_line s buf n flags addr addr_len =
     instrumented (sock_hook cfg s)
       (\<lambda>p. PSI_CALL psi (start_socket_wait p PSI_SOCKET_SEND n src_file src_line))
       (SOCK net (Sendto (fd s) buf (win_int cfg n) flags addr addr_len))
       (\<lambda>locker result. psi_do psi (end_socket_wait locker (byte_count result)))"

definition inline_mysql_socket_recvfrom ::
  "config \<Rightarrow> 'o sock_env \<Rightarrow> 'p psi_env \<Rightarrow> string \<Rightarrow> nat \<Rightarrow> MYSQL_SOCKET \<Rightarrow> nat \<Rightarrow> nat \<Rightarrow> int \<Rightarrow> nat \<Rightarrow> nat \<Rightarrow> ('o, 'p, int) prog" where
  "inline_mysql_socket_recvfrom cfg net psi src_file src_line s buf n flags addr addr_len =
     instrumented (sock_hook cfg s)
       (\<lambda>p. PSI_CALL psi (start_socket_wait p PSI_SOCKET_RECV 0 src_file src_line))
       (SOCK net (Recvfrom (fd s) buf (win_int cfg n) flags addr addr_len))
       (\<lambda>locker result. psi_do psi (end_socket_wait locker (byte_count result)))"

definition inline_mysql_socket_getsockopt ::
  "config \<Rightarrow> 'o sock_env \<Rightarrow> 'p psi_env \<Rightarrow> string \<Rightarrow> nat \<Rightarrow> MYSQL_SOCKET \<Rightarrow> int \<Rightarrow> int \<Rightarrow> nat \<Rightarrow> nat \<Rightarrow> ('o, 'p, int) prog" where
  "inline_mysql_socket_getsockopt cfg net psi src_file src_line s level optname optval optlen =
     instrumented (sock_hook cfg s)
       (\<lambda>p. PSI_CALL psi (start_socket_wait p PSI_SOCKET_OPT 0 src_file src_line))
       (SOCK net (Getsockopt (fd s) level optname optval optlen))
       (\<lambda>locker result. psi_do psi (end_socket_wait locker 0))"

definition inline_mysql_socket_setsockopt ::
  "config \<Rightarrow> 'o sock_env \<Rightarrow> 'p psi_env \<Rightarrow> string \<Rightarrow> nat \<Rightarrow> MYSQL_SOCKET \<Rightarrow> int \<Rightarrow> int \<Rightarrow> nat \<Rightarrow> int \<Rightarrow> ('o, 'p, int) prog" where
  "inline_mysql_socket_setsockopt cfg net psi src_file src_line s level optname optval optlen =
     instrumented (sock_hook cfg s)
       (\<lambda>p. PSI_CALL psi (start_socket_wait p PSI_SOCKET_OPT 0 src_file src_line))
       (SOCK net (Setsockopt (fd s) level optname optval optlen))
       (\<lambda>locker result. psi_do psi (end_socket_wait locker 0))"

definition set_socket_nonblock :: "config \<Rightarrow> 'o sock_env \<Rightarrow> int \<Rightarrow> ('o, 'p, int) prog" where
  "set_socket_nonblock cfg net f =
     (if WIN32 cfg then SOCK net (Ioctlsocket_FIONBIO f 1)
      else do {
        fd_flags \<leftarrow> SOCK net (Fcntl_GETFL f);
        if fd_flags < 0 then SOCK net Errno
        else do {
          r \<leftarrow> SOCK net (Fcntl_SETFL f (fd_flags OR O_NONBLOCK cfg));
          if r = -1 then SOCK net Errno else ret 0
        }
      })"

definition inline_mysql_sock_set_nonblocking ::
  "config \<Rightarrow> 'o sock_env \<Rightarrow> 'p psi_env \<Rightarrow> string \<Rightarrow> nat \<Rightarrow> MYSQL_SOCKET \<Rightarrow> ('o, 'p, int) prog" where
  "inline_mysql_sock_set_nonblocking cfg net psi src_file src_line s =
     instrumented (sock_hook cfg s)
       (\<lambda>p. PSI_CALL psi (start_socket_wait p PSI_SOCKET_OPT 0 src_file src_line))
       (set_socket_nonblock cfg net (fd s))
       (\<lambda>locker result. psi_do psi (end_socket_wait locker 0))"

definition inline_mysql_socket_listen ::
  "config \<Rightarrow> 'o sock_env \<Rightarrow> 'p psi_env \<Rightarrow> string \<Rightarrow> nat \<Rightarrow> MYSQL_SOCKET \<Rightarrow> int \<Rightarrow> ('o, 'p, int) prog" where
  "inline_mysql_socket_listen cfg net psi src_file src_line s backlog =
     instrumented (sock_hook cfg s)
       (\<lambda>p. PSI_CALL psi (start_socket_wait p PSI_SOCKET_CONNECT 0 src_file src_line))
       (SOCK net (Listen (fd s) backlog))
       (\<lambda>locker result. psi_do psi (end_socket_wait locker 0))"

text \<open>
  \<open>accept\<close>: the length the caller passes is read once; the local copy gets the new length. The result is
  the accepted socket and the local length, which only the instrumentation sees.
\<close>

definition accept_real ::
  "'o sock_env \<Rightarrow> int \<Rightarrow> nat option \<Rightarrow> int \<Rightarrow> ('o, 'p, int \<times> int) prog" where
  "accept_real net f addr addr_length = os_do (accept_sys net f addr addr_length)"

definition inline_mysql_socket_accept ::
  "config \<Rightarrow> 'o sock_env \<Rightarrow> 'p psi_env \<Rightarrow> string \<Rightarrow> nat \<Rightarrow> nat \<Rightarrow> MYSQL_SOCKET \<Rightarrow> nat option \<Rightarrow> int option
    \<Rightarrow> ('o, 'p, MYSQL_SOCKET) prog" where
  "inline_mysql_socket_accept cfg net psi src_file src_line key s addr addr_len =
     do {
       let addr_length = (case addr_len of Some n \<Rightarrow> n | None \<Rightarrow> 0);
       (f, addr_length1) \<leftarrow> instrumented (sock_hook cfg s)
         (\<lambda>p. PSI_CALL psi (start_socket_wait p PSI_SOCKET_CONNECT 0 src_file src_line))
         (accept_real net (fd s) addr addr_length)
         (\<lambda>locker result. psi_do psi (end_socket_wait locker 0));
       let socket_accept = (mysql_socket_invalid cfg)\<lparr>fd := f\<rparr>;
       if HAVE_PSI_SOCKET_INTERFACE cfg \<and> fd socket_accept \<noteq> INVALID_SOCKET cfg then do {
         p \<leftarrow> PSI_CALL psi (init_socket key (fd socket_accept) addr addr_length1);
         ret (socket_accept\<lparr>sock_psi := p\<rparr>)
       } else ret socket_accept
     }"

definition inline_mysql_socket_close ::
  "config \<Rightarrow> 'o sock_env \<Rightarrow> 'p psi_env \<Rightarrow> string \<Rightarrow> nat \<Rightarrow> MYSQL_SOCKET \<Rightarrow> ('o, 'p, int) prog" where
  "inline_mysql_socket_close cfg net psi src_file src_line s =
     do {
       result \<leftarrow> instrumented (sock_hook cfg s)
         (\<lambda>p. PSI_CALL psi (start_socket_wait p PSI_SOCKET_CLOSE 0 src_file src_line))
         (SOCK net (Closesocket (fd s)))
         (\<lambda>locker result. psi_do psi (end_socket_wait locker 0));
       _ \<leftarrow> if_hook (sock_hook cfg s) (\<lambda>p. psi_do psi (destroy_socket p));
       ret result
     }"

text \<open>On Windows the first call looks up \<open>DisconnectEx\<close>, which is used in place of \<open>shutdown\<close>.\<close>

definition find_DisconnectEx :: "config \<Rightarrow> 'o sock_env \<Rightarrow> int \<Rightarrow> ('o, 'p, unit) prog" where
  "find_DisconnectEx cfg net f =
     (if WIN32 cfg then do {
        d \<leftarrow> get_DisconnectEx;
        case d of
          None \<Rightarrow> do { d1 \<leftarrow> os_do (WSAIoctl_sys net f d); set_DisconnectEx d1 }
        | Some _ \<Rightarrow> ret ()
      } else ret ())"

definition shutdown_real :: "config \<Rightarrow> 'o sock_env \<Rightarrow> int \<Rightarrow> int \<Rightarrow> ('o, 'p, int) prog" where
  "shutdown_real cfg net f how =
     do {
       d \<leftarrow> (if WIN32 cfg then get_DisconnectEx else ret None);
       case d of
         Some disconnect \<Rightarrow> do { ok \<leftarrow> SOCK net (DisconnectEx disconnect f); ret (if ok = 1 then 0 else -1) }
       | None \<Rightarrow> SOCK net (Shutdown f how)
     }"

definition inline_mysql_socket_shutdown ::
  "config \<Rightarrow> 'o sock_env \<Rightarrow> 'p psi_env \<Rightarrow> string \<Rightarrow> nat \<Rightarrow> MYSQL_SOCKET \<Rightarrow> int \<Rightarrow> ('o, 'p, int) prog" where
  "inline_mysql_socket_shutdown cfg net psi src_file src_line s how =
     do {
       _ \<leftarrow> find_DisconnectEx cfg net (fd s);
       instrumented (sock_hook cfg s)
         (\<lambda>p. PSI_CALL psi (start_socket_wait p PSI_SOCKET_SHUTDOWN 0 src_file src_line))
         (shutdown_real cfg net (fd s) how)
         (\<lambda>locker result. psi_do psi (end_socket_wait locker 0))
     }"

section \<open>A drop-in replacement\<close>

text \<open>The calls of a program on its sockets, with the instrumented functions and with the system's; the result is the descriptor or number.\<close>

datatype (plugins only: code size) socket_call =
    Op_socket nat int int int
  | Op_bind string nat MYSQL_SOCKET nat int
  | Op_getsockname string nat MYSQL_SOCKET nat nat
  | Op_connect string nat MYSQL_SOCKET nat int
  | Op_getpeername string nat MYSQL_SOCKET nat nat
  | Op_send string nat MYSQL_SOCKET nat nat int
  | Op_recv string nat MYSQL_SOCKET nat nat int
  | Op_sendto string nat MYSQL_SOCKET nat nat int nat int
  | Op_recvfrom string nat MYSQL_SOCKET nat nat int nat nat
  | Op_getsockopt string nat MYSQL_SOCKET int int nat nat
  | Op_setsockopt string nat MYSQL_SOCKET int int nat int
  | Op_nonblocking string nat MYSQL_SOCKET
  | Op_listen string nat MYSQL_SOCKET int
  | Op_accept string nat nat MYSQL_SOCKET "nat option" "int option"
  | Op_close string nat MYSQL_SOCKET
  | Op_shutdown string nat MYSQL_SOCKET int

fun mysql_sock :: "config \<Rightarrow> 'o sock_env \<Rightarrow> 'p psi_env \<Rightarrow> socket_call \<Rightarrow> ('o, 'p, int) prog" where
  "mysql_sock cfg net psi (Op_socket key d ty pr) = do { s \<leftarrow> inline_mysql_socket_socket cfg net psi key d ty pr; ret (fd s) }"
| "mysql_sock cfg net psi (Op_bind f l s a n) = inline_mysql_socket_bind cfg net psi f l s a n"
| "mysql_sock cfg net psi (Op_getsockname f l s a n) = inline_mysql_socket_getsockname cfg net psi f l s a n"
| "mysql_sock cfg net psi (Op_connect f l s a n) = inline_mysql_socket_connect cfg net psi f l s a n"
| "mysql_sock cfg net psi (Op_getpeername f l s a n) = inline_mysql_socket_getpeername cfg net psi f l s a n"
| "mysql_sock cfg net psi (Op_send f l s b n g) = inline_mysql_socket_send cfg net psi f l s b n g"
| "mysql_sock cfg net psi (Op_recv f l s b n g) = inline_mysql_socket_recv cfg net psi f l s b n g"
| "mysql_sock cfg net psi (Op_sendto f l s b n g a k) = inline_mysql_socket_sendto cfg net psi f l s b n g a k"
| "mysql_sock cfg net psi (Op_recvfrom f l s b n g a k) = inline_mysql_socket_recvfrom cfg net psi f l s b n g a k"
| "mysql_sock cfg net psi (Op_getsockopt f l s v opt v' n) = inline_mysql_socket_getsockopt cfg net psi f l s v opt v' n"
| "mysql_sock cfg net psi (Op_setsockopt f l s v opt v' n) = inline_mysql_socket_setsockopt cfg net psi f l s v opt v' n"
| "mysql_sock cfg net psi (Op_nonblocking f l s) = inline_mysql_sock_set_nonblocking cfg net psi f l s"
| "mysql_sock cfg net psi (Op_listen f l s b) = inline_mysql_socket_listen cfg net psi f l s b"
| "mysql_sock cfg net psi (Op_accept f l key s a n) = do { r \<leftarrow> inline_mysql_socket_accept cfg net psi f l key s a n; ret (fd r) }"
| "mysql_sock cfg net psi (Op_close f l s) = inline_mysql_socket_close cfg net psi f l s"
| "mysql_sock cfg net psi (Op_shutdown f l s h) = inline_mysql_socket_shutdown cfg net psi f l s h"

fun plain_sock :: "config \<Rightarrow> 'o sock_env \<Rightarrow> socket_call \<Rightarrow> ('o, 'p, int) prog" where
  "plain_sock cfg net (Op_socket key d ty pr) = SOCK net (Socket d ty pr)"
| "plain_sock cfg net (Op_bind f l s a n) = SOCK net (Bind (fd s) a n)"
| "plain_sock cfg net (Op_getsockname f l s a n) = SOCK net (Getsockname (fd s) a n)"
| "plain_sock cfg net (Op_connect f l s a n) = SOCK net (Connect (fd s) a n)"
| "plain_sock cfg net (Op_getpeername f l s a n) = SOCK net (Getpeername (fd s) a n)"
| "plain_sock cfg net (Op_send f l s b n g) = SOCK net (Send (fd s) b (win_int cfg n) g)"
| "plain_sock cfg net (Op_recv f l s b n g) = SOCK net (Recv (fd s) b (win_int cfg n) g)"
| "plain_sock cfg net (Op_sendto f l s b n g a k) = SOCK net (Sendto (fd s) b (win_int cfg n) g a k)"
| "plain_sock cfg net (Op_recvfrom f l s b n g a k) = SOCK net (Recvfrom (fd s) b (win_int cfg n) g a k)"
| "plain_sock cfg net (Op_getsockopt f l s v opt v' n) = SOCK net (Getsockopt (fd s) v opt v' n)"
| "plain_sock cfg net (Op_setsockopt f l s v opt v' n) = SOCK net (Setsockopt (fd s) v opt v' n)"
| "plain_sock cfg net (Op_nonblocking f l s) = set_socket_nonblock cfg net (fd s)"
| "plain_sock cfg net (Op_listen f l s b) = SOCK net (Listen (fd s) b)"
| "plain_sock cfg net (Op_accept f l key s a n) = do { r \<leftarrow> accept_real net (fd s) a (case n of Some k \<Rightarrow> k | None \<Rightarrow> 0); ret (fst r) }"
| "plain_sock cfg net (Op_close f l s) = SOCK net (Closesocket (fd s))"
| "plain_sock cfg net (Op_shutdown f l s h) = do { _ \<leftarrow> find_DisconnectEx cfg net (fd s); shutdown_real cfg net (fd s) h }"

lemmas mysql_sock_defs = inline_mysql_socket_socket_def
  inline_mysql_socket_bind_def
  inline_mysql_socket_getsockname_def
  inline_mysql_socket_connect_def
  inline_mysql_socket_getpeername_def
  inline_mysql_socket_send_def
  inline_mysql_socket_recv_def
  inline_mysql_socket_sendto_def
  inline_mysql_socket_recvfrom_def
  inline_mysql_socket_getsockopt_def
  inline_mysql_socket_setsockopt_def
  inline_mysql_sock_set_nonblocking_def
  inline_mysql_socket_listen_def
  inline_mysql_socket_close_def
  inline_mysql_socket_shutdown_def

lemma sock_real_sim [transparent]:
  "sim (set_socket_nonblock cfg net f) (set_socket_nonblock cfg net f)"
  "sim (accept_real net f a n) (accept_real net f a n)"
  "sim (find_DisconnectEx cfg net f) (find_DisconnectEx cfg net f)"
  "sim (shutdown_real cfg net f h) (shutdown_real cfg net f h)"
  unfolding set_socket_nonblock_def accept_real_def find_DisconnectEx_def shutdown_real_def
  by (intro transparent)+

lemma sock_real_quiet [accounted]:
  "quiet (set_socket_nonblock cfg net f)" "quiet (accept_real net f a n)"
  "quiet (find_DisconnectEx cfg net f)" "quiet (shutdown_real cfg net f h)"
  unfolding set_socket_nonblock_def accept_real_def find_DisconnectEx_def shutdown_real_def
  by (intro accounted)+

text \<open>Silent work after the operation, which may compute the result from the operation's.\<close>

lemma sim_after:
  assumes "sim m n" "\<And>x. silent (f x)" "\<And>x w. fst (run_state (f x) w) = h x"
  shows "sim (do { x \<leftarrow> m; f x }) (do { x \<leftarrow> n; ret (h x) })"
  using simD [OF assms(1)] silentD [OF assms(2)] assms(3) by (intro simI) (auto simp: split_beta)

lemma bind_ret [simp]: "(do { x \<leftarrow> m; ret x }) = m"
  by (rule state_ext) (simp add: split_beta)

lemmas sim_after_id = sim_after [where h = "\<lambda>x. x", unfolded bind_ret]

lemma socket_sim:
  "sim (do { s \<leftarrow> inline_mysql_socket_socket cfg net psi key d ty pr; ret (fd s) }) (SOCK net (Socket d ty pr))"
  unfolding inline_mysql_socket_socket_def State_Monad.bind_assoc
  by (rule sim_after_id)
    (auto intro!: transparent simp: Let_def mysql_socket_invalid_def split_beta)

lemma bind_sim:
  "sim (inline_mysql_socket_bind cfg net psi f l s a n) (SOCK net (Bind (fd s) a n))"
proof (cases "sock_hook cfg s")
  case (Some p)
  have "sim (do {
      result \<leftarrow> SOCK net (Bind (fd s) a n);
      _ \<leftarrow> (if result = 0 then psi_do psi (set_socket_info p None (Some a) n) else ret ());
      _ \<leftarrow> (case locker of None \<Rightarrow> ret () | Some l \<Rightarrow> psi_do psi (end_socket_wait l 0));
      ret result }) (SOCK net (Bind (fd s) a n))" for locker
    by (rule sim_after_id) (auto intro!: transparent simp: split_beta)
  then show ?thesis
    unfolding inline_mysql_socket_bind_def Some option.case by (rule sim_skip [OF silent_psi(1)])
qed (simp add: inline_mysql_socket_bind_def SOCK_rules)

lemma accept_sim:
  "sim (do { r \<leftarrow> inline_mysql_socket_accept cfg net psi f l key s a n; ret (fd r) })
    (do { r \<leftarrow> accept_real net (fd s) a (case n of Some k \<Rightarrow> k | None \<Rightarrow> 0); ret (fst r) })"
  unfolding inline_mysql_socket_accept_def State_Monad.bind_assoc Let_def
  by (rule sim_after)
    (auto intro!: transparent simp: mysql_socket_invalid_def split_beta)

lemma close_sim: "sim (inline_mysql_socket_close cfg net psi f l s) (SOCK net (Closesocket (fd s)))"
  unfolding inline_mysql_socket_close_def
  by (rule sim_after_id) (auto intro!: transparent simp: split_beta)

lemma mysql_sock_sim: "sim (mysql_sock cfg net psi c) (plain_sock cfg net c)"
proof (cases c)
  case (Op_socket key d ty pr)
  then show ?thesis by (simp only: mysql_sock.simps plain_sock.simps socket_sim)
next
  case (Op_bind f l s a n)
  then show ?thesis by (simp only: mysql_sock.simps plain_sock.simps bind_sim)
next
  case (Op_accept f l key s a n)
  then show ?thesis by (simp only: mysql_sock.simps plain_sock.simps accept_sim)
next
  case (Op_close f l s)
  then show ?thesis by (simp only: mysql_sock.simps plain_sock.simps close_sim)
qed (simp_all only: mysql_sock.simps plain_sock.simps mysql_sock_defs, (intro transparent)+)

interpretation sock: drop_in "mysql_sock cfg net psi" "plain_sock cfg net" for cfg net psi
  by unfold_locales (rule mysql_sock_sim)

section \<open>Accounting\<close>

text \<open>\<open>bind\<close> has a call between the end of the operation and the end of the wait.\<close>

lemma bind_balanced: "balanced (inline_mysql_socket_bind cfg net (logged psi) f l s a n)"
proof (cases "sock_hook cfg s")
  case (Some p)
  show ?thesis
    unfolding balanced_def
  proof
    fix w :: "('a, psi_log \<times> 'b) world"
    show "\<exists>t. psi_trace (snd (run_state (inline_mysql_socket_bind cfg net (logged psi) f l s a n) w))
        = psi_trace w @ t \<and> closed t"
      by (auto simp: inline_mysql_socket_bind_def Some PSI_CALL_def psi_do_def SOCK_def os_do_def logged_def
          closed_def split_beta split: option.splits)
  qed
qed (simp add: inline_mysql_socket_bind_def quiet_balanced SOCK_rules)

lemma wait_balanced:
  assumes "quiet real"
  shows "balanced (instrumented hook (\<lambda>p. PSI_CALL (logged psi) (start_socket_wait p op n f l)) real
    (\<lambda>locker r. psi_do (logged psi) (end_socket_wait locker (g r))))"
  by (rule instrumented_balanced [where k = Socket_wait and s = "\<lambda>p. start_socket_wait p op n f l"
        and e = "\<lambda>locker r. end_socket_wait locker (g r)"]) (simp_all add: assms)

lemma socket_balanced: "balanced (inline_mysql_socket_socket cfg net (logged psi) key d ty pr)"
  unfolding inline_mysql_socket_socket_def Let_def
  by (intro balanced_bind balanced_if quiet_balanced [OF SOCK_rules(2)] quiet_balanced [OF quiet_basic(1)]
      balanced_call) simp_all

lemma accept_balanced: "balanced (inline_mysql_socket_accept cfg net (logged psi) f l key s a n)"
  unfolding inline_mysql_socket_accept_def Let_def case_prod_beta
  by (intro balanced_bind balanced_if wait_balanced quiet_balanced [OF quiet_basic(1)] sock_real_quiet
      balanced_call) simp_all

lemma close_balanced: "balanced (inline_mysql_socket_close cfg net (logged psi) f l s)"
  unfolding inline_mysql_socket_close_def if_hook_def
  by (intro balanced_bind balanced_option wait_balanced SOCK_rules quiet_balanced [OF quiet_basic(1)]
      balanced_do) simp_all

lemma shutdown_balanced: "balanced (inline_mysql_socket_shutdown cfg net (logged psi) f l s h)"
  unfolding inline_mysql_socket_shutdown_def
  by (intro balanced_bind wait_balanced sock_real_quiet quiet_balanced [OF sock_real_quiet(3)])

lemma mysql_sock_balanced: "balanced (mysql_sock cfg net (logged psi) c)"
proof (cases c)
  case (Op_socket key d ty pr)
  then show ?thesis
    by (simp only: mysql_sock.simps) (intro balanced_bind socket_balanced quiet_balanced [OF quiet_basic(1)])
next
  case (Op_bind f l s a n)
  then show ?thesis by (simp only: mysql_sock.simps bind_balanced)
next
  case (Op_accept f l key s a n)
  then show ?thesis
    by (simp only: mysql_sock.simps) (intro balanced_bind accept_balanced quiet_balanced [OF quiet_basic(1)])
next
  case (Op_close f l s)
  then show ?thesis by (simp only: mysql_sock.simps close_balanced)
next
  case (Op_shutdown f l s h)
  then show ?thesis by (simp only: mysql_sock.simps shutdown_balanced)
qed (simp_all only: mysql_sock.simps mysql_sock_defs, (intro wait_balanced accounted)+)

interpretation sock_waits: accounted_api "mysql_sock cfg net (logged psi)" for cfg net psi
  by unfold_locales (rule mysql_sock_balanced)

text \<open>A socket that could not be made has no instrument.\<close>

lemma invalid_socket_no_instrument:
  "fd (fst (run_state (inline_mysql_socket_socket cfg net psi key d ty pr) w)) = INVALID_SOCKET cfg
    \<Longrightarrow> sock_psi (fst (run_state (inline_mysql_socket_socket cfg net psi key d ty pr) w)) = None"
  "fd (fst (run_state (inline_mysql_socket_accept cfg net psi f l key s a n) w)) = INVALID_SOCKET cfg
    \<Longrightarrow> sock_psi (fst (run_state (inline_mysql_socket_accept cfg net psi f l key s a n) w)) = None"
  by (auto simp: inline_mysql_socket_socket_def inline_mysql_socket_accept_def mysql_socket_invalid_def Let_def
      split_beta split: if_splits)

end
