(* ===== verification/PsiFile.thy ===== *)
theory PsiFile
  imports NativeThreads
begin

text \<open>
  \<open>MySQL Server 5.7/include/mysql/psi/mysql_file.h\<close>: the instrumented files. A
  \<open>MYSQL_FILE\<close> is the address of its structure in the heap; the world keeps its fields \<open>m_file\<close> and
  \<open>m_psi\<close>. The functions of \<open>stdio\<close> and \<open>mysys\<close> are one parameter; buffers, names and other
  pointers are addresses in the memory that the system's state holds, and 0 is \<open>NULL\<close>.
\<close>

unbundle bit_operations_syntax

section \<open>The calls of the system\<close>

datatype (plugins only: code size) file_call =
    Fgets nat int int | Fgetc int | Fputs nat int | Fputc int int | Vfprintf int nat nat | Fflush int | Feof int
  | My_fstat int nat int | My_stat nat nat int | My_chsize int nat int int
  | My_malloc | My_free nat | My_fopen nat int int | My_fclose int int
  | My_fread int nat nat int | My_fwrite int nat nat int | My_fseek int nat int int | My_ftell int int
  | My_create nat int int int | Create_temp_file nat nat nat int int | My_open nat int int | My_close int int
  | My_read int nat nat int | My_write int nat nat int | My_pread int nat nat nat int | My_pwrite int nat nat nat int
  | My_seek int nat int int | My_tell int int | My_delete nat int | My_rename nat nat int
  | My_create_with_symlink nat nat int int int | My_delete_with_symlink nat int
  | My_rename_with_symlink nat nat int | My_sync int int

text \<open>\<open>c_strlen\<close> is the length of the C string at an address; \<open>my_malloc\<close> is asked for a \<open>MYSQL_FILE\<close>.\<close>

record 'o file_env =
  file_sys :: "file_call \<Rightarrow> 'o \<Rightarrow> int \<times> 'o"
  c_strlen :: "'o \<Rightarrow> nat \<Rightarrow> nat"

definition FILE :: "'o file_env \<Rightarrow> file_call \<Rightarrow> ('o, 'p, int) prog" where
  "FILE io c = os_do (file_sys io c)"

lemma FILE_rules [transparent, accounted]: "sim (FILE io c) (FILE io c)" "quiet (FILE io c)"
  by (simp_all add: FILE_def sim_os_do quiet_basic)

definition MY_FNABP :: int where
  "MY_FNABP = 2"

definition MY_NABP :: int where
  "MY_NABP = 4"

definition MY_FILE_ERROR :: int where
  "MY_FILE_ERROR = 2 ^ 64 - 1"

text \<open>The bytes reported for a read or write, and the cast \<open>(size_t) result\<close> of an \<open>int\<close>.\<close>

definition io_bytes :: "int \<Rightarrow> nat \<Rightarrow> int \<Rightarrow> nat" where
  "io_bytes flags count result =
     (if flags AND (MY_NABP OR MY_FNABP) \<noteq> 0 then (if result = 0 then count else 0)
      else (if result \<noteq> MY_FILE_ERROR then nat result else 0))"

definition size_t :: "int \<Rightarrow> nat" where
  "size_t result = nat (result mod 2 ^ 64)"

section \<open>The shape of the wrappers\<close>

text \<open>
  A locker for the file; where there is one, the start of the wait, the operation and the end of the wait,
  else the operation alone.
\<close>

definition with_locker ::
  "bool \<Rightarrow> 'p psi_env \<Rightarrow> psi_call \<Rightarrow> (nat \<Rightarrow> psi_call) \<Rightarrow> ('o, 'p, 'a) prog \<Rightarrow> (nat \<Rightarrow> 'a \<Rightarrow> ('o, 'p, unit) prog)
    \<Rightarrow> ('o, 'p, 'a) prog" where
  "with_locker have psi get start op fin = do {
     locker \<leftarrow> (if have then PSI_CALL psi get else ret None);
     case locker of
       Some l \<Rightarrow> do {
         _ \<leftarrow> psi_do psi (start l);
         result \<leftarrow> op;
         _ \<leftarrow> fin l result;
         ret result
       }
     | None \<Rightarrow> op
   }"

text \<open>The three ways to get a locker: for a stream, for a descriptor and for a name.\<close>

definition stream_wait ::
  "config \<Rightarrow> 'p psi_env \<Rightarrow> nat \<Rightarrow> PSI_file_operation \<Rightarrow> (nat \<Rightarrow> psi_call) \<Rightarrow> (int \<Rightarrow> ('o, 'p, 'a) prog)
    \<Rightarrow> (nat \<Rightarrow> 'a \<Rightarrow> ('o, 'p, unit) prog) \<Rightarrow> ('o, 'p, 'a) prog" where
  "stream_wait cfg psi file op start real fin = do {
     p \<leftarrow> get_m_psi file;
     f \<leftarrow> get_m_file file;
     with_locker (HAVE_PSI_FILE_INTERFACE cfg) psi (get_thread_file_stream_locker p op) start (real f) fin
   }"

definition descriptor_wait ::
  "config \<Rightarrow> 'p psi_env \<Rightarrow> int \<Rightarrow> PSI_file_operation \<Rightarrow> (nat \<Rightarrow> psi_call) \<Rightarrow> ('o, 'p, 'a) prog
    \<Rightarrow> (nat \<Rightarrow> 'a \<Rightarrow> ('o, 'p, unit) prog) \<Rightarrow> ('o, 'p, 'a) prog" where
  "descriptor_wait cfg psi file op =
     with_locker (HAVE_PSI_FILE_INTERFACE cfg) psi (get_thread_file_descriptor_locker file op)"

text \<open>The last argument of the call identifies the object; most wrappers pass the address of a local.\<close>

definition name_wait ::
  "config \<Rightarrow> 'p psi_env \<Rightarrow> nat \<Rightarrow> PSI_file_operation \<Rightarrow> nat option \<Rightarrow> nat \<Rightarrow> (nat \<Rightarrow> psi_call) \<Rightarrow> ('o, 'p, 'a) prog
    \<Rightarrow> (nat \<Rightarrow> 'a \<Rightarrow> ('o, 'p, unit) prog) \<Rightarrow> ('o, 'p, 'a) prog" where
  "name_wait cfg psi key op path identity =
     with_locker (HAVE_PSI_FILE_INTERFACE cfg) psi (get_thread_file_name_locker key op path identity)"

section \<open>The wrappers\<close>

definition inline_mysql_file_register :: "config \<Rightarrow> 'p psi_env \<Rightarrow> string \<Rightarrow> nat \<Rightarrow> int \<Rightarrow> ('o, 'p, unit) prog" where
  "inline_mysql_file_register cfg psi category info count =
     (if HAVE_PSI_FILE_INTERFACE cfg then psi_do psi (register_file category info count) else ret ())"

definition inline_mysql_file_fgets ::
  "config \<Rightarrow> 'o file_env \<Rightarrow> 'p psi_env \<Rightarrow> string \<Rightarrow> nat \<Rightarrow> nat \<Rightarrow> int \<Rightarrow> nat \<Rightarrow> ('o, 'p, int) prog" where
  "inline_mysql_file_fgets cfg io psi src_file src_line str sz file =
     stream_wait cfg psi file PSI_FILE_READ (\<lambda>l. start_file_wait l (size_t sz) src_file src_line)
       (\<lambda>f. FILE io (Fgets str sz f))
       (\<lambda>l result. do {
         n \<leftarrow> (if result \<noteq> 0 then os_get (\<lambda>s. c_strlen io s (nat result)) else ret 0);
         psi_do psi (end_file_wait l n)
       })"

definition inline_mysql_file_fgetc ::
  "config \<Rightarrow> 'o file_env \<Rightarrow> 'p psi_env \<Rightarrow> string \<Rightarrow> nat \<Rightarrow> nat \<Rightarrow> ('o, 'p, int) prog" where
  "inline_mysql_file_fgetc cfg io psi src_file src_line file =
     stream_wait cfg psi file PSI_FILE_READ (\<lambda>l. start_file_wait l 1 src_file src_line)
       (\<lambda>f. FILE io (Fgetc f))
       (\<lambda>l result. psi_do psi (end_file_wait l 1))"

text \<open>The length of the string is computed once, before the wait.\<close>

definition inline_mysql_file_fputs ::
  "config \<Rightarrow> 'o file_env \<Rightarrow> 'p psi_env \<Rightarrow> string \<Rightarrow> nat \<Rightarrow> nat \<Rightarrow> nat \<Rightarrow> ('o, 'p, int) prog" where
  "inline_mysql_file_fputs cfg io psi src_file src_line str file =
     do {
       bytes \<leftarrow> (if str \<noteq> 0 then os_get (\<lambda>s. c_strlen io s str) else ret 0);
       stream_wait cfg psi file PSI_FILE_WRITE (\<lambda>l. start_file_wait l bytes src_file src_line)
         (\<lambda>f. FILE io (Fputs str f))
         (\<lambda>l result. psi_do psi (end_file_wait l bytes))
     }"

definition inline_mysql_file_fputc ::
  "config \<Rightarrow> 'o file_env \<Rightarrow> 'p psi_env \<Rightarrow> string \<Rightarrow> nat \<Rightarrow> int \<Rightarrow> nat \<Rightarrow> ('o, 'p, int) prog" where
  "inline_mysql_file_fputc cfg io psi src_file src_line c file =
     stream_wait cfg psi file PSI_FILE_WRITE (\<lambda>l. start_file_wait l 1 src_file src_line)
       (\<lambda>f. FILE io (Fputc c f))
       (\<lambda>l result. psi_do psi (end_file_wait l 1))"

text \<open>The file and line here are those of the header; the arguments are an address.\<close>

definition inline_mysql_file_fprintf ::
  "config \<Rightarrow> 'o file_env \<Rightarrow> 'p psi_env \<Rightarrow> string \<Rightarrow> nat \<Rightarrow> nat \<Rightarrow> nat \<Rightarrow> nat \<Rightarrow> ('o, 'p, int) prog" where
  "inline_mysql_file_fprintf cfg io psi src_file src_line file format args =
     stream_wait cfg psi file PSI_FILE_WRITE (\<lambda>l. start_file_wait l 0 src_file src_line)
       (\<lambda>f. FILE io (Vfprintf f format args))
       (\<lambda>l result. psi_do psi (end_file_wait l (size_t result)))"

definition inline_mysql_file_vfprintf ::
  "config \<Rightarrow> 'o file_env \<Rightarrow> 'p psi_env \<Rightarrow> string \<Rightarrow> nat \<Rightarrow> nat \<Rightarrow> nat \<Rightarrow> nat \<Rightarrow> ('o, 'p, int) prog" where
  "inline_mysql_file_vfprintf cfg io psi src_file src_line file format args =
     stream_wait cfg psi file PSI_FILE_WRITE (\<lambda>l. start_file_wait l 0 src_file src_line)
       (\<lambda>f. FILE io (Vfprintf f format args))
       (\<lambda>l result. psi_do psi (end_file_wait l (size_t result)))"

definition inline_mysql_file_fflush ::
  "config \<Rightarrow> 'o file_env \<Rightarrow> 'p psi_env \<Rightarrow> string \<Rightarrow> nat \<Rightarrow> nat \<Rightarrow> ('o, 'p, int) prog" where
  "inline_mysql_file_fflush cfg io psi src_file src_line file =
     stream_wait cfg psi file PSI_FILE_FLUSH (\<lambda>l. start_file_wait l 0 src_file src_line)
       (\<lambda>f. FILE io (Fflush f))
       (\<lambda>l result. psi_do psi (end_file_wait l 0))"

definition inline_mysql_file_feof ::
  "config \<Rightarrow> 'o file_env \<Rightarrow> 'p psi_env \<Rightarrow> nat \<Rightarrow> ('o, 'p, int) prog" where
  "inline_mysql_file_feof cfg io psi file =
     do { f \<leftarrow> get_m_file file; FILE io (Feof f) }"

definition inline_mysql_file_fstat ::
  "config \<Rightarrow> 'o file_env \<Rightarrow> 'p psi_env \<Rightarrow> string \<Rightarrow> nat \<Rightarrow> int \<Rightarrow> nat \<Rightarrow> int \<Rightarrow> ('o, 'p, int) prog" where
  "inline_mysql_file_fstat cfg io psi src_file src_line filenr stat_area flags =
     descriptor_wait cfg psi filenr PSI_FILE_FSTAT (\<lambda>l. start_file_wait l 0 src_file src_line)
       (FILE io (My_fstat filenr stat_area flags))
       (\<lambda>l result. psi_do psi (end_file_wait l 0))"

definition inline_mysql_file_stat ::
  "config \<Rightarrow> 'o file_env \<Rightarrow> 'p psi_env \<Rightarrow> nat \<Rightarrow> string \<Rightarrow> nat \<Rightarrow> nat \<Rightarrow> nat \<Rightarrow> nat \<Rightarrow> int \<Rightarrow> ('o, 'p, int) prog" where
  "inline_mysql_file_stat cfg io psi key src_file src_line locker_addr path stat_area flags =
     name_wait cfg psi key PSI_FILE_STAT (Some path) locker_addr (\<lambda>l. start_file_open_wait l src_file src_line)
       (FILE io (My_stat path stat_area flags))
       (\<lambda>l result. psi_do psi (end_file_open_wait l result))"

definition inline_mysql_file_chsize ::
  "config \<Rightarrow> 'o file_env \<Rightarrow> 'p psi_env \<Rightarrow> string \<Rightarrow> nat \<Rightarrow> int \<Rightarrow> nat \<Rightarrow> int \<Rightarrow> int \<Rightarrow> ('o, 'p, int) prog" where
  "inline_mysql_file_chsize cfg io psi src_file src_line file newlength filler flags =
     descriptor_wait cfg psi file PSI_FILE_CHSIZE (\<lambda>l. start_file_wait l newlength src_file src_line)
       (FILE io (My_chsize file newlength filler flags))
       (\<lambda>l result. psi_do psi (end_file_wait l newlength))"

text \<open>
  \<open>fopen\<close> makes the structure first; when the file cannot be opened it is freed again. With a locker the hook
  is what the end of the wait returns.
\<close>

definition fopen_end :: "'o file_env \<Rightarrow> nat \<Rightarrow> ('o, 'p, int) prog" where
  "fopen_end io a = do {
     f \<leftarrow> get_m_file a;
     if f = 0 then do { _ \<leftarrow> FILE io (My_free a); ret 0 } else ret (int a)
   }"

definition fopen_plain :: "'o file_env \<Rightarrow> nat \<Rightarrow> int \<Rightarrow> int \<Rightarrow> ('o, 'p, int) prog" where
  "fopen_plain io filename flags myFlags = do {
     m \<leftarrow> FILE io My_malloc;
     if m \<noteq> 0 then do {
       f \<leftarrow> FILE io (My_fopen filename flags myFlags);
       _ \<leftarrow> set_m_file (nat m) f;
       fopen_end io (nat m)
     } else ret 0
   }"

definition inline_mysql_file_fopen ::
  "config \<Rightarrow> 'o file_env \<Rightarrow> 'p psi_env \<Rightarrow> nat \<Rightarrow> string \<Rightarrow> nat \<Rightarrow> nat \<Rightarrow> int \<Rightarrow> int \<Rightarrow> ('o, 'p, int) prog" where
  "inline_mysql_file_fopen cfg io psi key src_file src_line filename flags myFlags = do {
     m \<leftarrow> FILE io My_malloc;
     if m \<noteq> 0 then do {
       locker \<leftarrow> (if HAVE_PSI_FILE_INTERFACE cfg
         then PSI_CALL psi (get_thread_file_name_locker key PSI_FILE_STREAM_OPEN (Some filename) (nat m))
         else ret None);
       case locker of
         Some l \<Rightarrow> do {
           _ \<leftarrow> psi_do psi (start_file_open_wait l src_file src_line);
           f \<leftarrow> FILE io (My_fopen filename flags myFlags);
           _ \<leftarrow> set_m_file (nat m) f;
           p \<leftarrow> PSI_CALL psi (end_file_open_wait l f);
           _ \<leftarrow> set_m_psi (nat m) p;
           fopen_end io (nat m)
         }
       | None \<Rightarrow> do {
           _ \<leftarrow> set_m_psi (nat m) None;
           f \<leftarrow> FILE io (My_fopen filename flags myFlags);
           _ \<leftarrow> set_m_file (nat m) f;
           fopen_end io (nat m)
         }
     } else ret 0
   }"

text \<open>\<open>fclose\<close> of \<open>NULL\<close> is 0; the structure is freed whatever the result.\<close>

definition inline_mysql_file_fclose ::
  "config \<Rightarrow> 'o file_env \<Rightarrow> 'p psi_env \<Rightarrow> string \<Rightarrow> nat \<Rightarrow> nat \<Rightarrow> int \<Rightarrow> ('o, 'p, int) prog" where
  "inline_mysql_file_fclose cfg io psi src_file src_line file flags =
     (if file \<noteq> 0 then do {
        result \<leftarrow> stream_wait cfg psi file PSI_FILE_STREAM_CLOSE (\<lambda>l. start_file_close_wait l src_file src_line)
          (\<lambda>f. FILE io (My_fclose f flags))
          (\<lambda>l result. psi_do psi (end_file_close_wait l result));
        _ \<leftarrow> FILE io (My_free file);
        ret result
      } else ret 0)"

definition inline_mysql_file_fread ::
  "config \<Rightarrow> 'o file_env \<Rightarrow> 'p psi_env \<Rightarrow> string \<Rightarrow> nat \<Rightarrow> nat \<Rightarrow> nat \<Rightarrow> nat \<Rightarrow> int \<Rightarrow> ('o, 'p, int) prog" where
  "inline_mysql_file_fread cfg io psi src_file src_line file buffer count flags =
     stream_wait cfg psi file PSI_FILE_READ (\<lambda>l. start_file_wait l count src_file src_line)
       (\<lambda>f. FILE io (My_fread f buffer count flags))
       (\<lambda>l result. psi_do psi (end_file_wait l (io_bytes flags count result)))"

definition inline_mysql_file_fwrite ::
  "config \<Rightarrow> 'o file_env \<Rightarrow> 'p psi_env \<Rightarrow> string \<Rightarrow> nat \<Rightarrow> nat \<Rightarrow> nat \<Rightarrow> nat \<Rightarrow> int \<Rightarrow> ('o, 'p, int) prog" where
  "inline_mysql_file_fwrite cfg io psi src_file src_line file buffer count flags =
     stream_wait cfg psi file PSI_FILE_WRITE (\<lambda>l. start_file_wait l count src_file src_line)
       (\<lambda>f. FILE io (My_fwrite f buffer count flags))
       (\<lambda>l result. psi_do psi (end_file_wait l (io_bytes flags count result)))"

definition inline_mysql_file_fseek ::
  "config \<Rightarrow> 'o file_env \<Rightarrow> 'p psi_env \<Rightarrow> string \<Rightarrow> nat \<Rightarrow> nat \<Rightarrow> nat \<Rightarrow> int \<Rightarrow> int \<Rightarrow> ('o, 'p, int) prog" where
  "inline_mysql_file_fseek cfg io psi src_file src_line file pos whence flags =
     stream_wait cfg psi file PSI_FILE_SEEK (\<lambda>l. start_file_wait l 0 src_file src_line)
       (\<lambda>f. FILE io (My_fseek f pos whence flags))
       (\<lambda>l result. psi_do psi (end_file_wait l 0))"

definition inline_mysql_file_ftell ::
  "config \<Rightarrow> 'o file_env \<Rightarrow> 'p psi_env \<Rightarrow> string \<Rightarrow> nat \<Rightarrow> nat \<Rightarrow> int \<Rightarrow> ('o, 'p, int) prog" where
  "inline_mysql_file_ftell cfg io psi src_file src_line file flags =
     stream_wait cfg psi file PSI_FILE_TELL (\<lambda>l. start_file_wait l 0 src_file src_line)
       (\<lambda>f. FILE io (My_ftell f flags))
       (\<lambda>l result. psi_do psi (end_file_wait l 0))"

definition inline_mysql_file_create ::
  "config \<Rightarrow> 'o file_env \<Rightarrow> 'p psi_env \<Rightarrow> nat \<Rightarrow> string \<Rightarrow> nat \<Rightarrow> nat \<Rightarrow> nat \<Rightarrow> int \<Rightarrow> int \<Rightarrow> int \<Rightarrow> ('o, 'p, int) prog" where
  "inline_mysql_file_create cfg io psi key src_file src_line locker_addr filename create_flags access_flags myFlags =
     name_wait cfg psi key PSI_FILE_CREATE (Some filename) locker_addr (\<lambda>l. start_file_open_wait l src_file src_line)
       (FILE io (My_create filename create_flags access_flags myFlags))
       (\<lambda>l file. psi_do psi (end_file_open_wait_and_bind_to_descriptor l file))"

definition inline_mysql_file_create_temp ::
  "config \<Rightarrow> 'o file_env \<Rightarrow> 'p psi_env \<Rightarrow> nat \<Rightarrow> string \<Rightarrow> nat \<Rightarrow> nat \<Rightarrow> nat \<Rightarrow> nat \<Rightarrow> nat \<Rightarrow> int \<Rightarrow> int \<Rightarrow> ('o, 'p, int) prog" where
  "inline_mysql_file_create_temp cfg io psi key src_file src_line locker_addr to dir pfx mode myFlags =
     name_wait cfg psi key PSI_FILE_CREATE None locker_addr (\<lambda>l. start_file_open_wait l src_file src_line)
       (FILE io (Create_temp_file to dir pfx mode myFlags))
       (\<lambda>l file. psi_do psi (end_temp_file_open_wait_and_bind_to_descriptor l file to))"

definition inline_mysql_file_open ::
  "config \<Rightarrow> 'o file_env \<Rightarrow> 'p psi_env \<Rightarrow> nat \<Rightarrow> string \<Rightarrow> nat \<Rightarrow> nat \<Rightarrow> nat \<Rightarrow> int \<Rightarrow> int \<Rightarrow> ('o, 'p, int) prog" where
  "inline_mysql_file_open cfg io psi key src_file src_line locker_addr filename flags myFlags =
     name_wait cfg psi key PSI_FILE_OPEN (Some filename) locker_addr (\<lambda>l. start_file_open_wait l src_file src_line)
       (FILE io (My_open filename flags myFlags))
       (\<lambda>l file. psi_do psi (end_file_open_wait_and_bind_to_descriptor l file))"

definition inline_mysql_file_close ::
  "config \<Rightarrow> 'o file_env \<Rightarrow> 'p psi_env \<Rightarrow> string \<Rightarrow> nat \<Rightarrow> int \<Rightarrow> int \<Rightarrow> ('o, 'p, int) prog" where
  "inline_mysql_file_close cfg io psi src_file src_line file flags =
     descriptor_wait cfg psi file PSI_FILE_CLOSE (\<lambda>l. start_file_close_wait l src_file src_line)
       (FILE io (My_close file flags))
       (\<lambda>l result. psi_do psi (end_file_close_wait l result))"

definition inline_mysql_file_read ::
  "config \<Rightarrow> 'o file_env \<Rightarrow> 'p psi_env \<Rightarrow> string \<Rightarrow> nat \<Rightarrow> int \<Rightarrow> nat \<Rightarrow> nat \<Rightarrow> int \<Rightarrow> ('o, 'p, int) prog" where
  "inline_mysql_file_read cfg io psi src_file src_line file buffer count flags =
     descriptor_wait cfg psi file PSI_FILE_READ (\<lambda>l. start_file_wait l count src_file src_line)
       (FILE io (My_read file buffer count flags))
       (\<lambda>l result. psi_do psi (end_file_wait l (io_bytes flags count result)))"

definition inline_mysql_file_write ::
  "config \<Rightarrow> 'o file_env \<Rightarrow> 'p psi_env \<Rightarrow> string \<Rightarrow> nat \<Rightarrow> int \<Rightarrow> nat \<Rightarrow> nat \<Rightarrow> int \<Rightarrow> ('o, 'p, int) prog" where
  "inline_mysql_file_write cfg io psi src_file src_line file buffer count flags =
     descriptor_wait cfg psi file PSI_FILE_WRITE (\<lambda>l. start_file_wait l count src_file src_line)
       (FILE io (My_write file buffer count flags))
       (\<lambda>l result. psi_do psi (end_file_wait l (io_bytes flags count result)))"

definition inline_mysql_file_pread ::
  "config \<Rightarrow> 'o file_env \<Rightarrow> 'p psi_env \<Rightarrow> string \<Rightarrow> nat \<Rightarrow> int \<Rightarrow> nat \<Rightarrow> nat \<Rightarrow> nat \<Rightarrow> int \<Rightarrow> ('o, 'p, int) prog" where
  "inline_mysql_file_pread cfg io psi src_file src_line file buffer count offset flags =
     descriptor_wait cfg psi file PSI_FILE_READ (\<lambda>l. start_file_wait l count src_file src_line)
       (FILE io (My_pread file buffer count offset flags))
       (\<lambda>l result. psi_do psi (end_file_wait l (io_bytes flags count result)))"

definition inline_mysql_file_pwrite ::
  "config \<Rightarrow> 'o file_env \<Rightarrow> 'p psi_env \<Rightarrow> string \<Rightarrow> nat \<Rightarrow> int \<Rightarrow> nat \<Rightarrow> nat \<Rightarrow> nat \<Rightarrow> int \<Rightarrow> ('o, 'p, int) prog" where
  "inline_mysql_file_pwrite cfg io psi src_file src_line file buffer count offset flags =
     descriptor_wait cfg psi file PSI_FILE_WRITE (\<lambda>l. start_file_wait l count src_file src_line)
       (FILE io (My_pwrite file buffer count offset flags))
       (\<lambda>l result. psi_do psi (end_file_wait l (io_bytes flags count result)))"

definition inline_mysql_file_seek ::
  "config \<Rightarrow> 'o file_env \<Rightarrow> 'p psi_env \<Rightarrow> string \<Rightarrow> nat \<Rightarrow> int \<Rightarrow> nat \<Rightarrow> int \<Rightarrow> int \<Rightarrow> ('o, 'p, int) prog" where
  "inline_mysql_file_seek cfg io psi src_file src_line file pos whence flags =
     descriptor_wait cfg psi file PSI_FILE_SEEK (\<lambda>l. start_file_wait l 0 src_file src_line)
       (FILE io (My_seek file pos whence flags))
       (\<lambda>l result. psi_do psi (end_file_wait l 0))"

definition inline_mysql_file_tell ::
  "config \<Rightarrow> 'o file_env \<Rightarrow> 'p psi_env \<Rightarrow> string \<Rightarrow> nat \<Rightarrow> int \<Rightarrow> int \<Rightarrow> ('o, 'p, int) prog" where
  "inline_mysql_file_tell cfg io psi src_file src_line file flags =
     descriptor_wait cfg psi file PSI_FILE_TELL (\<lambda>l. start_file_wait l 0 src_file src_line)
       (FILE io (My_tell file flags))
       (\<lambda>l result. psi_do psi (end_file_wait l 0))"

definition inline_mysql_file_delete ::
  "config \<Rightarrow> 'o file_env \<Rightarrow> 'p psi_env \<Rightarrow> nat \<Rightarrow> string \<Rightarrow> nat \<Rightarrow> nat \<Rightarrow> nat \<Rightarrow> int \<Rightarrow> ('o, 'p, int) prog" where
  "inline_mysql_file_delete cfg io psi key src_file src_line locker_addr name flags =
     name_wait cfg psi key PSI_FILE_DELETE (Some name) locker_addr (\<lambda>l. start_file_close_wait l src_file src_line)
       (FILE io (My_delete name flags))
       (\<lambda>l result. psi_do psi (end_file_close_wait l result))"

definition inline_mysql_file_rename ::
  "config \<Rightarrow> 'o file_env \<Rightarrow> 'p psi_env \<Rightarrow> nat \<Rightarrow> string \<Rightarrow> nat \<Rightarrow> nat \<Rightarrow> nat \<Rightarrow> nat \<Rightarrow> int \<Rightarrow> ('o, 'p, int) prog" where
  "inline_mysql_file_rename cfg io psi key src_file src_line locker_addr from_name to_name flags =
     name_wait cfg psi key PSI_FILE_RENAME (Some from_name) locker_addr (\<lambda>l. start_file_wait l 0 src_file src_line)
       (FILE io (My_rename from_name to_name flags))
       (\<lambda>l result. psi_do psi (end_file_rename_wait l from_name to_name result))"

definition inline_mysql_file_create_with_symlink ::
  "config \<Rightarrow> 'o file_env \<Rightarrow> 'p psi_env \<Rightarrow> nat \<Rightarrow> string \<Rightarrow> nat \<Rightarrow> nat \<Rightarrow> nat \<Rightarrow> nat \<Rightarrow> int \<Rightarrow> int \<Rightarrow> int \<Rightarrow> ('o, 'p, int) prog" where
  "inline_mysql_file_create_with_symlink cfg io psi key src_file src_line locker_addr linkname filename create_flags access_flags flags =
     name_wait cfg psi key PSI_FILE_CREATE (Some filename) locker_addr (\<lambda>l. start_file_open_wait l src_file src_line)
       (FILE io (My_create_with_symlink linkname filename create_flags access_flags flags))
       (\<lambda>l file. psi_do psi (end_file_open_wait_and_bind_to_descriptor l file))"

definition inline_mysql_file_delete_with_symlink ::
  "config \<Rightarrow> 'o file_env \<Rightarrow> 'p psi_env \<Rightarrow> nat \<Rightarrow> string \<Rightarrow> nat \<Rightarrow> nat \<Rightarrow> nat \<Rightarrow> int \<Rightarrow> ('o, 'p, int) prog" where
  "inline_mysql_file_delete_with_symlink cfg io psi key src_file src_line locker_addr name flags =
     name_wait cfg psi key PSI_FILE_DELETE (Some name) locker_addr (\<lambda>l. start_file_close_wait l src_file src_line)
       (FILE io (My_delete_with_symlink name flags))
       (\<lambda>l result. psi_do psi (end_file_close_wait l result))"

definition inline_mysql_file_rename_with_symlink ::
  "config \<Rightarrow> 'o file_env \<Rightarrow> 'p psi_env \<Rightarrow> nat \<Rightarrow> string \<Rightarrow> nat \<Rightarrow> nat \<Rightarrow> nat \<Rightarrow> nat \<Rightarrow> int \<Rightarrow> ('o, 'p, int) prog" where
  "inline_mysql_file_rename_with_symlink cfg io psi key src_file src_line locker_addr from_name to_name flags =
     name_wait cfg psi key PSI_FILE_RENAME (Some from_name) locker_addr (\<lambda>l. start_file_wait l 0 src_file src_line)
       (FILE io (My_rename_with_symlink from_name to_name flags))
       (\<lambda>l result. psi_do psi (end_file_rename_wait l from_name to_name result))"

definition inline_mysql_file_sync ::
  "config \<Rightarrow> 'o file_env \<Rightarrow> 'p psi_env \<Rightarrow> string \<Rightarrow> nat \<Rightarrow> int \<Rightarrow> int \<Rightarrow> ('o, 'p, int) prog" where
  "inline_mysql_file_sync cfg io psi src_file src_line fd flags =
     descriptor_wait cfg psi fd PSI_FILE_SYNC (\<lambda>l. start_file_wait l 0 src_file src_line)
       (FILE io (My_sync fd flags))
       (\<lambda>l result. psi_do psi (end_file_wait l 0))"

section \<open>A drop-in replacement\<close>

text \<open>The calls of a program on its files, with the instrumented functions and with those of \<open>stdio\<close> and \<open>mysys\<close>.\<close>

datatype (plugins only: code size) io_call =
    Op_fgets string nat nat int nat
  | Op_fgetc string nat nat
  | Op_fputs string nat nat nat
  | Op_fputc string nat int nat
  | Op_fprintf string nat nat nat nat
  | Op_vfprintf string nat nat nat nat
  | Op_fflush string nat nat
  | Op_feof nat
  | Op_fstat string nat int nat int
  | Op_stat nat string nat nat nat nat int
  | Op_chsize string nat int nat int int
  | Op_fopen nat string nat nat int int
  | Op_fclose string nat nat int
  | Op_fread string nat nat nat nat int
  | Op_fwrite string nat nat nat nat int
  | Op_fseek string nat nat nat int int
  | Op_ftell string nat nat int
  | Op_create nat string nat nat nat int int int
  | Op_create_temp nat string nat nat nat nat nat int int
  | Op_open nat string nat nat nat int int
  | Op_close string nat int int
  | Op_read string nat int nat nat int
  | Op_write string nat int nat nat int
  | Op_pread string nat int nat nat nat int
  | Op_pwrite string nat int nat nat nat int
  | Op_seek string nat int nat int int
  | Op_tell string nat int int
  | Op_delete nat string nat nat nat int
  | Op_rename nat string nat nat nat nat int
  | Op_create_with_symlink nat string nat nat nat nat int int int
  | Op_delete_with_symlink nat string nat nat nat int
  | Op_rename_with_symlink nat string nat nat nat nat int
  | Op_sync string nat int int

fun mysql_io :: "config \<Rightarrow> 'o file_env \<Rightarrow> 'p psi_env \<Rightarrow> io_call \<Rightarrow> ('o, 'p, int) prog" where
  "mysql_io cfg io psi (Op_fgets src_file src_line str sz file) = inline_mysql_file_fgets cfg io psi src_file src_line str sz file"
| "mysql_io cfg io psi (Op_fgetc src_file src_line file) = inline_mysql_file_fgetc cfg io psi src_file src_line file"
| "mysql_io cfg io psi (Op_fputs src_file src_line str file) = inline_mysql_file_fputs cfg io psi src_file src_line str file"
| "mysql_io cfg io psi (Op_fputc src_file src_line c file) = inline_mysql_file_fputc cfg io psi src_file src_line c file"
| "mysql_io cfg io psi (Op_fprintf src_file src_line file format args) = inline_mysql_file_fprintf cfg io psi src_file src_line file format args"
| "mysql_io cfg io psi (Op_vfprintf src_file src_line file format args) = inline_mysql_file_vfprintf cfg io psi src_file src_line file format args"
| "mysql_io cfg io psi (Op_fflush src_file src_line file) = inline_mysql_file_fflush cfg io psi src_file src_line file"
| "mysql_io cfg io psi (Op_feof file) = inline_mysql_file_feof cfg io psi file"
| "mysql_io cfg io psi (Op_fstat src_file src_line filenr stat_area flags) = inline_mysql_file_fstat cfg io psi src_file src_line filenr stat_area flags"
| "mysql_io cfg io psi (Op_stat key src_file src_line locker_addr path stat_area flags) = inline_mysql_file_stat cfg io psi key src_file src_line locker_addr path stat_area flags"
| "mysql_io cfg io psi (Op_chsize src_file src_line file newlength filler flags) = inline_mysql_file_chsize cfg io psi src_file src_line file newlength filler flags"
| "mysql_io cfg io psi (Op_fopen key src_file src_line filename flags myFlags) = inline_mysql_file_fopen cfg io psi key src_file src_line filename flags myFlags"
| "mysql_io cfg io psi (Op_fclose src_file src_line file flags) = inline_mysql_file_fclose cfg io psi src_file src_line file flags"
| "mysql_io cfg io psi (Op_fread src_file src_line file buffer count flags) = inline_mysql_file_fread cfg io psi src_file src_line file buffer count flags"
| "mysql_io cfg io psi (Op_fwrite src_file src_line file buffer count flags) = inline_mysql_file_fwrite cfg io psi src_file src_line file buffer count flags"
| "mysql_io cfg io psi (Op_fseek src_file src_line file pos whence flags) = inline_mysql_file_fseek cfg io psi src_file src_line file pos whence flags"
| "mysql_io cfg io psi (Op_ftell src_file src_line file flags) = inline_mysql_file_ftell cfg io psi src_file src_line file flags"
| "mysql_io cfg io psi (Op_create key src_file src_line locker_addr filename create_flags access_flags myFlags) = inline_mysql_file_create cfg io psi key src_file src_line locker_addr filename create_flags access_flags myFlags"
| "mysql_io cfg io psi (Op_create_temp key src_file src_line locker_addr to dir pfx mode myFlags) = inline_mysql_file_create_temp cfg io psi key src_file src_line locker_addr to dir pfx mode myFlags"
| "mysql_io cfg io psi (Op_open key src_file src_line locker_addr filename flags myFlags) = inline_mysql_file_open cfg io psi key src_file src_line locker_addr filename flags myFlags"
| "mysql_io cfg io psi (Op_close src_file src_line file flags) = inline_mysql_file_close cfg io psi src_file src_line file flags"
| "mysql_io cfg io psi (Op_read src_file src_line file buffer count flags) = inline_mysql_file_read cfg io psi src_file src_line file buffer count flags"
| "mysql_io cfg io psi (Op_write src_file src_line file buffer count flags) = inline_mysql_file_write cfg io psi src_file src_line file buffer count flags"
| "mysql_io cfg io psi (Op_pread src_file src_line file buffer count offset flags) = inline_mysql_file_pread cfg io psi src_file src_line file buffer count offset flags"
| "mysql_io cfg io psi (Op_pwrite src_file src_line file buffer count offset flags) = inline_mysql_file_pwrite cfg io psi src_file src_line file buffer count offset flags"
| "mysql_io cfg io psi (Op_seek src_file src_line file pos whence flags) = inline_mysql_file_seek cfg io psi src_file src_line file pos whence flags"
| "mysql_io cfg io psi (Op_tell src_file src_line file flags) = inline_mysql_file_tell cfg io psi src_file src_line file flags"
| "mysql_io cfg io psi (Op_delete key src_file src_line locker_addr name flags) = inline_mysql_file_delete cfg io psi key src_file src_line locker_addr name flags"
| "mysql_io cfg io psi (Op_rename key src_file src_line locker_addr from_name to_name flags) = inline_mysql_file_rename cfg io psi key src_file src_line locker_addr from_name to_name flags"
| "mysql_io cfg io psi (Op_create_with_symlink key src_file src_line locker_addr linkname filename create_flags access_flags flags) = inline_mysql_file_create_with_symlink cfg io psi key src_file src_line locker_addr linkname filename create_flags access_flags flags"
| "mysql_io cfg io psi (Op_delete_with_symlink key src_file src_line locker_addr name flags) = inline_mysql_file_delete_with_symlink cfg io psi key src_file src_line locker_addr name flags"
| "mysql_io cfg io psi (Op_rename_with_symlink key src_file src_line locker_addr from_name to_name flags) = inline_mysql_file_rename_with_symlink cfg io psi key src_file src_line locker_addr from_name to_name flags"
| "mysql_io cfg io psi (Op_sync src_file src_line fd flags) = inline_mysql_file_sync cfg io psi src_file src_line fd flags"

fun plain_io :: "'o file_env \<Rightarrow> io_call \<Rightarrow> ('o, 'p, int) prog" where
  "plain_io io (Op_fgets src_file src_line str sz file) = do { f \<leftarrow> get_m_file file; FILE io (Fgets str sz f) }"
| "plain_io io (Op_fgetc src_file src_line file) = do { f \<leftarrow> get_m_file file; FILE io (Fgetc f) }"
| "plain_io io (Op_fputs src_file src_line str file) = do { f \<leftarrow> get_m_file file; FILE io (Fputs str f) }"
| "plain_io io (Op_fputc src_file src_line c file) = do { f \<leftarrow> get_m_file file; FILE io (Fputc c f) }"
| "plain_io io (Op_fprintf src_file src_line file format args) = do { f \<leftarrow> get_m_file file; FILE io (Vfprintf f format args) }"
| "plain_io io (Op_vfprintf src_file src_line file format args) = do { f \<leftarrow> get_m_file file; FILE io (Vfprintf f format args) }"
| "plain_io io (Op_fflush src_file src_line file) = do { f \<leftarrow> get_m_file file; FILE io (Fflush f) }"
| "plain_io io (Op_feof file) = do { f \<leftarrow> get_m_file file; FILE io (Feof f) }"
| "plain_io io (Op_fstat src_file src_line filenr stat_area flags) = FILE io (My_fstat filenr stat_area flags)"
| "plain_io io (Op_stat key src_file src_line locker_addr path stat_area flags) = FILE io (My_stat path stat_area flags)"
| "plain_io io (Op_chsize src_file src_line file newlength filler flags) = FILE io (My_chsize file newlength filler flags)"
| "plain_io io (Op_fopen key src_file src_line filename flags myFlags) = fopen_plain io filename flags myFlags"
| "plain_io io (Op_fclose src_file src_line file flags) = (if file \<noteq> 0 then do { f \<leftarrow> get_m_file file; r \<leftarrow> FILE io (My_fclose f flags); _ \<leftarrow> FILE io (My_free file); ret r } else ret 0)"
| "plain_io io (Op_fread src_file src_line file buffer count flags) = do { f \<leftarrow> get_m_file file; FILE io (My_fread f buffer count flags) }"
| "plain_io io (Op_fwrite src_file src_line file buffer count flags) = do { f \<leftarrow> get_m_file file; FILE io (My_fwrite f buffer count flags) }"
| "plain_io io (Op_fseek src_file src_line file pos whence flags) = do { f \<leftarrow> get_m_file file; FILE io (My_fseek f pos whence flags) }"
| "plain_io io (Op_ftell src_file src_line file flags) = do { f \<leftarrow> get_m_file file; FILE io (My_ftell f flags) }"
| "plain_io io (Op_create key src_file src_line locker_addr filename create_flags access_flags myFlags) = FILE io (My_create filename create_flags access_flags myFlags)"
| "plain_io io (Op_create_temp key src_file src_line locker_addr to dir pfx mode myFlags) = FILE io (Create_temp_file to dir pfx mode myFlags)"
| "plain_io io (Op_open key src_file src_line locker_addr filename flags myFlags) = FILE io (My_open filename flags myFlags)"
| "plain_io io (Op_close src_file src_line file flags) = FILE io (My_close file flags)"
| "plain_io io (Op_read src_file src_line file buffer count flags) = FILE io (My_read file buffer count flags)"
| "plain_io io (Op_write src_file src_line file buffer count flags) = FILE io (My_write file buffer count flags)"
| "plain_io io (Op_pread src_file src_line file buffer count offset flags) = FILE io (My_pread file buffer count offset flags)"
| "plain_io io (Op_pwrite src_file src_line file buffer count offset flags) = FILE io (My_pwrite file buffer count offset flags)"
| "plain_io io (Op_seek src_file src_line file pos whence flags) = FILE io (My_seek file pos whence flags)"
| "plain_io io (Op_tell src_file src_line file flags) = FILE io (My_tell file flags)"
| "plain_io io (Op_delete key src_file src_line locker_addr name flags) = FILE io (My_delete name flags)"
| "plain_io io (Op_rename key src_file src_line locker_addr from_name to_name flags) = FILE io (My_rename from_name to_name flags)"
| "plain_io io (Op_create_with_symlink key src_file src_line locker_addr linkname filename create_flags access_flags flags) = FILE io (My_create_with_symlink linkname filename create_flags access_flags flags)"
| "plain_io io (Op_delete_with_symlink key src_file src_line locker_addr name flags) = FILE io (My_delete_with_symlink name flags)"
| "plain_io io (Op_rename_with_symlink key src_file src_line locker_addr from_name to_name flags) = FILE io (My_rename_with_symlink from_name to_name flags)"
| "plain_io io (Op_sync src_file src_line fd flags) = FILE io (My_sync fd flags)"

lemmas mysql_io_defs = inline_mysql_file_fgets_def
  inline_mysql_file_fgetc_def
  inline_mysql_file_fputc_def
  inline_mysql_file_fprintf_def
  inline_mysql_file_vfprintf_def
  inline_mysql_file_fflush_def
  inline_mysql_file_fstat_def
  inline_mysql_file_stat_def
  inline_mysql_file_chsize_def
  inline_mysql_file_fread_def
  inline_mysql_file_fwrite_def
  inline_mysql_file_fseek_def
  inline_mysql_file_ftell_def
  inline_mysql_file_create_def
  inline_mysql_file_create_temp_def
  inline_mysql_file_open_def
  inline_mysql_file_close_def
  inline_mysql_file_read_def
  inline_mysql_file_write_def
  inline_mysql_file_pread_def
  inline_mysql_file_pwrite_def
  inline_mysql_file_seek_def
  inline_mysql_file_tell_def
  inline_mysql_file_delete_def
  inline_mysql_file_rename_def
  inline_mysql_file_create_with_symlink_def
  inline_mysql_file_delete_with_symlink_def
  inline_mysql_file_rename_with_symlink_def
  inline_mysql_file_sync_def

lemma with_locker_sim [transparent]:
  assumes "sim op op'" "\<And>l r. silent (fin l r)"
  shows "sim (with_locker have psi get start op fin) op'"
  unfolding with_locker_def
proof (rule sim_skip)
  show "silent (if have then PSI_CALL psi get else ret None)"
    by (intro silent_if silent_psi silent_ret)
next
  fix locker
  show "sim (case locker of None \<Rightarrow> op | Some l \<Rightarrow> do {
      _ \<leftarrow> psi_do psi (start l); result \<leftarrow> op; _ \<leftarrow> fin l result; ret result }) op'"
  proof (cases locker)
    case (Some l)
    have "sim (do { result \<leftarrow> op; _ \<leftarrow> fin l result; ret result }) op'"
      using simD [OF assms(1)] silentD [OF assms(2)] by (intro simI) (auto simp: split_beta)
    then show ?thesis unfolding Some option.case by (rule sim_skip [OF silent_psi(2)])
  qed (use assms(1) in simp)
qed

lemma stream_wait_sim [transparent]:
  assumes "\<And>f. sim (real f) (real' f)" "\<And>l r. silent (fin l r)"
  shows "sim (stream_wait cfg psi file op start real fin) (do { f \<leftarrow> get_m_file file; real' f })"
  unfolding stream_wait_def
  by (rule sim_skip [OF silent_psi(3)]) (intro sim_bind sim_m_file with_locker_sim assms)

lemma fopen_end_rules [transparent, accounted]: "sim (fopen_end io a) (fopen_end io a)" "quiet (fopen_end io a)"
  unfolding fopen_end_def by (intro transparent, intro accounted)

lemma fgets_end_silent [transparent]:
  "silent (do { n \<leftarrow> (if b then os_get g else ret 0); psi_do psi (c n) })"
  by (intro transparent)

lemma fopen_sim:
  "sim (inline_mysql_file_fopen cfg io psi key f l name flags my) (fopen_plain io name flags my)"
proof -
  have with_lock: "sim (do {
      _ \<leftarrow> psi_do psi (start_file_open_wait k f l);
      h \<leftarrow> FILE io (My_fopen name flags my);
      _ \<leftarrow> set_m_file a h;
      p \<leftarrow> PSI_CALL psi (end_file_open_wait k h);
      _ \<leftarrow> set_m_psi a p;
      fopen_end io a })
    (do { h \<leftarrow> FILE io (My_fopen name flags my); _ \<leftarrow> set_m_file a h; fopen_end io a })" for k a
    by (intro sim_skip [OF silent_psi(2)] sim_bind FILE_rules sim_m_file sim_skip [OF silent_psi(1)]
        sim_skip [OF silent_psi(4)] fopen_end_rules)
  have without: "sim (do {
      _ \<leftarrow> set_m_psi a None;
      h \<leftarrow> FILE io (My_fopen name flags my);
      _ \<leftarrow> set_m_file a h;
      fopen_end io a })
    (do { h \<leftarrow> FILE io (My_fopen name flags my); _ \<leftarrow> set_m_file a h; fopen_end io a })" for a
    by (intro sim_skip [OF silent_psi(4)] sim_bind FILE_rules sim_m_file fopen_end_rules)
  show ?thesis
    unfolding inline_mysql_file_fopen_def fopen_plain_def
    by (intro sim_bind FILE_rules sim_if sim_ret, rule sim_skip)
      (auto intro!: silent_if silent_psi silent_ret with_lock without split: option.split)
qed

lemma fclose_sim:
  "sim (inline_mysql_file_fclose cfg io psi f l file flags)
    (if file \<noteq> 0 then do { h \<leftarrow> get_m_file file; r \<leftarrow> FILE io (My_fclose h flags); _ \<leftarrow> FILE io (My_free file); ret r }
     else ret 0)"
proof -
  have "sim (do { r \<leftarrow> stream_wait cfg psi file PSI_FILE_STREAM_CLOSE (\<lambda>k. start_file_close_wait k f l)
      (\<lambda>h. FILE io (My_fclose h flags)) (\<lambda>k r. psi_do psi (end_file_close_wait k r));
      _ \<leftarrow> FILE io (My_free file); ret r })
    (do { r \<leftarrow> (do { h \<leftarrow> get_m_file file; FILE io (My_fclose h flags) }); _ \<leftarrow> FILE io (My_free file); ret r })"
    by (intro sim_bind stream_wait_sim FILE_rules silent_psi sim_ret)
  then show ?thesis
    unfolding inline_mysql_file_fclose_def State_Monad.bind_assoc by (intro sim_if sim_ret)
qed

lemma mysql_io_sim: "sim (mysql_io cfg io psi c) (plain_io io c)"
proof (cases c)
  case (Op_fopen key f l name flags my)
  then show ?thesis by (simp only: mysql_io.simps plain_io.simps fopen_sim)
next
  case (Op_fclose f l fp flags)
  then show ?thesis by (simp only: mysql_io.simps plain_io.simps fclose_sim)
next
  case (Op_feof fp)
  then show ?thesis
    by (simp only: mysql_io.simps plain_io.simps inline_mysql_file_feof_def) (intro transparent)
next
  case (Op_fputs f l str fp)
  have s: "silent (if str \<noteq> 0 then os_get g else ret 0)" for g by (intro transparent)
  show ?thesis
    unfolding Op_fputs mysql_io.simps plain_io.simps inline_mysql_file_fputs_def
    by (rule sim_skip [OF s]) (intro stream_wait_sim FILE_rules silent_psi)
qed (simp_all only: mysql_io.simps plain_io.simps mysql_io_defs descriptor_wait_def name_wait_def,
    (intro stream_wait_sim with_locker_sim FILE_rules silent_psi fgets_end_silent)+)

interpretation io: drop_in "mysql_io cfg io psi" "plain_io io" for cfg io psi
  by unfold_locales (rule mysql_io_sim)

section \<open>Accounting\<close>

text \<open>A program whose only event is the end of a wait.\<close>

definition closes :: "wait_kind \<Rightarrow> nat \<Rightarrow> ('o, psi_log \<times> 'q, 'a) prog \<Rightarrow> bool" where
  "closes k l m \<longleftrightarrow> (\<forall>w. \<exists>c x. psi_trace (snd (run_state m w)) = psi_trace w @ [(c, x)]
     \<and> starts c = None \<and> opens c = None \<and> ends c = Some (k, l))"

lemma closes_call:
  assumes "starts c = None" "opens c = None" "ends c = Some (k, l)"
  shows "closes k l (PSI_CALL (logged psi) c)" "closes k l (psi_do (logged psi) c)"
  using assms by (auto simp: closes_def PSI_CALL_def psi_do_def logged_def split_beta)

lemma closes_bind:
  assumes "quiet m" "\<And>x. closes k l (f x)"
  shows "closes k l (do { x \<leftarrow> m; f x })"
  unfolding closes_def
proof
  fix w
  obtain x w1 where 1: "run_state m w = (x, w1)" by fastforce
  have "psi_trace w1 = psi_trace w" using quietD [OF assms(1), of w] 1 by simp
  then show "\<exists>c y. psi_trace (snd (run_state (do { x \<leftarrow> m; f x }) w)) = psi_trace w @ [(c, y)]
     \<and> starts c = None \<and> opens c = None \<and> ends c = Some (k, l)"
    using assms(2) [of x, unfolded closes_def, rule_format, of w1] 1 by simp
qed

lemma waiting_balanced:
  fixes op :: "('o, psi_log \<times> 'q, 'a) prog"
  assumes start: "starts s = None" "opens s = Some (k, l)" and op: "quiet op"
    and fin: "\<And>r. closes k l (c r)" and rest: "\<And>r x. quiet (g r x)"
  shows "balanced (do { _ \<leftarrow> psi_do (logged psi) s; r \<leftarrow> op; x \<leftarrow> c r; g r x })"
    (is "balanced ?m")
  unfolding balanced_def
proof
  fix w :: "('o, psi_log \<times> 'q) world"
  obtain y w1 where 1: "run_state (psi_do (logged psi) s) w = ((), w1)" "psi_trace w1 = psi_trace w @ [(s, y)]"
    by (auto simp: psi_do_def PSI_CALL_def logged_def split_beta)
  obtain r w2 where 2: "run_state op w1 = (r, w2)" by fastforce
  have w2: "psi_trace w2 = psi_trace w1" using quietD [OF op, of w1] 2 by simp
  obtain x w3 where 3: "run_state (c r) w2 = (x, w3)" by fastforce
  obtain e z where e: "psi_trace w3 = psi_trace w2 @ [(e, z)]" "starts e = None" "opens e = None" "ends e = Some (k, l)"
    using fin [of r] 3 unfolding closes_def by (metis snd_conv)
  have "psi_trace (snd (run_state (g r x) w3)) = psi_trace w3" using quietD [OF rest] by metis
  then have "psi_trace (snd (run_state ?m w)) = psi_trace w @ [(s, y), (e, z)]"
    using 1 2 3 w2 e(1) by (simp add: split_beta)
  moreover have "closed [(s, y), (e, z)]" using start e by (simp add: closed_def)
  ultimately show "\<exists>t. psi_trace (snd (run_state ?m w)) = psi_trace w @ t \<and> closed t" by blast
qed

lemma with_locker_balanced:
  assumes "starts get = None" "opens get = None" "ends get = None"
    and "\<And>l. starts (start l) = None" "\<And>l. opens (start l) = Some (k, l)" "quiet op"
    and "\<And>l r. closes k l (fin l r)"
  shows "balanced (with_locker have (logged psi) get start op fin)"
  unfolding with_locker_def
  by (intro balanced_bind balanced_if balanced_option balanced_call quiet_balanced [OF quiet_basic(1)]
      quiet_balanced [OF assms(6)] waiting_balanced [where k = k] quiet_basic) (use assms in auto)

lemma stream_wait_balanced:
  assumes "\<And>l. starts (start l) = None" "\<And>l. opens (start l) = Some (k, l)" "\<And>f. quiet (real f)"
    and "\<And>l r. closes k l (fin l r)"
  shows "balanced (stream_wait cfg (logged psi) fp op start real fin)"
  unfolding stream_wait_def
  by (intro balanced_bind quiet_balanced [OF quiet_basic(3)] quiet_balanced [OF quiet_basic(10)]
      with_locker_balanced [where k = k]) (use assms in auto)

lemma closes_rules:
  "closes File_wait l (psi_do (logged psi) (end_file_wait l n))"
  "closes File_wait l (psi_do (logged psi) (end_file_rename_wait l a b r))"
  "closes File_open_wait l (psi_do (logged psi) (end_file_open_wait l r))"
  "closes File_open_wait l (psi_do (logged psi) (end_file_open_wait_and_bind_to_descriptor l r))"
  "closes File_open_wait l (psi_do (logged psi) (end_temp_file_open_wait_and_bind_to_descriptor l r a))"
  "closes File_close_wait l (psi_do (logged psi) (end_file_close_wait l r))"
  by (rule closes_call; simp)+

lemma fgets_closes:
  "closes File_wait l (do { n \<leftarrow> (if b then os_get g else ret 0); psi_do (logged psi) (end_file_wait l n) })"
  by (intro closes_bind accounted closes_rules)

lemma name_get:
  "starts (get_thread_file_name_locker key op path a) = None"
  "opens (get_thread_file_name_locker key op path a) = None"
  "ends (get_thread_file_name_locker key op path a) = None"
  by simp_all

lemma fopen_balanced: "balanced (inline_mysql_file_fopen cfg io (logged psi) key f l name flags my)"
proof -
  have locked: "balanced (do {
      _ \<leftarrow> psi_do (logged psi) (start_file_open_wait k f l);
      h \<leftarrow> FILE io (My_fopen name flags my);
      _ \<leftarrow> set_m_file a h;
      p \<leftarrow> PSI_CALL (logged psi) (end_file_open_wait k h);
      _ \<leftarrow> set_m_psi a p;
      fopen_end io a })" for k a
  proof -
    have "balanced (do {
      _ \<leftarrow> psi_do (logged psi) (start_file_open_wait k f l);
      h \<leftarrow> (do { h \<leftarrow> FILE io (My_fopen name flags my); _ \<leftarrow> set_m_file a h; ret h });
      p \<leftarrow> PSI_CALL (logged psi) (end_file_open_wait k h);
      _ \<leftarrow> set_m_psi a p;
      fopen_end io a })"
      by (intro waiting_balanced [where k = File_open_wait and l = k] closes_call accounted) simp_all
    then show ?thesis by (simp add: State_Monad.bind_assoc)
  qed
  have unlocked: "balanced (do {
      _ \<leftarrow> set_m_psi a None;
      h \<leftarrow> FILE io (My_fopen name flags my);
      _ \<leftarrow> set_m_file a h;
      fopen_end io a })" for a
    by (intro quiet_balanced accounted)
  show ?thesis
    unfolding inline_mysql_file_fopen_def
    by (intro balanced_bind balanced_if balanced_option quiet_balanced [OF FILE_rules(2)] locked unlocked
        quiet_balanced [OF quiet_basic(1)] balanced_call name_get)
qed

lemma mysql_io_balanced: "balanced (mysql_io cfg io (logged psi) c)"
proof (cases c)
  case (Op_fopen key f l name flags my)
  then show ?thesis by (simp only: mysql_io.simps fopen_balanced)
next
  case (Op_feof fp)
  then show ?thesis
    by (simp only: mysql_io.simps inline_mysql_file_feof_def) (intro quiet_balanced accounted)
next
  case (Op_fclose f l fp flags)
  then show ?thesis
    unfolding mysql_io.simps inline_mysql_file_fclose_def
    by (simp only: mysql_io.simps inline_mysql_file_fclose_def)
      (intro balanced_if balanced_bind quiet_balanced [OF FILE_rules(2)] quiet_balanced [OF quiet_basic(1)]
        stream_wait_balanced [where k = File_close_wait] closes_rules FILE_rules, simp_all)
next
  case (Op_fputs f l str fp)
  then show ?thesis
    by (simp only: mysql_io.simps inline_mysql_file_fputs_def)
      (intro balanced_bind quiet_balanced [OF quiet_if [OF quiet_basic(12) quiet_basic(1)]]
        stream_wait_balanced [where k = File_wait] closes_rules FILE_rules, simp_all)
qed (simp_all only: mysql_io.simps mysql_io_defs descriptor_wait_def name_wait_def,
    (rule stream_wait_balanced with_locker_balanced starts.simps opens.simps ends.simps FILE_rules closes_rules
        fgets_closes)+)

interpretation io_waits: accounted_api "mysql_io cfg io (logged psi)" for cfg io psi
  by unfold_locales (rule mysql_io_balanced)

end
