(* ===== verification/ApiMacros.thy ===== *)
theory ApiMacros
  imports NativeThreads
begin

text \<open>
  The macros of \<open>mysql/psi/mysql_thread.h\<close>, \<open>mysql_socket.h\<close> and \<open>mysql_file.h\<close>, by which programs call the
  instrumented functions. What a macro expands to, and which parameters the inline function has, depends on
  the preprocessor's choices (\<open>config\<close>); a program compiles in every configuration only if both agree. The
  definition with the name of a macro is its expansion, the definition ending in \<open>_params\<close> the names of the parameters
  in the function's declaration. The headers are taken for C++, without their \<open>DISABLE_\<close> switches.
\<close>

datatype actual = Arg string | Src_file | Src_line

datatype expansion = Call string "actual list" | Nothing

section \<open>\<open>mysql_thread.h\<close>\<close>

definition mysql_mutex_register :: "config \<Rightarrow> expansion" where
  "mysql_mutex_register cfg =
     (Call ''inline_mysql_mutex_register'' [Arg ''P1'', Arg ''P2'', Arg ''P3''])"

definition inline_mysql_mutex_register_params :: "config \<Rightarrow> string list option" where
  "inline_mysql_mutex_register_params cfg =
     (Some ((if HAVE_PSI_MUTEX_INTERFACE cfg then [''category'', ''info'', ''count'']
        else [''category'', ''info'', ''count''])))"

definition mysql_mutex_init :: "config \<Rightarrow> expansion" where
  "mysql_mutex_init cfg =
     (if HAVE_PSI_MUTEX_INTERFACE cfg
      then (if SAFE_MUTEX cfg
        then Call ''inline_mysql_mutex_init'' [Arg ''K'', Arg ''M'', Arg ''A'', Src_file, Src_line]
        else Call ''inline_mysql_mutex_init'' [Arg ''K'', Arg ''M'', Arg ''A''])
      else (if SAFE_MUTEX cfg
        then Call ''inline_mysql_mutex_init'' [Arg ''M'', Arg ''A'', Src_file, Src_line]
        else Call ''inline_mysql_mutex_init'' [Arg ''M'', Arg ''A'']))"

definition inline_mysql_mutex_init_params :: "config \<Rightarrow> string list option" where
  "inline_mysql_mutex_init_params cfg =
     (Some ((if HAVE_PSI_MUTEX_INTERFACE cfg then [''key'']
        else [])
       @ [''that'', ''attr'']
       @ (if SAFE_MUTEX cfg then [''src_file'', ''src_line'']
        else [])))"

definition mysql_mutex_destroy :: "config \<Rightarrow> expansion" where
  "mysql_mutex_destroy cfg =
     (if SAFE_MUTEX cfg
      then Call ''inline_mysql_mutex_destroy'' [Arg ''M'', Src_file, Src_line]
      else Call ''inline_mysql_mutex_destroy'' [Arg ''M''])"

definition inline_mysql_mutex_destroy_params :: "config \<Rightarrow> string list option" where
  "inline_mysql_mutex_destroy_params cfg =
     (Some ([''that'']
       @ (if SAFE_MUTEX cfg then [''src_file'', ''src_line'']
        else [])))"

definition mysql_mutex_lock :: "config \<Rightarrow> expansion" where
  "mysql_mutex_lock cfg =
     (if SAFE_MUTEX cfg \<or> HAVE_PSI_MUTEX_INTERFACE cfg
      then Call ''inline_mysql_mutex_lock'' [Arg ''M'', Src_file, Src_line]
      else Call ''inline_mysql_mutex_lock'' [Arg ''M''])"

definition inline_mysql_mutex_lock_params :: "config \<Rightarrow> string list option" where
  "inline_mysql_mutex_lock_params cfg =
     (Some ([''that'']
       @ (if SAFE_MUTEX cfg \<or> HAVE_PSI_MUTEX_INTERFACE cfg then [''src_file'', ''src_line'']
        else [])))"

definition mysql_mutex_trylock :: "config \<Rightarrow> expansion" where
  "mysql_mutex_trylock cfg =
     (if SAFE_MUTEX cfg \<or> HAVE_PSI_MUTEX_INTERFACE cfg
      then Call ''inline_mysql_mutex_trylock'' [Arg ''M'', Src_file, Src_line]
      else Call ''inline_mysql_mutex_trylock'' [Arg ''M''])"

definition inline_mysql_mutex_trylock_params :: "config \<Rightarrow> string list option" where
  "inline_mysql_mutex_trylock_params cfg =
     (Some ([''that'']
       @ (if SAFE_MUTEX cfg \<or> HAVE_PSI_MUTEX_INTERFACE cfg then [''src_file'', ''src_line'']
        else [])))"

definition mysql_mutex_unlock :: "config \<Rightarrow> expansion" where
  "mysql_mutex_unlock cfg =
     (if SAFE_MUTEX cfg
      then Call ''inline_mysql_mutex_unlock'' [Arg ''M'', Src_file, Src_line]
      else Call ''inline_mysql_mutex_unlock'' [Arg ''M''])"

definition inline_mysql_mutex_unlock_params :: "config \<Rightarrow> string list option" where
  "inline_mysql_mutex_unlock_params cfg =
     (Some ([''that'']
       @ (if SAFE_MUTEX cfg then [''src_file'', ''src_line'']
        else [])))"

definition mysql_rwlock_register :: "config \<Rightarrow> expansion" where
  "mysql_rwlock_register cfg =
     (Call ''inline_mysql_rwlock_register'' [Arg ''P1'', Arg ''P2'', Arg ''P3''])"

definition inline_mysql_rwlock_register_params :: "config \<Rightarrow> string list option" where
  "inline_mysql_rwlock_register_params cfg =
     (Some ((if HAVE_PSI_RWLOCK_INTERFACE cfg then [''category'', ''info'', ''count'']
        else [''category'', ''info'', ''count''])))"

definition mysql_rwlock_init :: "config \<Rightarrow> expansion" where
  "mysql_rwlock_init cfg =
     (if HAVE_PSI_RWLOCK_INTERFACE cfg
      then Call ''inline_mysql_rwlock_init'' [Arg ''K'', Arg ''RW'']
      else Call ''inline_mysql_rwlock_init'' [Arg ''RW''])"

definition inline_mysql_rwlock_init_params :: "config \<Rightarrow> string list option" where
  "inline_mysql_rwlock_init_params cfg =
     (Some ((if HAVE_PSI_RWLOCK_INTERFACE cfg then [''key'']
        else [])
       @ [''that'']))"

definition mysql_prlock_init :: "config \<Rightarrow> expansion" where
  "mysql_prlock_init cfg =
     (if HAVE_PSI_RWLOCK_INTERFACE cfg
      then Call ''inline_mysql_prlock_init'' [Arg ''K'', Arg ''RW'']
      else Call ''inline_mysql_prlock_init'' [Arg ''RW''])"

definition inline_mysql_prlock_init_params :: "config \<Rightarrow> string list option" where
  "inline_mysql_prlock_init_params cfg =
     (Some ((if HAVE_PSI_RWLOCK_INTERFACE cfg then [''key'']
        else [])
       @ [''that'']))"

definition mysql_rwlock_destroy :: "config \<Rightarrow> expansion" where
  "mysql_rwlock_destroy cfg =
     (Call ''inline_mysql_rwlock_destroy'' [Arg ''RW''])"

definition inline_mysql_rwlock_destroy_params :: "config \<Rightarrow> string list option" where
  "inline_mysql_rwlock_destroy_params cfg =
     (Some ([''that'']))"

definition mysql_prlock_destroy :: "config \<Rightarrow> expansion" where
  "mysql_prlock_destroy cfg =
     (Call ''inline_mysql_prlock_destroy'' [Arg ''RW''])"

definition inline_mysql_prlock_destroy_params :: "config \<Rightarrow> string list option" where
  "inline_mysql_prlock_destroy_params cfg =
     (Some ([''that'']))"

definition mysql_rwlock_rdlock :: "config \<Rightarrow> expansion" where
  "mysql_rwlock_rdlock cfg =
     (if HAVE_PSI_RWLOCK_INTERFACE cfg
      then Call ''inline_mysql_rwlock_rdlock'' [Arg ''RW'', Src_file, Src_line]
      else Call ''inline_mysql_rwlock_rdlock'' [Arg ''RW''])"

definition inline_mysql_rwlock_rdlock_params :: "config \<Rightarrow> string list option" where
  "inline_mysql_rwlock_rdlock_params cfg =
     (Some ([''that'']
       @ (if HAVE_PSI_RWLOCK_INTERFACE cfg then [''src_file'', ''src_line'']
        else [])))"

definition mysql_prlock_rdlock :: "config \<Rightarrow> expansion" where
  "mysql_prlock_rdlock cfg =
     (if HAVE_PSI_RWLOCK_INTERFACE cfg
      then Call ''inline_mysql_prlock_rdlock'' [Arg ''RW'', Src_file, Src_line]
      else Call ''inline_mysql_prlock_rdlock'' [Arg ''RW''])"

definition inline_mysql_prlock_rdlock_params :: "config \<Rightarrow> string list option" where
  "inline_mysql_prlock_rdlock_params cfg =
     (Some ([''that'']
       @ (if HAVE_PSI_RWLOCK_INTERFACE cfg then [''src_file'', ''src_line'']
        else [])))"

definition mysql_rwlock_wrlock :: "config \<Rightarrow> expansion" where
  "mysql_rwlock_wrlock cfg =
     (if HAVE_PSI_RWLOCK_INTERFACE cfg
      then Call ''inline_mysql_rwlock_wrlock'' [Arg ''RW'', Src_file, Src_line]
      else Call ''inline_mysql_rwlock_wrlock'' [Arg ''RW''])"

definition inline_mysql_rwlock_wrlock_params :: "config \<Rightarrow> string list option" where
  "inline_mysql_rwlock_wrlock_params cfg =
     (Some ([''that'']
       @ (if HAVE_PSI_RWLOCK_INTERFACE cfg then [''src_file'', ''src_line'']
        else [])))"

definition mysql_prlock_wrlock :: "config \<Rightarrow> expansion" where
  "mysql_prlock_wrlock cfg =
     (if HAVE_PSI_RWLOCK_INTERFACE cfg
      then Call ''inline_mysql_prlock_wrlock'' [Arg ''RW'', Src_file, Src_line]
      else Call ''inline_mysql_prlock_wrlock'' [Arg ''RW''])"

definition inline_mysql_prlock_wrlock_params :: "config \<Rightarrow> string list option" where
  "inline_mysql_prlock_wrlock_params cfg =
     (Some ([''that'']
       @ (if HAVE_PSI_RWLOCK_INTERFACE cfg then [''src_file'', ''src_line'']
        else [])))"

definition mysql_rwlock_tryrdlock :: "config \<Rightarrow> expansion" where
  "mysql_rwlock_tryrdlock cfg =
     (if HAVE_PSI_RWLOCK_INTERFACE cfg
      then Call ''inline_mysql_rwlock_tryrdlock'' [Arg ''RW'', Src_file, Src_line]
      else Call ''inline_mysql_rwlock_tryrdlock'' [Arg ''RW''])"

definition inline_mysql_rwlock_tryrdlock_params :: "config \<Rightarrow> string list option" where
  "inline_mysql_rwlock_tryrdlock_params cfg =
     (Some ([''that'']
       @ (if HAVE_PSI_RWLOCK_INTERFACE cfg then [''src_file'', ''src_line'']
        else [])))"

definition mysql_rwlock_trywrlock :: "config \<Rightarrow> expansion" where
  "mysql_rwlock_trywrlock cfg =
     (if HAVE_PSI_RWLOCK_INTERFACE cfg
      then Call ''inline_mysql_rwlock_trywrlock'' [Arg ''RW'', Src_file, Src_line]
      else Call ''inline_mysql_rwlock_trywrlock'' [Arg ''RW''])"

definition inline_mysql_rwlock_trywrlock_params :: "config \<Rightarrow> string list option" where
  "inline_mysql_rwlock_trywrlock_params cfg =
     (Some ([''that'']
       @ (if HAVE_PSI_RWLOCK_INTERFACE cfg then [''src_file'', ''src_line'']
        else [])))"

definition mysql_rwlock_unlock :: "config \<Rightarrow> expansion" where
  "mysql_rwlock_unlock cfg =
     (Call ''inline_mysql_rwlock_unlock'' [Arg ''RW''])"

definition inline_mysql_rwlock_unlock_params :: "config \<Rightarrow> string list option" where
  "inline_mysql_rwlock_unlock_params cfg =
     (Some ([''that'']))"

definition mysql_prlock_unlock :: "config \<Rightarrow> expansion" where
  "mysql_prlock_unlock cfg =
     (Call ''inline_mysql_prlock_unlock'' [Arg ''RW''])"

definition inline_mysql_prlock_unlock_params :: "config \<Rightarrow> string list option" where
  "inline_mysql_prlock_unlock_params cfg =
     (Some ([''that'']))"

definition mysql_cond_register :: "config \<Rightarrow> expansion" where
  "mysql_cond_register cfg =
     (Call ''inline_mysql_cond_register'' [Arg ''P1'', Arg ''P2'', Arg ''P3''])"

definition inline_mysql_cond_register_params :: "config \<Rightarrow> string list option" where
  "inline_mysql_cond_register_params cfg =
     (Some ((if HAVE_PSI_COND_INTERFACE cfg then [''category'', ''info'', ''count'']
        else [''category'', ''info'', ''count''])))"

definition mysql_cond_init :: "config \<Rightarrow> expansion" where
  "mysql_cond_init cfg =
     (if HAVE_PSI_COND_INTERFACE cfg
      then Call ''inline_mysql_cond_init'' [Arg ''K'', Arg ''C'']
      else Call ''inline_mysql_cond_init'' [Arg ''C''])"

definition inline_mysql_cond_init_params :: "config \<Rightarrow> string list option" where
  "inline_mysql_cond_init_params cfg =
     (Some ((if HAVE_PSI_COND_INTERFACE cfg then [''key'']
        else [])
       @ [''that'']))"

definition mysql_cond_destroy :: "config \<Rightarrow> expansion" where
  "mysql_cond_destroy cfg =
     (Call ''inline_mysql_cond_destroy'' [Arg ''C''])"

definition inline_mysql_cond_destroy_params :: "config \<Rightarrow> string list option" where
  "inline_mysql_cond_destroy_params cfg =
     (Some ([''that'']))"

definition mysql_cond_wait :: "config \<Rightarrow> expansion" where
  "mysql_cond_wait cfg =
     (if SAFE_MUTEX cfg \<or> HAVE_PSI_COND_INTERFACE cfg
      then Call ''inline_mysql_cond_wait'' [Arg ''C'', Arg ''M'', Src_file, Src_line]
      else Call ''inline_mysql_cond_wait'' [Arg ''C'', Arg ''M''])"

definition inline_mysql_cond_wait_params :: "config \<Rightarrow> string list option" where
  "inline_mysql_cond_wait_params cfg =
     (Some ([''that'', ''mutex'']
       @ (if SAFE_MUTEX cfg \<or> HAVE_PSI_COND_INTERFACE cfg then [''src_file'', ''src_line'']
        else [])))"

definition mysql_cond_timedwait :: "config \<Rightarrow> expansion" where
  "mysql_cond_timedwait cfg =
     (if SAFE_MUTEX cfg \<or> HAVE_PSI_COND_INTERFACE cfg
      then Call ''inline_mysql_cond_timedwait'' [Arg ''C'', Arg ''M'', Arg ''W'', Src_file, Src_line]
      else Call ''inline_mysql_cond_timedwait'' [Arg ''C'', Arg ''M'', Arg ''W''])"

definition inline_mysql_cond_timedwait_params :: "config \<Rightarrow> string list option" where
  "inline_mysql_cond_timedwait_params cfg =
     (Some ([''that'', ''mutex'', ''abstime'']
       @ (if SAFE_MUTEX cfg \<or> HAVE_PSI_COND_INTERFACE cfg then [''src_file'', ''src_line'']
        else [])))"

definition mysql_cond_signal :: "config \<Rightarrow> expansion" where
  "mysql_cond_signal cfg =
     (Call ''inline_mysql_cond_signal'' [Arg ''C''])"

definition inline_mysql_cond_signal_params :: "config \<Rightarrow> string list option" where
  "inline_mysql_cond_signal_params cfg =
     (Some ([''that'']))"

definition mysql_cond_broadcast :: "config \<Rightarrow> expansion" where
  "mysql_cond_broadcast cfg =
     (Call ''inline_mysql_cond_broadcast'' [Arg ''C''])"

definition inline_mysql_cond_broadcast_params :: "config \<Rightarrow> string list option" where
  "inline_mysql_cond_broadcast_params cfg =
     (Some ([''that'']))"

definition mysql_thread_register :: "config \<Rightarrow> expansion" where
  "mysql_thread_register cfg =
     (Call ''inline_mysql_thread_register'' [Arg ''P1'', Arg ''P2'', Arg ''P3''])"

definition inline_mysql_thread_register_params :: "config \<Rightarrow> string list option" where
  "inline_mysql_thread_register_params cfg =
     (Some ((if HAVE_PSI_THREAD_INTERFACE cfg then [''category'', ''info'', ''count'']
        else [''category'', ''info'', ''count''])))"

definition mysql_thread_create :: "config \<Rightarrow> expansion" where
  "mysql_thread_create cfg =
     (if HAVE_PSI_THREAD_INTERFACE cfg
      then Call ''inline_mysql_thread_create'' [Arg ''K'', Arg ''P1'', Arg ''P2'', Arg ''P3'', Arg ''P4'']
      else Call ''my_thread_create'' [Arg ''P1'', Arg ''P2'', Arg ''P3'', Arg ''P4''])"

definition inline_mysql_thread_create_params :: "config \<Rightarrow> string list option" where
  "inline_mysql_thread_create_params cfg =
     (if HAVE_PSI_THREAD_INTERFACE cfg then Some ([''key'', ''thread'', ''attr'', ''start_routine'', ''arg''])
      else None)"

text \<open>The function of \<open>my_thread.h\<close>.\<close>

definition my_thread_create_params :: "config \<Rightarrow> string list option" where
  "my_thread_create_params cfg = Some [''thread'', ''attr'', ''func'', ''arg'']"

definition mysql_thread_set_psi_id :: "config \<Rightarrow> expansion" where
  "mysql_thread_set_psi_id cfg =
     (if HAVE_PSI_THREAD_INTERFACE cfg
      then Call ''inline_mysql_thread_set_psi_id'' [Arg ''I'']
      else Nothing)"

definition inline_mysql_thread_set_psi_id_params :: "config \<Rightarrow> string list option" where
  "inline_mysql_thread_set_psi_id_params cfg =
     (if HAVE_PSI_THREAD_INTERFACE cfg then Some ([''id''])
      else None)"

definition mysql_thread_set_psi_THD :: "config \<Rightarrow> expansion" where
  "mysql_thread_set_psi_THD cfg =
     (if HAVE_PSI_THREAD_INTERFACE cfg
      then Call ''inline_mysql_thread_set_psi_THD'' [Arg ''T'']
      else Nothing)"

definition inline_mysql_thread_set_psi_THD_params :: "config \<Rightarrow> string list option" where
  "inline_mysql_thread_set_psi_THD_params cfg =
     (if HAVE_PSI_THREAD_INTERFACE cfg then Some ([''thd''])
      else None)"

section \<open>\<open>mysql_socket.h\<close>\<close>

definition mysql_socket_register :: "config \<Rightarrow> expansion" where
  "mysql_socket_register cfg =
     (if HAVE_PSI_SOCKET_INTERFACE cfg
      then Call ''inline_mysql_socket_register'' [Arg ''P1'', Arg ''P2'', Arg ''P3'']
      else Nothing)"

definition inline_mysql_socket_register_params :: "config \<Rightarrow> string list option" where
  "inline_mysql_socket_register_params cfg =
     (if HAVE_PSI_SOCKET_INTERFACE cfg then Some ([''category'', ''info'', ''count''])
      else None)"

definition MYSQL_START_SOCKET_WAIT :: "config \<Rightarrow> expansion" where
  "MYSQL_START_SOCKET_WAIT cfg =
     (if HAVE_PSI_SOCKET_INTERFACE cfg
      then Call ''inline_mysql_start_socket_wait'' [Arg ''STATE'', Arg ''SOCKET'', Arg ''OP'', Arg ''COUNT'', Src_file, Src_line]
      else Nothing)"

definition inline_mysql_start_socket_wait_params :: "config \<Rightarrow> string list option" where
  "inline_mysql_start_socket_wait_params cfg =
     (if HAVE_PSI_SOCKET_INTERFACE cfg then Some ([''state'', ''mysql_socket'', ''op'', ''byte_count'', ''src_file'', ''src_line''])
      else None)"

definition MYSQL_END_SOCKET_WAIT :: "config \<Rightarrow> expansion" where
  "MYSQL_END_SOCKET_WAIT cfg =
     (if HAVE_PSI_SOCKET_INTERFACE cfg
      then Call ''inline_mysql_end_socket_wait'' [Arg ''LOCKER'', Arg ''COUNT'']
      else Nothing)"

definition inline_mysql_end_socket_wait_params :: "config \<Rightarrow> string list option" where
  "inline_mysql_end_socket_wait_params cfg =
     (if HAVE_PSI_SOCKET_INTERFACE cfg then Some ([''locker'', ''byte_count''])
      else None)"

definition MYSQL_SOCKET_SET_STATE :: "config \<Rightarrow> expansion" where
  "MYSQL_SOCKET_SET_STATE cfg =
     (if HAVE_PSI_SOCKET_INTERFACE cfg
      then Call ''inline_mysql_socket_set_state'' [Arg ''SOCKET'', Arg ''STATE'']
      else Nothing)"

definition inline_mysql_socket_set_state_params :: "config \<Rightarrow> string list option" where
  "inline_mysql_socket_set_state_params cfg =
     (if HAVE_PSI_SOCKET_INTERFACE cfg then Some ([''socket'', ''state''])
      else None)"

definition mysql_socket_socket :: "config \<Rightarrow> expansion" where
  "mysql_socket_socket cfg =
     (if HAVE_PSI_SOCKET_INTERFACE cfg
      then Call ''inline_mysql_socket_socket'' [Arg ''K'', Arg ''D'', Arg ''T'', Arg ''P'']
      else Call ''inline_mysql_socket_socket'' [Arg ''D'', Arg ''T'', Arg ''P''])"

definition inline_mysql_socket_socket_params :: "config \<Rightarrow> string list option" where
  "inline_mysql_socket_socket_params cfg =
     (Some ((if HAVE_PSI_SOCKET_INTERFACE cfg then [''key'']
        else [])
       @ [''domain'', ''type'', ''protocol'']))"

definition mysql_socket_bind :: "config \<Rightarrow> expansion" where
  "mysql_socket_bind cfg =
     (if HAVE_PSI_SOCKET_INTERFACE cfg
      then Call ''inline_mysql_socket_bind'' [Src_file, Src_line, Arg ''FD'', Arg ''AP'', Arg ''L'']
      else Call ''inline_mysql_socket_bind'' [Arg ''FD'', Arg ''AP'', Arg ''L''])"

definition inline_mysql_socket_bind_params :: "config \<Rightarrow> string list option" where
  "inline_mysql_socket_bind_params cfg =
     (Some ((if HAVE_PSI_SOCKET_INTERFACE cfg then [''src_file'', ''src_line'']
        else [])
       @ [''mysql_socket'', ''addr'', ''len'']))"

definition mysql_socket_getsockname :: "config \<Rightarrow> expansion" where
  "mysql_socket_getsockname cfg =
     (if HAVE_PSI_SOCKET_INTERFACE cfg
      then Call ''inline_mysql_socket_getsockname'' [Src_file, Src_line, Arg ''FD'', Arg ''AP'', Arg ''LP'']
      else Call ''inline_mysql_socket_getsockname'' [Arg ''FD'', Arg ''AP'', Arg ''LP''])"

definition inline_mysql_socket_getsockname_params :: "config \<Rightarrow> string list option" where
  "inline_mysql_socket_getsockname_params cfg =
     (Some ((if HAVE_PSI_SOCKET_INTERFACE cfg then [''src_file'', ''src_line'']
        else [])
       @ [''mysql_socket'', ''addr'', ''len'']))"

definition mysql_socket_connect :: "config \<Rightarrow> expansion" where
  "mysql_socket_connect cfg =
     (if HAVE_PSI_SOCKET_INTERFACE cfg
      then Call ''inline_mysql_socket_connect'' [Src_file, Src_line, Arg ''FD'', Arg ''AP'', Arg ''L'']
      else Call ''inline_mysql_socket_connect'' [Arg ''FD'', Arg ''AP'', Arg ''L''])"

definition inline_mysql_socket_connect_params :: "config \<Rightarrow> string list option" where
  "inline_mysql_socket_connect_params cfg =
     (Some ((if HAVE_PSI_SOCKET_INTERFACE cfg then [''src_file'', ''src_line'']
        else [])
       @ [''mysql_socket'', ''addr'', ''len'']))"

definition mysql_socket_getpeername :: "config \<Rightarrow> expansion" where
  "mysql_socket_getpeername cfg =
     (if HAVE_PSI_SOCKET_INTERFACE cfg
      then Call ''inline_mysql_socket_getpeername'' [Src_file, Src_line, Arg ''FD'', Arg ''AP'', Arg ''LP'']
      else Call ''inline_mysql_socket_getpeername'' [Arg ''FD'', Arg ''AP'', Arg ''LP''])"

definition inline_mysql_socket_getpeername_params :: "config \<Rightarrow> string list option" where
  "inline_mysql_socket_getpeername_params cfg =
     (Some ((if HAVE_PSI_SOCKET_INTERFACE cfg then [''src_file'', ''src_line'']
        else [])
       @ [''mysql_socket'', ''addr'', ''len'']))"

definition mysql_socket_send :: "config \<Rightarrow> expansion" where
  "mysql_socket_send cfg =
     (if HAVE_PSI_SOCKET_INTERFACE cfg
      then Call ''inline_mysql_socket_send'' [Src_file, Src_line, Arg ''FD'', Arg ''B'', Arg ''N'', Arg ''FL'']
      else Call ''inline_mysql_socket_send'' [Arg ''FD'', Arg ''B'', Arg ''N'', Arg ''FL''])"

definition inline_mysql_socket_send_params :: "config \<Rightarrow> string list option" where
  "inline_mysql_socket_send_params cfg =
     (Some ((if HAVE_PSI_SOCKET_INTERFACE cfg then [''src_file'', ''src_line'']
        else [])
       @ [''mysql_socket'', ''buf'', ''n'', ''flags'']))"

definition mysql_socket_recv :: "config \<Rightarrow> expansion" where
  "mysql_socket_recv cfg =
     (if HAVE_PSI_SOCKET_INTERFACE cfg
      then Call ''inline_mysql_socket_recv'' [Src_file, Src_line, Arg ''FD'', Arg ''B'', Arg ''N'', Arg ''FL'']
      else Call ''inline_mysql_socket_recv'' [Arg ''FD'', Arg ''B'', Arg ''N'', Arg ''FL''])"

definition inline_mysql_socket_recv_params :: "config \<Rightarrow> string list option" where
  "inline_mysql_socket_recv_params cfg =
     (Some ((if HAVE_PSI_SOCKET_INTERFACE cfg then [''src_file'', ''src_line'']
        else [])
       @ [''mysql_socket'', ''buf'', ''n'', ''flags'']))"

definition mysql_socket_sendto :: "config \<Rightarrow> expansion" where
  "mysql_socket_sendto cfg =
     (if HAVE_PSI_SOCKET_INTERFACE cfg
      then Call ''inline_mysql_socket_sendto'' [Src_file, Src_line, Arg ''FD'', Arg ''B'', Arg ''N'', Arg ''FL'', Arg ''AP'', Arg ''L'']
      else Call ''inline_mysql_socket_sendto'' [Arg ''FD'', Arg ''B'', Arg ''N'', Arg ''FL'', Arg ''AP'', Arg ''L''])"

definition inline_mysql_socket_sendto_params :: "config \<Rightarrow> string list option" where
  "inline_mysql_socket_sendto_params cfg =
     (Some ((if HAVE_PSI_SOCKET_INTERFACE cfg then [''src_file'', ''src_line'']
        else [])
       @ [''mysql_socket'', ''buf'', ''n'', ''flags'', ''addr'', ''addr_len'']))"

definition mysql_socket_recvfrom :: "config \<Rightarrow> expansion" where
  "mysql_socket_recvfrom cfg =
     (if HAVE_PSI_SOCKET_INTERFACE cfg
      then Call ''inline_mysql_socket_recvfrom'' [Src_file, Src_line, Arg ''FD'', Arg ''B'', Arg ''N'', Arg ''FL'', Arg ''AP'', Arg ''LP'']
      else Call ''inline_mysql_socket_recvfrom'' [Arg ''FD'', Arg ''B'', Arg ''N'', Arg ''FL'', Arg ''AP'', Arg ''LP''])"

definition inline_mysql_socket_recvfrom_params :: "config \<Rightarrow> string list option" where
  "inline_mysql_socket_recvfrom_params cfg =
     (Some ((if HAVE_PSI_SOCKET_INTERFACE cfg then [''src_file'', ''src_line'']
        else [])
       @ [''mysql_socket'', ''buf'', ''n'', ''flags'', ''addr'', ''addr_len'']))"

definition mysql_socket_getsockopt :: "config \<Rightarrow> expansion" where
  "mysql_socket_getsockopt cfg =
     (if HAVE_PSI_SOCKET_INTERFACE cfg
      then Call ''inline_mysql_socket_getsockopt'' [Src_file, Src_line, Arg ''FD'', Arg ''LV'', Arg ''ON'', Arg ''OP'', Arg ''OL'']
      else Call ''inline_mysql_socket_getsockopt'' [Arg ''FD'', Arg ''LV'', Arg ''ON'', Arg ''OP'', Arg ''OL''])"

definition inline_mysql_socket_getsockopt_params :: "config \<Rightarrow> string list option" where
  "inline_mysql_socket_getsockopt_params cfg =
     (Some ((if HAVE_PSI_SOCKET_INTERFACE cfg then [''src_file'', ''src_line'']
        else [])
       @ [''mysql_socket'', ''level'', ''optname'', ''optval'', ''optlen'']))"

definition mysql_socket_setsockopt :: "config \<Rightarrow> expansion" where
  "mysql_socket_setsockopt cfg =
     (if HAVE_PSI_SOCKET_INTERFACE cfg
      then Call ''inline_mysql_socket_setsockopt'' [Src_file, Src_line, Arg ''FD'', Arg ''LV'', Arg ''ON'', Arg ''OP'', Arg ''OL'']
      else Call ''inline_mysql_socket_setsockopt'' [Arg ''FD'', Arg ''LV'', Arg ''ON'', Arg ''OP'', Arg ''OL''])"

definition inline_mysql_socket_setsockopt_params :: "config \<Rightarrow> string list option" where
  "inline_mysql_socket_setsockopt_params cfg =
     (Some ((if HAVE_PSI_SOCKET_INTERFACE cfg then [''src_file'', ''src_line'']
        else [])
       @ [''mysql_socket'', ''level'', ''optname'', ''optval'', ''optlen'']))"

definition mysql_sock_set_nonblocking :: "config \<Rightarrow> expansion" where
  "mysql_sock_set_nonblocking cfg =
     (if HAVE_PSI_SOCKET_INTERFACE cfg
      then Call ''inline_mysql_sock_set_nonblocking'' [Src_file, Src_line, Arg ''FD'']
      else Call ''inline_mysql_sock_set_nonblocking'' [Arg ''FD''])"

definition inline_mysql_sock_set_nonblocking_params :: "config \<Rightarrow> string list option" where
  "inline_mysql_sock_set_nonblocking_params cfg =
     (Some ((if HAVE_PSI_SOCKET_INTERFACE cfg then [''src_file'', ''src_line'']
        else [])
       @ [''mysql_socket'']))"

definition mysql_socket_listen :: "config \<Rightarrow> expansion" where
  "mysql_socket_listen cfg =
     (if HAVE_PSI_SOCKET_INTERFACE cfg
      then Call ''inline_mysql_socket_listen'' [Src_file, Src_line, Arg ''FD'', Arg ''N'']
      else Call ''inline_mysql_socket_listen'' [Arg ''FD'', Arg ''N''])"

definition inline_mysql_socket_listen_params :: "config \<Rightarrow> string list option" where
  "inline_mysql_socket_listen_params cfg =
     (Some ((if HAVE_PSI_SOCKET_INTERFACE cfg then [''src_file'', ''src_line'']
        else [])
       @ [''mysql_socket'', ''backlog'']))"

definition mysql_socket_accept :: "config \<Rightarrow> expansion" where
  "mysql_socket_accept cfg =
     (if HAVE_PSI_SOCKET_INTERFACE cfg
      then Call ''inline_mysql_socket_accept'' [Src_file, Src_line, Arg ''K'', Arg ''FD'', Arg ''AP'', Arg ''LP'']
      else Call ''inline_mysql_socket_accept'' [Arg ''FD'', Arg ''AP'', Arg ''LP''])"

definition inline_mysql_socket_accept_params :: "config \<Rightarrow> string list option" where
  "inline_mysql_socket_accept_params cfg =
     (Some ((if HAVE_PSI_SOCKET_INTERFACE cfg then [''src_file'', ''src_line'', ''key'']
        else [])
       @ [''socket_listen'', ''addr'', ''addr_len'']))"

definition mysql_socket_close :: "config \<Rightarrow> expansion" where
  "mysql_socket_close cfg =
     (if HAVE_PSI_SOCKET_INTERFACE cfg
      then Call ''inline_mysql_socket_close'' [Src_file, Src_line, Arg ''FD'']
      else Call ''inline_mysql_socket_close'' [Arg ''FD''])"

definition inline_mysql_socket_close_params :: "config \<Rightarrow> string list option" where
  "inline_mysql_socket_close_params cfg =
     (Some ((if HAVE_PSI_SOCKET_INTERFACE cfg then [''src_file'', ''src_line'']
        else [])
       @ [''mysql_socket'']))"

definition mysql_socket_shutdown :: "config \<Rightarrow> expansion" where
  "mysql_socket_shutdown cfg =
     (if HAVE_PSI_SOCKET_INTERFACE cfg
      then Call ''inline_mysql_socket_shutdown'' [Src_file, Src_line, Arg ''FD'', Arg ''H'']
      else Call ''inline_mysql_socket_shutdown'' [Arg ''FD'', Arg ''H''])"

definition inline_mysql_socket_shutdown_params :: "config \<Rightarrow> string list option" where
  "inline_mysql_socket_shutdown_params cfg =
     (Some ((if HAVE_PSI_SOCKET_INTERFACE cfg then [''src_file'', ''src_line'']
        else [])
       @ [''mysql_socket'', ''how'']))"

section \<open>\<open>mysql_file.h\<close>\<close>

definition mysql_file_register :: "config \<Rightarrow> expansion" where
  "mysql_file_register cfg =
     (Call ''inline_mysql_file_register'' [Arg ''P1'', Arg ''P2'', Arg ''P3''])"

definition inline_mysql_file_register_params :: "config \<Rightarrow> string list option" where
  "inline_mysql_file_register_params cfg =
     (Some ((if HAVE_PSI_FILE_INTERFACE cfg then [''category'', ''info'', ''count'']
        else [''category'', ''info'', ''count''])))"

definition mysql_file_fgets :: "config \<Rightarrow> expansion" where
  "mysql_file_fgets cfg =
     (if HAVE_PSI_FILE_INTERFACE cfg
      then Call ''inline_mysql_file_fgets'' [Src_file, Src_line, Arg ''P1'', Arg ''P2'', Arg ''F'']
      else Call ''inline_mysql_file_fgets'' [Arg ''P1'', Arg ''P2'', Arg ''F''])"

definition inline_mysql_file_fgets_params :: "config \<Rightarrow> string list option" where
  "inline_mysql_file_fgets_params cfg =
     (Some ((if HAVE_PSI_FILE_INTERFACE cfg then [''src_file'', ''src_line'']
        else [])
       @ [''str'', ''size'', ''file'']))"

definition mysql_file_fgetc :: "config \<Rightarrow> expansion" where
  "mysql_file_fgetc cfg =
     (if HAVE_PSI_FILE_INTERFACE cfg
      then Call ''inline_mysql_file_fgetc'' [Src_file, Src_line, Arg ''F'']
      else Call ''inline_mysql_file_fgetc'' [Arg ''F''])"

definition inline_mysql_file_fgetc_params :: "config \<Rightarrow> string list option" where
  "inline_mysql_file_fgetc_params cfg =
     (Some ((if HAVE_PSI_FILE_INTERFACE cfg then [''src_file'', ''src_line'']
        else [])
       @ [''file'']))"

definition mysql_file_fputs :: "config \<Rightarrow> expansion" where
  "mysql_file_fputs cfg =
     (if HAVE_PSI_FILE_INTERFACE cfg
      then Call ''inline_mysql_file_fputs'' [Src_file, Src_line, Arg ''P1'', Arg ''F'']
      else Call ''inline_mysql_file_fputs'' [Arg ''P1'', Arg ''F''])"

definition inline_mysql_file_fputs_params :: "config \<Rightarrow> string list option" where
  "inline_mysql_file_fputs_params cfg =
     (Some ((if HAVE_PSI_FILE_INTERFACE cfg then [''src_file'', ''src_line'']
        else [])
       @ [''str'', ''file'']))"

definition mysql_file_fputc :: "config \<Rightarrow> expansion" where
  "mysql_file_fputc cfg =
     (if HAVE_PSI_FILE_INTERFACE cfg
      then Call ''inline_mysql_file_fputc'' [Src_file, Src_line, Arg ''P1'', Arg ''F'']
      else Call ''inline_mysql_file_fputc'' [Arg ''P1'', Arg ''F''])"

definition inline_mysql_file_fputc_params :: "config \<Rightarrow> string list option" where
  "inline_mysql_file_fputc_params cfg =
     (Some ((if HAVE_PSI_FILE_INTERFACE cfg then [''src_file'', ''src_line'']
        else [])
       @ [''c'', ''file'']))"

definition mysql_file_vfprintf :: "config \<Rightarrow> expansion" where
  "mysql_file_vfprintf cfg =
     (if HAVE_PSI_FILE_INTERFACE cfg
      then Call ''inline_mysql_file_vfprintf'' [Src_file, Src_line, Arg ''F'', Arg ''P1'', Arg ''P2'']
      else Call ''inline_mysql_file_vfprintf'' [Arg ''F'', Arg ''P1'', Arg ''P2''])"

definition inline_mysql_file_vfprintf_params :: "config \<Rightarrow> string list option" where
  "inline_mysql_file_vfprintf_params cfg =
     (Some ((if HAVE_PSI_FILE_INTERFACE cfg then [''src_file'', ''src_line'']
        else [])
       @ [''file'', ''format'', ''args'']))"

definition mysql_file_fflush :: "config \<Rightarrow> expansion" where
  "mysql_file_fflush cfg =
     (if HAVE_PSI_FILE_INTERFACE cfg
      then Call ''inline_mysql_file_fflush'' [Src_file, Src_line, Arg ''F'']
      else Call ''inline_mysql_file_fflush'' [Arg ''F''])"

definition inline_mysql_file_fflush_params :: "config \<Rightarrow> string list option" where
  "inline_mysql_file_fflush_params cfg =
     (Some ((if HAVE_PSI_FILE_INTERFACE cfg then [''src_file'', ''src_line'']
        else [])
       @ [''file'']))"

definition mysql_file_feof :: "config \<Rightarrow> expansion" where
  "mysql_file_feof cfg =
     (Call ''inline_mysql_file_feof'' [Arg ''F''])"

definition inline_mysql_file_feof_params :: "config \<Rightarrow> string list option" where
  "inline_mysql_file_feof_params cfg =
     (Some ([''file'']))"

definition mysql_file_fstat :: "config \<Rightarrow> expansion" where
  "mysql_file_fstat cfg =
     (if HAVE_PSI_FILE_INTERFACE cfg
      then Call ''inline_mysql_file_fstat'' [Src_file, Src_line, Arg ''FN'', Arg ''S'', Arg ''FL'']
      else Call ''inline_mysql_file_fstat'' [Arg ''FN'', Arg ''S'', Arg ''FL''])"

definition inline_mysql_file_fstat_params :: "config \<Rightarrow> string list option" where
  "inline_mysql_file_fstat_params cfg =
     (Some ((if HAVE_PSI_FILE_INTERFACE cfg then [''src_file'', ''src_line'']
        else [])
       @ [''filenr'', ''stat_area'', ''flags'']))"

definition mysql_file_stat :: "config \<Rightarrow> expansion" where
  "mysql_file_stat cfg =
     (if HAVE_PSI_FILE_INTERFACE cfg
      then Call ''inline_mysql_file_stat'' [Arg ''K'', Src_file, Src_line, Arg ''FN'', Arg ''S'', Arg ''FL'']
      else Call ''inline_mysql_file_stat'' [Arg ''FN'', Arg ''S'', Arg ''FL''])"

definition inline_mysql_file_stat_params :: "config \<Rightarrow> string list option" where
  "inline_mysql_file_stat_params cfg =
     (Some ((if HAVE_PSI_FILE_INTERFACE cfg then [''key'', ''src_file'', ''src_line'']
        else [])
       @ [''path'', ''stat_area'', ''flags'']))"

definition mysql_file_chsize :: "config \<Rightarrow> expansion" where
  "mysql_file_chsize cfg =
     (if HAVE_PSI_FILE_INTERFACE cfg
      then Call ''inline_mysql_file_chsize'' [Src_file, Src_line, Arg ''F'', Arg ''P1'', Arg ''P2'', Arg ''P3'']
      else Call ''inline_mysql_file_chsize'' [Arg ''F'', Arg ''P1'', Arg ''P2'', Arg ''P3''])"

definition inline_mysql_file_chsize_params :: "config \<Rightarrow> string list option" where
  "inline_mysql_file_chsize_params cfg =
     (Some ((if HAVE_PSI_FILE_INTERFACE cfg then [''src_file'', ''src_line'']
        else [])
       @ [''file'', ''newlength'', ''filler'', ''flags'']))"

definition mysql_file_fopen :: "config \<Rightarrow> expansion" where
  "mysql_file_fopen cfg =
     (if HAVE_PSI_FILE_INTERFACE cfg
      then Call ''inline_mysql_file_fopen'' [Arg ''K'', Src_file, Src_line, Arg ''N'', Arg ''F1'', Arg ''F2'']
      else Call ''inline_mysql_file_fopen'' [Arg ''N'', Arg ''F1'', Arg ''F2''])"

definition inline_mysql_file_fopen_params :: "config \<Rightarrow> string list option" where
  "inline_mysql_file_fopen_params cfg =
     (Some ((if HAVE_PSI_FILE_INTERFACE cfg then [''key'', ''src_file'', ''src_line'']
        else [])
       @ [''filename'', ''flags'', ''myFlags'']))"

definition mysql_file_fclose :: "config \<Rightarrow> expansion" where
  "mysql_file_fclose cfg =
     (if HAVE_PSI_FILE_INTERFACE cfg
      then Call ''inline_mysql_file_fclose'' [Src_file, Src_line, Arg ''FD'', Arg ''FL'']
      else Call ''inline_mysql_file_fclose'' [Arg ''FD'', Arg ''FL''])"

definition inline_mysql_file_fclose_params :: "config \<Rightarrow> string list option" where
  "inline_mysql_file_fclose_params cfg =
     (Some ((if HAVE_PSI_FILE_INTERFACE cfg then [''src_file'', ''src_line'']
        else [])
       @ [''file'', ''flags'']))"

definition mysql_file_fread :: "config \<Rightarrow> expansion" where
  "mysql_file_fread cfg =
     (if HAVE_PSI_FILE_INTERFACE cfg
      then Call ''inline_mysql_file_fread'' [Src_file, Src_line, Arg ''FD'', Arg ''P1'', Arg ''P2'', Arg ''P3'']
      else Call ''inline_mysql_file_fread'' [Arg ''FD'', Arg ''P1'', Arg ''P2'', Arg ''P3''])"

definition inline_mysql_file_fread_params :: "config \<Rightarrow> string list option" where
  "inline_mysql_file_fread_params cfg =
     (Some ((if HAVE_PSI_FILE_INTERFACE cfg then [''src_file'', ''src_line'']
        else [])
       @ [''file'', ''buffer'', ''count'', ''flags'']))"

definition mysql_file_fwrite :: "config \<Rightarrow> expansion" where
  "mysql_file_fwrite cfg =
     (if HAVE_PSI_FILE_INTERFACE cfg
      then Call ''inline_mysql_file_fwrite'' [Src_file, Src_line, Arg ''FD'', Arg ''P1'', Arg ''P2'', Arg ''P3'']
      else Call ''inline_mysql_file_fwrite'' [Arg ''FD'', Arg ''P1'', Arg ''P2'', Arg ''P3''])"

definition inline_mysql_file_fwrite_params :: "config \<Rightarrow> string list option" where
  "inline_mysql_file_fwrite_params cfg =
     (Some ((if HAVE_PSI_FILE_INTERFACE cfg then [''src_file'', ''src_line'']
        else [])
       @ [''file'', ''buffer'', ''count'', ''flags'']))"

definition mysql_file_fseek :: "config \<Rightarrow> expansion" where
  "mysql_file_fseek cfg =
     (if HAVE_PSI_FILE_INTERFACE cfg
      then Call ''inline_mysql_file_fseek'' [Src_file, Src_line, Arg ''FD'', Arg ''P'', Arg ''W'', Arg ''F'']
      else Call ''inline_mysql_file_fseek'' [Arg ''FD'', Arg ''P'', Arg ''W'', Arg ''F''])"

definition inline_mysql_file_fseek_params :: "config \<Rightarrow> string list option" where
  "inline_mysql_file_fseek_params cfg =
     (Some ((if HAVE_PSI_FILE_INTERFACE cfg then [''src_file'', ''src_line'']
        else [])
       @ [''file'', ''pos'', ''whence'', ''flags'']))"

definition mysql_file_ftell :: "config \<Rightarrow> expansion" where
  "mysql_file_ftell cfg =
     (if HAVE_PSI_FILE_INTERFACE cfg
      then Call ''inline_mysql_file_ftell'' [Src_file, Src_line, Arg ''FD'', Arg ''F'']
      else Call ''inline_mysql_file_ftell'' [Arg ''FD'', Arg ''F''])"

definition inline_mysql_file_ftell_params :: "config \<Rightarrow> string list option" where
  "inline_mysql_file_ftell_params cfg =
     (Some ((if HAVE_PSI_FILE_INTERFACE cfg then [''src_file'', ''src_line'']
        else [])
       @ [''file'', ''flags'']))"

definition mysql_file_create :: "config \<Rightarrow> expansion" where
  "mysql_file_create cfg =
     (if HAVE_PSI_FILE_INTERFACE cfg
      then Call ''inline_mysql_file_create'' [Arg ''K'', Src_file, Src_line, Arg ''N'', Arg ''F1'', Arg ''F2'', Arg ''F3'']
      else Call ''inline_mysql_file_create'' [Arg ''N'', Arg ''F1'', Arg ''F2'', Arg ''F3''])"

definition inline_mysql_file_create_params :: "config \<Rightarrow> string list option" where
  "inline_mysql_file_create_params cfg =
     (Some ((if HAVE_PSI_FILE_INTERFACE cfg then [''key'', ''src_file'', ''src_line'']
        else [])
       @ [''filename'', ''create_flags'', ''access_flags'', ''myFlags'']))"

definition mysql_file_create_temp :: "config \<Rightarrow> expansion" where
  "mysql_file_create_temp cfg =
     (if HAVE_PSI_FILE_INTERFACE cfg
      then Call ''inline_mysql_file_create_temp'' [Arg ''K'', Src_file, Src_line, Arg ''T'', Arg ''D'', Arg ''P'', Arg ''M'', Arg ''F'']
      else Call ''inline_mysql_file_create_temp'' [Arg ''T'', Arg ''D'', Arg ''P'', Arg ''M'', Arg ''F''])"

definition inline_mysql_file_create_temp_params :: "config \<Rightarrow> string list option" where
  "inline_mysql_file_create_temp_params cfg =
     (Some ((if HAVE_PSI_FILE_INTERFACE cfg then [''key'', ''src_file'', ''src_line'']
        else [])
       @ [''to'', ''dir'', ''pfx'', ''mode'', ''myFlags'']))"

definition mysql_file_open :: "config \<Rightarrow> expansion" where
  "mysql_file_open cfg =
     (if HAVE_PSI_FILE_INTERFACE cfg
      then Call ''inline_mysql_file_open'' [Arg ''K'', Src_file, Src_line, Arg ''N'', Arg ''F1'', Arg ''F2'']
      else Call ''inline_mysql_file_open'' [Arg ''N'', Arg ''F1'', Arg ''F2''])"

definition inline_mysql_file_open_params :: "config \<Rightarrow> string list option" where
  "inline_mysql_file_open_params cfg =
     (Some ((if HAVE_PSI_FILE_INTERFACE cfg then [''key'', ''src_file'', ''src_line'']
        else [])
       @ [''filename'', ''flags'', ''myFlags'']))"

definition mysql_file_close :: "config \<Rightarrow> expansion" where
  "mysql_file_close cfg =
     (if HAVE_PSI_FILE_INTERFACE cfg
      then Call ''inline_mysql_file_close'' [Src_file, Src_line, Arg ''FD'', Arg ''F'']
      else Call ''inline_mysql_file_close'' [Arg ''FD'', Arg ''F''])"

definition inline_mysql_file_close_params :: "config \<Rightarrow> string list option" where
  "inline_mysql_file_close_params cfg =
     (Some ((if HAVE_PSI_FILE_INTERFACE cfg then [''src_file'', ''src_line'']
        else [])
       @ [''file'', ''flags'']))"

definition mysql_file_read :: "config \<Rightarrow> expansion" where
  "mysql_file_read cfg =
     (if HAVE_PSI_FILE_INTERFACE cfg
      then Call ''inline_mysql_file_read'' [Src_file, Src_line, Arg ''FD'', Arg ''B'', Arg ''S'', Arg ''F'']
      else Call ''inline_mysql_file_read'' [Arg ''FD'', Arg ''B'', Arg ''S'', Arg ''F''])"

definition inline_mysql_file_read_params :: "config \<Rightarrow> string list option" where
  "inline_mysql_file_read_params cfg =
     (Some ((if HAVE_PSI_FILE_INTERFACE cfg then [''src_file'', ''src_line'']
        else [])
       @ [''file'', ''buffer'', ''count'', ''flags'']))"

definition mysql_file_write :: "config \<Rightarrow> expansion" where
  "mysql_file_write cfg =
     (if HAVE_PSI_FILE_INTERFACE cfg
      then Call ''inline_mysql_file_write'' [Src_file, Src_line, Arg ''FD'', Arg ''B'', Arg ''S'', Arg ''F'']
      else Call ''inline_mysql_file_write'' [Arg ''FD'', Arg ''B'', Arg ''S'', Arg ''F''])"

definition inline_mysql_file_write_params :: "config \<Rightarrow> string list option" where
  "inline_mysql_file_write_params cfg =
     (Some ((if HAVE_PSI_FILE_INTERFACE cfg then [''src_file'', ''src_line'']
        else [])
       @ [''file'', ''buffer'', ''count'', ''flags'']))"

definition mysql_file_pread :: "config \<Rightarrow> expansion" where
  "mysql_file_pread cfg =
     (if HAVE_PSI_FILE_INTERFACE cfg
      then Call ''inline_mysql_file_pread'' [Src_file, Src_line, Arg ''FD'', Arg ''B'', Arg ''S'', Arg ''O'', Arg ''F'']
      else Call ''inline_mysql_file_pread'' [Arg ''FD'', Arg ''B'', Arg ''S'', Arg ''O'', Arg ''F''])"

definition inline_mysql_file_pread_params :: "config \<Rightarrow> string list option" where
  "inline_mysql_file_pread_params cfg =
     (Some ((if HAVE_PSI_FILE_INTERFACE cfg then [''src_file'', ''src_line'']
        else [])
       @ [''file'', ''buffer'', ''count'', ''offset'', ''flags'']))"

definition mysql_file_pwrite :: "config \<Rightarrow> expansion" where
  "mysql_file_pwrite cfg =
     (if HAVE_PSI_FILE_INTERFACE cfg
      then Call ''inline_mysql_file_pwrite'' [Src_file, Src_line, Arg ''FD'', Arg ''B'', Arg ''S'', Arg ''O'', Arg ''F'']
      else Call ''inline_mysql_file_pwrite'' [Arg ''FD'', Arg ''B'', Arg ''S'', Arg ''O'', Arg ''F''])"

definition inline_mysql_file_pwrite_params :: "config \<Rightarrow> string list option" where
  "inline_mysql_file_pwrite_params cfg =
     (Some ((if HAVE_PSI_FILE_INTERFACE cfg then [''src_file'', ''src_line'']
        else [])
       @ [''file'', ''buffer'', ''count'', ''offset'', ''flags'']))"

definition mysql_file_seek :: "config \<Rightarrow> expansion" where
  "mysql_file_seek cfg =
     (if HAVE_PSI_FILE_INTERFACE cfg
      then Call ''inline_mysql_file_seek'' [Src_file, Src_line, Arg ''FD'', Arg ''P'', Arg ''W'', Arg ''F'']
      else Call ''inline_mysql_file_seek'' [Arg ''FD'', Arg ''P'', Arg ''W'', Arg ''F''])"

definition inline_mysql_file_seek_params :: "config \<Rightarrow> string list option" where
  "inline_mysql_file_seek_params cfg =
     (Some ((if HAVE_PSI_FILE_INTERFACE cfg then [''src_file'', ''src_line'']
        else [])
       @ [''file'', ''pos'', ''whence'', ''flags'']))"

definition mysql_file_tell :: "config \<Rightarrow> expansion" where
  "mysql_file_tell cfg =
     (if HAVE_PSI_FILE_INTERFACE cfg
      then Call ''inline_mysql_file_tell'' [Src_file, Src_line, Arg ''FD'', Arg ''F'']
      else Call ''inline_mysql_file_tell'' [Arg ''FD'', Arg ''F''])"

definition inline_mysql_file_tell_params :: "config \<Rightarrow> string list option" where
  "inline_mysql_file_tell_params cfg =
     (Some ((if HAVE_PSI_FILE_INTERFACE cfg then [''src_file'', ''src_line'']
        else [])
       @ [''file'', ''flags'']))"

definition mysql_file_delete :: "config \<Rightarrow> expansion" where
  "mysql_file_delete cfg =
     (if HAVE_PSI_FILE_INTERFACE cfg
      then Call ''inline_mysql_file_delete'' [Arg ''K'', Src_file, Src_line, Arg ''P1'', Arg ''P2'']
      else Call ''inline_mysql_file_delete'' [Arg ''P1'', Arg ''P2''])"

definition inline_mysql_file_delete_params :: "config \<Rightarrow> string list option" where
  "inline_mysql_file_delete_params cfg =
     (Some ((if HAVE_PSI_FILE_INTERFACE cfg then [''key'', ''src_file'', ''src_line'']
        else [])
       @ [''name'', ''flags'']))"

definition mysql_file_rename :: "config \<Rightarrow> expansion" where
  "mysql_file_rename cfg =
     (if HAVE_PSI_FILE_INTERFACE cfg
      then Call ''inline_mysql_file_rename'' [Arg ''K'', Src_file, Src_line, Arg ''P1'', Arg ''P2'', Arg ''P3'']
      else Call ''inline_mysql_file_rename'' [Arg ''P1'', Arg ''P2'', Arg ''P3''])"

definition inline_mysql_file_rename_params :: "config \<Rightarrow> string list option" where
  "inline_mysql_file_rename_params cfg =
     (Some ((if HAVE_PSI_FILE_INTERFACE cfg then [''key'', ''src_file'', ''src_line'']
        else [])
       @ [''from'', ''to'', ''flags'']))"

definition mysql_file_create_with_symlink :: "config \<Rightarrow> expansion" where
  "mysql_file_create_with_symlink cfg =
     (if HAVE_PSI_FILE_INTERFACE cfg
      then Call ''inline_mysql_file_create_with_symlink'' [Arg ''K'', Src_file, Src_line, Arg ''P1'', Arg ''P2'', Arg ''P3'', Arg ''P4'', Arg ''P5'']
      else Call ''inline_mysql_file_create_with_symlink'' [Arg ''P1'', Arg ''P2'', Arg ''P3'', Arg ''P4'', Arg ''P5''])"

definition inline_mysql_file_create_with_symlink_params :: "config \<Rightarrow> string list option" where
  "inline_mysql_file_create_with_symlink_params cfg =
     (Some ((if HAVE_PSI_FILE_INTERFACE cfg then [''key'', ''src_file'', ''src_line'']
        else [])
       @ [''linkname'', ''filename'', ''create_flags'', ''access_flags'', ''flags'']))"

definition mysql_file_delete_with_symlink :: "config \<Rightarrow> expansion" where
  "mysql_file_delete_with_symlink cfg =
     (if HAVE_PSI_FILE_INTERFACE cfg
      then Call ''inline_mysql_file_delete_with_symlink'' [Arg ''K'', Src_file, Src_line, Arg ''P1'', Arg ''P2'']
      else Call ''inline_mysql_file_delete_with_symlink'' [Arg ''P1'', Arg ''P2''])"

definition inline_mysql_file_delete_with_symlink_params :: "config \<Rightarrow> string list option" where
  "inline_mysql_file_delete_with_symlink_params cfg =
     (Some ((if HAVE_PSI_FILE_INTERFACE cfg then [''key'', ''src_file'', ''src_line'']
        else [])
       @ [''name'', ''flags'']))"

definition mysql_file_rename_with_symlink :: "config \<Rightarrow> expansion" where
  "mysql_file_rename_with_symlink cfg =
     (if HAVE_PSI_FILE_INTERFACE cfg
      then Call ''inline_mysql_file_rename_with_symlink'' [Arg ''K'', Src_file, Src_line, Arg ''P1'', Arg ''P2'', Arg ''P3'']
      else Call ''inline_mysql_file_rename_with_symlink'' [Arg ''P1'', Arg ''P2'', Arg ''P3''])"

definition inline_mysql_file_rename_with_symlink_params :: "config \<Rightarrow> string list option" where
  "inline_mysql_file_rename_with_symlink_params cfg =
     (Some ((if HAVE_PSI_FILE_INTERFACE cfg then [''key'', ''src_file'', ''src_line'']
        else [])
       @ [''from'', ''to'', ''flags'']))"

definition mysql_file_sync :: "config \<Rightarrow> expansion" where
  "mysql_file_sync cfg =
     (if HAVE_PSI_FILE_INTERFACE cfg
      then Call ''inline_mysql_file_sync'' [Src_file, Src_line, Arg ''P1'', Arg ''P2'']
      else Call ''inline_mysql_file_sync'' [Arg ''P1'', Arg ''P2''])"

definition inline_mysql_file_sync_params :: "config \<Rightarrow> string list option" where
  "inline_mysql_file_sync_params cfg =
     (Some ((if HAVE_PSI_FILE_INTERFACE cfg then [''src_file'', ''src_line'']
        else [])
       @ [''fd'', ''flags'']))"

section \<open>All macros agree with their functions\<close>

text \<open>Each macro with the declarations of the functions it may call.\<close>

definition api_macros :: "((config \<Rightarrow> expansion) \<times> (string \<times> (config \<Rightarrow> string list option)) list) list" where
  "api_macros = [
     (mysql_mutex_register, [(''inline_mysql_mutex_register'', inline_mysql_mutex_register_params)]),
     (mysql_mutex_init, [(''inline_mysql_mutex_init'', inline_mysql_mutex_init_params)]),
     (mysql_mutex_destroy, [(''inline_mysql_mutex_destroy'', inline_mysql_mutex_destroy_params)]),
     (mysql_mutex_lock, [(''inline_mysql_mutex_lock'', inline_mysql_mutex_lock_params)]),
     (mysql_mutex_trylock, [(''inline_mysql_mutex_trylock'', inline_mysql_mutex_trylock_params)]),
     (mysql_mutex_unlock, [(''inline_mysql_mutex_unlock'', inline_mysql_mutex_unlock_params)]),
     (mysql_rwlock_register, [(''inline_mysql_rwlock_register'', inline_mysql_rwlock_register_params)]),
     (mysql_rwlock_init, [(''inline_mysql_rwlock_init'', inline_mysql_rwlock_init_params)]),
     (mysql_prlock_init, [(''inline_mysql_prlock_init'', inline_mysql_prlock_init_params)]),
     (mysql_rwlock_destroy, [(''inline_mysql_rwlock_destroy'', inline_mysql_rwlock_destroy_params)]),
     (mysql_prlock_destroy, [(''inline_mysql_prlock_destroy'', inline_mysql_prlock_destroy_params)]),
     (mysql_rwlock_rdlock, [(''inline_mysql_rwlock_rdlock'', inline_mysql_rwlock_rdlock_params)]),
     (mysql_prlock_rdlock, [(''inline_mysql_prlock_rdlock'', inline_mysql_prlock_rdlock_params)]),
     (mysql_rwlock_wrlock, [(''inline_mysql_rwlock_wrlock'', inline_mysql_rwlock_wrlock_params)]),
     (mysql_prlock_wrlock, [(''inline_mysql_prlock_wrlock'', inline_mysql_prlock_wrlock_params)]),
     (mysql_rwlock_tryrdlock, [(''inline_mysql_rwlock_tryrdlock'', inline_mysql_rwlock_tryrdlock_params)]),
     (mysql_rwlock_trywrlock, [(''inline_mysql_rwlock_trywrlock'', inline_mysql_rwlock_trywrlock_params)]),
     (mysql_rwlock_unlock, [(''inline_mysql_rwlock_unlock'', inline_mysql_rwlock_unlock_params)]),
     (mysql_prlock_unlock, [(''inline_mysql_prlock_unlock'', inline_mysql_prlock_unlock_params)]),
     (mysql_cond_register, [(''inline_mysql_cond_register'', inline_mysql_cond_register_params)]),
     (mysql_cond_init, [(''inline_mysql_cond_init'', inline_mysql_cond_init_params)]),
     (mysql_cond_destroy, [(''inline_mysql_cond_destroy'', inline_mysql_cond_destroy_params)]),
     (mysql_cond_wait, [(''inline_mysql_cond_wait'', inline_mysql_cond_wait_params)]),
     (mysql_cond_timedwait, [(''inline_mysql_cond_timedwait'', inline_mysql_cond_timedwait_params)]),
     (mysql_cond_signal, [(''inline_mysql_cond_signal'', inline_mysql_cond_signal_params)]),
     (mysql_cond_broadcast, [(''inline_mysql_cond_broadcast'', inline_mysql_cond_broadcast_params)]),
     (mysql_thread_register, [(''inline_mysql_thread_register'', inline_mysql_thread_register_params)]),
     (mysql_thread_create, [(''inline_mysql_thread_create'', inline_mysql_thread_create_params), (''my_thread_create'', my_thread_create_params)]),
     (mysql_thread_set_psi_id, [(''inline_mysql_thread_set_psi_id'', inline_mysql_thread_set_psi_id_params)]),
     (mysql_thread_set_psi_THD, [(''inline_mysql_thread_set_psi_THD'', inline_mysql_thread_set_psi_THD_params)]),
     (mysql_socket_register, [(''inline_mysql_socket_register'', inline_mysql_socket_register_params)]),
     (MYSQL_START_SOCKET_WAIT, [(''inline_mysql_start_socket_wait'', inline_mysql_start_socket_wait_params)]),
     (MYSQL_END_SOCKET_WAIT, [(''inline_mysql_end_socket_wait'', inline_mysql_end_socket_wait_params)]),
     (MYSQL_SOCKET_SET_STATE, [(''inline_mysql_socket_set_state'', inline_mysql_socket_set_state_params)]),
     (mysql_socket_socket, [(''inline_mysql_socket_socket'', inline_mysql_socket_socket_params)]),
     (mysql_socket_bind, [(''inline_mysql_socket_bind'', inline_mysql_socket_bind_params)]),
     (mysql_socket_getsockname, [(''inline_mysql_socket_getsockname'', inline_mysql_socket_getsockname_params)]),
     (mysql_socket_connect, [(''inline_mysql_socket_connect'', inline_mysql_socket_connect_params)]),
     (mysql_socket_getpeername, [(''inline_mysql_socket_getpeername'', inline_mysql_socket_getpeername_params)]),
     (mysql_socket_send, [(''inline_mysql_socket_send'', inline_mysql_socket_send_params)]),
     (mysql_socket_recv, [(''inline_mysql_socket_recv'', inline_mysql_socket_recv_params)]),
     (mysql_socket_sendto, [(''inline_mysql_socket_sendto'', inline_mysql_socket_sendto_params)]),
     (mysql_socket_recvfrom, [(''inline_mysql_socket_recvfrom'', inline_mysql_socket_recvfrom_params)]),
     (mysql_socket_getsockopt, [(''inline_mysql_socket_getsockopt'', inline_mysql_socket_getsockopt_params)]),
     (mysql_socket_setsockopt, [(''inline_mysql_socket_setsockopt'', inline_mysql_socket_setsockopt_params)]),
     (mysql_sock_set_nonblocking, [(''inline_mysql_sock_set_nonblocking'', inline_mysql_sock_set_nonblocking_params)]),
     (mysql_socket_listen, [(''inline_mysql_socket_listen'', inline_mysql_socket_listen_params)]),
     (mysql_socket_accept, [(''inline_mysql_socket_accept'', inline_mysql_socket_accept_params)]),
     (mysql_socket_close, [(''inline_mysql_socket_close'', inline_mysql_socket_close_params)]),
     (mysql_socket_shutdown, [(''inline_mysql_socket_shutdown'', inline_mysql_socket_shutdown_params)]),
     (mysql_file_register, [(''inline_mysql_file_register'', inline_mysql_file_register_params)]),
     (mysql_file_fgets, [(''inline_mysql_file_fgets'', inline_mysql_file_fgets_params)]),
     (mysql_file_fgetc, [(''inline_mysql_file_fgetc'', inline_mysql_file_fgetc_params)]),
     (mysql_file_fputs, [(''inline_mysql_file_fputs'', inline_mysql_file_fputs_params)]),
     (mysql_file_fputc, [(''inline_mysql_file_fputc'', inline_mysql_file_fputc_params)]),
     (mysql_file_vfprintf, [(''inline_mysql_file_vfprintf'', inline_mysql_file_vfprintf_params)]),
     (mysql_file_fflush, [(''inline_mysql_file_fflush'', inline_mysql_file_fflush_params)]),
     (mysql_file_feof, [(''inline_mysql_file_feof'', inline_mysql_file_feof_params)]),
     (mysql_file_fstat, [(''inline_mysql_file_fstat'', inline_mysql_file_fstat_params)]),
     (mysql_file_stat, [(''inline_mysql_file_stat'', inline_mysql_file_stat_params)]),
     (mysql_file_chsize, [(''inline_mysql_file_chsize'', inline_mysql_file_chsize_params)]),
     (mysql_file_fopen, [(''inline_mysql_file_fopen'', inline_mysql_file_fopen_params)]),
     (mysql_file_fclose, [(''inline_mysql_file_fclose'', inline_mysql_file_fclose_params)]),
     (mysql_file_fread, [(''inline_mysql_file_fread'', inline_mysql_file_fread_params)]),
     (mysql_file_fwrite, [(''inline_mysql_file_fwrite'', inline_mysql_file_fwrite_params)]),
     (mysql_file_fseek, [(''inline_mysql_file_fseek'', inline_mysql_file_fseek_params)]),
     (mysql_file_ftell, [(''inline_mysql_file_ftell'', inline_mysql_file_ftell_params)]),
     (mysql_file_create, [(''inline_mysql_file_create'', inline_mysql_file_create_params)]),
     (mysql_file_create_temp, [(''inline_mysql_file_create_temp'', inline_mysql_file_create_temp_params)]),
     (mysql_file_open, [(''inline_mysql_file_open'', inline_mysql_file_open_params)]),
     (mysql_file_close, [(''inline_mysql_file_close'', inline_mysql_file_close_params)]),
     (mysql_file_read, [(''inline_mysql_file_read'', inline_mysql_file_read_params)]),
     (mysql_file_write, [(''inline_mysql_file_write'', inline_mysql_file_write_params)]),
     (mysql_file_pread, [(''inline_mysql_file_pread'', inline_mysql_file_pread_params)]),
     (mysql_file_pwrite, [(''inline_mysql_file_pwrite'', inline_mysql_file_pwrite_params)]),
     (mysql_file_seek, [(''inline_mysql_file_seek'', inline_mysql_file_seek_params)]),
     (mysql_file_tell, [(''inline_mysql_file_tell'', inline_mysql_file_tell_params)]),
     (mysql_file_delete, [(''inline_mysql_file_delete'', inline_mysql_file_delete_params)]),
     (mysql_file_rename, [(''inline_mysql_file_rename'', inline_mysql_file_rename_params)]),
     (mysql_file_create_with_symlink, [(''inline_mysql_file_create_with_symlink'', inline_mysql_file_create_with_symlink_params)]),
     (mysql_file_delete_with_symlink, [(''inline_mysql_file_delete_with_symlink'', inline_mysql_file_delete_with_symlink_params)]),
     (mysql_file_rename_with_symlink, [(''inline_mysql_file_rename_with_symlink'', inline_mysql_file_rename_with_symlink_params)]),
     (mysql_file_sync, [(''inline_mysql_file_sync'', inline_mysql_file_sync_params)])]"

text \<open>
  An expansion fits where the function is declared with as many parameters, and the place in the source is passed as
  \<open>src_file\<close> and \<open>src_line\<close> and nothing else is. Its routes say which argument of the macro becomes which parameter.
\<close>

fun source_place :: "actual \<Rightarrow> string \<Rightarrow> bool" where
  "source_place Src_file p \<longleftrightarrow> p = ''src_file''"
| "source_place Src_line p \<longleftrightarrow> p = ''src_line''"
| "source_place (Arg _) p \<longleftrightarrow> p \<noteq> ''src_file'' \<and> p \<noteq> ''src_line''"

definition parameters :: "(string \<times> (config \<Rightarrow> string list option)) list \<Rightarrow> config \<Rightarrow> string \<Rightarrow> string list option" where
  "parameters fs cfg f = (case map_of fs f of None \<Rightarrow> None | Some ps \<Rightarrow> ps cfg)"

fun fits :: "(string \<Rightarrow> string list option) \<Rightarrow> expansion \<Rightarrow> bool" where
  "fits ps Nothing \<longleftrightarrow> True"
| "fits ps (Call f as) \<longleftrightarrow> (case ps f of None \<Rightarrow> False | Some qs \<Rightarrow> list_all2 source_place as qs)"

fun routes :: "(string \<Rightarrow> string list option) \<Rightarrow> expansion \<Rightarrow> (actual \<times> string) list" where
  "routes ps Nothing = []"
| "routes ps (Call f as) = (case ps f of None \<Rightarrow> [] | Some qs \<Rightarrow> zip as qs)"

fun called :: "expansion \<Rightarrow> string option" where
  "called Nothing = None"
| "called (Call f as) = Some f"

text \<open>The configuration with everything.\<close>

abbreviation full :: config where
  "full \<equiv> win_config\<lparr>SAFE_MUTEX := True\<rparr>"

definition agrees :: "config \<Rightarrow> (config \<Rightarrow> expansion) \<times> (string \<times> (config \<Rightarrow> string list option)) list \<Rightarrow> bool" where
  "agrees cfg = (\<lambda>(x, fs). fits (parameters fs cfg) (x cfg)
     \<and> (called (x cfg) \<noteq> called (x full)
        \<or> set (routes (parameters fs cfg) (x cfg)) \<subseteq> set (routes (parameters fs full) (x full))))"

lemmas macro_defs =
  mysql_mutex_register_def inline_mysql_mutex_register_params_def mysql_mutex_init_def
  inline_mysql_mutex_init_params_def mysql_mutex_destroy_def inline_mysql_mutex_destroy_params_def
  mysql_mutex_lock_def inline_mysql_mutex_lock_params_def mysql_mutex_trylock_def
  inline_mysql_mutex_trylock_params_def mysql_mutex_unlock_def inline_mysql_mutex_unlock_params_def
  mysql_rwlock_register_def inline_mysql_rwlock_register_params_def mysql_rwlock_init_def
  inline_mysql_rwlock_init_params_def mysql_prlock_init_def inline_mysql_prlock_init_params_def
  mysql_rwlock_destroy_def inline_mysql_rwlock_destroy_params_def mysql_prlock_destroy_def
  inline_mysql_prlock_destroy_params_def mysql_rwlock_rdlock_def inline_mysql_rwlock_rdlock_params_def
  mysql_prlock_rdlock_def inline_mysql_prlock_rdlock_params_def mysql_rwlock_wrlock_def
  inline_mysql_rwlock_wrlock_params_def mysql_prlock_wrlock_def inline_mysql_prlock_wrlock_params_def
  mysql_rwlock_tryrdlock_def inline_mysql_rwlock_tryrdlock_params_def mysql_rwlock_trywrlock_def
  inline_mysql_rwlock_trywrlock_params_def mysql_rwlock_unlock_def inline_mysql_rwlock_unlock_params_def
  mysql_prlock_unlock_def inline_mysql_prlock_unlock_params_def mysql_cond_register_def
  inline_mysql_cond_register_params_def mysql_cond_init_def inline_mysql_cond_init_params_def
  mysql_cond_destroy_def inline_mysql_cond_destroy_params_def mysql_cond_wait_def
  inline_mysql_cond_wait_params_def mysql_cond_timedwait_def inline_mysql_cond_timedwait_params_def
  mysql_cond_signal_def inline_mysql_cond_signal_params_def mysql_cond_broadcast_def
  inline_mysql_cond_broadcast_params_def mysql_thread_register_def inline_mysql_thread_register_params_def
  mysql_thread_create_def inline_mysql_thread_create_params_def mysql_thread_set_psi_id_def
  inline_mysql_thread_set_psi_id_params_def mysql_thread_set_psi_THD_def
  inline_mysql_thread_set_psi_THD_params_def mysql_socket_register_def
  inline_mysql_socket_register_params_def MYSQL_START_SOCKET_WAIT_def
  inline_mysql_start_socket_wait_params_def MYSQL_END_SOCKET_WAIT_def inline_mysql_end_socket_wait_params_def
  MYSQL_SOCKET_SET_STATE_def inline_mysql_socket_set_state_params_def mysql_socket_socket_def
  inline_mysql_socket_socket_params_def mysql_socket_bind_def inline_mysql_socket_bind_params_def
  mysql_socket_getsockname_def inline_mysql_socket_getsockname_params_def mysql_socket_connect_def
  inline_mysql_socket_connect_params_def mysql_socket_getpeername_def
  inline_mysql_socket_getpeername_params_def mysql_socket_send_def inline_mysql_socket_send_params_def
  mysql_socket_recv_def inline_mysql_socket_recv_params_def mysql_socket_sendto_def
  inline_mysql_socket_sendto_params_def mysql_socket_recvfrom_def inline_mysql_socket_recvfrom_params_def
  mysql_socket_getsockopt_def inline_mysql_socket_getsockopt_params_def mysql_socket_setsockopt_def
  inline_mysql_socket_setsockopt_params_def mysql_sock_set_nonblocking_def
  inline_mysql_sock_set_nonblocking_params_def mysql_socket_listen_def inline_mysql_socket_listen_params_def
  mysql_socket_accept_def inline_mysql_socket_accept_params_def mysql_socket_close_def
  inline_mysql_socket_close_params_def mysql_socket_shutdown_def inline_mysql_socket_shutdown_params_def
  mysql_file_register_def inline_mysql_file_register_params_def mysql_file_fgets_def
  inline_mysql_file_fgets_params_def mysql_file_fgetc_def inline_mysql_file_fgetc_params_def
  mysql_file_fputs_def inline_mysql_file_fputs_params_def mysql_file_fputc_def
  inline_mysql_file_fputc_params_def mysql_file_vfprintf_def inline_mysql_file_vfprintf_params_def
  mysql_file_fflush_def inline_mysql_file_fflush_params_def mysql_file_feof_def
  inline_mysql_file_feof_params_def mysql_file_fstat_def inline_mysql_file_fstat_params_def
  mysql_file_stat_def inline_mysql_file_stat_params_def mysql_file_chsize_def
  inline_mysql_file_chsize_params_def mysql_file_fopen_def inline_mysql_file_fopen_params_def
  mysql_file_fclose_def inline_mysql_file_fclose_params_def mysql_file_fread_def
  inline_mysql_file_fread_params_def mysql_file_fwrite_def inline_mysql_file_fwrite_params_def
  mysql_file_fseek_def inline_mysql_file_fseek_params_def mysql_file_ftell_def
  inline_mysql_file_ftell_params_def mysql_file_create_def inline_mysql_file_create_params_def
  mysql_file_create_temp_def inline_mysql_file_create_temp_params_def mysql_file_open_def
  inline_mysql_file_open_params_def mysql_file_close_def inline_mysql_file_close_params_def
  mysql_file_read_def inline_mysql_file_read_params_def mysql_file_write_def
  inline_mysql_file_write_params_def mysql_file_pread_def inline_mysql_file_pread_params_def
  mysql_file_pwrite_def inline_mysql_file_pwrite_params_def mysql_file_seek_def
  inline_mysql_file_seek_params_def mysql_file_tell_def inline_mysql_file_tell_params_def
  mysql_file_delete_def inline_mysql_file_delete_params_def mysql_file_rename_def
  inline_mysql_file_rename_params_def mysql_file_create_with_symlink_def
  inline_mysql_file_create_with_symlink_params_def mysql_file_delete_with_symlink_def
  inline_mysql_file_delete_with_symlink_params_def mysql_file_rename_with_symlink_def
  inline_mysql_file_rename_with_symlink_params_def mysql_file_sync_def inline_mysql_file_sync_params_def
  my_thread_create_params_def

lemmas agrees_simps = agrees_def parameters_def win_config_def

section \<open>Properties\<close>


end
