(* ===== verification/Instruments.thy ===== *)
theory Instruments
  imports PsiThread
begin

text \<open>
  The life of the instruments that the functions of \<open>mysql_thread.h\<close> keep in their
  objects. An object's hook is \<open>NULL\<close> or an instrument that was made and not destroyed, and belongs to no other
  object; so the instrumentation is never called with an instrument it has already destroyed.
\<close>

named_theorems framing \<open>rules for \<open>framed\<close>\<close>

section \<open>Instruments\<close>

text \<open>The instruments a call names.\<close>

fun uses :: "psi_call \<Rightarrow> nat set" where
  "uses (destroy_mutex p) = {p}"
| "uses (destroy_rwlock p) = {p}"
| "uses (destroy_cond p) = {p}"
| "uses (unlock_mutex p) = {p}"
| "uses (unlock_rwlock p) = {p}"
| "uses (signal_cond p) = {p}"
| "uses (broadcast_cond p) = {p}"
| "uses (start_mutex_wait p _ _ _) = {p}"
| "uses (start_rwlock_rdwait p _ _ _) = {p}"
| "uses (start_rwlock_wrwait p _ _ _) = {p}"
| "uses (start_cond_wait p m _ _ _) = insert p (set_option m)"
| "uses _ = {}"

fun makes :: "psi_call \<Rightarrow> bool" where
  "makes (init_mutex _ _) = True"
| "makes (init_rwlock _ _) = True"
| "makes (init_cond _ _) = True"
| "makes (init_socket _ _ _ _) = True"
| "makes _ = False"

fun destroys :: "psi_call \<Rightarrow> nat option" where
  "destroys (destroy_mutex p) = Some p"
| "destroys (destroy_rwlock p) = Some p"
| "destroys (destroy_cond p) = Some p"
| "destroys (destroy_socket p) = Some p"
| "destroys _ = None"

text \<open>
  What an instrumentation promises: \<open>live\<close> observes the instruments that exist; a new one is different from
  those, and only a destroy call removes one.
\<close>

definition keeps_instruments :: "('q \<Rightarrow> nat set) \<Rightarrow> 'q psi_env \<Rightarrow> bool" where
  "keeps_instruments live psi \<longleftrightarrow> (\<forall>c q.
     (makes c \<longrightarrow> (case fst (psi c q) of
        None \<Rightarrow> live (snd (psi c q)) = live q
      | Some p \<Rightarrow> p \<notin> live q \<and> live (snd (psi c q)) = insert p (live q)))
     \<and> (\<not> makes c \<longrightarrow> live (snd (psi c q)) = live q - set_option (destroys c)))"

text \<open>An instrumentation that remembers whether every call named only instruments that existed.\<close>

definition watched :: "('q \<Rightarrow> nat set) \<Rightarrow> 'q psi_env \<Rightarrow> (bool \<times> 'q) psi_env" where
  "watched live psi c = (\<lambda>(fine, q). (fst (psi c q), fine \<and> uses c \<subseteq> live q, snd (psi c q)))"

definition hooks_ok :: "('q \<Rightarrow> nat set) \<Rightarrow> ('o, bool \<times> 'q) world \<Rightarrow> bool" where
  "hooks_ok live w \<longleftrightarrow> fst (psi_state w)
     \<and> (\<forall>a p. m_psi w a = Some p \<longrightarrow> p \<in> live (snd (psi_state w)))
     \<and> (\<forall>a b p. m_psi w a = Some p \<longrightarrow> m_psi w b = Some p \<longrightarrow> a = b)"

definition keeps_hooks :: "('q \<Rightarrow> nat set) \<Rightarrow> ('o, bool \<times> 'q, 'a) prog \<Rightarrow> bool" where
  "keeps_hooks live m \<longleftrightarrow> (\<forall>w. hooks_ok live w \<longrightarrow> hooks_ok live (snd (run_state m w)))"

lemma keeps_hooksI:
  "(\<And>w. hooks_ok live w \<Longrightarrow> hooks_ok live (snd (run_state m w))) \<Longrightarrow> keeps_hooks live m"
  by (simp add: keeps_hooks_def)

section \<open>Operations that touch neither hooks nor instruments\<close>

definition framed :: "('o, 'p, 'a) prog \<Rightarrow> bool" where
  "framed m \<longleftrightarrow> (\<forall>w. psi_state (snd (run_state m w)) = psi_state w \<and> m_psi (snd (run_state m w)) = m_psi w)"

lemma framedD:
  assumes "framed m"
  shows "psi_state (snd (run_state m w)) = psi_state w" "m_psi (snd (run_state m w)) = m_psi w"
  using assms by (simp_all add: framed_def)

lemma framed_basic [framing]:
  "framed (ret x)" "framed (SYS sys c)" "framed (SYS0 sys c)" "framed (get_exclusive a)" "framed (set_exclusive a b)"
  by (auto simp: framed_def SYS_def SYS0_def os_do_def get_exclusive_def set_exclusive_def split_beta)

lemma framed_bind [framing]: "framed m \<Longrightarrow> (\<And>x. framed (f x)) \<Longrightarrow> framed (do { x \<leftarrow> m; f x })"
  by (simp add: framed_def split_beta)

lemma framed_if [framing]: "framed f \<Longrightarrow> framed g \<Longrightarrow> framed (if b then f else g)"
  by simp

lemma framed_cases [framing]:
  "framed f \<Longrightarrow> (\<And>y. framed (g y)) \<Longrightarrow> framed (case x of None \<Rightarrow> f | Some y \<Rightarrow> g y)"
  "(\<And>t. framed (h t)) \<Longrightarrow> (\<And>t. framed (k t)) \<Longrightarrow> framed (case a of Ts t \<Rightarrow> h t | Ft t \<Rightarrow> k t)"
  by (simp_all split: option.split abstime.split)

lemma native_framed [framing]:
  "framed (my_mutex_init cfg sys m attr f l)" "framed (my_mutex_lock cfg sys m f l)"
  "framed (my_mutex_trylock cfg sys m f l)" "framed (my_mutex_unlock cfg sys m f l)"
  "framed (my_mutex_destroy cfg sys m f l)"
  "framed (native_cond_init cfg sys c)" "framed (native_cond_destroy cfg sys c)"
  "framed (my_cond_timedwait cfg sys c m t f l)" "framed (my_cond_wait cfg sys c m f l)"
  "framed (native_cond_signal cfg sys c)" "framed (native_cond_broadcast cfg sys c)"
  "framed (native_rw_init cfg sys r)" "framed (native_rw_destroy cfg sys r)"
  "framed (native_rw_rdlock cfg sys r)" "framed (native_rw_tryrdlock cfg sys r)"
  "framed (native_rw_wrlock cfg sys r)" "framed (native_rw_trywrlock cfg sys r)"
  "framed (native_rw_unlock cfg sys r)"
  unfolding my_mutex_defs native_mutex_defs my_cond_timedwait_def my_cond_wait_def native_cond_defs native_rw_defs
  by (intro framing)+

section \<open>The four shapes of the wrappers\<close>

lemma hooks_ok_framed: "framed m \<Longrightarrow> hooks_ok live w \<Longrightarrow> hooks_ok live (snd (run_state m w))"
  by (simp add: hooks_ok_def framedD)

lemma keeps_hooks_framed: "framed m \<Longrightarrow> keeps_hooks live m"
  by (simp add: keeps_hooks_def hooks_ok_framed)

lemma keeps_hooks_bind:
  "keeps_hooks live m \<Longrightarrow> (\<And>x. keeps_hooks live (f x)) \<Longrightarrow> keeps_hooks live (do { x \<leftarrow> m; f x })"
  by (simp add: keeps_hooks_def split_beta)

text \<open>A call that neither makes nor destroys keeps the hooks if it names existing instruments.\<close>

lemma hooks_ok_call:
  assumes "keeps_instruments live psi" "\<not> makes c" "destroys c = None" "uses c \<subseteq> live (snd (psi_state w))" "hooks_ok live w"
  shows "hooks_ok live (snd (run_state (PSI_CALL (watched live psi) c) w))"
  using assms(5,2-4) assms(1) [unfolded keeps_instruments_def, rule_format, of c "snd (psi_state w)"]
  by (simp add: hooks_ok_def PSI_CALL_def watched_def split_beta)

lemma hooks_ok_do:
  assumes "keeps_instruments live psi" "\<not> makes c" "destroys c = None" "uses c \<subseteq> live (snd (psi_state w))" "hooks_ok live w"
  shows "hooks_ok live (snd (run_state (psi_do (watched live psi) c) w))"
  using hooks_ok_call [OF assms] by (simp add: psi_do_def split_beta)

lemma run_hook: "run_state (hook_of on a) w = (if on then m_psi w a else None, w)"
  by (simp add: hook_of_def get_m_psi_def)

lemma hook_live:
  "hooks_ok live w \<Longrightarrow> (if on then m_psi w a else None) = Some p \<Longrightarrow> p \<in> live (snd (psi_state w))"
  by (auto simp: hooks_ok_def split: if_splits)

lemma keeps_hooks_init:
  assumes "keeps_instruments live psi" "makes c" "uses c = {}"
  shows "keeps_hooks live (do {
    p \<leftarrow> (if on then PSI_CALL (watched live psi) c else ret None); set_m_psi a p })"
  (is "keeps_hooks live ?m")
proof (rule keeps_hooksI)
  fix w :: "('b, bool \<times> 'a) world"
  assume ok: "hooks_ok live w"
  show "hooks_ok live (snd (run_state ?m w))"
    using ok assms(2,3) assms(1) [unfolded keeps_instruments_def, rule_format, of c "snd (psi_state w)"]
    by (cases "fst (psi c (snd (psi_state w)))")
      (auto simp: hooks_ok_def PSI_CALL_def watched_def set_m_psi_def split_beta)
qed

lemma keeps_hooks_destroy:
  assumes "keeps_instruments live psi" "\<And>p. \<not> makes (c p)" "\<And>p. destroys (c p) = Some p" "\<And>p. uses (c p) = {p}"
  shows "keeps_hooks live (do {
    hook \<leftarrow> hook_of on a; if_hook hook (\<lambda>p. do { _ \<leftarrow> psi_do (watched live psi) (c p); set_m_psi a None }) })"
  (is "keeps_hooks live ?m")
proof (rule keeps_hooksI)
  fix w :: "('b, bool \<times> 'a) world"
  assume ok: "hooks_ok live w"
  show "hooks_ok live (snd (run_state ?m w))"
  proof (cases "if on then m_psi w a else None")
    case (Some p)
    then have a: "m_psi w a = Some p" by (simp split: if_splits)
    show ?thesis
      using ok a assms(2-4) assms(1) [unfolded keeps_instruments_def, rule_format, of "c p" "snd (psi_state w)"]
      by (auto simp: run_hook Some if_hook_def hooks_ok_def psi_do_def PSI_CALL_def watched_def set_m_psi_def split_beta)
  qed (simp add: run_hook if_hook_def ok)
qed

lemma keeps_hooks_notify:
  assumes "keeps_instruments live psi" "\<And>p. \<not> makes (c p)" "\<And>p. destroys (c p) = None" "\<And>p. uses (c p) = {p}"
  shows "keeps_hooks live (do { hook \<leftarrow> hook_of on a; if_hook hook (\<lambda>p. psi_do (watched live psi) (c p)) })"
  (is "keeps_hooks live ?m")
proof (rule keeps_hooksI)
  fix w :: "('b, bool \<times> 'a) world"
  assume ok: "hooks_ok live w"
  show "hooks_ok live (snd (run_state ?m w))"
    using ok hook_live [OF ok, of on a] assms
    by (cases "if on then m_psi w a else None") (simp_all add: run_hook if_hook_def hooks_ok_do)
qed

lemma hooks_ok_wait:
  assumes psi: "keeps_instruments live psi" and start: "\<And>p. \<not> makes (s p)" "\<And>p. destroys (s p) = None"
    and op: "framed op" and fin: "\<And>l r. \<not> makes (e l r)" "\<And>l r. destroys (e l r) = None" "\<And>l r. uses (e l r) = {}"
    and ok: "hooks_ok live w" and live: "\<And>p. hook = Some p \<Longrightarrow> uses (s p) \<subseteq> live (snd (psi_state w))"
  shows "hooks_ok live (snd (run_state (instrumented hook (\<lambda>p. PSI_CALL (watched live psi) (s p)) op
    (\<lambda>l r. psi_do (watched live psi) (e l r))) w))"
proof (cases hook)
  case (Some p)
  obtain k w1 where 1: "run_state (PSI_CALL (watched live psi) (s p)) w = (k, w1)" by fastforce
  have ok1: "hooks_ok live w1"
    using hooks_ok_call [OF psi start live ok] Some 1 by (metis snd_conv)
  obtain r w2 where 2: "run_state op w1 = (r, w2)" by fastforce
  have ok2: "hooks_ok live w2" using hooks_ok_framed [OF op ok1] 2 by simp
  show ?thesis
    using 1 2 ok2 hooks_ok_do [OF psi fin(1,2) _ ok2] fin(3)
    by (cases k) (simp_all add: instrumented_def Some split_beta)
qed (simp add: instrumented_def hooks_ok_framed op ok)

lemma keeps_hooks_wait:
  assumes psi: "keeps_instruments live psi" and start: "\<And>p. \<not> makes (s p)" "\<And>p. destroys (s p) = None"
    "\<And>p. uses (s p) = {p}"
    and op: "framed op" and fin: "\<And>l r. \<not> makes (e l r)" "\<And>l r. destroys (e l r) = None" "\<And>l r. uses (e l r) = {}"
  shows "keeps_hooks live (do {
    hook \<leftarrow> hook_of on a;
    instrumented hook (\<lambda>p. PSI_CALL (watched live psi) (s p)) op (\<lambda>l r. psi_do (watched live psi) (e l r)) })"
  (is "keeps_hooks live ?m")
proof (rule keeps_hooksI)
  fix w :: "('b, bool \<times> 'a) world"
  assume ok: "hooks_ok live w"
  show "hooks_ok live (snd (run_state ?m w))"
    using hooks_ok_wait [OF psi start(1,2) op fin ok, of "if on then m_psi w a else None"] hook_live [OF ok, of on a]
    by (simp add: run_hook start(3))
qed

text \<open>The wait on a condition also passes the mutex's hook.\<close>

lemma keeps_hooks_cond_wait:
  assumes psi: "keeps_instruments live psi" and op: "framed op"
  shows "keeps_hooks live (do {
    hook \<leftarrow> hook_of on a;
    mutex_psi \<leftarrow> get_m_psi m;
    instrumented hook (\<lambda>p. PSI_CALL (watched live psi) (start_cond_wait p mutex_psi w' f l)) op
      (\<lambda>l r. psi_do (watched live psi) (end_cond_wait l r)) })"
  (is "keeps_hooks live ?m")
proof (rule keeps_hooksI)
  fix w :: "('b, bool \<times> 'a) world"
  assume ok: "hooks_ok live w"
  have "set_option (m_psi w m) \<subseteq> live (snd (psi_state w))"
    using ok by (auto simp: hooks_ok_def)
  then show "hooks_ok live (snd (run_state ?m w))"
    using hooks_ok_wait [OF psi _ _ op _ _ _ ok, where hook = "if on then m_psi w a else None"
        and s = "\<lambda>p. start_cond_wait p (m_psi w m) w' f l" and e = "\<lambda>l r. end_cond_wait l r"]
      hook_live [OF ok, of on a]
    by (simp add: run_hook get_m_psi_def)
qed


section \<open>Every call keeps the hooks\<close>

text \<open>The wrappers are one of the shapes followed by the plain operation.\<close>

lemma shape_assoc:
  "(do { p \<leftarrow> m; _ \<leftarrow> f p; g }) = (do { _ \<leftarrow> (do { p \<leftarrow> m; f p }); g })"
  for m :: "('s, 'a) state"
  by (simp add: State_Monad.bind_assoc)

lemma mysql_sync_keeps_hooks:
  assumes psi: "keeps_instruments live psi"
  shows "keeps_hooks live (mysql_sync cfg sys (watched live psi) c)"
  by (cases c)
    (simp_all only: mysql_sync.simps mysql_sync_defs shape_assoc,
      (rule keeps_hooks_init [OF psi] keeps_hooks_destroy [OF psi] keeps_hooks_notify [OF psi]
          keeps_hooks_cond_wait [OF psi] keeps_hooks_wait [OF psi] keeps_hooks_bind keeps_hooks_framed
        | rule framing | simp (no_asm))+)

lemma calls_keep_hooks:
  assumes "keeps_instruments live psi"
  shows "keeps_hooks live (run_calls (mysql_sync cfg sys (watched live psi)) cs)"
proof (induction cs)
  case (Cons c cs)
  then show ?case
    by (simp only: run_calls.simps)
      (intro keeps_hooks_bind mysql_sync_keeps_hooks [OF assms] Cons.IH keeps_hooks_framed [OF framed_basic(1)])
qed (simp add: keeps_hooks_framed framed_basic)

text \<open>
  C22. No instrument is used after it is destroyed: after any sequence of calls on mutexes, locks and
  condition variables, in any order and with objects initialised and destroyed again, every call into the
  instrumentation has named only instruments that existed, every hook is an existing instrument, and no two
  objects share one.
\<close>

theorem no_use_after_destroy:
  assumes "keeps_instruments live psi" "hooks_ok live w"
  shows "hooks_ok live (snd (run_state (run_calls (mysql_sync cfg sys (watched live psi)) cs) w))"
  using calls_keep_hooks [OF assms(1)] assms(2) unfolding keeps_hooks_def by blast

text \<open>An instrumentation that counts the instruments it makes.\<close>

definition counting :: "(nat \<times> nat set) psi_env" where
  "counting c = (\<lambda>(n, made). if makes c then (Some n, Suc n, insert n made)
     else (None, n, made - set_option (destroys c)))"

definition counted :: "nat \<times> nat set \<Rightarrow> nat set" where
  "counted = (\<lambda>(n, made). {p \<in> made. p < n})"

lemma counting_keeps: "keeps_instruments counted counting"
  by (auto simp: keeps_instruments_def counting_def counted_def)

definition new_world :: "(unit, bool \<times> nat \<times> nat set) world" where
  "new_world = \<lparr>os_state = (), psi_state = (True, 0, {}), m_psi = (\<lambda>_. None),
     have_exclusive_srwlock = (\<lambda>_. False), DisconnectEx_ptr = None, m_file = (\<lambda>_. 0)\<rparr>"

theorem no_use_after_destroy_witness:
  "hooks_ok counted (snd (run_state (run_calls (mysql_sync win_config (\<lambda>_ s. (0, s)) (watched counted counting))
     [Op_Mutex_init 1 64 None ''a.c'' 10, Op_Mutex_lock 64 ''a.c'' 11, Op_Mutex_unlock 64 ''a.c'' 12,
      Op_Mutex_destroy 64 ''a.c'' 13, Op_Mutex_destroy 64 ''a.c'' 14]) new_world))"
  by (rule no_use_after_destroy [OF counting_keeps]) (simp add: hooks_ok_def new_world_def)

end
