(* ===== verification/Files.thy ===== *)
theory Files
  imports PsiFile
begin

text \<open>
  What programs get from the instrumented files: the structures that \<open>fopen\<close> makes are freed exactly when the
  file is closed or cannot be opened, and the numbers of bytes reported to the instrumentation.
\<close>

section \<open>The structures in the heap\<close>

text \<open>
  \<open>my_malloc\<close> returns \<open>NULL\<close> or a block that was not in use, \<open>my_free\<close> gives a block back, and no other call
  of the table touches the blocks in use.
\<close>

definition heap_calls :: "('o \<Rightarrow> nat set) \<Rightarrow> 'o file_env \<Rightarrow> bool" where
  "heap_calls in_use io \<longleftrightarrow> (\<forall>s c. case c of
       My_malloc \<Rightarrow> (case file_sys io My_malloc s of (r, s') \<Rightarrow>
         if r = 0 then in_use s' = in_use s else r > 0 \<and> nat r \<notin> in_use s \<and> in_use s' = insert (nat r) (in_use s))
     | My_free a \<Rightarrow> in_use (snd (file_sys io c s)) = in_use s - {a}
     | _ \<Rightarrow> in_use (snd (file_sys io c s)) = in_use s)"

text \<open>The blocks in use after a call with its result, as the program sees it.\<close>

fun after_call :: "nat set \<Rightarrow> io_call \<Rightarrow> int \<Rightarrow> nat set" where
  "after_call S (Op_fopen key f l filename flags my) r = (if r = 0 then S else insert (nat r) S)"
| "after_call S (Op_fclose f l file flags) r = S - (if file = 0 then {} else {file})"
| "after_call S c r = S"

fun after_calls :: "nat set \<Rightarrow> io_call list \<Rightarrow> int list \<Rightarrow> nat set" where
  "after_calls S (c # cs) (r # rs) = after_calls (after_call S c r) cs rs"
| "after_calls S cs rs = S"

lemma run_FILE: "run_state (FILE io c) w = (fst (file_sys io c (os_state w)), w\<lparr>os_state := snd (file_sys io c (os_state w))\<rparr>)"
  by (simp add: FILE_def os_do_def split_beta)

lemma heap_callsD:
  assumes "heap_calls in_use io"
  shows "fst (file_sys io My_malloc s) = 0 \<Longrightarrow> in_use (snd (file_sys io My_malloc s)) = in_use s"
    "fst (file_sys io My_malloc s) \<noteq> 0 \<Longrightarrow> fst (file_sys io My_malloc s) > 0
      \<and> nat (fst (file_sys io My_malloc s)) \<notin> in_use s
      \<and> in_use (snd (file_sys io My_malloc s)) = insert (nat (fst (file_sys io My_malloc s))) (in_use s)"
    "in_use (snd (file_sys io (My_free a) s)) = in_use s - {a}"
  using assms [unfolded heap_calls_def, rule_format, of My_malloc s]
    assms [unfolded heap_calls_def, rule_format, of "My_free a" s]
  by (simp_all add: split_beta split: if_splits)

lemma heap_calls_other:
  assumes "heap_calls in_use io" "c \<noteq> My_malloc" "\<forall>a. c \<noteq> My_free a"
  shows "in_use (snd (file_sys io c s)) = in_use s"
  using assms(2,3) assms(1) [unfolded heap_calls_def, rule_format, of c s]
  by (cases c) (simp_all split: file_call.splits)

lemma fopen_plain_heap:
  assumes heap: "heap_calls in_use io"
  shows "in_use (os_state (snd (run_state (fopen_plain io filename flags my) w)))
    = after_call (in_use (os_state w)) (Op_fopen key f l filename flags my) (fst (run_state (fopen_plain io filename flags my) w))"
proof -
  let ?m = "file_sys io My_malloc (os_state w)"
  let ?o = "file_sys io (My_fopen filename flags my) (snd ?m)"
  have o: "in_use (snd ?o) = in_use (snd ?m)" by (rule heap_calls_other [OF heap]) simp_all
  show ?thesis
  proof (cases "fst ?m = 0")
    case True
    then show ?thesis using heap_callsD(1) [OF heap] by (simp add: fopen_plain_def run_FILE)
  next
    case False
    then show ?thesis
      using heap_callsD(2) [OF heap False] heap_callsD(3) [OF heap] o
      by (auto simp: fopen_plain_def fopen_end_def run_FILE get_m_file_def set_m_file_def)
  qed
qed

lemma plain_io_heap:
  assumes heap: "heap_calls in_use io"
  shows "in_use (os_state (snd (run_state (plain_io io c) w)))
    = after_call (in_use (os_state w)) c (fst (run_state (plain_io io c) w))"
proof (cases c)
  case (Op_fopen key f l filename flags my)
  then show ?thesis by (simp only: plain_io.simps) (rule fopen_plain_heap [OF heap])
next
  case (Op_fclose f l fp flags)
  then show ?thesis
    by (simp add: run_FILE get_m_file_def heap_callsD(3) [OF heap] heap_calls_other [OF heap])
qed (simp_all add: run_FILE get_m_file_def heap_calls_other [OF heap])

lemma plain_calls_heap:
  assumes heap: "heap_calls in_use io"
  shows "in_use (os_state (snd (run_state (run_calls (plain_io io) cs) w)))
    = after_calls (in_use (os_state w)) cs (fst (run_state (run_calls (plain_io io) cs) w))"
proof (induction cs arbitrary: w)
  case (Cons c cs)
  obtain r w1 where 1: "run_state (plain_io io c) w = (r, w1)" by fastforce
  obtain rs w2 where 2: "run_state (run_calls (plain_io io) cs) w1 = (rs, w2)" by fastforce
  show ?case
    using Cons [of w1] plain_io_heap [OF heap, of c w] 1 2 by simp
qed simp


text \<open>A heap that counts upwards; a file named 1 cannot be opened.\<close>

definition counting_io :: "(nat \<times> nat set) file_env" where
  "counting_io = \<lparr>file_sys = (\<lambda>c (n, used). case c of
       My_malloc \<Rightarrow> (int n + 1, Suc n, insert (n + 1) used)
     | My_free a \<Rightarrow> (0, n, used - {a})
     | My_fopen filename _ _ \<Rightarrow> (if filename = 1 then 0 else 5, n, used)
     | _ \<Rightarrow> (0, n, used)), c_strlen = (\<lambda>_ _. 0)\<rparr>"

definition counted_blocks :: "nat \<times> nat set \<Rightarrow> nat set" where
  "counted_blocks = (\<lambda>(n, used). {a \<in> used. a \<le> n})"

lemma counting_io_heap: "heap_calls counted_blocks counting_io"
  unfolding heap_calls_def
proof (intro allI)
  fix s c
  show "case c of
       My_malloc \<Rightarrow> (case file_sys counting_io My_malloc s of (r, s') \<Rightarrow>
         if r = 0 then counted_blocks s' = counted_blocks s
         else r > 0 \<and> nat r \<notin> counted_blocks s \<and> counted_blocks s' = insert (nat r) (counted_blocks s))
     | My_free a \<Rightarrow> counted_blocks (snd (file_sys counting_io c s)) = counted_blocks s - {a}
     | _ \<Rightarrow> counted_blocks (snd (file_sys counting_io c s)) = counted_blocks s"
    by (cases s; cases c) (auto simp: counting_io_def counted_blocks_def)
qed

definition file_world :: "(nat \<times> nat set, unit) world" where
  "file_world = \<lparr>os_state = (0, {}), psi_state = (), m_psi = (\<lambda>_. None), have_exclusive_srwlock = (\<lambda>_. False),
     DisconnectEx_ptr = None, m_file = (\<lambda>_. 0)\<rparr>"

abbreviation some_locker :: "unit psi_env" where
  "some_locker \<equiv> (\<lambda>_ _. (Some 7, ()))"


section \<open>The bytes reported\<close>

text \<open>A read or write that moves at most what it was asked for is never reported as more.\<close>

lemma io_bytes_le:
  assumes "result = MY_FILE_ERROR \<or> result \<le> int count"
  shows "io_bytes flags count result \<le> count"
  using assms by (auto simp: io_bytes_def MY_FILE_ERROR_def)

text \<open>A failing \<open>fprintf\<close> is reported as the largest number of bytes.\<close>

lemma fprintf_failure_reported: "size_t (-1) = 2 ^ 64 - 1"
  by (simp add: size_t_def)

end
