(* ===== verification/Spec2Isabelle.thy ===== *)
theory Spec2Isabelle
  imports Prelude ByteStream TcpSocket Reassembly Segmentation RecvThread TcpServer Sections TcpClient Channel Delivery Requests
    Duplex Crowd Endpoint Exchange ThreadPool Mysql Streams Server ServerRun Lifecycle Dialogs ShowList SchoolDlg ByteOrder
    Portability Timespec Psi PsiEvents NativeThreads RwLock PsiThread PsiSocket PsiFile ApiMacros Instruments Files
begin

text \<open>
  A verification development for SchoolSystem, a client and server for school records: a graphical client
  sends SQL statements to a server, over a reliable byte stream that the program builds on UDP; the server
  runs them on a MySQL database in a pool of threads and sends the results back. The repository also
  carries the headers of the MySQL client library, whose inline functions are modelled too.

  The parts, each with the theory that models it, from the bytes upwards.

  \<^item> \<open>Prelude\<close>: bytes, the 32-bit \<open>int\<close> with its wrap-around (\<open>wrap32\<close>), buffers with an extent, C strings,
  results \<open>fault + 'a\<close> (\<open>Inl\<close> is an undefined behaviour or an invalid call of the source), and the locale
  \<open>step_invariant\<close> for the step relations.

  \<^item> \<open>ByteStream\<close>: \<open>TcpSocketDll/CByteStream.cpp\<close>. The vector is a list; the contract of a byte queue is the
  locale \<open>byte_fifo\<close>.

  \<^item> \<open>TcpSocket\<close>: \<open>TcpSocketDll/CTcpSocket.cpp\<close>. \<open>tagDataPackage\<close> with its memory image, the list of
  connections, \<open>Send\<close>, \<open>Recv\<close>, and one pass of each of the two threads (\<open>SendThreadProc_pass\<close>,
  \<open>RecvThreadProc_pass\<close>). Calls of locks, output and \<open>sendto\<close> are recorded in order as effects; the clock and the outcomes
  of \<open>sendto\<close> and \<open>recvfrom\<close> are arguments. The locale \<open>keyed_store\<close> is the contract of the connection table.
  \<open>Segmentation\<close> is about \<open>Send\<close> and the sending thread (which packets a buffer becomes, what a pass
  transmits), \<open>Reassembly\<close> about the receiving branch (an abstract receiver that keeps the set of known pieces, and
  the refinement of it), \<open>RecvThread\<close> about whole passes (frame, locks, acknowledgements), \<open>Sections\<close> about the
  single statements of the receiving branch beside those of the application, and that alone they are the pass.

  \<^item> \<open>TcpServer\<close>, \<open>TcpClient\<close>: \<open>CTcpServer.cpp\<close> and \<open>CTcpClient.cpp\<close>: listening, the choice of a readable
  connection (and the protocol of its status between the two threads), and the client's end of the handshake, with \<open>connect_env\<close> for
  the answers of the operating system. \<open>Channel\<close> puts two sockets and a network together that loses, repeats,
  delays and reorders datagrams; its step relation \<open>ch_step\<close> has the operations of the code as steps.
  \<open>Delivery\<close> is about when such a channel delivers and when it cannot (acknowledged data that is lost, a late handshake
  packet that sets a connection in use back), \<open>Requests\<close> about delivering all of it.
  A channel is one direction of a connection. \<open>Duplex\<close> has both directions at once on the same two sockets
  (\<open>dx_step\<close>) and lifts what holds of a channel; \<open>Crowd\<close> has a connection while the sockets also serve other
  peers (\<open>crowd_step\<close>), whose datagrams may be anything. \<open>Endpoint\<close> has the contract of an end as the locale
  \<open>endpoint\<close>, with what the application's operations do under it, and the locale \<open>link\<close> of two ends; \<open>Exchange\<close>
  interprets both for \<open>dx_step\<close> and \<open>crowd_step\<close> and carries a request to the server's loop and the answer back to the list.

  \<^item> \<open>ThreadPool\<close>: \<open>SchoolSystemServer/CThreadPool.cpp\<close>. A step relation of the owner and the workers, one
  step for each statement that touches shared state; semaphore, event and critical section are state with
  their documented guards.

  \<^item> \<open>Mysql\<close>: \<open>MysqlDll/CMysql.cpp\<close> over a parameter \<open>mysql_api\<close> (a record of the library's functions on an
  abstract connection, since their code is not in the repository).

  \<^item> \<open>Streams\<close>: what the application sees of a socket, the locale \<open>stream_port\<close>, interpreted for the server's
  sockets and for the client's.

  \<^item> \<open>Server\<close>: \<open>CServer.cpp\<close>: start-up, a round of the request loop, \<open>CSqlTask::Execute\<close>, and the packing of a result
  set. The argument \<open>ev\<close> is what the socket's threads do to it between two calls of a loop. \<open>ServerRun\<close> runs the
  loop, the socket's threads, the queue and the workers together as a step relation; \<open>Lifecycle\<close> is \<open>main\<close> from the
  first resource taken to the last given back, on every path, and the start of the client.

  \<^item> \<open>Dialogs\<close>, \<open>ShowList\<close>, \<open>SchoolDlg\<close>: the client, \<open>SchoolSystem/*.cpp\<close>: the input dialogs, \<open>SendSql\<close> and
  \<open>ShowList\<close> (the calls of the list control are recorded, the loop over the rows is a partial function since it
  need not end), and every message handler with its SQL text; \<open>ui_env\<close> holds what the user and MFC answer.

  \<^item> \<open>ByteOrder\<close>, \<open>Timespec\<close>: the loads and stores of \<open>my_byteorder.h\<close> and the headers it includes, in every
  variant, over a memory of bytes; the absolute times of \<open>my_global.h\<close> and \<open>thr_cond.h\<close>. \<open>Portability\<close> has the other
  inline functions of \<open>m_string.h\<close>, \<open>my_sys.h\<close>, \<open>my_global.h\<close> and \<open>my_thread_local.h\<close>.

  \<^item> \<open>Psi\<close>, \<open>NativeThreads\<close>, \<open>PsiThread\<close>, \<open>PsiSocket\<close>, \<open>PsiFile\<close>: the wrappers of \<open>my_thread.h\<close>, \<open>thr_*.h\<close> and
  \<open>mysql/psi/mysql_*.h\<close>, as programs of the state monad over a \<open>world\<close>: the operating system (argument
  \<open>sys\<close>, \<open>net\<close> or \<open>io\<close>, any function from calls and its state to results), the instrumentation (argument \<open>psi\<close>, likewise), and the
  fields the wrappers keep. A record \<open>config\<close> holds the preprocessor's choices. The locales \<open>drop_in\<close> and
  \<open>accounted_api\<close> carry what all three families share. \<open>RwLock\<close> is the read-write lock for Windows under
  concurrent threads, \<open>Instruments\<close> the life of the instruments, \<open>Files\<close> that of the file structures. \<open>PsiEvents\<close> has the
  headers for events without an object (statements, transactions, stages and others), which only call the instrumentation,
  \<open>ApiMacros\<close> the macros through which programs call the wrappers, in every configuration.

  What the lemmas show. The stream: in every interleaving, the bytes received are a prefix of the bytes sent, nothing is
  forgotten before it was acknowledged, and the receiving thread never fails on a peer's datagram; the
  handshake establishes such a channel in both directions, and every exchange of a request and its answer over it arrives
  unchanged, whatever other clients do. While the receiver waits for a piece, one pass and one arrival deliver it, except
  behind a stale packet of its list; and data acknowledged out of order can be lost for ever. The pool: FIFO, no invalid call, no stuck state. The application:
  requests and answers arrive as they were sent, the list shows the result set, the handlers report what
  they did; a client has at most one task at a time, two workers spoil each other's queries on the shared connection, and
  \<open>main\<close> gives back everything but the socket. The library: the instrumented functions are drop-in replacements whose waits are closed and whose
  instruments and lockers are used only while they exist, whose macros fit their functions in every configuration; loads and stores are inverse in every
  variant; deadlines are exact. Errors are stated as theorems where the code does
  not do what it means to (a failing query, unchecked lengths, a lock that is kept, an acknowledgement that
  crosses connections, a stale packet that blocks the list).

  Bounds. Sequence numbers are 32 bits wide and wrap; where the order of packets matters, a theorem assumes that
  the counter plus what is sent stays below 2 to the 31 (a premise of the theorems on \<open>Send\<close>, the guard of the step
  \<open>Send\<close> of a channel, \<open>numbering\<close> in \<open>Reassembly\<close>). Buffers have the sizes of the source (4096 bytes in the
  server, 1024 bytes of data in a packet), and exceeding one is a fault. Nothing uses fuel: loops over lists are
  structural, the loop over the rows is a partial function, and a polling loop follows a
  sequence of events, with \<open>None\<close> for waiting for ever.

  Not modelled. The bodies of the MySQL client library, of MFC and of Win32 are not in the repository; what the
  code relies on is a parameter or a premise. The thread procedures are modelled a pass at a time (the receiving branch for
  one connection, the status protocol and the thread pool, whose correctness depends on finer steps, have them); the accesses to the
  connection table that the code makes without a lock are taken as atomic; in \<open>ServerRun\<close> the whole answer of a worker to a client is one step. The remaining headers of
  MySQL are declarations, generated tables (error numbers, names and SQL states) and the interfaces of plugins and services.
\<close>


section \<open>From the query to the screen\<close>

text \<open>
  A query travels through the whole system: the client's request is queued as one frame; when the
  server's loop finds it in its stream it makes the task for the same SQL text and client; executing
  the task appends the answer to that client's stream and nothing else; and when the answer
  reaches the client, its list shows exactly the result set of the database.
\<close>

lemma query_end_to_end:
  assumes client: "client_room (1 + packets (length sql + 1)) (m_tcpClient d)" "client_in (m_tcpClient d) = []"
    and sql: "length sql < 0x1000 - 1" "NUL \<notin> set sql"
    and request: "holds addr 10 (take 4 (frame (sql @ [NUL])) @ got) (ev 0 s)"
      "brings addr 10 got (drop 4 (frame (sql @ [NUL])) @ rest) (ev 1)"
    and db: "Query_res api sql None db = Inr (n, Some res, db')" "answerable res" "tabular res"
    and reply: "timely 0 cev [] (flat (res_fields res)) (flat (map the (concat (res_rows res)))) []"
  shows "\<exists>c1 s1 s2 es c2. SendSql sql d = Inr (d\<lparr>m_tcpClient := c1\<rparr>)
     \<and> client_out c1 = client_out (m_tcpClient d) @ frame (sql @ [NUL])
     \<and> read_request ev addr s = Inr (s1, Some sql) \<and> incoming addr s1 = rest
     \<and> Execute api (new_CSqlTask addr sql) (s1, db) = Inr (0, s2, db', es)
     \<and> outgoing addr s2 = outgoing addr s1
         @ frame (flat (res_fields res)) @ frame (flat (map the (concat (res_rows res))))
     \<and> ShowList nDel cev (d\<lparr>m_tcpClient := c1\<rparr>)
         = Some (Inr (d\<lparr>m_tcpClient := c2, m_fieldMap := field_refs (res_fields res) (m_fieldMap d)\<rparr>,
             clear_calls nDel @ table_calls (m_fieldMap d) res))"
proof -
  obtain c1 where c1: "SendSql sql d = Inr (d\<lparr>m_tcpClient := c1\<rparr>)"
      "client_out c1 = client_out (m_tcpClient d) @ frame (sql @ [NUL])" "client_holds 0 [] c1"
    using SendSql_frame [OF client(1)] sql(1) client(2) by (auto simp: client_holds_def)
  obtain s1 where s1: "read_request ev addr s = Inr (s1, Some sql)" "holds addr 10 rest s1"
    using read_request_frame [OF request sql] by blast
  obtain s2 es where "Execute api (new_CSqlTask addr sql) (s1, db) = Inr (0, s2, db', es)"
      "outgoing addr s2 = outgoing addr s1 @ answer res"
    using Execute_result [of "new_CSqlTask addr sql" s1 api db n "Some res" db'] s1(2) db
    by (auto simp: new_CSqlTask_def holds_def)
  moreover obtain c2 where "ShowList nDel cev (d\<lparr>m_tcpClient := c1\<rparr>)
         = Some (Inr (d\<lparr>m_tcpClient := c2, m_fieldMap := field_refs (res_fields res) (m_fieldMap d)\<rparr>,
             clear_calls nDel @ table_calls (m_fieldMap d) res))"
    using ShowList_table [OF db(2,3), of 0 "[]" "d\<lparr>m_tcpClient := c1\<rparr>" cev "[]" nDel] c1(3) reply by auto
  moreover have "incoming addr s1 = rest" using s1(2) by (simp add: holds_def)
  ultimately show ?thesis using c1(1,2) s1(1) by (auto simp: answer_def)
qed

section \<open>The instrumented client library\<close>


text \<open>
  C24. Every wait that a wrapper reports to the instrumentation is closed: after any sequence of calls on
  mutexes, locks, condition variables, on sockets, and on files, each start that returned a locker has been
  followed by exactly one end, of the same kind and with that locker, before the next start.
\<close>

theorem waits_closed:
  "closed (psi_trace (snd (run_state (run_calls (mysql_sync cfg sys (logged psi)) cs) (w\<lparr>psi_state := ([], q)\<rparr>))))
    \<and> closed (psi_trace (snd (run_state (run_calls (mysql_sock cfg net (logged psi')) ds) (v\<lparr>psi_state := ([], q')\<rparr>))))
    \<and> closed (psi_trace (snd (run_state (run_calls (mysql_io cfg io (logged psi'')) es) (u\<lparr>psi_state := ([], q'')\<rparr>))))"
  by (intro conjI sync_waits.calls_closed sock_waits.calls_closed io_waits.calls_closed) simp_all

end
